(* ===== verification/Wil_Prelude.thy ===== *)
theory Wil_Prelude
  imports Main "HOL-Library.Word" "HOL-Library.Multiset" "HOL-Library.Monad_Syntax"
begin

text \<open>
  Shared vocabulary of the driver model: the kernel's integer types at their width, the error
  codes the driver returns, and the generic facts on modular ring indices, words, lists and
  counts that the component theories share.
\<close>

unbundle bit_operations_syntax

subsection \<open>Integer types\<close>

type_synonym u8 = "8 word"
type_synonym u16 = "16 word"
type_synonym u32 = "32 word"
type_synonym u64 = "64 word"

text \<open>A MAC address is its list of six bytes (\<open>ETH_ALEN\<close>).\<close>

type_synonym mac_addr = "u8 list"

text \<open>The negative \<open>errno\<close> results the driver produces.\<close>

datatype errno =
    ENOENT | EIO | EAGAIN | ENOMEM | EFAULT | EBUSY | ENODEV | EINVAL | ERANGE | ETIME | EOPNOTSUPP

subsection \<open>Collections of facts\<close>

named_theorems ring_simps \<open>index arithmetic of the descriptor rings\<close>
named_theorems seq_simps \<open>12-bit sequence number arithmetic\<close>
named_theorems bits_simps \<open>bit fields of descriptors and registers\<close>

subsection \<open>Bits\<close>

definition BIT :: "nat \<Rightarrow> 'a::len word" where
  "BIT n = push_bit n 1"

lemma BIT_eq_power: "BIT n = (2 ^ n :: 'a::len word)"
  by (simp add: BIT_def)

lemma bit_BIT_iff: "bit (BIT n :: 'a::len word) k \<longleftrightarrow> k = n \<and> n < LENGTH('a)"
  by (auto simp: BIT_def bit_simps)

lemma and_BIT_neq_0: "(x AND BIT n) \<noteq> 0 \<longleftrightarrow> bit (x :: 'a::len word) n"
proof
  assume "x AND BIT n \<noteq> 0"
  then obtain k where "bit (x AND BIT n) k"
    using bit_eq_iff by force
  then show "bit x n" by (auto simp: bit_BIT_iff bit_and_iff)
next
  assume b: "bit x n"
  then have "n < LENGTH('a)" by (rule bit_imp_le_length)
  with b have "bit (x AND BIT n) n" by (simp add: bit_and_iff bit_BIT_iff)
  then show "x AND BIT n \<noteq> 0" by auto
qed

lemma and_BIT_eq_0 [bits_simps]: "(x AND BIT n) = 0 \<longleftrightarrow> \<not> bit (x :: 'a::len word) n"
  using and_BIT_neq_0 by blast

lemma exp_minus_1_eq_mask: "push_bit n 1 - 1 = (mask n :: 'a::len word)"
  by (simp add: mask_eq_exp_minus_1)

lemma unat_take_bit: "unat (take_bit n (x :: 'a::len word)) = unat x mod 2 ^ n"
  by (simp only: unsigned_take_bit_eq take_bit_nat_def)

lemma unat_and_mask: "unat (x AND mask n) = unat (x :: 'a::len word) mod 2 ^ n"
  by (simp add: unat_take_bit flip: take_bit_eq_mask)

lemma unat_take_bit_lt: "unat (take_bit n (x :: 'a::len word)) < 2 ^ n"
  by (simp add: unat_take_bit)

lemma not_bit_of_small:
  assumes "unat (x :: 'a::len word) < 2 ^ n" "n \<le> k"
  shows "\<not> bit x k"
proof -
  have "take_bit n x = x" using assms(1) by (simp add: word_unat_eq_iff unat_take_bit)
  then have "bit x k \<longleftrightarrow> bit (take_bit n x) k" by simp
  then show ?thesis using assms(2) by (simp add: bit_take_bit_iff)
qed

subsection \<open>Unsigned words as naturals\<close>

lemma unat_bound: "unat (x :: 'a::len word) < 2 ^ LENGTH('a)"
  by (rule unsigned_less)

lemma unat_add_lt:
  "unat a + unat b < 2 ^ LENGTH('a) \<Longrightarrow> unat (a + b) = unat a + unat (b :: 'a::len word)"
  by (simp add: unat_word_ariths)

lemma unat_ucast_up:
  "LENGTH('a) \<le> LENGTH('b) \<Longrightarrow> unat (ucast (x :: 'a::len word) :: 'b::len word) = unat x"
  by (simp add: unsigned_ucast_eq take_bit_nat_eq_self unat_bound
      order_less_le_trans [OF unat_bound power_increasing])

lemma unat_u16_bound: "unat (x :: u16) < 65536"
  using unat_bound [of x] by simp

lemma unat_u32_bound: "unat (x :: u32) < 4294967296"
  using unat_bound [of x] by simp

lemma sint_small_u32: "unat (x :: u32) < 2147483648 \<Longrightarrow> sint x = int (unat x)"
proof -
  assume *: "unat x < 2147483648"
  have "signed_take_bit 31 (int n) = int n" if "n < 2147483648" for n
    using that by (simp add: signed_take_bit_int_eq_self)
  from this [OF *] show ?thesis unfolding sint_uint uint_nat by (simp only: len_bit0 len_num1) simp
qed

subsection \<open>Modular indices\<close>

text \<open>
  \<open>(a + k) mod n\<close> for \<open>k < n\<close> runs through a ring of \<open>n\<close> slots without repetition.
\<close>

lemma mod_shift_inj:
  assumes "(a + i) mod n = (a + j) mod n" and "i < n" and "j < (n::nat)"
  shows "i = j"
proof -
  have "(int a + int i) mod int n = (int a + int j) mod int n"
    using assms(1) by (metis of_nat_add of_nat_mod)
  then have "(int i - int j) mod int n = 0"
    by (metis add_diff_cancel_left mod_diff_eq mod_self diff_self mod_0)
  then have "int n dvd int i - int j" by (simp add: dvd_eq_mod_eq_0)
  then have "i \<noteq> j \<Longrightarrow> int n \<le> \<bar>int i - int j\<bar>"
    by (simp add: zdvd_imp_le)
  moreover have "\<bar>int i - int j\<bar> < int n" using assms(2,3) by linarith
  ultimately show ?thesis by force
qed

text \<open>A ring read from slot \<open>d\<close> on is the array rotated by \<open>d\<close>.\<close>

lemma rotate_update:
  assumes "k < length xs"
  shows "rotate d (xs[(d + k) mod length xs := x]) = (rotate d xs)[k := x]"
proof (rule nth_equalityI)
  show "length (rotate d (xs[(d + k) mod length xs := x])) = length ((rotate d xs)[k := x])"
    by simp
next
  fix i assume "i < length (rotate d (xs[(d + k) mod length xs := x]))"
  then have i: "i < length xs" by simp
  have "(d + k) mod length xs = (d + i) mod length xs \<longleftrightarrow> k = i"
    using mod_shift_inj [of d k "length xs" i] assms i by auto
  moreover have "0 < length xs" using i by linarith
  ultimately show "rotate d (xs[(d + k) mod length xs := x]) ! i = (rotate d xs)[k := x] ! i"
    using i by (simp add: nth_rotate nth_list_update)
qed

lemma rotate_step:
  assumes "xs \<noteq> []"
  shows "rotate (Suc d) (xs[d mod length xs := x]) = tl (rotate d xs) @ [x]"
proof -
  have "rotate d (xs[d mod length xs := x]) = (rotate d xs)[0 := x]"
    using rotate_update [of 0 xs d x] assms by simp
  then show ?thesis
    using assms by (cases "rotate d xs") (simp_all add: rotate_Suc)
qed

subsection \<open>The occupied slots of an array of pointers\<close>

definition somes :: "'a option list \<Rightarrow> 'a list" where
  "somes xs = map the (filter (\<lambda>x. x \<noteq> None) xs)"

lemma somes_simps [simp]:
  "somes [] = []"
  "somes (None # xs) = somes xs"
  "somes (Some x # xs) = x # somes xs"
  "somes (xs @ ys) = somes xs @ somes ys"
  "somes (replicate n None) = []"
  by (simp_all add: somes_def)

lemma length_somes_le: "length (somes xs) \<le> length xs"
  by (simp add: somes_def)

lemma mset_somes_set:
  "i < length xs \<Longrightarrow> xs ! i = None \<Longrightarrow> mset (somes (xs[i := Some s])) = add_mset s (mset (somes xs))"
proof (induction xs arbitrary: i)
  case (Cons x xs)
  then show ?case by (cases i; cases x) auto
qed simp

lemma mset_somes_clear:
  "i < length xs \<Longrightarrow> xs ! i = Some s \<Longrightarrow> mset (somes xs) = add_mset s (mset (somes (xs[i := None])))"
proof (induction xs arbitrary: i)
  case (Cons x xs)
  then show ?case by (cases i; cases x) auto
qed simp

lemma length_somes_set:
  "i < length xs \<Longrightarrow> xs ! i = None \<Longrightarrow> length (somes (xs[i := Some s])) = Suc (length (somes xs))"
  using mset_somes_set [of i xs s] by (metis size_mset size_add_mset)

lemma length_somes_clear:
  "i < length xs \<Longrightarrow> xs ! i = Some s \<Longrightarrow> length (somes xs) = Suc (length (somes (xs[i := None])))"
  using mset_somes_clear [of i xs s] by (metis size_mset size_add_mset)

lemma mset_somes_rotate: "mset (somes (rotate n xs)) = mset (somes xs)"
proof -
  let ?m = "n mod length xs"
  have "mset (somes (rotate n xs)) = mset (somes (drop ?m xs @ take ?m xs))"
    by (simp only: rotate_drop_take)
  also have "\<dots> = mset (somes (take ?m xs @ drop ?m xs))"
    by (simp only: somes_simps mset_append add.commute)
  finally show ?thesis by (simp only: append_take_drop_id)
qed

lemma map_update_id: "f y = f (xs ! i) \<Longrightarrow> map f (xs[i := y]) = map f xs"
  by (cases "i < length xs") (simp_all add: map_update list_update_same_conv list_update_beyond)

lemma somes_empty_iff: "somes xs = [] \<longleftrightarrow> xs = replicate (length xs) None"
  by (induction xs) (auto simp: somes_def)

lemma somes_less_length: "i < length xs \<Longrightarrow> xs ! i = None \<Longrightarrow> length (somes xs) < length xs"
  using length_somes_set [of i xs "undefined"] length_somes_le [of "xs[i := Some undefined]"] by simp

lemma somes_append [simp]: "somes (xs @ ys) = somes xs @ somes ys"
  by (induction xs) (auto simp: somes_def)

lemma somes_replicate_None [simp]: "somes (replicate n None) = []"
  by (induction n) (simp_all add: somes_def)

subsection \<open>Runs\<close>

text \<open>A component that is given a list of inputs one by one; \<open>None\<close> is a crash.\<close>

primrec run_inputs :: "('i \<Rightarrow> 's \<Rightarrow> 's option) \<Rightarrow> 'i list \<Rightarrow> 's \<Rightarrow> 's option" where
  "run_inputs step [] s = Some s"
| "run_inputs step (x # xs) s = (case step x s of None \<Rightarrow> None | Some s' \<Rightarrow> run_inputs step xs s')"

lemma run_inputs_snoc:
  "run_inputs step (xs @ [x]) s = Option.bind (run_inputs step xs s) (step x)"
  by (induction xs arbitrary: s) (simp_all split: option.split)

text \<open>A counting loop returns and establishes what each of its rounds keeps up.\<close>

lemma run_inputs_upt:
  assumes "P 0 s" "\<And>i s. i < n \<Longrightarrow> P i s \<Longrightarrow> \<exists>s'. step i s = Some s' \<and> P (Suc i) s'"
  shows "\<exists>s'. run_inputs step [0..<n] s = Some s' \<and> P n s'"
  using assms(2)
proof (induction n)
  case 0
  then show ?case using assms(1) by simp
next
  case (Suc n)
  then obtain s' where "run_inputs step [0..<n] s = Some s'" "P n s'" by (meson less_Suc_eq)
  then show ?case using Suc.prems [of n s'] run_inputs_snoc [of step "[0..<n]" n s] by auto
qed

lemma run_inputs_keep:
  assumes "P s" "\<And>x s. x \<in> set xs \<Longrightarrow> P s \<Longrightarrow> \<exists>s'. step x s = Some s' \<and> P s'"
  shows "\<exists>s'. run_inputs step xs s = Some s' \<and> P s'"
  using assms
proof (induction xs arbitrary: s)
  case (Cons x xs)
  then obtain s1 where "step x s = Some s1" "P s1" by force
  then show ?case using Cons.IH [of s1] Cons.prems(2) by force
qed simp

subsection \<open>Bytes\<close>

text \<open>The \<open>n\<close> low bytes of a word in the little-endian order of the device and the host.\<close>

primrec le_bytes :: "nat \<Rightarrow> 'a::len word \<Rightarrow> u8 list" where
  "le_bytes 0 x = []"
| "le_bytes (Suc n) x = ucast x # le_bytes n (drop_bit 8 x)"

primrec le_word :: "u8 list \<Rightarrow> 'a::len word" where
  "le_word [] = 0"
| "le_word (b # bs) = ucast b OR push_bit 8 (le_word bs)"

lemma length_le_bytes [simp]: "length (le_bytes n x) = n"
  by (induction n arbitrary: x) simp_all

lemma le_word_bytes: "le_word (le_bytes n x) = take_bit (8 * n) x"
  by (induction n arbitrary: x)
    (auto intro!: bit_word_eqI simp: bit_simps dest: bit_imp_le_length)

abbreviation le16 :: "u16 \<Rightarrow> u8 list" where "le16 x \<equiv> le_bytes 2 x"
abbreviation le32 :: "u32 \<Rightarrow> u8 list" where "le32 x \<equiv> le_bytes 4 x"

lemma le16_roundtrip: "le_word (le16 x) = x"
  unfolding le_word_bytes by (rule bit_word_eqI) (auto simp: bit_simps dest: bit_imp_le_length)

lemma le32_roundtrip: "le_word (le32 x) = x"
  unfolding le_word_bytes by (rule bit_word_eqI) (auto simp: bit_simps dest: bit_imp_le_length)

end
