(* ===== verification/Wil_Hw.thy ===== *)
theory Wil_Hw
  imports Wil_Prelude
begin

text \<open>
  Hardware definitions of \<^verbatim>\<open>wil6210.h\<close>: bit extraction, the \<open>cidxtid\<close> byte, the
  host/firmware address offset and the register addresses and interrupt bits the driver uses.
\<close>

subsection \<open>Bit extraction\<close>

definition WIL_GET_BITS :: "u32 \<Rightarrow> nat \<Rightarrow> nat \<Rightarrow> u32" where
  "WIL_GET_BITS x b0 b1 = drop_bit b0 x AND (push_bit (b1 - b0 + 1) 1 - 1)"

lemma WIL_GET_BITS_take_bit: "WIL_GET_BITS x b0 b1 = take_bit (b1 - b0 + 1) (drop_bit b0 x)"
  unfolding WIL_GET_BITS_def exp_minus_1_eq_mask by (simp only: take_bit_eq_mask)

lemma unat_WIL_GET_BITS: "unat (WIL_GET_BITS x b0 b1) = unat x div 2 ^ b0 mod 2 ^ (b1 - b0 + 1)"
  by (simp only: WIL_GET_BITS_take_bit unat_take_bit unat_drop_bit_eq flip: drop_bit_nat_def)

lemma WIL_GET_BITS_less: "unat (WIL_GET_BITS x b0 b1) < 2 ^ (b1 - b0 + 1)"
  by (simp only: WIL_GET_BITS_take_bit unat_take_bit_lt)

subsection \<open>The connection and traffic identifier byte\<close>

definition mk_cidxtid :: "u8 \<Rightarrow> u8 \<Rightarrow> u8" where
  "mk_cidxtid cid tid = push_bit 4 (tid AND 0xf) OR (cid AND 0xf)"

definition parse_cidxtid :: "u8 \<Rightarrow> u8 \<times> u8" where
  "parse_cidxtid cidxtid = (cidxtid AND 0xf, drop_bit 4 cidxtid AND 0xf)"

lemma and_0xf: "x AND (0xf :: u8) = take_bit 4 x"
  by (simp add: take_bit_eq_mask mask_eq_exp_minus_1)

lemma parse_mk_cidxtid: "parse_cidxtid (mk_cidxtid cid tid) = (cid AND 0xf, tid AND 0xf)"
  unfolding parse_cidxtid_def mk_cidxtid_def and_0xf
  by (auto intro!: bit_word_eqI simp: bit_simps)

lemma mk_parse_cidxtid: "(\<lambda>(cid, tid). mk_cidxtid cid tid) (parse_cidxtid b) = b"
  unfolding parse_cidxtid_def mk_cidxtid_def and_0xf prod.case
  by (rule bit_word_eqI) (auto simp: bit_simps)

lemma and_0xf_ident: "unat x < 16 \<Longrightarrow> x AND 0xf = (x :: u8)"
  by (simp only: and_0xf word_unat_eq_iff unat_take_bit) simp

lemma and_0xf_less: "unat (x AND (0xf :: u8)) < 16"
  using unat_take_bit_lt [of 4 x] by (simp only: and_0xf) simp

subsection \<open>Sizes and limits\<close>

definition WIL6210_MEM_SIZE :: u32 where "WIL6210_MEM_SIZE = 2 * 1024 * 1024"
definition WIL6210_RX_RING_SIZE :: u16 where "WIL6210_RX_RING_SIZE = 128"
definition WIL6210_TX_RING_SIZE :: u16 where "WIL6210_TX_RING_SIZE = 512"
definition WIL6210_MAX_TX_RINGS :: nat where "WIL6210_MAX_TX_RINGS = 24"
definition WIL6210_MAX_CID :: nat where "WIL6210_MAX_CID = 8"
definition WIL_STA_TID_NUM :: nat where "WIL_STA_TID_NUM = 16"

text \<open>Host offset of the device memory, and the address translation macro.\<close>

definition WIL6210_FW_HOST_OFF :: u32 where "WIL6210_FW_HOST_OFF = 0x880000"

definition HOSTADDR :: "u32 \<Rightarrow> u32" where
  "HOSTADDR fwaddr = fwaddr - WIL6210_FW_HOST_OFF"

lemma unat_HOSTADDR:
  "WIL6210_FW_HOST_OFF \<le> x \<Longrightarrow> unat (HOSTADDR x) = unat x - 0x880000"
  by (simp add: HOSTADDR_def WIL6210_FW_HOST_OFF_def unat_sub)

subsection \<open>Registers (firmware addresses) and interrupt bits\<close>

definition RGF_USER_USER_SCRATCH_PAD :: u32 where "RGF_USER_USER_SCRATCH_PAD = 0x8802bc"
definition RGF_USER_USER_ICR :: u32 where "RGF_USER_USER_ICR = 0x880b4c"
definition RGF_DMA_PSEUDO_CAUSE :: u32 where "RGF_DMA_PSEUDO_CAUSE = 0x881c68"
definition RGF_DMA_PSEUDO_CAUSE_MASK_SW :: u32 where "RGF_DMA_PSEUDO_CAUSE_MASK_SW = 0x881c6c"
definition RGF_DMA_EP_TX_ICR :: u32 where "RGF_DMA_EP_TX_ICR = 0x881bb4"
definition RGF_DMA_EP_RX_ICR :: u32 where "RGF_DMA_EP_RX_ICR = 0x881bd0"
definition RGF_DMA_EP_MISC_ICR :: u32 where "RGF_DMA_EP_MISC_ICR = 0x881bec"
definition RGF_DMA_ITR_CNT_TRSH :: u32 where "RGF_DMA_ITR_CNT_TRSH = 0x881c5c"
definition RGF_DMA_ITR_CNT_CRL :: u32 where "RGF_DMA_ITR_CNT_CRL = 0x881c64"

definition BIT_DMA_PSEUDO_CAUSE_RX :: u32 where "BIT_DMA_PSEUDO_CAUSE_RX = BIT 0"
definition BIT_DMA_PSEUDO_CAUSE_TX :: u32 where "BIT_DMA_PSEUDO_CAUSE_TX = BIT 1"
definition BIT_DMA_PSEUDO_CAUSE_MISC :: u32 where "BIT_DMA_PSEUDO_CAUSE_MISC = BIT 2"
definition BIT_DMA_EP_TX_ICR_TX_DONE :: u32 where "BIT_DMA_EP_TX_ICR_TX_DONE = BIT 0"
definition BIT_DMA_EP_TX_ICR_TX_DONE_N :: "nat \<Rightarrow> u32" where
  "BIT_DMA_EP_TX_ICR_TX_DONE_N n = BIT (n + 1)"
definition BIT_DMA_EP_RX_ICR_RX_DONE :: u32 where "BIT_DMA_EP_RX_ICR_RX_DONE = BIT 0"
definition BIT_DMA_EP_MISC_ICR_FW_INT :: "nat \<Rightarrow> u32" where
  "BIT_DMA_EP_MISC_ICR_FW_INT n = BIT (28 + n)"
definition BIT_DMA_ITR_CNT_CRL_EN :: u32 where "BIT_DMA_ITR_CNT_CRL_EN = BIT 0"

definition ISR_MISC_FW_READY :: u32 where "ISR_MISC_FW_READY = BIT_DMA_EP_MISC_ICR_FW_INT 0"
definition ISR_MISC_MBOX_EVT :: u32 where "ISR_MISC_MBOX_EVT = BIT_DMA_EP_MISC_ICR_FW_INT 1"
definition ISR_MISC_FW_ERROR :: u32 where "ISR_MISC_FW_ERROR = BIT_DMA_EP_MISC_ICR_FW_INT 3"

definition WIL6210_ITR_TRSH :: u32 where "WIL6210_ITR_TRSH = 10000"

definition HOST_MBOX :: u32 where "HOST_MBOX = HOSTADDR RGF_USER_USER_SCRATCH_PAD"

text \<open>The interrupt registers sit at the offsets of \<open>struct RGF_ICR\<close>.\<close>

definition ICR_ICC :: u32 where "ICR_ICC = 0"
definition ICR_ICR :: u32 where "ICR_ICR = 4"
definition ICR_ICM :: u32 where "ICR_ICM = 8"
definition ICR_ICS :: u32 where "ICR_ICS = 12"
definition ICR_IMV :: u32 where "ICR_IMV = 16"
definition ICR_IMS :: u32 where "ICR_IMS = 20"
definition ICR_IMC :: u32 where "ICR_IMC = 24"

definition HOST_SW_INT :: u32 where "HOST_SW_INT = HOSTADDR RGF_USER_USER_ICR + ICR_ICS"
definition SW_INT_MBOX :: u32 where "SW_INT_MBOX = BIT 18"

lemmas misc_bits_defs =
  ISR_MISC_FW_READY_def ISR_MISC_MBOX_EVT_def ISR_MISC_FW_ERROR_def BIT_DMA_EP_MISC_ICR_FW_INT_def

lemmas cause_bits_defs =
  BIT_DMA_PSEUDO_CAUSE_RX_def BIT_DMA_PSEUDO_CAUSE_TX_def BIT_DMA_PSEUDO_CAUSE_MISC_def
  BIT_DMA_EP_TX_ICR_TX_DONE_def BIT_DMA_EP_TX_ICR_TX_DONE_N_def BIT_DMA_EP_RX_ICR_RX_DONE_def

end
