(* ===== verification/Wil_Desc.thy ===== *)
theory Wil_Desc
  imports Wil_Hw
begin

text \<open>
  Vring descriptors (\<^verbatim>\<open>txrx.h\<close>) and socket buffers. A descriptor is 32 bytes that the C
  code views through a union as a Tx or an Rx descriptor; the record below keeps the memory words
  and the two views are accessors on them, so that a write through one view is seen by the other.
\<close>

subsection \<open>Descriptors\<close>

record vring_desc =
  mac_d0 :: u32       \<comment> \<open>Tx \<open>mac.d[0]\<close>, Rx \<open>mac.d0\<close>\<close>
  mac_d1 :: u32       \<comment> \<open>Tx \<open>mac.d[1]\<close>, Rx \<open>mac.d1\<close>\<close>
  mac_d2 :: u32       \<comment> \<open>Tx \<open>mac.d[2]\<close>, Rx \<open>mac.w4\<close> and \<open>mac.pn_15_0\<close>\<close>
  mac_d3 :: u32       \<comment> \<open>Tx \<open>mac.ucode_cmd\<close>, Rx \<open>mac.pn_47_16\<close>\<close>
  dma_d0 :: u32
  addr_low :: u32
  addr_high :: u16
  dma_b10 :: u16      \<comment> \<open>Tx \<open>dma.offload_cfg\<close>, Rx \<open>dma.ip_length\<close> and \<open>dma.b11\<close>\<close>
  desc_error :: u8
  desc_status :: u8
  desc_length :: u16

definition zero_desc :: vring_desc where
  "zero_desc = \<lparr>mac_d0 = 0, mac_d1 = 0, mac_d2 = 0, mac_d3 = 0, dma_d0 = 0, addr_low = 0,
     addr_high = 0, dma_b10 = 0, desc_error = 0, desc_status = 0, desc_length = 0\<rparr>"

definition TX_DMA_STATUS_DU :: u8 where "TX_DMA_STATUS_DU = BIT 0"
definition RX_DMA_STATUS_DU :: u8 where "RX_DMA_STATUS_DU = BIT 0"
definition RX_DMA_STATUS_L4_IDENT :: u8 where "RX_DMA_STATUS_L4_IDENT = BIT 5"
definition RX_DMA_ERROR_L4_ERR :: u8 where "RX_DMA_ERROR_L4_ERR = BIT 5"
definition RX_DMA_D0_CMD_DMA_IT :: u32 where "RX_DMA_D0_CMD_DMA_IT = BIT 10"
definition RX_BUF_LEN :: nat where "RX_BUF_LEN = 2048"
definition TX_BUF_LEN :: nat where "TX_BUF_LEN = 2048"
definition WIL6210_RTAP_SIZE :: nat where "WIL6210_RTAP_SIZE = 128"

text \<open>The hardware has finished with a descriptor: bit 0 of the status byte, in both views.\<close>

definition desc_done :: "vring_desc \<Rightarrow> bool" where
  "desc_done d \<longleftrightarrow> desc_status d AND TX_DMA_STATUS_DU \<noteq> 0"

lemma desc_done_bit: "desc_done d \<longleftrightarrow> bit (desc_status d) 0"
  by (simp only: desc_done_def TX_DMA_STATUS_DU_def and_BIT_neq_0)

lemma rx_status_DU_done: "desc_status d AND RX_DMA_STATUS_DU \<noteq> 0 \<longleftrightarrow> desc_done d"
  by (simp add: desc_done_def TX_DMA_STATUS_DU_def RX_DMA_STATUS_DU_def)

subsection \<open>Fields of the Rx descriptor\<close>

definition wil_rxdesc_tid :: "vring_desc \<Rightarrow> nat" where
  "wil_rxdesc_tid d = unat (WIL_GET_BITS (mac_d0 d) 0 3)"
definition wil_rxdesc_cid :: "vring_desc \<Rightarrow> nat" where
  "wil_rxdesc_cid d = unat (WIL_GET_BITS (mac_d0 d) 4 6)"
definition wil_rxdesc_mid :: "vring_desc \<Rightarrow> nat" where
  "wil_rxdesc_mid d = unat (WIL_GET_BITS (mac_d0 d) 8 9)"
definition wil_rxdesc_ftype :: "vring_desc \<Rightarrow> nat" where
  "wil_rxdesc_ftype d = unat (WIL_GET_BITS (mac_d0 d) 10 11)"
definition wil_rxdesc_subtype :: "vring_desc \<Rightarrow> nat" where
  "wil_rxdesc_subtype d = unat (WIL_GET_BITS (mac_d0 d) 12 15)"
definition wil_rxdesc_seq :: "vring_desc \<Rightarrow> nat" where
  "wil_rxdesc_seq d = unat (WIL_GET_BITS (mac_d0 d) 16 27)"
definition wil_rxdesc_ext_subtype :: "vring_desc \<Rightarrow> nat" where
  "wil_rxdesc_ext_subtype d = unat (WIL_GET_BITS (mac_d0 d) 28 31)"
definition wil_rxdesc_ds_bits :: "vring_desc \<Rightarrow> nat" where
  "wil_rxdesc_ds_bits d = unat (WIL_GET_BITS (mac_d1 d) 8 9)"
definition wil_rxdesc_mcs :: "vring_desc \<Rightarrow> nat" where
  "wil_rxdesc_mcs d = unat (WIL_GET_BITS (mac_d1 d) 21 24)"
definition wil_rxdesc_phy_length :: "vring_desc \<Rightarrow> nat" where
  "wil_rxdesc_phy_length d = unat (WIL_GET_BITS (dma_d0 d) 16 29)"

lemmas rxdesc_defs =
  wil_rxdesc_tid_def wil_rxdesc_cid_def wil_rxdesc_mid_def wil_rxdesc_ftype_def
  wil_rxdesc_subtype_def wil_rxdesc_seq_def wil_rxdesc_ext_subtype_def
  wil_rxdesc_ds_bits_def wil_rxdesc_mcs_def wil_rxdesc_phy_length_def

text \<open>Every identifier read from a descriptor is inside the array it indexes.\<close>

lemma wil_rxdesc_tid_bound: "wil_rxdesc_tid d < WIL_STA_TID_NUM"
  using WIL_GET_BITS_less [of "mac_d0 d" 0 3] by (simp add: wil_rxdesc_tid_def WIL_STA_TID_NUM_def)

lemma wil_rxdesc_cid_bound: "wil_rxdesc_cid d < WIL6210_MAX_CID"
  using WIL_GET_BITS_less [of "mac_d0 d" 4 6] by (simp add: wil_rxdesc_cid_def WIL6210_MAX_CID_def)

lemma wil_rxdesc_seq_bound: "wil_rxdesc_seq d < 4096"
  using WIL_GET_BITS_less [of "mac_d0 d" 16 27] by (simp add: wil_rxdesc_seq_def)

text \<open>
  The fields of dword 0 do not overlap and together are the whole dword but its reserved bit 7:
  a descriptor is determined by them.
\<close>

lemma field_split: "n div 2 ^ a = n div 2 ^ a mod 2 ^ k + 2 ^ k * (n div 2 ^ (a + k))"
  for n :: nat
  by (simp add: power_add div_mult2_eq)

lemma mac_d0_fields:
  "unat (mac_d0 d) =
     wil_rxdesc_tid d + 2 ^ 4 * wil_rxdesc_cid d + 2 ^ 7 * (unat (mac_d0 d) div 2 ^ 7 mod 2 ^ 1) +
     2 ^ 8 * wil_rxdesc_mid d + 2 ^ 10 * wil_rxdesc_ftype d + 2 ^ 12 * wil_rxdesc_subtype d +
     2 ^ 16 * wil_rxdesc_seq d + 2 ^ 28 * wil_rxdesc_ext_subtype d"
proof -
  define n where "n = unat (mac_d0 d)"
  have "n div 2 ^ 28 < 2 ^ 4"
    using unat_u32_bound [of "mac_d0 d"] by (simp add: n_def less_mult_imp_div_less)
  then have top: "n div 2 ^ 28 mod 2 ^ 4 = n div 2 ^ 28" by simp
  have e: "n = n mod 16 + 16 * (n div 16)"
    "n div 16 = n div 16 mod 8 + 8 * (n div 128)"
    "n div 128 = n div 128 mod 2 + 2 * (n div 256)"
    "n div 256 = n div 256 mod 4 + 4 * (n div 1024)"
    "n div 1024 = n div 1024 mod 4 + 4 * (n div 4096)"
    "n div 4096 = n div 4096 mod 16 + 16 * (n div 65536)"
    "n div 65536 = n div 65536 mod 4096 + 4096 * (n div 268435456)"
    using field_split [of n 4 3] field_split [of n 7 1] field_split [of n 8 2]
      field_split [of n 10 2] field_split [of n 12 4] field_split [of n 16 12] by simp_all
  have "n = n mod 16 + 16 * (n div 16 mod 8) + 128 * (n div 128 mod 2) +
      256 * (n div 256 mod 4) + 1024 * (n div 1024 mod 4) + 4096 * (n div 4096 mod 16) +
      65536 * (n div 65536 mod 4096) + 268435456 * (n div 268435456)"
    using e by linarith
  then show ?thesis
    unfolding rxdesc_defs unat_WIL_GET_BITS n_def [symmetric] using top by simp
qed

subsection \<open>DMA addresses\<close>

record vring_dma_addr =
  va_low :: u32
  va_high :: u16

definition lower_32_bits :: "u64 \<Rightarrow> u32" where "lower_32_bits pa = ucast pa"
definition upper_32_bits :: "u64 \<Rightarrow> u32" where "upper_32_bits pa = ucast (drop_bit 32 pa)"

definition wil_desc_addr :: "vring_dma_addr \<Rightarrow> u64" where
  "wil_desc_addr a = ucast (va_low a) OR push_bit 32 (ucast (va_high a))"

definition wil_desc_addr_set :: "vring_dma_addr \<Rightarrow> u64 \<Rightarrow> vring_dma_addr" where
  "wil_desc_addr_set a pa =
     a\<lparr>va_low := lower_32_bits pa, va_high := ucast (upper_32_bits pa)\<rparr>"

text \<open>The address the Tx and Rx paths read back from a descriptor.\<close>

definition desc_pa :: "vring_desc \<Rightarrow> u64" where
  "desc_pa d = ucast (addr_low d) OR push_bit 32 (ucast (addr_high d))"

lemma pa_split:
  "(ucast (lower_32_bits pa) OR push_bit 32 (ucast (ucast (upper_32_bits pa) :: u16)) :: u64) =
     take_bit 48 pa"
  unfolding lower_32_bits_def upper_32_bits_def
  by (rule bit_word_eqI) (auto simp: bit_simps)

lemma take_bit_48: "unat pa < 2 ^ 48 \<Longrightarrow> take_bit 48 pa = (pa :: u64)"
  by (simp only: word_unat_eq_iff unat_take_bit mod_less)

lemma wil_desc_addr_set_get:
  "wil_desc_addr (wil_desc_addr_set a pa) = take_bit 48 pa"
  by (simp add: wil_desc_addr_def wil_desc_addr_set_def pa_split)

subsection \<open>Socket buffers\<close>

datatype ip_summed_t = CHECKSUM_NONE | CHECKSUM_UNNECESSARY | CHECKSUM_COMPLETE | CHECKSUM_PARTIAL

text \<open>
  \<open>struct sk_buff\<close>, the fields the driver uses. \<open>skb_users\<close> is the reference count that
  \<open>skb_get\<close> and \<open>kfree_skb\<close> move; \<open>skb_data\<close> is the linear part, at the address \<open>skb_addr\<close>, with
  \<open>skb_headroom\<close> bytes free before it and the bytes \<open>skb_tail\<close> of the buffer after it, and
  \<open>skb_frags\<close> the sizes of the paged fragments. The control block \<open>cb\<close> holds either the copy of the Rx descriptor
  (\<open>cb_rx\<close>) or \<open>struct wil_skb_cb\<close>; a buffer is on one path only. The \<open>hdr\<close> fields are
  what the kernel's header accessors return for the buffer (\<open>ip_hdr->protocol\<close> or
  \<open>ipv6_find_hdr\<close>, \<open>skb_network_offset\<close>, \<open>skb_network_header_len\<close>, \<open>tcp_hdrlen\<close>).
\<close>

record sk_buff =
  skb_users :: nat
  skb_addr :: nat
  skb_headroom :: nat
  skb_data :: "u8 list"
  skb_tail :: "u8 list"
  skb_frags :: "nat list"
  skb_protocol :: u16
  skb_ip_summed :: ip_summed_t
  skb_gso_size :: u16
  hdr_l4proto :: nat
  hdr_net_off :: nat
  hdr_net_len :: nat
  hdr_tcp_len :: nat
  cb_rx :: vring_desc
  sngl_mapped :: int
  nodma_desc :: int

type_synonym skb_ptr = nat
type_synonym skb_heap = "skb_ptr \<Rightarrow> sk_buff"

definition skb_headlen :: "sk_buff \<Rightarrow> nat" where "skb_headlen s = length (skb_data s)"
definition skb_len :: "sk_buff \<Rightarrow> nat" where "skb_len s = length (skb_data s) + sum_list (skb_frags s)"

definition skb_get :: "skb_ptr \<Rightarrow> skb_heap \<Rightarrow> skb_heap" where
  "skb_get p h = h(p := (h p)\<lparr>skb_users := skb_users (h p) + 1\<rparr>)"

definition kfree_skb :: "skb_ptr \<Rightarrow> skb_heap \<Rightarrow> skb_heap" where
  "kfree_skb p h = h(p := (h p)\<lparr>skb_users := skb_users (h p) - 1\<rparr>)"

text \<open>
  The kernel's moves of the data pointers: \<open>skb_put\<close> and \<open>skb_push\<close> panic (\<open>None\<close>) when the
  buffer has no room; \<open>skb_push\<close> is given the bytes the caller writes there.
\<close>

definition skb_reserve :: "nat \<Rightarrow> sk_buff \<Rightarrow> sk_buff" where
  "skb_reserve n s = s\<lparr>skb_headroom := skb_headroom s + n, skb_addr := skb_addr s + n,
     skb_tail := drop n (skb_tail s)\<rparr>"

definition skb_put :: "nat \<Rightarrow> sk_buff \<Rightarrow> sk_buff option" where
  "skb_put n s =
     (if length (skb_tail s) < n then None
      else Some (s\<lparr>skb_data := skb_data s @ take n (skb_tail s), skb_tail := drop n (skb_tail s)\<rparr>))"

definition skb_push :: "u8 list \<Rightarrow> sk_buff \<Rightarrow> sk_buff option" where
  "skb_push bs s =
     (if skb_headroom s < length bs then None
      else Some (s\<lparr>skb_data := bs @ skb_data s, skb_headroom := skb_headroom s - length bs,
        skb_addr := skb_addr s - length bs\<rparr>))"

definition skb_trim :: "nat \<Rightarrow> sk_buff \<Rightarrow> sk_buff" where
  "skb_trim n s =
     (if n < length (skb_data s)
      then s\<lparr>skb_data := take n (skb_data s), skb_tail := drop n (skb_data s) @ skb_tail s\<rparr>
      else s)"

definition ETH_P_IP :: u16 where "ETH_P_IP = 0x0800"
definition ETH_P_IPV6 :: u16 where "ETH_P_IPV6 = 0x86DD"
definition ETH_P_PAE :: u16 where "ETH_P_PAE = 0x888E"
definition IPPROTO_TCP :: nat where "IPPROTO_TCP = 6"
definition IPPROTO_UDP :: nat where "IPPROTO_UDP = 17"
definition ETH_HLEN :: nat where "ETH_HLEN = 14"

subsection \<open>The address swap of the Rx path\<close>

definition wil_swap_u16 :: "u16 \<Rightarrow> u16 \<Rightarrow> u16 \<times> u16" where
  "wil_swap_u16 a b =
     (let a = a XOR b; b = b XOR a; a = a XOR b in (a, b))"

lemma wil_swap_u16_swaps: "wil_swap_u16 a b = (b, a)"
  unfolding wil_swap_u16_def Let_def by (auto intro: bit_word_eqI simp: bit_simps)

text \<open>16-bit loads and stores at a byte offset, as the little-endian host makes them.\<close>

definition load16 :: "u8 list \<Rightarrow> nat \<Rightarrow> u16" where
  "load16 xs i = ucast (xs ! i) OR push_bit 8 (ucast (xs ! (i + 1)))"

definition store16 :: "nat \<Rightarrow> u16 \<Rightarrow> u8 list \<Rightarrow> u8 list" where
  "store16 i w xs = xs[i := ucast w, i + 1 := ucast (drop_bit 8 w)]"

definition swap16_at :: "nat \<Rightarrow> nat \<Rightarrow> u8 list \<Rightarrow> u8 list" where
  "swap16_at s d xs =
     (case wil_swap_u16 (load16 xs s) (load16 xs d) of (a, b) \<Rightarrow> store16 d b (store16 s a xs))"

text \<open>\<open>h_dest\<close> is at offset 0 of the Ethernet header and \<open>h_source\<close> at offset 6.\<close>

definition wil_swap_ethaddr :: "u8 list \<Rightarrow> u8 list" where
  "wil_swap_ethaddr xs = swap16_at 10 4 (swap16_at 8 2 (swap16_at 6 0 xs))"

lemma store16_load16:
  "ucast (load16 xs i) = xs ! i" "ucast (drop_bit 8 (load16 xs i)) = xs ! (i + 1)"
  unfolding load16_def
  by (rule bit_word_eqI; auto simp: bit_simps dest: bit_imp_le_length)+

lemma swap16_at_update:
  "swap16_at s d xs =
     xs[s := xs ! d, s + 1 := xs ! (d + 1), d := xs ! s, d + 1 := xs ! (s + 1)]"
  unfolding swap16_at_def wil_swap_u16_swaps prod.case store16_def store16_load16 by simp

lemma wil_swap_ethaddr_swaps:
  "wil_swap_ethaddr (a0 # a1 # a2 # a3 # a4 # a5 # b0 # b1 # b2 # b3 # b4 # b5 # rest) =
     b0 # b1 # b2 # b3 # b4 # b5 # a0 # a1 # a2 # a3 # a4 # a5 # rest"
  by (simp add: wil_swap_ethaddr_def swap16_at_update numeral_eq_Suc)

end
