(* ===== verification/Wil_State.thy ===== *)
theory Wil_State
  imports Wil_Desc
begin

text \<open>
  The driver state: \<open>struct wil6210_priv\<close> of \<^verbatim>\<open>wil6210.h\<close> with the structures it holds, the
  parts of the network device it works on, the heap of socket buffers and a log of the calls into
  the kernel and the hardware whose order or arguments matter (DMA mappings, register writes,
  frames handed to the network stack, notifications to cfg80211).
\<close>

subsection \<open>Status bits\<close>

datatype wil_status_bit =
    wil_status_fwready | wil_status_fwconnected | wil_status_dontscan
  | wil_status_reset_done | wil_status_irqen

fun status_nr :: "wil_status_bit \<Rightarrow> nat" where
  "status_nr wil_status_fwready = 0"
| "status_nr wil_status_fwconnected = 1"
| "status_nr wil_status_dontscan = 2"
| "status_nr wil_status_reset_done = 3"
| "status_nr wil_status_irqen = 4"

definition test_bit :: "wil_status_bit \<Rightarrow> u64 \<Rightarrow> bool" where
  "test_bit b s \<longleftrightarrow> bit s (status_nr b)"
definition set_bit :: "wil_status_bit \<Rightarrow> u64 \<Rightarrow> u64" where
  "set_bit b s = s OR BIT (status_nr b)"
definition clear_bit :: "wil_status_bit \<Rightarrow> u64 \<Rightarrow> u64" where
  "clear_bit b s = s AND NOT (BIT (status_nr b))"

lemma status_nr_inj [simp]: "status_nr a = status_nr b \<longleftrightarrow> a = b"
  by (cases a; cases b; simp)

lemma status_nr_bound: "status_nr b < 64"
  by (cases b; simp)

lemma test_set_bit [simp]: "test_bit a (set_bit b s) \<longleftrightarrow> a = b \<or> test_bit a s"
  using status_nr_bound [of b]
  by (auto simp: test_bit_def set_bit_def bit_or_iff bit_BIT_iff)

lemma test_clear_bit [simp]: "test_bit a (clear_bit b s) \<longleftrightarrow> a \<noteq> b \<and> test_bit a s"
  using status_nr_bound [of b]
  by (auto simp: test_bit_def clear_bit_def bit_and_iff bit_not_iff bit_BIT_iff
      dest: bit_imp_le_length)

lemma test_bit_0 [simp]: "\<not> test_bit a 0"
  by (simp add: test_bit_def)

subsection \<open>Rings\<close>

text \<open>
  \<open>struct vring\<close>: \<open>vr_va\<close> is the descriptor array (\<open>None\<close> for the NULL pointer), \<open>vr_ctx\<close> the
  array of buffers behind the descriptors.
\<close>

record vring =
  vr_pa :: u64
  vr_va :: "vring_desc list option"
  vr_size :: u16
  swtail :: u32
  swhead :: u32
  hwtail :: u32
  vr_ctx :: "skb_ptr option list"

record vring_tx_data =
  agg_wsize :: u8
  agg_timeout :: u16

record wil6210_mbox_ring =
  mb_base :: u32
  mb_entry_size :: u16
  mb_size :: u16
  mb_tail :: u32
  mb_head :: u32

record wil6210_mbox_hdr =
  hdr_seq :: u16
  hdr_len :: u16
  hdr_type :: u16
  hdr_flags :: u8

text \<open>A received event: its mailbox header and the \<open>len\<close> bytes after it.\<close>

record pending_wmi_event =
  ev_hdr :: wil6210_mbox_hdr
  ev_data :: "u8 list"

subsection \<open>Stations and block acknowledgement\<close>

text \<open>
  \<open>struct wil_tid_ampdu_rx\<close>. The timers, \<open>last_rx\<close>, \<open>timeout\<close> and \<open>dialog_token\<close> of the C
  structure are never read nor written by the driver and are left out.
\<close>

record wil_tid_ampdu_rx =
  reorder_buf :: "skb_ptr option list"
  reorder_time :: "u64 list"
  head_seq_num :: u16
  stored_mpdu_num :: u16
  ssn :: u16
  buf_size :: u16
  ssn_last_drop :: u16

datatype wil_sta_status = wil_sta_unused | wil_sta_conn_pending | wil_sta_connected

record wil_net_stats =
  rx_packets :: u64
  tx_packets :: u64
  rx_bytes :: u64
  tx_bytes :: u64
  tx_errors :: u64
  rx_dropped :: u64
  last_mcs_rx :: u16

definition zero_net_stats :: wil_net_stats where
  "zero_net_stats = \<lparr>rx_packets = 0, tx_packets = 0, rx_bytes = 0, tx_bytes = 0,
     tx_errors = 0, rx_dropped = 0, last_mcs_rx = 0\<rparr>"

record wil_sta_info =
  sta_addr :: mac_addr
  sta_status :: wil_sta_status
  sta_stats :: wil_net_stats
  tid_rx :: "wil_tid_ampdu_rx option list"

record wil_pending_back =
  pb_cidxtid :: u8
  pb_dialog_token :: u8
  pb_ba_param_set :: u16
  pb_ba_timeout :: u16
  pb_ba_seq_ctrl :: u16
  pb_agg_wsize :: u16
  pb_agg_timeout :: u16
  pb_agg_policy :: bool
  pb_agg_amsdu :: bool

subsection \<open>The network device and cfg80211\<close>

datatype nl80211_iftype =
    NL80211_IFTYPE_UNSPECIFIED | NL80211_IFTYPE_ADHOC | NL80211_IFTYPE_STATION
  | NL80211_IFTYPE_AP | NL80211_IFTYPE_AP_VLAN | NL80211_IFTYPE_WDS | NL80211_IFTYPE_MONITOR
  | NL80211_IFTYPE_MESH_POINT | NL80211_IFTYPE_P2P_CLIENT | NL80211_IFTYPE_P2P_GO

datatype cfg80211_sme_state = CFG80211_SME_IDLE | CFG80211_SME_CONNECTING | CFG80211_SME_CONNECTED

definition ARPHRD_ETHER :: u16 where "ARPHRD_ETHER = 1"
definition ARPHRD_IEEE80211_RADIOTAP :: u16 where "ARPHRD_IEEE80211_RADIOTAP = 803"

record net_device =
  nd_type :: u16
  nd_addr :: mac_addr
  nd_rxcsum :: bool
  nd_hw_csum :: bool
  nd_stats :: wil_net_stats
  nd_tx_dropped :: u64
  nd_carrier :: bool
  nd_queues_stopped :: bool

record wireless_dev =
  wd_iftype :: nl80211_iftype
  wd_sme_state :: cfg80211_sme_state
  wd_ssid :: "u8 list"
  wd_channel :: "nat option"

record wil_roc =
  roc_chan :: "nat option"
  roc_started :: bool
  roc_duration :: nat
  roc_buf :: "u8 list option"
  roc_cookie :: u64
  roc_mgmt_tx_cookie :: u64
  roc_work_queued :: bool

record wil6210_stats =
  ws_tsf :: u64
  ws_snr :: u32
  ws_last_mcs_rx :: u16
  ws_bf_mcs :: u16
  ws_my_rx_sector :: u16
  ws_my_tx_sector :: u16
  ws_peer_rx_sector :: u16
  ws_peer_tx_sector :: u16

subsection \<open>Calls into the kernel and the hardware\<close>

datatype work_struct =
    connect_worker | disconnect_worker | wmi_event_work | back_work | roc_work

datatype workqueue = wmi_wq | wmi_wq_conn | back_wq | roc_wq

datatype kernel_call =
    NetifReceiveSkb skb_ptr
  | DmaMapSingle u64 nat
  | DmaMapPage u64 nat
  | DmaUnmapSingle u64 nat
  | DmaUnmapPage u64 nat
  | IoWrite32 u32 u32
  | NapiScheduleRx
  | NapiScheduleTx
  | NapiCompleteRx
  | NapiCompleteTx
  | UeventFwError
  | Cfg80211ScanDone bool
  | Cfg80211Disconnected
  | Cfg80211ConnectResult bool "mac_addr option" "u8 list option" "u8 list option"
  | Cfg80211NewSta mac_addr int "u8 list option"
  | Cfg80211DelSta mac_addr
  | Cfg80211InformBss nat mac_addr u64 u16 u16 "u8 list" u8
  | Cfg80211RxMgmt nat u8 "u8 list"
  | Cfg80211RocExpired u64
  | Cfg80211RocReady u64
  | Cfg80211MgmtTxStatus u64 bool
  | QueueWork work_struct
  | CancelWork work_struct
  | RequestIrq nat
  | FreeIrq nat
  | WqCreate workqueue
  | WqDestroy workqueue
  | NapiEnable
  | NapiDisable

subsection \<open>The private state of the driver\<close>

record wil6210_priv =
  n_msi :: nat
  wstatus :: u64
  fw_version :: u32
  n_mids :: u8
  monitor_flags :: u32
  secure_pcp :: bool
  sinfo_gen :: int
  isr_misc :: u32
  mbox_tx :: wil6210_mbox_ring
  mbox_rx :: wil6210_mbox_ring
  wmi_ready :: nat
  wmi_seq :: u16
  reply_id :: u16
  reply_buf :: "u8 list option"
  reply_size :: u16
  connect_timer :: bool
  connect_queued :: bool
  pending_connect_cid :: int
  pending_wmi_ev :: "pending_wmi_event list"
  back_pending :: "wil_pending_back list"
  vring_rx :: vring
  vring_tx :: "vring list"
  vring_txdata :: "vring_tx_data list"
  vring2cid_tid :: "(u8 \<times> u8) list"
  sta :: "wil_sta_info list"
  scan_request :: "nat option"
  roc :: wil_roc
  roc_counter :: u64
  wstats :: wil6210_stats
  tid_to_use :: u8
  ndev :: net_device
  wdev :: wireless_dev
  skbs :: skb_heap
  klog :: "kernel_call list"
  io_clock :: nat

text \<open>
  \<open>io_clock\<close> counts the questions put to the device and the allocator: their answers are an oracle
  indexed by it.
\<close>

definition klog_add :: "kernel_call \<Rightarrow> wil6210_priv \<Rightarrow> wil6210_priv" where
  "klog_add e w = w\<lparr>klog := klog w @ [e]\<rparr>"

text \<open>The device after \<open>kzalloc\<close> and \<open>wil_priv_init\<close>: no ring, no peer, nothing pending.\<close>

definition zero_vring :: vring where
  "zero_vring = \<lparr>vr_pa = 0, vr_va = None, vr_size = 0, swtail = 0, swhead = 0, hwtail = 0,
     vr_ctx = []\<rparr>"

definition zero_mbox_ring :: wil6210_mbox_ring where
  "zero_mbox_ring = \<lparr>mb_base = 0, mb_entry_size = 0, mb_size = 0, mb_tail = 0, mb_head = 0\<rparr>"

definition zero_sta :: wil_sta_info where
  "zero_sta = \<lparr>sta_addr = replicate 6 0, sta_status = wil_sta_unused,
     sta_stats = zero_net_stats, tid_rx = replicate WIL_STA_TID_NUM None\<rparr>"

definition zero_skb :: sk_buff where
  "zero_skb = \<lparr>skb_users = 0, skb_addr = 0, skb_headroom = 0, skb_data = [], skb_tail = [], skb_frags = [], skb_protocol = 0,
     skb_ip_summed = CHECKSUM_NONE, skb_gso_size = 0, hdr_l4proto = 0, hdr_net_off = 0, hdr_net_len = 0,
     hdr_tcp_len = 0, cb_rx = zero_desc, sngl_mapped = 0, nodma_desc = 0\<rparr>"

definition wil_init_state :: wil6210_priv where
  "wil_init_state = \<lparr>n_msi = 0, wstatus = 0, fw_version = 0, n_mids = 0, monitor_flags = 0,
     secure_pcp = False, sinfo_gen = 0, isr_misc = 0, mbox_tx = zero_mbox_ring,
     mbox_rx = zero_mbox_ring, wmi_ready = 0, wmi_seq = 0, reply_id = 0, reply_buf = None,
     reply_size = 0, connect_timer = False, connect_queued = False, pending_connect_cid = -1,
     pending_wmi_ev = [], back_pending = [], vring_rx = zero_vring,
     vring_tx = replicate WIL6210_MAX_TX_RINGS zero_vring,
     vring_txdata = replicate WIL6210_MAX_TX_RINGS \<lparr>agg_wsize = 0, agg_timeout = 0\<rparr>,
     vring2cid_tid = replicate WIL6210_MAX_TX_RINGS (0, 0),
     sta = replicate WIL6210_MAX_CID zero_sta, scan_request = None,
     roc = \<lparr>roc_chan = None, roc_started = False, roc_duration = 0, roc_buf = None,
       roc_cookie = 0, roc_mgmt_tx_cookie = 0, roc_work_queued = False\<rparr>,
     roc_counter = 0,
     wstats = \<lparr>ws_tsf = 0, ws_snr = 0, ws_last_mcs_rx = 0, ws_bf_mcs = 0, ws_my_rx_sector = 0,
       ws_my_tx_sector = 0, ws_peer_rx_sector = 0, ws_peer_tx_sector = 0\<rparr>,
     tid_to_use = 0,
     ndev = \<lparr>nd_type = ARPHRD_ETHER, nd_addr = replicate 6 0, nd_rxcsum = True,
       nd_hw_csum = True, nd_stats = zero_net_stats, nd_tx_dropped = 0, nd_carrier = False,
       nd_queues_stopped = True\<rparr>,
     wdev = \<lparr>wd_iftype = NL80211_IFTYPE_STATION, wd_sme_state = CFG80211_SME_IDLE,
       wd_ssid = [], wd_channel = Some 1\<rparr>,
     skbs = (\<lambda>_. zero_skb), klog = [], io_clock = 0\<rparr>"

text \<open>Updates of one element of an array of the state.\<close>

definition upd_sta :: "nat \<Rightarrow> (wil_sta_info \<Rightarrow> wil_sta_info) \<Rightarrow> wil6210_priv \<Rightarrow> wil6210_priv" where
  "upd_sta cid f w = w\<lparr>sta := (sta w)[cid := f (sta w ! cid)]\<rparr>"

definition set_vring_tx :: "nat \<Rightarrow> vring \<Rightarrow> wil6210_priv \<Rightarrow> wil6210_priv" where
  "set_vring_tx i v w = w\<lparr>vring_tx := (vring_tx w)[i := v]\<rparr>"

definition set_tid_rx :: "nat \<Rightarrow> nat \<Rightarrow> wil_tid_ampdu_rx option \<Rightarrow> wil6210_priv \<Rightarrow> wil6210_priv" where
  "set_tid_rx cid tid r = upd_sta cid (\<lambda>s. s\<lparr>tid_rx := (tid_rx s)[tid := r]\<rparr>)"

text \<open>The arrays of the state keep the sizes the C declarations give them.\<close>

definition wil_arrays_ok :: "wil6210_priv \<Rightarrow> bool" where
  "wil_arrays_ok w \<longleftrightarrow>
     length (sta w) = WIL6210_MAX_CID \<and>
     (\<forall>s \<in> set (sta w). length (tid_rx s) = WIL_STA_TID_NUM \<and> length (sta_addr s) = 6) \<and>
     length (vring_tx w) = WIL6210_MAX_TX_RINGS \<and>
     length (vring_txdata w) = WIL6210_MAX_TX_RINGS \<and>
     length (vring2cid_tid w) = WIL6210_MAX_TX_RINGS"

lemma wil_arrays_ok_init: "wil_arrays_ok wil_init_state"
  by (simp add: wil_arrays_ok_def wil_init_state_def zero_sta_def)

lemma wil_arrays_okD:
  assumes "wil_arrays_ok w"
  shows "length (sta w) = WIL6210_MAX_CID"
    and "cid < WIL6210_MAX_CID \<Longrightarrow> length (tid_rx (sta w ! cid)) = WIL_STA_TID_NUM"
    and "length (vring_tx w) = WIL6210_MAX_TX_RINGS"
    and "length (vring2cid_tid w) = WIL6210_MAX_TX_RINGS"
  using assms by (auto simp: wil_arrays_ok_def)

end
