(* ===== verification/Wil_Seq.thy ===== *)
theory Wil_Seq
  imports Wil_State
begin

text \<open>
  The 12-bit sequence number arithmetic of \<^verbatim>\<open>rx_reorder.c\<close>. The C code computes on
  \<open>int\<close> and masks with \<open>0xfff\<close>; 4096 divides the range of \<open>u16\<close>, so the wrap-around
  subtraction of \<open>u16\<close> followed by the mask is the same function. All facts are stated on
  \<open>seq_dist s h\<close>, how far \<open>s\<close> is ahead of \<open>h\<close>.
\<close>

definition SEQ_MODULO :: u16 where "SEQ_MODULO = 0x1000"
definition SEQ_MASK :: u16 where "SEQ_MASK = 0xfff"

definition seq_less :: "u16 \<Rightarrow> u16 \<Rightarrow> bool" where
  "seq_less sq1 sq2 \<longleftrightarrow> (sq1 - sq2) AND SEQ_MASK > drop_bit 1 SEQ_MODULO"

definition seq_inc :: "u16 \<Rightarrow> u16" where
  "seq_inc sq = (sq + 1) AND SEQ_MASK"

definition seq_sub :: "u16 \<Rightarrow> u16 \<Rightarrow> u16" where
  "seq_sub sq1 sq2 = (sq1 - sq2) AND SEQ_MASK"

definition seq_dist :: "u16 \<Rightarrow> u16 \<Rightarrow> nat" where
  "seq_dist s h = unat (seq_sub s h)"

lemma SEQ_MASK_mask: "SEQ_MASK = mask 12"
  by (simp add: SEQ_MASK_def mask_eq_exp_minus_1)

lemma unat_and_SEQ_MASK: "unat (x AND SEQ_MASK) = unat x mod 4096"
  unfolding SEQ_MASK_mask unat_and_mask by simp

lemma unat_sub_u16: "unat (a - b :: u16) mod 4096 = (unat a + 65536 - unat b) mod 4096"
proof -
  have "unat (a - b) = (if unat b \<le> unat a then unat a - unat b else unat a + 65536 - unat b)"
    by (simp add: unat_sub_if_size word_size)
  moreover have "(n + 65536) mod 4096 = n mod 4096" for n :: nat
    using mod_mult_self1 [of n 16 4096] by (simp add: mult.commute)
  ultimately show ?thesis
    by (cases "unat b \<le> unat a") (simp_all add: Nat.add_diff_assoc2 flip: Nat.add_diff_assoc2)
qed

lemma seq_dist_eq: "seq_dist s h = (unat s + 65536 - unat h) mod 4096"
  by (simp only: seq_dist_def seq_sub_def unat_and_SEQ_MASK unat_sub_u16)

lemma seq_dist_int: "int (seq_dist s h) = (int (unat s) - int (unat h)) mod 4096"
proof -
  have "int (unat s + 65536 - unat h) = int (unat s) - int (unat h) + 16 * 4096"
    using unat_u16_bound [of h] by (simp add: of_nat_diff)
  then have "int (seq_dist s h) = (int (unat s) - int (unat h) + 16 * 4096) mod 4096"
    unfolding seq_dist_eq zmod_int by simp
  then show ?thesis by (simp only: mod_mult_self1)
qed

lemma seq_dist_less: "seq_dist s h < 4096"
  by (simp add: seq_dist_eq)

lemma seq_dist_self [simp]: "seq_dist s s = 0"
  by (simp add: seq_dist_eq)

lemma unat_seq_sub: "unat (seq_sub s h) = seq_dist s h"
  by (simp add: seq_dist_def)

lemma unat_seq_inc: "unat (seq_inc s) = (unat s + 1) mod 4096"
proof -
  have "unat (s + 1) mod 4096 = (unat s + 1) mod 4096"
    by (simp add: unat_word_ariths mod_mod_cancel)
  then show ?thesis by (simp only: seq_inc_def unat_and_SEQ_MASK)
qed

lemma seq_inc_bound: "unat (seq_inc s) < 4096"
  by (simp add: unat_seq_inc)

lemma seq_sub_bound: "unat (seq_sub s h) < 4096"
  by (simp add: unat_seq_sub seq_dist_less)

text \<open>An offset below 4096 is recovered by \<open>seq_dist\<close>.\<close>

lemma seq_dist_unique:
  assumes "(int (unat s) - int (unat h) - int k) mod 4096 = 0" and "k < 4096"
  shows "seq_dist s h = k"
proof -
  have "(int (unat s) - int (unat h)) mod 4096 = int k mod 4096"
    using assms(1) mod_eq_dvd_iff [of "int (unat s) - int (unat h)" 4096 "int k"]
    by (simp add: dvd_eq_mod_eq_0)
  then have "int (seq_dist s h) = int k" using assms(2) by (simp add: seq_dist_int)
  then show ?thesis by simp
qed

lemma unat_from_dist: "unat s < 4096 \<Longrightarrow> unat s = (unat h + seq_dist s h) mod 4096"
proof -
  assume "unat s < 4096"
  have "int ((unat h + seq_dist s h) mod 4096) = int (unat s mod 4096)"
    unfolding zmod_int of_nat_add seq_dist_int of_nat_numeral by (simp add: mod_add_right_eq)
  with \<open>unat s < 4096\<close> show ?thesis by (simp only: of_nat_eq_iff mod_less)
qed

lemma seq_dist_inj: "unat s < 4096 \<Longrightarrow> unat t < 4096 \<Longrightarrow> seq_dist s h = seq_dist t h \<Longrightarrow> s = t"
  by (metis unat_from_dist word_unat_eq_iff)

subsection \<open>Order\<close>

lemma seq_less_dist: "seq_less a b \<longleftrightarrow> 2048 < seq_dist a b"
proof -
  have "drop_bit 1 SEQ_MODULO = 2048" by (simp add: SEQ_MODULO_def drop_bit_eq_div)
  then show ?thesis
    by (simp add: seq_less_def seq_dist_def seq_sub_def word_less_nat_alt)
qed

lemma seq_dist_flip: "seq_dist a b = (4096 - seq_dist b a) mod 4096"
proof -
  have "int ((4096 - seq_dist b a) mod 4096) = (4096 - int (seq_dist b a)) mod 4096"
    using seq_dist_less [of b a] by (simp only: zmod_int of_nat_diff of_nat_numeral)
  also have "\<dots> = (- (int (unat b) - int (unat a))) mod 4096"
    unfolding seq_dist_int by (simp only: mod_diff_right_eq mod_diff_left_eq) (simp add: mod_simps)
  also have "\<dots> = int (seq_dist a b)" by (simp only: minus_diff_eq seq_dist_int)
  finally show ?thesis by (simp only: of_nat_eq_iff)
qed

lemma seq_less_ahead: "seq_less a b \<longleftrightarrow> 0 < seq_dist b a \<and> seq_dist b a < 2048"
  unfolding seq_less_dist seq_dist_flip [of a b] using seq_dist_less [of b a]
  by (cases "seq_dist b a = 0") auto

lemma seq_dist_inc:
  assumes "0 < seq_dist b a"
  shows "seq_dist b (seq_inc a) = seq_dist b a - 1"
proof (rule seq_dist_unique)
  define x y where "x = int (unat a)" and "y = int (unat b)"
  have 1: "int (unat (seq_inc a)) = x + 1 - 4096 * ((x + 1) div 4096)"
    by (simp only: unat_seq_inc zmod_int of_nat_add x_def of_nat_1 of_nat_numeral
        minus_mult_div_eq_mod)
  have 2: "int (seq_dist b a - 1) = y - x - 4096 * ((y - x) div 4096) - 1"
    using assms by (simp only: of_nat_diff Suc_leI One_nat_def [symmetric] seq_dist_int of_nat_1
        x_def y_def minus_mult_div_eq_mod)
  have "int (unat b) - int (unat (seq_inc a)) - int (seq_dist b a - 1) =
      4096 * ((x + 1) div 4096 + (y - x) div 4096)"
    unfolding 1 2 y_def [symmetric] by (simp only: algebra_simps)
  then show "(int (unat b) - int (unat (seq_inc a)) - int (seq_dist b a - 1)) mod 4096 = 0"
    by (simp only: mod_mult_self1_is_0)
next
  show "seq_dist b a - 1 < 4096" using seq_dist_less [of b a] by linarith
qed

lemma seq_dist_inc_self: "seq_dist (seq_inc a) a = 1"
proof -
  have "int (seq_dist (seq_inc a) a) = ((int (unat a) + 1) mod 4096 - int (unat a)) mod 4096"
    by (simp only: seq_dist_int unat_seq_inc zmod_int of_nat_add of_nat_1 of_nat_numeral)
  also have "\<dots> = (int (unat a) + 1 - int (unat a)) mod 4096" by (rule mod_diff_left_eq)
  finally show ?thesis by simp
qed

lemma seq_dist_trans: "seq_dist s b = (seq_dist h b + seq_dist s h) mod 4096"
proof -
  have "int (seq_dist s b) = (int (seq_dist h b) + int (seq_dist s h)) mod 4096"
    unfolding seq_dist_int by (simp add: mod_add_eq)
  then have "int (seq_dist s b) = int ((seq_dist h b + seq_dist s h) mod 4096)"
    by (simp only: zmod_int of_nat_add of_nat_numeral)
  then show ?thesis by (simp only: of_nat_eq_iff)
qed

lemma seq_dist_add:
  assumes "unat h + unat b < 65536" "unat b \<le> 4096"
  shows "seq_dist s (h + b) = (seq_dist s h + (4096 - unat b)) mod 4096"
proof -
  have "unat (h + b) = unat h + unat b" using assms(1) by (intro unat_add_lt) simp
  then have "int (seq_dist s (h + b)) = (int (unat s) - int (unat h) - int (unat b)) mod 4096"
    by (simp only: seq_dist_int of_nat_add diff_diff_eq)
  also have "\<dots> = (int (unat s) - int (unat h) - int (unat b) + 4096) mod 4096"
    by (simp only: mod_add_self2)
  also have "\<dots> = ((int (unat s) - int (unat h)) + (4096 - int (unat b))) mod 4096"
    by (simp only: algebra_simps)
  also have "\<dots> = (int (seq_dist s h) + (4096 - int (unat b))) mod 4096"
    unfolding seq_dist_int by (simp only: mod_add_left_eq)
  also have "\<dots> = int ((seq_dist s h + (4096 - unat b)) mod 4096)"
    using assms(2) by (simp only: zmod_int of_nat_add of_nat_diff of_nat_numeral)
  finally show ?thesis by (simp only: of_nat_eq_iff)
qed

text \<open>The new head for a frame past the window, and the offset of a frame from a moved head.\<close>

lemma seq_dist_moved:
  assumes "unat h' = (unat h + m) mod 4096" "m \<le> seq_dist s h"
  shows "seq_dist s h' = seq_dist s h - m"
proof -
  have "int (unat h') = (int (unat h) + int m) mod 4096"
    using assms(1) by (simp only: zmod_int of_nat_add of_nat_numeral)
  then have "int (seq_dist s h') = (int (unat s) - int (unat h) - int m) mod 4096"
    by (simp only: seq_dist_int mod_diff_right_eq diff_diff_eq)
  also have "\<dots> = (int (seq_dist s h) - int m) mod 4096"
    unfolding seq_dist_int by (simp only: mod_diff_left_eq)
  also have "\<dots> = int ((seq_dist s h - m) mod 4096)"
    using assms(2) by (simp only: zmod_int of_nat_diff of_nat_numeral)
  finally show ?thesis using seq_dist_less [of s h] by (simp only: of_nat_eq_iff) simp
qed

lemma seq_dist_new_head:
  assumes "unat b \<le> seq_dist s h" "0 < unat b"
  shows "seq_dist (seq_inc (seq_sub s b)) h = seq_dist s h - unat b + 1"
proof -
  have "int (unat (seq_inc (seq_sub s b))) = (int (unat s) - int (unat b) + 1) mod 4096"
    by (simp only: unat_seq_inc unat_seq_sub zmod_int of_nat_add of_nat_1 of_nat_numeral
        seq_dist_int mod_add_left_eq)
  then have "int (seq_dist (seq_inc (seq_sub s b)) h) =
      (int (unat s) - int (unat b) + 1 - int (unat h)) mod 4096"
    by (simp only: seq_dist_int mod_diff_left_eq)
  also have "\<dots> = ((int (unat s) - int (unat h)) + (1 - int (unat b))) mod 4096"
    by (simp only: algebra_simps)
  also have "\<dots> = (int (seq_dist s h) + (1 - int (unat b))) mod 4096"
    unfolding seq_dist_int by (simp only: mod_add_left_eq)
  also have "int (seq_dist s h) + (1 - int (unat b)) = int (seq_dist s h - unat b + 1)"
    using assms(1) by (simp only: of_nat_add of_nat_diff of_nat_1)
  also have "int (seq_dist s h - unat b + 1) mod 4096 = int (seq_dist s h - unat b + 1)"
    using assms seq_dist_less [of s h] by (intro mod_pos_pos_trivial) linarith+
  finally show ?thesis by (simp only: of_nat_eq_iff)
qed

end
