(* ===== verification/Wil_Netif.thy ===== *)
theory Wil_Netif
  imports Wil_Seq
begin

text \<open>
  Handing a received frame to the network stack (\<open>wil_netif_rx_any\<close>, \<^verbatim>\<open>txrx.c\<close>) and
  dropping one. The verdict of \<open>netif_receive_skb\<close> is the kernel's: the parameter \<open>ok\<close> says of
  each frame whether the stack takes it (\<open>NET_RX_SUCCESS\<close>).
\<close>

definition dev_kfree_skb :: "skb_ptr \<Rightarrow> wil6210_priv \<Rightarrow> wil6210_priv" where
  "dev_kfree_skb p w = w\<lparr>skbs := kfree_skb p (skbs w)\<rparr>"

definition count_rx :: "u64 \<Rightarrow> wil_net_stats \<Rightarrow> wil_net_stats" where
  "count_rx len st = st\<lparr>rx_packets := rx_packets st + 1, rx_bytes := rx_bytes st + len\<rparr>"

definition count_rx_drop :: "wil_net_stats \<Rightarrow> wil_net_stats" where
  "count_rx_drop st = st\<lparr>rx_dropped := rx_dropped st + 1\<rparr>"

definition upd_stats :: "nat \<Rightarrow> (wil_net_stats \<Rightarrow> wil_net_stats) \<Rightarrow> wil6210_priv \<Rightarrow> wil6210_priv" where
  "upd_stats cid f w =
     upd_sta cid (\<lambda>s. s\<lparr>sta_stats := f (sta_stats s)\<rparr>)
       (w\<lparr>ndev := (ndev w)\<lparr>nd_stats := f (nd_stats (ndev w))\<rparr>\<rparr>)"

definition wil_netif_rx_any :: "(skb_ptr \<Rightarrow> bool) \<Rightarrow> skb_ptr \<Rightarrow> wil6210_priv \<Rightarrow> wil6210_priv" where
  "wil_netif_rx_any ok skb w =
     (let len = of_nat (skb_len (skbs w skb));
          cid = wil_rxdesc_cid (cb_rx (skbs w skb));
          w = klog_add (NetifReceiveSkb skb) w
      in if ok skb then upd_stats cid (count_rx len) w else upd_stats cid count_rx_drop w)"

text \<open>The frames handed to the stack, in order.\<close>

fun rx_frames :: "kernel_call list \<Rightarrow> skb_ptr list" where
  "rx_frames [] = []"
| "rx_frames (NetifReceiveSkb p # es) = p # rx_frames es"
| "rx_frames (_ # es) = rx_frames es"

lemma rx_frames_append [simp]: "rx_frames (xs @ ys) = rx_frames xs @ rx_frames ys"
  by (induction xs rule: rx_frames.induct) auto

abbreviation delivered :: "wil6210_priv \<Rightarrow> skb_ptr list" where
  "delivered w \<equiv> rx_frames (klog w)"

text \<open>Delivery changes the log and the counters only.\<close>

lemma map_tid_rx_upd_stats [simp]: "map tid_rx (sta (upd_stats cid f w)) = map tid_rx (sta w)"
  by (simp add: upd_stats_def upd_sta_def map_update_id)

lemma map_addr_upd_stats [simp]:
  "map sta_addr (sta (upd_stats cid f w)) = map sta_addr (sta w)"
  "map sta_status (sta (upd_stats cid f w)) = map sta_status (sta w)"
  by (simp_all add: upd_stats_def upd_sta_def map_update_id)

lemma upd_stats_frame [simp]:
  "skbs (upd_stats cid f w) = skbs w" "klog (upd_stats cid f w) = klog w"
  "vring_rx (upd_stats cid f w) = vring_rx w" "vring_tx (upd_stats cid f w) = vring_tx w"
  "vring2cid_tid (upd_stats cid f w) = vring2cid_tid w"
  "length (sta (upd_stats cid f w)) = length (sta w)"
  by (simp_all add: upd_stats_def upd_sta_def)

lemma wil_netif_rx_any_frame [simp]:
  "skbs (wil_netif_rx_any ok p w) = skbs w"
  "klog (wil_netif_rx_any ok p w) = klog w @ [NetifReceiveSkb p]"
  "vring_rx (wil_netif_rx_any ok p w) = vring_rx w"
  "vring_tx (wil_netif_rx_any ok p w) = vring_tx w"
  "map tid_rx (sta (wil_netif_rx_any ok p w)) = map tid_rx (sta w)"
  "length (sta (wil_netif_rx_any ok p w)) = length (sta w)"
  by (simp_all add: wil_netif_rx_any_def klog_add_def Let_def)

lemma dev_kfree_skb_frame [simp]:
  "klog (dev_kfree_skb p w) = klog w" "sta (dev_kfree_skb p w) = sta w"
  "vring_rx (dev_kfree_skb p w) = vring_rx w" "vring_tx (dev_kfree_skb p w) = vring_tx w"
  "skbs (dev_kfree_skb p w) = kfree_skb p (skbs w)"
  by (simp_all add: dev_kfree_skb_def)

text \<open>
  \<open>rx_frame w w'\<close>: a step of the receive path that changes, of the driver state, only the
  counters, the buffers' reference counts and the log.
\<close>

definition rx_frame :: "wil6210_priv \<Rightarrow> wil6210_priv \<Rightarrow> bool" where
  "rx_frame w w' \<longleftrightarrow>
     w' = w\<lparr>sta := sta w', ndev := ndev w', skbs := skbs w', klog := klog w'\<rparr> \<and>
     map tid_rx (sta w') = map tid_rx (sta w) \<and>
     map sta_addr (sta w') = map sta_addr (sta w) \<and>
     map sta_status (sta w') = map sta_status (sta w) \<and>
     nd_type (ndev w') = nd_type (ndev w) \<and>
     (\<forall>p. cb_rx (skbs w' p) = cb_rx (skbs w p))"

lemma rx_frame_refl [simp, intro]: "rx_frame w w"
  by (simp add: rx_frame_def)

lemma rx_frame_trans [trans]: "rx_frame w w1 \<Longrightarrow> rx_frame w1 w2 \<Longrightarrow> rx_frame w w2"
  unfolding rx_frame_def by (cases w, cases w1, cases w2) simp

lemma rx_frame_netif [simp, intro]: "rx_frame w (wil_netif_rx_any ok p w)"
  by (simp add: rx_frame_def wil_netif_rx_any_def klog_add_def upd_stats_def upd_sta_def Let_def
      map_update_id)

lemma rx_frame_kfree [simp, intro]: "rx_frame w (dev_kfree_skb p w)"
  by (simp add: rx_frame_def dev_kfree_skb_def kfree_skb_def)

lemma rx_frame_arrays:
  assumes "rx_frame w w'" "wil_arrays_ok w"
  shows "wil_arrays_ok w'"
proof -
  have 1: "map tid_rx (sta w') = map tid_rx (sta w)" "map sta_addr (sta w') = map sta_addr (sta w)"
    "w' = w\<lparr>sta := sta w', ndev := ndev w', skbs := skbs w', klog := klog w'\<rparr>"
    using assms(1) by (auto simp: rx_frame_def)
  have P: "(\<forall>s \<in> set (sta v). length (tid_rx s) = WIL_STA_TID_NUM \<and> length (sta_addr s) = 6) \<longleftrightarrow>
      (\<forall>t \<in> set (map tid_rx (sta v)). length t = WIL_STA_TID_NUM) \<and>
      (\<forall>a \<in> set (map sta_addr (sta v)). length a = 6)" for v
    by auto
  have "(\<forall>s \<in> set (sta w'). length (tid_rx s) = WIL_STA_TID_NUM \<and> length (sta_addr s) = 6) \<longleftrightarrow>
      (\<forall>s \<in> set (sta w). length (tid_rx s) = WIL_STA_TID_NUM \<and> length (sta_addr s) = 6)"
    by (simp only: P 1(1,2))
  moreover have "vring_tx w' = vring_tx w" "vring_txdata w' = vring_txdata w"
    "vring2cid_tid w' = vring2cid_tid w"
    by (subst 1(3), simp)+
  ultimately show ?thesis
    using assms(2) map_eq_imp_length_eq [OF 1(1)] by (simp add: wil_arrays_ok_def)
qed

lemma rx_frame_tid_rx:
  assumes "rx_frame w w'"
  shows "length (sta w') = length (sta w)"
    and "cid < length (sta w) \<Longrightarrow> tid_rx (sta w' ! cid) = tid_rx (sta w ! cid)"
proof -
  have 1: "map tid_rx (sta w') = map tid_rx (sta w)" using assms by (simp add: rx_frame_def)
  then show 2: "length (sta w') = length (sta w)" by (rule map_eq_imp_length_eq)
  show "tid_rx (sta w' ! cid) = tid_rx (sta w ! cid)" if "cid < length (sta w)"
    using 1 2 that by (metis nth_map)
qed

end
