(* ===== verification/Wil_Reorder.thy ===== *)
theory Wil_Reorder
  imports Wil_Netif
begin

text \<open>
  The Rx reorder buffer of \<^verbatim>\<open>rx_reorder.c\<close>: per peer and traffic identifier, the frames
  of a block acknowledgement session are put back into sequence order before they go to the
  stack. The operations work on the driver state and the buffer \<open>r\<close> the C code has a pointer to;
  the result \<open>None\<close> is a crash of the kernel (a division by zero or an access outside the array).
\<close>

subsection \<open>Operations\<close>

definition reorder_index :: "wil_tid_ampdu_rx \<Rightarrow> u16 \<Rightarrow> nat option" where
  "reorder_index r seq =
     (if buf_size r = 0 then None else Some (unat (seq_sub seq (ssn r)) mod unat (buf_size r)))"

text \<open>The array access \<open>r->reorder_buf[index]\<close>.\<close>

definition reorder_slot :: "wil_tid_ampdu_rx \<Rightarrow> nat \<Rightarrow> skb_ptr option option" where
  "reorder_slot r index =
     (if index < length (reorder_buf r) then Some (reorder_buf r ! index) else None)"

definition wil_release_reorder_frame ::
  "(skb_ptr \<Rightarrow> bool) \<Rightarrow> wil6210_priv \<times> wil_tid_ampdu_rx \<Rightarrow> nat
     \<Rightarrow> (wil6210_priv \<times> wil_tid_ampdu_rx) option" where
  "wil_release_reorder_frame ok wr index =
     (case wr of (w, r) \<Rightarrow>
       (case reorder_slot r index of
         None \<Rightarrow> None
       | Some None \<Rightarrow> Some (w, r\<lparr>head_seq_num := seq_inc (head_seq_num r)\<rparr>)
       | Some (Some skb) \<Rightarrow>
           Some (wil_netif_rx_any ok skb w,
             r\<lparr>stored_mpdu_num := stored_mpdu_num r - 1,
               reorder_buf := (reorder_buf r)[index := None],
               head_seq_num := seq_inc (head_seq_num r)\<rparr>)))"

lemma release_frame_head:
  "wil_release_reorder_frame ok wr index = Some wr' \<Longrightarrow>
     head_seq_num (snd wr') = seq_inc (head_seq_num (snd wr))"
  by (cases wr) (auto simp: wil_release_reorder_frame_def split: option.splits)

function wil_release_reorder_frames ::
  "(skb_ptr \<Rightarrow> bool) \<Rightarrow> u16 \<Rightarrow> wil6210_priv \<times> wil_tid_ampdu_rx
     \<Rightarrow> (wil6210_priv \<times> wil_tid_ampdu_rx) option" where
  "wil_release_reorder_frames ok hseq wr =
     (if seq_less (head_seq_num (snd wr)) hseq then
        (case reorder_index (snd wr) (head_seq_num (snd wr)) of
          None \<Rightarrow> None
        | Some index \<Rightarrow>
            (case wil_release_reorder_frame ok wr index of
              None \<Rightarrow> None
            | Some wr' \<Rightarrow> wil_release_reorder_frames ok hseq wr'))
      else Some wr)"
  by pat_completeness auto
termination
proof (relation "measure (\<lambda>(ok, hseq, wr). seq_dist hseq (head_seq_num (snd wr)))", goal_cases)
  case 1
  show ?case by simp
next
  case (2 ok hseq wr index wr')
  then show ?case
    using seq_dist_inc [of hseq "head_seq_num (snd wr)"]
    by (auto simp: seq_less_ahead dest!: release_frame_head)
qed

function wil_reorder_release ::
  "(skb_ptr \<Rightarrow> bool) \<Rightarrow> wil6210_priv \<times> wil_tid_ampdu_rx
     \<Rightarrow> (wil6210_priv \<times> wil_tid_ampdu_rx) option" where
  "wil_reorder_release ok wr =
     (case reorder_index (snd wr) (head_seq_num (snd wr)) of
       None \<Rightarrow> None
     | Some index \<Rightarrow>
         (case reorder_slot (snd wr) index of
           None \<Rightarrow> None
         | Some None \<Rightarrow> Some wr
         | Some (Some skb) \<Rightarrow>
             (case wil_release_reorder_frame ok wr index of
               None \<Rightarrow> None
             | Some wr' \<Rightarrow> wil_reorder_release ok wr')))"
  by pat_completeness auto
termination
proof (relation "measure (\<lambda>(ok, wr). length (somes (reorder_buf (snd wr))))", goal_cases)
  case 1
  show ?case by simp
next
  case (2 ok wr index slot skb wr')
  then have "index < length (reorder_buf (snd wr))" "reorder_buf (snd wr) ! index = Some skb"
    by (auto simp: reorder_slot_def split: if_splits)
  moreover from this 2 have "reorder_buf (snd wr') = (reorder_buf (snd wr))[index := None]"
    by (cases wr) (auto simp: wil_release_reorder_frame_def reorder_slot_def)
  ultimately show ?case
    using length_somes_clear [of index "reorder_buf (snd wr)" skb] by simp
qed

declare wil_release_reorder_frames.simps [simp del] wil_reorder_release.simps [simp del]

text \<open>The part of \<open>wil_rx_reorder\<close> under the reorder lock.\<close>

definition wil_rx_reorder_locked ::
  "(skb_ptr \<Rightarrow> bool) \<Rightarrow> u64 \<Rightarrow> skb_ptr \<Rightarrow> u16 \<Rightarrow> wil6210_priv \<times> wil_tid_ampdu_rx
     \<Rightarrow> (wil6210_priv \<times> wil_tid_ampdu_rx) option" where
  "wil_rx_reorder_locked ok jiffies skb seq wr =
     (case wr of (w, r) \<Rightarrow>
       if seq_less seq (head_seq_num r)
       then Some (dev_kfree_skb skb w, r\<lparr>ssn_last_drop := seq\<rparr>)
       else do {
         (w, r) \<leftarrow>
           (if \<not> seq_less seq (head_seq_num r + buf_size r)
            then wil_release_reorder_frames ok (seq_inc (seq_sub seq (buf_size r))) (w, r)
            else Some (w, r));
         index \<leftarrow> reorder_index r seq;
         slot \<leftarrow> reorder_slot r index;
         if slot \<noteq> None then Some (dev_kfree_skb skb w, r)
         else if seq = head_seq_num r \<and> stored_mpdu_num r = 0
         then Some (wil_netif_rx_any ok skb w, r\<lparr>head_seq_num := seq_inc (head_seq_num r)\<rparr>)
         else wil_reorder_release ok (w,
                r\<lparr>reorder_buf := (reorder_buf r)[index := Some skb],
                  reorder_time := (reorder_time r)[index := jiffies],
                  stored_mpdu_num := stored_mpdu_num r + 1\<rparr>)
       })"

definition wil_rx_reorder ::
  "(skb_ptr \<Rightarrow> bool) \<Rightarrow> u64 \<Rightarrow> skb_ptr \<Rightarrow> wil6210_priv \<Rightarrow> wil6210_priv option" where
  "wil_rx_reorder ok jiffies skb w =
     (let d = cb_rx (skbs w skb);
          tid = wil_rxdesc_tid d;
          cid = wil_rxdesc_cid d;
          seq = of_nat (wil_rxdesc_seq d)
      in case tid_rx (sta w ! cid) ! tid of
           None \<Rightarrow> Some (wil_netif_rx_any ok skb w)
         | Some r \<Rightarrow> do {
             (w, r) \<leftarrow> wil_rx_reorder_locked ok jiffies skb seq (w, r);
             Some (set_tid_rx cid tid (Some r) w)
           })"

text \<open>
  Allocation: the results of the three \<open>kzalloc\<close>/\<open>kcalloc\<close> calls are parameters. The size is
  stored in a \<open>u16\<close>.
\<close>

definition wil_tid_ampdu_rx_alloc :: "bool \<Rightarrow> bool \<Rightarrow> bool \<Rightarrow> nat \<Rightarrow> u16 \<Rightarrow> wil_tid_ampdu_rx option" where
  "wil_tid_ampdu_rx_alloc r_mem buf_mem time_mem sz ssn0 =
     (if \<not> r_mem then None
      else if \<not> buf_mem \<or> \<not> time_mem then None
      else Some \<lparr>reorder_buf = replicate sz None, reorder_time = replicate sz 0,
             head_seq_num = ssn0, stored_mpdu_num = 0, ssn = ssn0, buf_size = of_nat sz,
             ssn_last_drop = 0\<rparr>)"

definition wil_tid_ampdu_rx_free ::
  "(skb_ptr \<Rightarrow> bool) \<Rightarrow> wil_tid_ampdu_rx option \<Rightarrow> wil6210_priv \<Rightarrow> wil6210_priv option" where
  "wil_tid_ampdu_rx_free ok r w =
     (case r of
       None \<Rightarrow> Some w
     | Some r \<Rightarrow> do {
         (w, _) \<leftarrow> wil_release_reorder_frames ok (head_seq_num r + buf_size r) (w, r);
         Some w
       })"

end
