(* ===== verification/Wil_Reorder_Correct.thy ===== *)
theory Wil_Reorder_Correct
  imports Wil_Reorder
begin

text \<open>
  Correctness of the reorder buffer. \<open>reorder_safe\<close> is the representation invariant every
  operation keeps for any buffer size; \<open>reorder_ok\<close> adds what makes the window exact (a size that
  divides the sequence space). The buffer is abstracted to its \<open>window\<close>, the list of slots from
  the head sequence number on, and the operations are shown to be shifts of that list.
\<close>

subsection \<open>The representation invariant\<close>

definition reorder_safe :: "wil_tid_ampdu_rx \<Rightarrow> bool" where
  "reorder_safe r \<longleftrightarrow>
     buf_size r \<noteq> 0 \<and> length (reorder_buf r) = unat (buf_size r) \<and>
     unat (stored_mpdu_num r) = length (somes (reorder_buf r))"

lemma reorder_safeD:
  assumes "reorder_safe r"
  shows "0 < unat (buf_size r)" "reorder_buf r \<noteq> []"
  using assms unsigned_eq_0_iff [of "buf_size r"] by (auto simp: reorder_safe_def)

lemma reorder_index_safe:
  assumes "reorder_safe r"
  shows "reorder_index r s = Some (seq_dist s (ssn r) mod length (reorder_buf r))"
    and "seq_dist s (ssn r) mod length (reorder_buf r) < length (reorder_buf r)"
  using assms reorder_safeD [OF assms] by (auto simp: reorder_index_def unat_seq_sub reorder_safe_def)

lemma reorder_slot_safe [simp]:
  "i < length (reorder_buf r) \<Longrightarrow> reorder_slot r i = Some (reorder_buf r ! i)"
  by (simp add: reorder_slot_def)

text \<open>Clearing and filling a slot keep the invariant with the counter moved by one.\<close>

lemma reorder_safe_clear:
  assumes "reorder_safe r" "i < length (reorder_buf r)" "reorder_buf r ! i = Some s"
  shows "reorder_safe (r\<lparr>stored_mpdu_num := stored_mpdu_num r - 1,
           reorder_buf := (reorder_buf r)[i := None], head_seq_num := h\<rparr>)"
proof -
  have "unat (stored_mpdu_num r) = Suc (length (somes ((reorder_buf r)[i := None])))"
    using assms length_somes_clear [of i "reorder_buf r" s] by (simp add: reorder_safe_def)
  moreover from this have "unat (stored_mpdu_num r - 1) = unat (stored_mpdu_num r) - 1"
    by (intro unat_minus_one) auto
  ultimately show ?thesis using assms(1) by (simp add: reorder_safe_def)
qed

lemma reorder_safe_fill:
  assumes "reorder_safe r" "i < length (reorder_buf r)" "reorder_buf r ! i = None"
  shows "reorder_safe (r\<lparr>reorder_buf := (reorder_buf r)[i := Some s], reorder_time := t,
           stored_mpdu_num := stored_mpdu_num r + 1\<rparr>)"
proof -
  have "unat (stored_mpdu_num r) < unat (buf_size r)"
    using assms somes_less_length [of i "reorder_buf r"] by (simp add: reorder_safe_def)
  then have "unat (stored_mpdu_num r + 1) = unat (stored_mpdu_num r) + 1"
    using unat_u16_bound [of "buf_size r"] unat_add_lt [of "stored_mpdu_num r" 1] by simp
  then show ?thesis
    using assms length_somes_set [of i "reorder_buf r" s] by (simp add: reorder_safe_def)
qed

lemma release_frame_safe:
  assumes "reorder_safe r" "i < length (reorder_buf r)"
  shows "\<exists>w' r'. wil_release_reorder_frame ok (w, r) i = Some (w', r') \<and> reorder_safe r'"
  using assms
  by (cases "reorder_buf r ! i")
    (auto simp: wil_release_reorder_frame_def reorder_safe_clear, simp add: reorder_safe_def)

lemma release_frames_safe:
  "reorder_safe (snd wr) \<Longrightarrow>
     \<exists>w' r'. wil_release_reorder_frames ok hseq wr = Some (w', r') \<and> reorder_safe r'"
proof (induction ok hseq wr rule: wil_release_reorder_frames.induct)
  case (1 ok hseq wr)
  obtain w r where wr: "wr = (w, r)" by (cases wr)
  let ?i = "seq_dist (head_seq_num r) (ssn r) mod length (reorder_buf r)"
  obtain w1 r1 where 1: "wil_release_reorder_frame ok (w, r) ?i = Some (w1, r1)" "reorder_safe r1"
    using release_frame_safe reorder_index_safe(2) "1.prems" by (metis snd_conv wr)
  show ?case
  proof (cases "seq_less (head_seq_num r) hseq")
    case True
    with 1 "1.IH" [of ?i "(w1, r1)"] "1.prems" show ?thesis
      by (simp add: wil_release_reorder_frames.simps [of ok hseq "(w, r)"] wr reorder_index_safe(1))
  next
    case False
    with "1.prems" show ?thesis
      by (simp add: wil_release_reorder_frames.simps [of ok hseq "(w, r)"] wr)
  qed
qed

lemma reorder_release_safe:
  "reorder_safe (snd wr) \<Longrightarrow>
     \<exists>w' r'. wil_reorder_release ok wr = Some (w', r') \<and> reorder_safe r'"
proof (induction ok wr rule: wil_reorder_release.induct)
  case (1 ok wr)
  obtain w r where wr: "wr = (w, r)" by (cases wr)
  let ?i = "seq_dist (head_seq_num r) (ssn r) mod length (reorder_buf r)"
  have i: "reorder_index r (head_seq_num r) = Some ?i" "?i < length (reorder_buf r)"
    using "1.prems" by (simp_all add: wr reorder_index_safe)
  obtain w1 r1 where 1: "wil_release_reorder_frame ok (w, r) ?i = Some (w1, r1)" "reorder_safe r1"
    using release_frame_safe i(2) "1.prems" by (metis snd_conv wr)
  show ?case
  proof (cases "reorder_buf r ! ?i")
    case None
    then show ?thesis
      using i "1.prems" by (simp add: wil_reorder_release.simps [of ok "(w, r)"] wr)
  next
    case (Some skb)
    with 1 i "1.IH" [of ?i "Some skb" skb "(w1, r1)"] "1.prems" show ?thesis
      by (simp add: wil_reorder_release.simps [of ok "(w, r)"] wr)
  qed
qed

lemma rx_reorder_locked_safe:
  assumes "reorder_safe r"
  shows "\<exists>w' r'. wil_rx_reorder_locked ok jf skb seq (w, r) = Some (w', r') \<and> reorder_safe r'"
proof (cases "seq_less seq (head_seq_num r)")
  case True
  then show ?thesis using assms by (simp add: wil_rx_reorder_locked_def reorder_safe_def)
next
  case False
  obtain w1 r1 where 1: "(if \<not> seq_less seq (head_seq_num r + buf_size r)
      then wil_release_reorder_frames ok (seq_inc (seq_sub seq (buf_size r))) (w, r)
      else Some (w, r)) = Some (w1, r1)" "reorder_safe r1"
    using release_frames_safe [of "(w, r)" ok "seq_inc (seq_sub seq (buf_size r))"] assms
    by (cases "seq_less seq (head_seq_num r + buf_size r)") auto
  note i = reorder_index_safe [OF 1(2), of seq]
  show ?thesis
    using False 1 i reorder_safe_fill [OF 1(2) i(2)]
      reorder_release_safe [of "(w1, r1\<lparr>reorder_buf := (reorder_buf r1)
        [seq_dist seq (ssn r1) mod length (reorder_buf r1) := Some skb],
        reorder_time := (reorder_time r1)
        [seq_dist seq (ssn r1) mod length (reorder_buf r1) := jf],
        stored_mpdu_num := stored_mpdu_num r1 + 1\<rparr>)"]
    by (auto simp: wil_rx_reorder_locked_def reorder_safe_def)
qed

text \<open>A session of size 0 is not safe: every frame that is not stale divides by zero.\<close>

lemma rx_reorder_locked_size_zero:
  assumes "buf_size r = 0" "\<not> seq_less seq (head_seq_num r)"
  shows "wil_rx_reorder_locked ok jf skb seq (w, r) = None"
proof -
  have "wil_release_reorder_frames ok h (w, r) = None \<or>
      wil_release_reorder_frames ok h (w, r) = Some (w, r)" for h
    using assms(1) by (simp add: wil_release_reorder_frames.simps [of ok h "(w, r)"] reorder_index_def)
  from this [of "seq_inc (seq_sub seq 0)"] show ?thesis
    using assms by (elim disjE) (simp_all add: wil_rx_reorder_locked_def reorder_index_def)
qed

end
