(* ===== verification/Wil_Reorder_Window.thy ===== *)
theory Wil_Reorder_Window
  imports Wil_Reorder_Correct
begin

text \<open>
  The abstract specification of the reorder buffer and the proof that the code implements it.
  Abstractly the buffer is a window: the list of its slots, the first for the head sequence
  number, the next for its successor and so on. Moving the head by \<open>m\<close> hands out the frames of the
  first \<open>m\<close> slots and appends empty ones.
\<close>

subsection \<open>Specification\<close>

definition spec_shift :: "nat \<Rightarrow> 'a option list \<Rightarrow> 'a list \<times> 'a option list" where
  "spec_shift m win = (somes (take m win), drop m win @ replicate (min m (length win)) None)"

definition leading :: "'a option list \<Rightarrow> nat" where
  "leading win = length (takeWhile (\<lambda>x. x \<noteq> None) win)"

text \<open>
  A frame \<open>k\<close> ahead of the head (modulo 4096) is stale when \<open>k > 2048\<close>; otherwise the window is
  moved to include it, the frame is stored unless its slot is taken, and the frames at the front
  without a gap are handed out. The result is the frames handed out, the new window, the number of
  steps the head moved, and whether the frame was dropped.
\<close>

definition spec_rx :: "nat \<Rightarrow> 'a \<Rightarrow> 'a option list \<Rightarrow> 'a list \<times> 'a option list \<times> nat \<times> bool" where
  "spec_rx k x win =
     (if 2048 < k then ([], win, 0, True)
      else let m = (if k < length win then 0 else k - length win + 1);
               (ds, win1) = spec_shift m win
           in if win1 ! (k - m) \<noteq> None then (ds, win1, m, True)
              else let win2 = win1[k - m := Some x];
                       (ds', win3) = spec_shift (leading win2) win2
                   in (ds @ ds', win3, m + leading win2, False))"

lemma spec_shift_0 [simp]: "spec_shift 0 win = ([], win)"
  by (simp add: spec_shift_def)

lemma spec_shift_length [simp]: "length (snd (spec_shift m win)) = length win"
  by (auto simp: spec_shift_def)

lemma somes_Cons: "somes (x # xs) = somes [x] @ somes xs"
  by (cases x) simp_all

lemma spec_shift_Suc:
  assumes "win \<noteq> []"
  shows "spec_shift (Suc m) win =
     (somes (take 1 win) @ fst (spec_shift m (tl win @ [None])), snd (spec_shift m (tl win @ [None])))"
proof (cases win)
  case (Cons x xs)
  have 1: "somes (take m (xs @ [None])) = somes (take m xs)"
    by (cases "m - length xs") simp_all
  have 2: "drop m (xs @ [None]) @ replicate (min m (Suc (length xs))) None =
      drop m xs @ replicate (min (Suc m) (Suc (length xs))) None"
  proof (cases "m \<le> length xs")
    case True
    then show ?thesis by (simp add: min_def flip: replicate_Suc)
  qed simp
  show ?thesis unfolding spec_shift_def Cons using 1 2 somes_Cons [of x "take m xs"] by simp
qed (use assms in simp)

lemma leading_Cons [simp]:
  "leading [] = 0" "leading (None # xs) = 0" "leading (Some x # xs) = Suc (leading xs)"
  by (simp_all add: leading_def)

lemma leading_append_None [simp]: "leading (xs @ [None]) = leading xs"
  by (induction xs) (auto simp: leading_def)

lemma leading_le: "leading xs \<le> length xs"
  by (simp add: leading_def length_takeWhile_le)

subsection \<open>The window of a buffer\<close>

definition reorder_ok :: "wil_tid_ampdu_rx \<Rightarrow> bool" where
  "reorder_ok r \<longleftrightarrow>
     reorder_safe r \<and> 2 \<le> unat (buf_size r) \<and> unat (buf_size r) dvd 4096 \<and>
     unat (buf_size r) < 2048 \<and> unat (head_seq_num r) < 4096"

definition window :: "wil_tid_ampdu_rx \<Rightarrow> skb_ptr option list" where
  "window r = rotate (seq_dist (head_seq_num r) (ssn r)) (reorder_buf r)"

lemma reorder_okD:
  assumes "reorder_ok r"
  shows "reorder_safe r" "length (reorder_buf r) = unat (buf_size r)"
    "length (window r) = unat (buf_size r)" "window r \<noteq> []" "reorder_buf r \<noteq> []"
    "unat (stored_mpdu_num r) = length (somes (window r))"
proof -
  show 1: "reorder_safe r" using assms by (simp add: reorder_ok_def)
  then show 2: "length (reorder_buf r) = unat (buf_size r)" by (simp add: reorder_safe_def)
  then show "length (window r) = unat (buf_size r)" by (simp add: window_def)
  show 3: "reorder_buf r \<noteq> []" using 1 by (rule reorder_safeD)
  then show "window r \<noteq> []" by (simp add: window_def)
  have "length (somes (window r)) = length (somes (reorder_buf r))"
    unfolding window_def by (metis mset_somes_rotate size_mset)
  then show "unat (stored_mpdu_num r) = length (somes (window r))"
    using 1 by (simp add: reorder_safe_def)
qed

text \<open>The slot of a sequence number is its place in the window, because the size divides 4096.\<close>

lemma dist_shift_mod:
  assumes "n dvd 4096"
  shows "seq_dist s b mod n = (seq_dist h b + seq_dist s h) mod n"
  using assms by (simp only: seq_dist_trans [of s b h] mod_mod_cancel)

lemma reorder_index_window:
  assumes "reorder_ok r"
  shows "reorder_index r s =
     Some ((seq_dist (head_seq_num r) (ssn r) + seq_dist s (head_seq_num r)) mod length (reorder_buf r))"
proof -
  have "unat (buf_size r) dvd 4096" using assms by (simp add: reorder_ok_def)
  then show ?thesis
    by (simp only: reorder_index_safe(1) reorder_okD [OF assms]
        dist_shift_mod [of _ s "ssn r" "head_seq_num r"])
qed

lemma window_nth:
  assumes "reorder_ok r" "k < unat (buf_size r)"
  shows "window r ! k = reorder_buf r ! ((seq_dist (head_seq_num r) (ssn r) + k) mod length (reorder_buf r))"
  using assms by (simp add: window_def nth_rotate reorder_okD)

lemma reorder_head_slot:
  assumes "reorder_ok r"
  shows "reorder_index r (head_seq_num r) =
      Some (seq_dist (head_seq_num r) (ssn r) mod length (reorder_buf r))"
    and "reorder_buf r ! (seq_dist (head_seq_num r) (ssn r) mod length (reorder_buf r)) = window r ! 0"
    and "seq_dist (head_seq_num r) (ssn r) mod length (reorder_buf r) < length (reorder_buf r)"
  using reorder_index_window [OF assms, of "head_seq_num r"] window_nth [OF assms, of 0] assms
  by (simp_all add: reorder_okD reorder_ok_def)

text \<open>Moving the head by one after clearing its slot is a shift of the window by one.\<close>

lemma window_advance:
  assumes "reorder_ok r"
  shows "window (r\<lparr>reorder_buf := (reorder_buf r)
      [seq_dist (head_seq_num r) (ssn r) mod length (reorder_buf r) := None],
      head_seq_num := seq_inc (head_seq_num r), stored_mpdu_num := c\<rparr>) = tl (window r) @ [None]"
proof -
  let ?d = "seq_dist (head_seq_num r) (ssn r)" and ?n = "length (reorder_buf r)"
  let ?b = "(reorder_buf r)[?d mod ?n := None]"
  have "?n dvd 4096" using assms by (simp add: reorder_ok_def reorder_safe_def)
  then have "seq_dist (seq_inc (head_seq_num r)) (ssn r) mod ?n = Suc ?d mod ?n"
    using dist_shift_mod [of ?n "seq_inc (head_seq_num r)" "ssn r" "head_seq_num r"]
    by (simp add: seq_dist_inc_self)
  then have "rotate (seq_dist (seq_inc (head_seq_num r)) (ssn r)) ?b = rotate (Suc ?d) ?b"
    using rotate_conv_mod [of "Suc ?d" ?b]
      rotate_conv_mod [of "seq_dist (seq_inc (head_seq_num r)) (ssn r)" ?b] by simp
  then show ?thesis using rotate_step [of "reorder_buf r" ?d None] assms
    by (simp add: window_def reorder_okD)
qed

lemma window_fill:
  assumes "reorder_ok r" "k < unat (buf_size r)"
  shows "window (r\<lparr>reorder_buf := (reorder_buf r)
      [(seq_dist (head_seq_num r) (ssn r) + k) mod length (reorder_buf r) := x],
      reorder_time := t, stored_mpdu_num := c\<rparr>) = (window r)[k := x]"
  using assms rotate_update [of k "reorder_buf r"] by (simp add: window_def reorder_okD)

subsection \<open>Refinement\<close>

text \<open>
  \<open>advances w r ds m w' r'\<close>: a step from \<open>(w, r)\<close> to \<open>(w', r')\<close> that handed the frames \<open>ds\<close> to the
  stack and moved the head by \<open>m\<close>, and touched nothing else of the peers and the frames.
\<close>

definition advances ::
  "wil6210_priv \<Rightarrow> wil_tid_ampdu_rx \<Rightarrow> skb_ptr list \<Rightarrow> nat \<Rightarrow> wil6210_priv \<Rightarrow> wil_tid_ampdu_rx \<Rightarrow> bool" where
  "advances w r ds m w' r' \<longleftrightarrow>
     delivered w' = delivered w @ ds \<and> skbs w' = skbs w \<and>
     map tid_rx (sta w') = map tid_rx (sta w) \<and>
     unat (head_seq_num r') = (unat (head_seq_num r) + m) mod 4096 \<and>
     ssn r' = ssn r \<and> buf_size r' = buf_size r \<and> reorder_ok r'"

lemma advances_refl: "reorder_ok r \<Longrightarrow> advances w r [] 0 w r"
  by (simp add: advances_def reorder_ok_def)

lemma advances_trans:
  "advances w r ds m w1 r1 \<Longrightarrow> advances w1 r1 ds' m' w2 r2 \<Longrightarrow> advances w r (ds @ ds') (m + m') w2 r2"
  by (simp add: advances_def mod_add_left_eq add.assoc [symmetric])

lemma advance_empty:
  assumes "reorder_ok r" "window r ! 0 = None"
  shows "window (r\<lparr>head_seq_num := seq_inc (head_seq_num r)\<rparr>) = tl (window r) @ [None]"
    and "reorder_ok (r\<lparr>head_seq_num := seq_inc (head_seq_num r)\<rparr>)"
proof -
  have "(reorder_buf r)[seq_dist (head_seq_num r) (ssn r) mod length (reorder_buf r) := None] =
      reorder_buf r"
    using reorder_head_slot(2) [OF assms(1)] assms(2) by (metis list_update_id)
  then show "window (r\<lparr>head_seq_num := seq_inc (head_seq_num r)\<rparr>) = tl (window r) @ [None]"
    using window_advance [OF assms(1), of "stored_mpdu_num r"] by simp
  show "reorder_ok (r\<lparr>head_seq_num := seq_inc (head_seq_num r)\<rparr>)"
    using assms(1) by (simp add: reorder_ok_def reorder_safe_def seq_inc_bound)
qed

lemma release_head_frame:
  assumes "reorder_ok r"
  defines "i \<equiv> seq_dist (head_seq_num r) (ssn r) mod length (reorder_buf r)"
  shows "\<exists>w' r'. wil_release_reorder_frame ok (w, r) i = Some (w', r') \<and>
     advances w r (somes (take 1 (window r))) 1 w' r' \<and> window r' = tl (window r) @ [None]"
proof -
  have i: "i < length (reorder_buf r)" "reorder_buf r ! i = window r ! 0"
    using reorder_head_slot [OF assms(1)] by (simp_all add: i_def)
  have w0: "take 1 (window r) = [window r ! 0]"
    using reorder_okD(4) [OF assms(1)] by (cases "window r") simp_all
  note safe = reorder_okD(1) [OF assms(1)]
  show ?thesis
  proof (cases "window r ! 0")
    case None
    then show ?thesis
      using i w0 advance_empty [OF assms(1)]
      by (simp add: wil_release_reorder_frame_def advances_def unat_seq_inc)
  next
    case (Some skb)
    let ?r = "r\<lparr>stored_mpdu_num := stored_mpdu_num r - 1, reorder_buf := (reorder_buf r)[i := None],
      head_seq_num := seq_inc (head_seq_num r)\<rparr>"
    have "window ?r = tl (window r) @ [None]"
      using window_advance [OF assms(1), of "stored_mpdu_num r - 1"]
      by (simp add: i_def window_def)
    moreover have "reorder_ok ?r"
      using assms(1) reorder_safe_clear [OF safe i(1), of skb] i Some
      by (simp add: reorder_ok_def seq_inc_bound)
    ultimately show ?thesis
      using Some i w0 by (simp add: wil_release_reorder_frame_def advances_def unat_seq_inc)
  qed
qed

lemma release_frames_window:
  "reorder_ok r \<Longrightarrow> seq_dist hseq (head_seq_num r) = m \<Longrightarrow> m < 2048 \<Longrightarrow>
     \<exists>w' r'. wil_release_reorder_frames ok hseq (w, r) = Some (w', r') \<and>
       advances w r (fst (spec_shift m (window r))) m w' r' \<and>
       window r' = snd (spec_shift m (window r))"
proof (induction m arbitrary: w r)
  case 0
  then show ?case
    by (simp add: wil_release_reorder_frames.simps [of ok hseq "(w, r)"] seq_less_ahead advances_refl)
next
  case (Suc m)
  let ?i = "seq_dist (head_seq_num r) (ssn r) mod length (reorder_buf r)"
  obtain w1 r1 where 1: "wil_release_reorder_frame ok (w, r) ?i = Some (w1, r1)"
    "advances w r (somes (take 1 (window r))) 1 w1 r1" "window r1 = tl (window r) @ [None]"
    using release_head_frame [OF Suc.prems(1)] by blast
  have "head_seq_num r1 = seq_inc (head_seq_num r)"
    using release_frame_head [OF 1(1)] by simp
  then have "seq_dist hseq (head_seq_num r1) = m"
    using seq_dist_inc [of hseq "head_seq_num r"] Suc.prems(2) by simp
  then obtain w2 r2 where 2: "wil_release_reorder_frames ok hseq (w1, r1) = Some (w2, r2)"
    "advances w1 r1 (fst (spec_shift m (window r1))) m w2 r2"
    "window r2 = snd (spec_shift m (window r1))"
    using Suc.IH [of r1 w1] 1(2) Suc.prems(3) by (auto simp: advances_def)
  show ?case
    using advances_trans [OF 1(2) 2(2)] 1 2 Suc.prems
    by (simp add: wil_release_reorder_frames.simps [of ok hseq "(w, r)"] seq_less_ahead
        reorder_head_slot spec_shift_Suc reorder_okD)
qed

lemma reorder_release_window:
  "reorder_ok r \<Longrightarrow> leading (window r) = m \<Longrightarrow>
     \<exists>w' r'. wil_reorder_release ok (w, r) = Some (w', r') \<and>
       advances w r (fst (spec_shift m (window r))) m w' r' \<and>
       window r' = snd (spec_shift m (window r))"
proof (induction m arbitrary: w r)
  case 0
  then have "window r ! 0 = None"
    using reorder_okD(4) [OF "0.prems"(1)] by (cases "window r"; cases "hd (window r)") auto
  with 0 show ?case
    by (simp add: wil_reorder_release.simps [of ok "(w, r)"] reorder_head_slot advances_refl)
next
  case (Suc m)
  let ?i = "seq_dist (head_seq_num r) (ssn r) mod length (reorder_buf r)"
  obtain x xs where win: "window r = Some x # xs"
    using Suc.prems(2) by (cases "window r"; cases "hd (window r)") auto
  obtain w1 r1 where 1: "wil_release_reorder_frame ok (w, r) ?i = Some (w1, r1)"
    "advances w r (somes (take 1 (window r))) 1 w1 r1" "window r1 = tl (window r) @ [None]"
    using release_head_frame [OF Suc.prems(1)] by blast
  then have "leading (window r1) = m" using Suc.prems(2) by (simp add: win)
  then obtain w2 r2 where 2: "wil_reorder_release ok (w1, r1) = Some (w2, r2)"
    "advances w1 r1 (fst (spec_shift m (window r1))) m w2 r2"
    "window r2 = snd (spec_shift m (window r1))"
    using Suc.IH [of r1 w1] 1(2) by (auto simp: advances_def)
  show ?case
    using advances_trans [OF 1(2) 2(2)] 1 2 Suc.prems
    by (simp add: wil_reorder_release.simps [of ok "(w, r)"] reorder_head_slot win spec_shift_Suc
        reorder_okD(4))
qed

text \<open>Making room for a frame that is not stale, and finding its slot.\<close>

lemma seq_in_window:
  assumes "reorder_ok r" "seq_dist s (head_seq_num r) \<le> 2048"
  shows "seq_less s (head_seq_num r + buf_size r) \<longleftrightarrow>
    seq_dist s (head_seq_num r) < unat (buf_size r)"
proof -
  have n: "unat (buf_size r) < 2048" "2 \<le> unat (buf_size r)" "unat (head_seq_num r) < 4096"
    using assms(1) by (simp_all add: reorder_ok_def)
  have "seq_dist s (head_seq_num r + buf_size r) =
      (seq_dist s (head_seq_num r) + (4096 - unat (buf_size r))) mod 4096"
    using n by (intro seq_dist_add) simp_all
  moreover have "(seq_dist s (head_seq_num r) + (4096 - unat (buf_size r))) mod 4096 =
      seq_dist s (head_seq_num r) - unat (buf_size r)"
    if "unat (buf_size r) \<le> seq_dist s (head_seq_num r)"
  proof -
    have "seq_dist s (head_seq_num r) + (4096 - unat (buf_size r)) =
        (seq_dist s (head_seq_num r) - unat (buf_size r)) + 4096"
      using that n by linarith
    then show ?thesis using assms(2) by (simp only: mod_add_self2) simp
  qed
  ultimately show ?thesis
    using n assms(2) unfolding seq_less_dist
    by (cases "seq_dist s (head_seq_num r) < unat (buf_size r)") auto
qed

lemma make_room:
  fixes w :: wil6210_priv
  assumes "reorder_ok r" "seq_dist s (head_seq_num r) = k" "k \<le> 2048"
  defines "n \<equiv> unat (buf_size r)"
  defines "m \<equiv> (if k < n then 0 else k - n + 1)"
  shows "\<exists>w' r'. (if \<not> seq_less s (head_seq_num r + buf_size r)
      then wil_release_reorder_frames ok (seq_inc (seq_sub s (buf_size r))) (w, r)
      else Some (w, r)) = Some (w', r') \<and>
    advances w r (fst (spec_shift m (window r))) m w' r' \<and>
    window r' = snd (spec_shift m (window r)) \<and> seq_dist s (head_seq_num r') = k - m \<and> k - m < n"
proof (cases "k < n")
  case True
  then show ?thesis
    using assms seq_in_window [of r s] by (simp add: advances_refl)
next
  case False
  have n: "2 \<le> n" using assms(1) by (simp add: reorder_ok_def n_def)
  then have "seq_dist (seq_inc (seq_sub s (buf_size r))) (head_seq_num r) = m"
    using False assms(2) seq_dist_new_head [of "buf_size r" s "head_seq_num r"]
    by (simp add: m_def n_def)
  moreover have "m < 2048" using False n assms(3) by (simp add: m_def)
  ultimately obtain w' r' where 1:
    "wil_release_reorder_frames ok (seq_inc (seq_sub s (buf_size r))) (w, r) = Some (w', r')"
    "advances w r (fst (spec_shift m (window r))) m w' r'"
    "window r' = snd (spec_shift m (window r))"
    using release_frames_window [OF assms(1)] by blast
  have "seq_dist s (head_seq_num r') = k - m"
    using seq_dist_moved [of "head_seq_num r'" "head_seq_num r" m s] 1(2) assms(2) False n
    by (simp add: advances_def m_def)
  then show ?thesis
    using 1 False n assms(1-3) seq_in_window [OF assms(1), of s]
    by (simp add: n_def m_def)
qed

lemma reorder_slot_window:
  assumes "reorder_ok r" "seq_dist s (head_seq_num r) < unat (buf_size r)"
  defines "i \<equiv> (seq_dist (head_seq_num r) (ssn r) + seq_dist s (head_seq_num r)) mod length (reorder_buf r)"
  shows "reorder_index r s = Some i" "i < length (reorder_buf r)"
    "reorder_slot r i = Some (window r ! seq_dist s (head_seq_num r))"
    "reorder_buf r ! i = window r ! seq_dist s (head_seq_num r)"
proof -
  show "reorder_index r s = Some i" unfolding i_def by (rule reorder_index_window [OF assms(1)])
  show i: "i < length (reorder_buf r)" using reorder_okD(5) [OF assms(1)] by (simp add: i_def)
  show "reorder_buf r ! i = window r ! seq_dist s (head_seq_num r)"
    unfolding i_def by (rule window_nth [OF assms(1,2), symmetric])
  with i show "reorder_slot r i = Some (window r ! seq_dist s (head_seq_num r))" by simp
qed

text \<open>The optimisation for a frame in order with nothing stored agrees with storing it first.\<close>

lemma spec_direct:
  assumes "win \<noteq> []" "somes win = []"
  shows "leading (win[0 := Some x]) = 1" "spec_shift 1 (win[0 := Some x]) = ([x], win)"
    "tl win @ [None] = win"
proof -
  have "win = replicate (length win) None"
    using assms(2) somes_empty_iff [of win] by simp
  then obtain n where n: "win = None # replicate n None"
    using assms(1) by (metis length_0_conv not0_implies_Suc replicate_Suc)
  show "leading (win[0 := Some x]) = 1"
    by (cases n) (simp_all add: n)
  show "spec_shift 1 (win[0 := Some x]) = ([x], win)"
    by (simp add: n spec_shift_def replicate_append_same)
  show "tl win @ [None] = win" by (simp add: n replicate_append_same)
qed

text \<open>The operation under the lock implements \<open>spec_rx\<close>.\<close>

lemma rx_reorder_locked_refines:
  assumes "reorder_ok r" "unat seq < 4096"
    and "spec_rx (seq_dist seq (head_seq_num r)) skb (window r) = (ds, win', m, dropped)"
  shows "\<exists>w' r'. wil_rx_reorder_locked ok jf skb seq (w, r) = Some (w', r') \<and>
     delivered w' = delivered w @ ds \<and>
     skbs w' = (if dropped then kfree_skb skb (skbs w) else skbs w) \<and>
     map tid_rx (sta w') = map tid_rx (sta w) \<and>
     unat (head_seq_num r') = (unat (head_seq_num r) + m) mod 4096 \<and>
     ssn r' = ssn r \<and> buf_size r' = buf_size r \<and> reorder_ok r' \<and> window r' = win'"
proof (cases "2048 < seq_dist seq (head_seq_num r)")
  case True
  then show ?thesis
    using assms by (simp add: wil_rx_reorder_locked_def seq_less_dist spec_rx_def reorder_ok_def
        reorder_safe_def window_def)
next
  case False
  let ?k = "seq_dist seq (head_seq_num r)"
  define m0 where "m0 = (if ?k < unat (buf_size r) then 0 else ?k - unat (buf_size r) + 1)"
  obtain w1 r1 where 1:
    "(if \<not> seq_less seq (head_seq_num r + buf_size r)
      then wil_release_reorder_frames ok (seq_inc (seq_sub seq (buf_size r))) (w, r)
      else Some (w, r)) = Some (w1, r1)"
    "advances w r (fst (spec_shift m0 (window r))) m0 w1 r1"
    "window r1 = snd (spec_shift m0 (window r))"
    "seq_dist seq (head_seq_num r1) = ?k - m0" "?k - m0 < unat (buf_size r)"
    using make_room [OF assms(1) refl, of seq ok w] False by (auto simp: m0_def)
  have r1: "reorder_ok r1" "buf_size r1 = buf_size r" "unat (head_seq_num r1) < 4096"
    using 1(2) by (simp_all add: advances_def)
  define i where "i = (seq_dist (head_seq_num r1) (ssn r1) + seq_dist seq (head_seq_num r1)) mod
    length (reorder_buf r1)"
  note slot = reorder_slot_window [OF r1(1), of seq, folded i_def]
  have k1: "seq_dist seq (head_seq_num r1) < unat (buf_size r1)" using 1 r1 by simp
  show ?thesis
  proof (cases "window r1 ! (?k - m0)")
    case (Some old)
    then have "ds = fst (spec_shift m0 (window r))" "win' = window r1" "m = m0" "dropped"
      using assms(3) False 1(3) unfolding spec_rx_def m0_def [symmetric] reorder_okD(3) [OF assms(1)]
      by (auto simp: split_beta)
    then show ?thesis
      using False 1 slot k1 Some
      by (simp add: wil_rx_reorder_locked_def seq_less_dist advances_def)
  next
    case None
    define win2 where "win2 = (window r1)[?k - m0 := Some skb]"
    have spec: "ds = fst (spec_shift m0 (window r)) @ fst (spec_shift (leading win2) win2)"
      "win' = snd (spec_shift (leading win2) win2)" "m = m0 + leading win2" "\<not> dropped"
      using None assms(3) False 1(3)
      unfolding spec_rx_def m0_def [symmetric] reorder_okD(3) [OF assms(1)] win2_def
      by (auto simp: split_beta Let_def)
    show ?thesis
    proof (cases "seq = head_seq_num r1 \<and> stored_mpdu_num r1 = 0")
      case True
      then have k0: "?k - m0 = 0" using 1(4) by simp
      have "somes (window r1) = []"
        using True reorder_okD(6) [OF r1(1)] by (metis length_0_conv unat_0)
      note direct = spec_direct [OF reorder_okD(4) [OF r1(1)] this]
      have "win2 = (window r1)[0 := Some skb]" by (simp only: win2_def k0)
      then have "ds = fst (spec_shift m0 (window r)) @ [skb]" "win' = window r1" "m = m0 + 1"
        using spec direct(1,2) [of skb] by simp_all
      moreover have "wil_rx_reorder_locked ok jf skb seq (w, r) =
          Some (wil_netif_rx_any ok skb w1, r1\<lparr>head_seq_num := seq_inc (head_seq_num r1)\<rparr>)"
        using False 1(1) slot k1 None conjunct1 [OF True, symmetric] conjunct2 [OF True] 1(4)
        by (simp add: wil_rx_reorder_locked_def seq_less_dist)
      ultimately show ?thesis
        using 1(2) spec(4) advance_empty [OF r1(1)] direct(3) k0 None
        by (simp add: advances_def unat_seq_inc mod_simps)
    next
      case fast: False
      define r2 where "r2 = r1\<lparr>reorder_buf := (reorder_buf r1)[i := Some skb],
        reorder_time := (reorder_time r1)[i := jf], stored_mpdu_num := stored_mpdu_num r1 + 1\<rparr>"
      have "reorder_buf r1 ! i = None" using slot(4) [OF k1] 1(4) None by simp
      then have r2: "reorder_ok r2"
        using reorder_safe_fill [OF reorder_okD(1) [OF r1(1)] slot(2)] r1(1) k1
        by (simp add: r2_def reorder_ok_def)
      have "window r2 = win2"
        using window_fill [OF r1(1), of "?k - m0" _ _ "Some skb"] 1(4,5) r1(2)
        by (simp add: r2_def win2_def i_def)
      then obtain w' r' where 2: "wil_reorder_release ok (w1, r2) = Some (w', r')"
        "advances w1 r2 (fst (spec_shift (leading win2) win2)) (leading win2) w' r'"
        "window r' = snd (spec_shift (leading win2) win2)"
        using reorder_release_window [OF r2, of "leading win2"] by metis
      have "wil_rx_reorder_locked ok jf skb seq (w, r) = Some (w', r')"
        using False 1(1) slot k1 None fast 1(4) 2(1)
        by (auto simp: wil_rx_reorder_locked_def seq_less_dist r2_def)
      then show ?thesis
        using 1(2) 2 spec by (simp add: advances_def r2_def mod_add_left_eq add.assoc [symmetric])
    qed
  qed
qed

end
