(* ===== verification/Wil_Reorder_Order.thy ===== *)
theory Wil_Reorder_Order
  imports Wil_Reorder_Window
begin

text \<open>
  What the reorder buffer promises its client: no frame is lost, invented or delivered twice
  (conservation), frames come out in sequence order, and both over a whole session of frames. The
  session facts are proved once in the locale \<open>frame_sink\<close> and hold for the driver through its
  interpretation.
\<close>

subsection \<open>What the reorder operations leave alone\<close>

lemma release_frame_frame:
  "wil_release_reorder_frame ok wr i = Some wr' \<Longrightarrow> rx_frame (fst wr) (fst wr')"
  by (cases wr) (auto simp: wil_release_reorder_frame_def split: option.splits)

lemma release_frames_frame:
  "wil_release_reorder_frames ok hseq wr = Some wr' \<Longrightarrow> rx_frame (fst wr) (fst wr')"
proof (induction ok hseq wr rule: wil_release_reorder_frames.induct)
  case (1 ok hseq wr)
  from "1.prems" show ?case
    by (subst (asm) wil_release_reorder_frames.simps)
      (auto split: if_splits option.splits intro: rx_frame_trans dest: release_frame_frame "1.IH")
qed

lemma reorder_release_frame:
  "wil_reorder_release ok wr = Some wr' \<Longrightarrow> rx_frame (fst wr) (fst wr')"
proof (induction ok wr rule: wil_reorder_release.induct)
  case (1 ok wr)
  from "1.prems" show ?case
    by (subst (asm) wil_reorder_release.simps)
      (auto split: if_splits option.splits intro: rx_frame_trans dest: release_frame_frame "1.IH")
qed

lemma rx_reorder_locked_frame:
  "wil_rx_reorder_locked ok jf skb seq (w, r) = Some (w', r') \<Longrightarrow> rx_frame w w'"
  by (auto simp: wil_rx_reorder_locked_def Option.bind_eq_Some_conv
      split: if_splits dest!: release_frames_frame reorder_release_frame intro: rx_frame_trans)

text \<open>Every session of every peer satisfies the representation invariant.\<close>

definition sessions_safe :: "wil6210_priv \<Rightarrow> bool" where
  "sessions_safe w \<longleftrightarrow> (\<forall>s \<in> set (sta w). \<forall>r. Some r \<in> set (tid_rx s) \<longrightarrow> reorder_safe r)"

lemma sessions_safe_map:
  "sessions_safe w \<longleftrightarrow> (\<forall>t \<in> set (map tid_rx (sta w)). \<forall>r. Some r \<in> set t \<longrightarrow> reorder_safe r)"
  by (simp add: sessions_safe_def)

lemma rx_frame_sessions: "rx_frame w w' \<Longrightarrow> sessions_safe w \<Longrightarrow> sessions_safe w'"
  by (simp only: sessions_safe_map rx_frame_def)

lemma sessions_safe_init: "sessions_safe wil_init_state"
  by (auto simp: sessions_safe_def wil_init_state_def zero_sta_def)

lemma set_tid_rx_cases:
  assumes "s \<in> set (sta (set_tid_rx cid tid r w))"
  obtains "s \<in> set (sta w)"
  | t where "t \<in> set (sta w)" "s = t\<lparr>tid_rx := (tid_rx t)[tid := r]\<rparr>"
proof (cases "cid < length (sta w)")
  case True
  then show ?thesis
    using assms that(1) that(2) [of "sta w ! cid"] nth_mem [OF True]
      set_update_subset_insert [of "sta w" cid]
    unfolding set_tid_rx_def upd_sta_def by fastforce
next
  case False
  then have "sta (set_tid_rx cid tid r w) = sta w"
    by (simp add: set_tid_rx_def upd_sta_def list_update_beyond not_less)
  then show ?thesis using assms that(1) by simp
qed

lemma set_tid_rx_safe:
  assumes "sessions_safe w" "\<And>x. r = Some x \<Longrightarrow> reorder_safe x"
  shows "sessions_safe (set_tid_rx cid tid r w)"
proof -
  have "reorder_safe x" if "t \<in> set (sta w)" "Some x \<in> set ((tid_rx t)[tid := r])" for t x
    using that assms set_update_subset_insert [of "tid_rx t" tid r]
    by (auto simp: sessions_safe_def)
  then show ?thesis
    using assms(1) unfolding sessions_safe_def by (fastforce elim: set_tid_rx_cases)
qed

lemma set_tid_rx_arrays:
  assumes "wil_arrays_ok w"
  shows "wil_arrays_ok (set_tid_rx cid tid r w)"
proof -
  have "length (tid_rx s) = WIL_STA_TID_NUM \<and> length (sta_addr s) = 6"
    if "s \<in> set (sta (set_tid_rx cid tid r w))" for s
    using that assms by (auto simp: wil_arrays_ok_def elim!: set_tid_rx_cases)
  then show ?thesis
    using assms by (simp add: wil_arrays_ok_def set_tid_rx_def upd_sta_def)
qed

lemma sessions_safe_slot:
  assumes "wil_arrays_ok w" "sessions_safe w" "cid < WIL6210_MAX_CID" "tid < WIL_STA_TID_NUM"
    and "tid_rx (sta w ! cid) ! tid = Some r"
  shows "reorder_safe r"
  using assms nth_mem [of cid "sta w"] nth_mem [of tid "tid_rx (sta w ! cid)"]
  by (auto simp: sessions_safe_def wil_arrays_okD)

lemma wil_rx_reorder_total:
  assumes "wil_arrays_ok w" "sessions_safe w"
  shows "\<exists>w'. wil_rx_reorder ok jf skb w = Some w' \<and> wil_arrays_ok w' \<and> sessions_safe w'"
proof -
  let ?d = "cb_rx (skbs w skb)"
  show ?thesis
  proof (cases "tid_rx (sta w ! wil_rxdesc_cid ?d) ! wil_rxdesc_tid ?d")
    case None
    then show ?thesis
      using assms by (auto simp: wil_rx_reorder_def intro: rx_frame_arrays rx_frame_sessions)
  next
    case (Some r)
    then have "reorder_safe r"
      using sessions_safe_slot assms wil_rxdesc_cid_bound wil_rxdesc_tid_bound by blast
    from rx_reorder_locked_safe [OF this, of ok jf skb "of_nat (wil_rxdesc_seq ?d)" w]
    obtain w1 r1 where 1: "wil_rx_reorder_locked ok jf skb (of_nat (wil_rxdesc_seq ?d)) (w, r) =
      Some (w1, r1)" "reorder_safe r1" by blast
    then have "rx_frame w w1" by (simp add: rx_reorder_locked_frame)
    then show ?thesis
      using Some 1 assms
      by (auto simp: wil_rx_reorder_def Let_def intro!: set_tid_rx_arrays set_tid_rx_safe
          intro: rx_frame_arrays rx_frame_sessions)
  qed
qed

subsection \<open>Order\<close>

text \<open>
  \<open>at_pos pos k win\<close>: the frames in the slots of \<open>win\<close> have the positions \<open>k\<close>, \<open>k + 1\<close>, \<open>\<dots>\<close>
\<close>

definition at_pos :: "('a \<Rightarrow> nat) \<Rightarrow> nat \<Rightarrow> 'a option list \<Rightarrow> bool" where
  "at_pos pos k win \<longleftrightarrow> (\<forall>j < length win. \<forall>x. win ! j = Some x \<longrightarrow> pos x = k + j)"

lemma at_pos_Nil [simp]: "at_pos pos k []"
  by (simp add: at_pos_def)

lemma at_pos_Cons [simp]:
  "at_pos pos k (x # xs) \<longleftrightarrow> (\<forall>y. x = Some y \<longrightarrow> pos y = k) \<and> at_pos pos (Suc k) xs"
  by (auto simp: at_pos_def nth_Cons split: nat.splits)

lemma at_pos_append:
  "at_pos pos k (xs @ ys) \<longleftrightarrow> at_pos pos k xs \<and> at_pos pos (k + length xs) ys"
  by (induction xs arbitrary: k) auto

lemma at_pos_replicate [simp]: "at_pos pos k (replicate n None)"
  by (induction n arbitrary: k) auto

lemma at_pos_update:
  assumes "at_pos pos k win" "pos x = k + j"
  shows "at_pos pos k (win[j := Some x])"
proof -
  have "pos y = k + i" if "i < length win" "win[j := Some x] ! i = Some y" for i y
    using that assms by (cases "i = j") (auto simp: at_pos_def)
  then show ?thesis by (simp add: at_pos_def)
qed

lemma at_pos_somes:
  "at_pos pos k win \<Longrightarrow>
     sorted_wrt (<) (map pos (somes win)) \<and> (\<forall>x \<in> set (somes win). k \<le> pos x \<and> pos x < k + length win)"
proof (induction win arbitrary: k)
  case (Cons y win)
  then show ?case by (cases y) (fastforce simp: Suc_le_eq)+
qed simp

lemma spec_shift_at_pos:
  assumes "at_pos pos k win" "spec_shift m win = (ds, win')"
  shows "sorted_wrt (<) (map pos ds)" "\<forall>x \<in> set ds. k \<le> pos x \<and> pos x < k + m"
    "at_pos pos (k + m) win'"
proof -
  have 1: "ds = somes (take m win)" "win' = drop m win @ replicate (min m (length win)) None"
    using assms(2) by (auto simp: spec_shift_def)
  have 2: "at_pos pos k (take m win)" "at_pos pos (k + length (take m win)) (drop m win)"
    using assms(1) at_pos_append [of pos k "take m win" "drop m win"] by simp_all
  show "sorted_wrt (<) (map pos ds)" "\<forall>x \<in> set ds. k \<le> pos x \<and> pos x < k + m"
    using at_pos_somes [OF 2(1)] 1(1) by fastforce+
  show "at_pos pos (k + m) win'"
    using 2(2) 1(2) by (cases "m \<le> length win") (simp_all add: at_pos_append)
qed

lemma room_le: "0 < n \<Longrightarrow> (if k < n then 0 else k - n + 1) \<le> (k :: nat)"
  by auto

lemma spec_rx_at_pos:
  assumes "at_pos pos 0 win" "pos x = k" "win \<noteq> []" "spec_rx k x win = (ds, win', m, dropped)"
  shows "sorted_wrt (<) (map pos ds) \<and> (\<forall>y \<in> set ds. pos y < m) \<and> at_pos pos m win'"
proof (cases "2048 < k")
  case True
  then show ?thesis using assms by (auto simp: spec_rx_def)
next
  case False
  define m0 where "m0 = (if k < length win then 0 else k - length win + 1)"
  obtain ds1 win1 where 1: "spec_shift m0 win = (ds1, win1)" by (cases "spec_shift m0 win")
  note p1 = spec_shift_at_pos [OF assms(1) 1]
  show ?thesis
  proof (cases "win1 ! (k - m0) = None")
    case True
    define win2 where "win2 = win1[k - m0 := Some x]"
    obtain ds2 win3 where 2: "spec_shift (leading win2) win2 = (ds2, win3)"
      by (cases "spec_shift (leading win2) win2")
    have "m0 \<le> k"
      using room_le [of "length win" k] assms(3) unfolding m0_def by simp
    then have "at_pos pos m0 win2" using p1(3) assms(2) by (simp add: win2_def at_pos_update)
    note p2 = spec_shift_at_pos [OF this 2]
    have "ds = ds1 @ ds2" "win' = win3" "m = m0 + leading win2"
      using assms(4) False 1 2 True
      unfolding spec_rx_def m0_def [symmetric] by (simp_all add: win2_def Let_def)
    then show ?thesis
      using p1 p2 by (fastforce simp: sorted_wrt_append)
  next
    case False
    then have "ds = ds1" "win' = win1" "m = m0"
      using assms(4) \<open>\<not> 2048 < k\<close> 1
      unfolding spec_rx_def m0_def [symmetric] by (auto simp: Let_def)
    then show ?thesis using p1 by simp
  qed
qed

lemma spec_rx_moves:
  assumes "spec_rx k x win = (ds, win', m, dropped)" "length win \<le> 2048"
  shows "m \<le> 2049"
proof (cases "2048 < k")
  case True
  then show ?thesis using assms(1) by (simp add: spec_rx_def)
next
  case False
  define m0 where "m0 = (if k < length win then 0 else k - length win + 1)"
  have "leading ((snd (spec_shift i win))[j := Some x]) \<le> length win" for i j
    using leading_le [of "(snd (spec_shift i win))[j := Some x]"] by simp
  then have "m \<le> m0 + length win"
    using assms(1) False unfolding spec_rx_def m0_def [symmetric]
    by (auto simp: Let_def split_beta split: if_splits)
  then show ?thesis using False assms(2) by (simp add: m0_def split: if_splits)
qed

text \<open>
  The frames of a buffer carry the sequence numbers of the slots they are in.
\<close>

definition frame_seq :: "wil6210_priv \<Rightarrow> skb_ptr \<Rightarrow> u16" where
  "frame_seq w p = of_nat (wil_rxdesc_seq (cb_rx (skbs w p)))"

definition slots_match :: "wil6210_priv \<Rightarrow> wil_tid_ampdu_rx \<Rightarrow> bool" where
  "slots_match w r \<longleftrightarrow> at_pos (\<lambda>p. seq_dist (frame_seq w p) (head_seq_num r)) 0 (window r)"

lemma frame_seq_bound: "unat (frame_seq w p) < 4096"
  using wil_rxdesc_seq_bound [of "cb_rx (skbs w p)"]
  by (simp add: frame_seq_def unat_of_nat)

lemma frame_seq_frame: "rx_frame w w' \<Longrightarrow> frame_seq w' = frame_seq w"
  by (simp add: frame_seq_def rx_frame_def fun_eq_iff)

lemma at_pos_moved:
  assumes "at_pos (\<lambda>p. seq_dist (f p) h) m win" "unat h' = (unat h + m) mod 4096"
  shows "at_pos (\<lambda>p. seq_dist (f p) h') 0 win"
  using assms seq_dist_moved [of h' h m] by (simp add: at_pos_def)

lemma rx_reorder_locked_in_order:
  assumes "reorder_ok r" "slots_match w r" "seq = frame_seq w skb"
    and "wil_rx_reorder_locked ok jf skb seq (w, r) = Some (w', r')"
  shows "\<exists>ds m. delivered w' = delivered w @ ds \<and>
     sorted_wrt (<) (map (\<lambda>p. seq_dist (frame_seq w p) (head_seq_num r)) ds) \<and>
     (\<forall>p \<in> set ds. seq_dist (frame_seq w p) (head_seq_num r) < m) \<and>
     unat (head_seq_num r') = (unat (head_seq_num r) + m) mod 4096 \<and> m \<le> 2049 \<and>
     reorder_ok r' \<and> slots_match w' r'"
proof -
  obtain ds win' m dropped where
    s: "spec_rx (seq_dist seq (head_seq_num r)) skb (window r) = (ds, win', m, dropped)"
    by (metis prod.exhaust)
  have "unat seq < 4096" using assms(3) frame_seq_bound by simp
  from rx_reorder_locked_refines [OF assms(1) this s, of ok jf w] assms(4)
  have 1: "delivered w' = delivered w @ ds"
    "unat (head_seq_num r') = (unat (head_seq_num r) + m) mod 4096" "reorder_ok r'" "window r' = win'"
    by auto
  have f: "frame_seq w' = frame_seq w"
    using frame_seq_frame rx_reorder_locked_frame [OF assms(4)] by blast
  have 2: "sorted_wrt (<) (map (\<lambda>p. seq_dist (frame_seq w p) (head_seq_num r)) ds)"
    "\<forall>p \<in> set ds. seq_dist (frame_seq w p) (head_seq_num r) < m"
    "at_pos (\<lambda>p. seq_dist (frame_seq w p) (head_seq_num r)) m win'"
    using spec_rx_at_pos [OF _ _ reorder_okD(4) [OF assms(1)] s,
        of "\<lambda>p. seq_dist (frame_seq w p) (head_seq_num r)"] assms(2,3)
    by (simp_all add: slots_match_def)
  have "slots_match w' r'"
    using at_pos_moved [OF 2(3) 1(2)] 1(4) f by (simp add: slots_match_def)
  moreover have "m \<le> 2049"
    using spec_rx_moves [OF s] assms(1) reorder_okD(3) [OF assms(1)] by (simp add: reorder_ok_def)
  ultimately show ?thesis using 1 2 by blast
qed

subsection \<open>Conservation\<close>

lemma spec_shift_mset:
  assumes "spec_shift m win = (ds, win')"
  shows "mset ds + mset (somes win') = mset (somes win)"
proof -
  have "somes win = somes (take m win) @ somes (drop m win)"
    by (metis append_take_drop_id somes_append)
  then show ?thesis using assms by (auto simp: spec_shift_def)
qed

lemma spec_rx_mset:
  assumes "win \<noteq> []" "spec_rx k x win = (ds, win', m, dropped)"
  shows "mset ds + mset (somes win') + (if dropped then {#x#} else {#}) = mset (somes win) + {#x#}"
proof (cases "2048 < k")
  case True
  then show ?thesis using assms(2) by (simp add: spec_rx_def)
next
  case False
  define m0 where "m0 = (if k < length win then 0 else k - length win + 1)"
  obtain ds1 win1 where 1: "spec_shift m0 win = (ds1, win1)" by (cases "spec_shift m0 win")
  note e1 = spec_shift_mset [OF 1]
  have k: "k - m0 < length win1"
    using 1 spec_shift_length [of m0 win] length_greater_0_conv [of win] assms(1)
    by (cases "k < length win") (auto simp: m0_def)
  show ?thesis
  proof (cases "win1 ! (k - m0) = None")
    case True
    define win2 where "win2 = win1[k - m0 := Some x]"
    obtain ds2 win3 where 2: "spec_shift (leading win2) win2 = (ds2, win3)"
      by (cases "spec_shift (leading win2) win2")
    have "ds = ds1 @ ds2" "win' = win3" "\<not> dropped"
      using assms(2) False 1 2 True
      unfolding spec_rx_def m0_def [symmetric] by (simp_all add: win2_def Let_def)
    moreover have "mset (somes win2) = mset (somes win1) + {#x#}"
      using mset_somes_set [OF k True, of x] by (simp add: win2_def)
    ultimately show ?thesis
      using e1 spec_shift_mset [OF 2] by (simp add: union_assoc flip: e1)
  next
    case occupied: False
    then have "ds = ds1" "win' = win1" "dropped"
      using assms(2) False 1
      unfolding spec_rx_def m0_def [symmetric] by (auto simp: Let_def)
    then show ?thesis using e1 by simp
  qed
qed

lemma window_mset: "mset (somes (window r)) = mset (somes (reorder_buf r))"
  by (simp add: window_def mset_somes_rotate)

lemma rx_reorder_locked_conserves:
  assumes "reorder_ok r" "unat seq < 4096"
    and "wil_rx_reorder_locked ok jf skb seq (w, r) = Some (w', r')"
  shows "\<exists>ds dropped. delivered w' = delivered w @ ds \<and>
     skbs w' = (if dropped then kfree_skb skb (skbs w) else skbs w) \<and>
     mset ds + mset (somes (reorder_buf r')) + (if dropped then {#skb#} else {#}) =
       mset (somes (reorder_buf r)) + {#skb#}"
proof -
  obtain ds win' m dropped where
    s: "spec_rx (seq_dist seq (head_seq_num r)) skb (window r) = (ds, win', m, dropped)"
    by (metis prod.exhaust)
  from rx_reorder_locked_refines [OF assms(1,2) s, of ok jf w] assms(3)
  have "delivered w' = delivered w @ ds" "window r' = win'"
    "skbs w' = (if dropped then kfree_skb skb (skbs w) else skbs w)"
    by auto
  with spec_rx_mset [OF reorder_okD(4) [OF assms(1)] s] show ?thesis
    unfolding window_mset [symmetric] by blast
qed

subsection \<open>Sessions\<close>

text \<open>
  A sink of frames over a heap of buffers: each frame given to it is handed out, held, or released,
  and what leaves the heap is what is released; a frame that is released was just given, never one
  that was held.
\<close>

locale frame_sink =
  fixes step :: "'f \<Rightarrow> 's \<Rightarrow> 's option"
    and inv :: "'s \<Rightarrow> bool"
    and out :: "'s \<Rightarrow> 'f list"
    and held :: "'s \<Rightarrow> 'f multiset"
    and heap :: "'s \<Rightarrow> 'h"
    and free :: "'f \<Rightarrow> 'h \<Rightarrow> 'h"
  assumes step_accounts: "inv s \<Longrightarrow> \<exists>s' ds gone. step x s = Some s' \<and> inv s' \<and>
      out s' = out s @ ds \<and> heap s' = fold free gone (heap s) \<and> mset gone \<subseteq># {#x#} \<and>
      mset ds + held s' + mset gone = held s + {#x#}"
begin

lemma run_accounts:
  "inv s \<Longrightarrow> \<exists>s' ds gone. run_inputs step xs s = Some s' \<and> inv s' \<and>
     out s' = out s @ ds \<and> heap s' = fold free gone (heap s) \<and> mset gone \<subseteq># mset xs \<and>
     mset ds + held s' + mset gone = held s + mset xs"
proof (induction xs arbitrary: s)
  case (Cons x xs)
  obtain s1 ds1 g1 where 1: "step x s = Some s1" "inv s1" "out s1 = out s @ ds1"
    "heap s1 = fold free g1 (heap s)" "mset g1 \<subseteq># {#x#}" "mset ds1 + held s1 + mset g1 = held s + {#x#}"
    using step_accounts [OF Cons.prems] by blast
  obtain s2 ds2 g2 where 2: "run_inputs step xs s1 = Some s2" "inv s2" "out s2 = out s1 @ ds2"
    "heap s2 = fold free g2 (heap s1)" "mset g2 \<subseteq># mset xs" "mset ds2 + held s2 + mset g2 = held s1 + mset xs"
    using Cons.IH [OF 1(2)] by blast
  have "mset (ds1 @ ds2) + held s2 + mset (g1 @ g2) = mset ds1 + (mset ds2 + held s2 + mset g2) + mset g1"
    by (simp add: ac_simps)
  also have "\<dots> = (mset ds1 + held s1 + mset g1) + mset xs"
    by (simp only: 2(6)) (simp add: ac_simps)
  finally have "mset (ds1 @ ds2) + held s2 + mset (g1 @ g2) = held s + mset (x # xs)"
    by (simp add: 1(6))
  moreover have "mset (g1 @ g2) \<subseteq># mset (x # xs)"
    using subset_mset.add_mono [OF 1(5) 2(5)] by simp
  ultimately show ?case
    using 1(1-4) 2(1-4) by (intro exI [of _ s2] exI [of _ "ds1 @ ds2"] exI [of _ "g1 @ g2"]) simp
qed (auto intro: exI [of _ "[]"])

end

text \<open>
  \<open>numbered num k h ds m\<close>: the frames \<open>ds\<close> have strictly increasing positions below \<open>m\<close>, and
  the number of a frame is its position counted from \<open>h\<close>, modulo \<open>k\<close>.
\<close>

definition numbered :: "('f \<Rightarrow> nat) \<Rightarrow> nat \<Rightarrow> nat \<Rightarrow> 'f list \<Rightarrow> nat \<Rightarrow> bool" where
  "numbered num modulus h ds m \<longleftrightarrow>
     (\<exists>ps. length ps = length ds \<and> sorted_wrt (<) ps \<and> (\<forall>p \<in> set ps. p < m) \<and>
        map num ds = map (\<lambda>p. (h + p) mod modulus) ps)"

lemma numbered_Nil [simp]: "numbered num k h [] m"
  by (simp add: numbered_def)

lemma numbered_append:
  assumes "numbered num k h ds m" "numbered num k ((h + m) mod k) ds' m'"
  shows "numbered num k h (ds @ ds') (m + m')"
proof -
  obtain ps qs where "length ps = length ds" "sorted_wrt (<) ps" "\<forall>p \<in> set ps. p < m"
    "map num ds = map (\<lambda>p. (h + p) mod k) ps" "length qs = length ds'" "sorted_wrt (<) qs"
    "\<forall>p \<in> set qs. p < m'" "map num ds' = map (\<lambda>p. ((h + m) mod k + p) mod k) qs"
    using assms unfolding numbered_def by blast
  then show ?thesis
    unfolding numbered_def
    by (intro exI [of _ "ps @ map ((+) m) qs"])
      (auto simp: sorted_wrt_append sorted_wrt_map mod_add_left_eq add.assoc
        intro: order_less_le_trans)
qed

locale ordered_sink = frame_sink step inv out held heap free
  for step :: "'f \<Rightarrow> 's \<Rightarrow> 's option"
    and inv :: "'s \<Rightarrow> bool"
    and out :: "'s \<Rightarrow> 'f list"
    and held :: "'s \<Rightarrow> 'f multiset"
    and heap :: "'s \<Rightarrow> 'h"
    and free :: "'f \<Rightarrow> 'h \<Rightarrow> 'h" +
  fixes num :: "'f \<Rightarrow> nat"
    and modulus :: nat
    and at :: "'s \<Rightarrow> nat"
    and stride :: nat
  assumes at_bound: "inv s \<Longrightarrow> at s < modulus"
    and step_orders: "inv s \<Longrightarrow> step x s = Some s' \<Longrightarrow>
      \<exists>ds m. out s' = out s @ ds \<and> numbered num modulus (at s) ds m \<and>
        at s' = (at s + m) mod modulus \<and> m \<le> stride"
begin

lemma run_orders:
  "inv s \<Longrightarrow> run_inputs step xs s = Some s' \<Longrightarrow>
     \<exists>ds m. out s' = out s @ ds \<and> numbered num modulus (at s) ds m \<and>
       at s' = (at s + m) mod modulus \<and> m \<le> stride * length xs"
proof (induction xs arbitrary: s)
  case Nil
  then show ?case using at_bound by (intro exI [of _ "[]"] exI [of _ 0]) simp
next
  case (Cons x xs)
  obtain s1 where 1: "step x s = Some s1" "inv s1" "run_inputs step xs s1 = Some s'"
    using Cons.prems step_accounts [OF Cons.prems(1), of x] by auto
  obtain ds1 m1 where 2: "out s1 = out s @ ds1" "numbered num modulus (at s) ds1 m1"
    "at s1 = (at s + m1) mod modulus" "m1 \<le> stride"
    using step_orders [OF Cons.prems(1) 1(1)] by blast
  obtain ds2 m2 where 3: "out s' = out s1 @ ds2" "numbered num modulus (at s1) ds2 m2"
    "at s' = (at s1 + m2) mod modulus" "m2 \<le> stride * length xs"
    using Cons.IH [OF 1(2,3)] by blast
  have "at s' = (at s + (m1 + m2)) mod modulus"
    using 2(3) 3(3) by (simp add: mod_add_left_eq add.assoc)
  with 2 3 show ?case
    using numbered_append [OF 2(2) 3(2) [unfolded 2(3)]]
    by (intro exI [of _ "ds1 @ ds2"] exI [of _ "m1 + m2"]) simp
qed

end

text \<open>One frame through a session, with the sequence number of its descriptor.\<close>

definition reorder_step ::
  "(skb_ptr \<Rightarrow> bool) \<Rightarrow> u64 \<Rightarrow> skb_ptr \<Rightarrow> wil6210_priv \<times> wil_tid_ampdu_rx
     \<Rightarrow> (wil6210_priv \<times> wil_tid_ampdu_rx) option" where
  "reorder_step ok jf skb wr = wil_rx_reorder_locked ok jf skb (frame_seq (fst wr) skb) wr"

definition session_inv :: "(skb_ptr \<Rightarrow> u16) \<Rightarrow> wil6210_priv \<times> wil_tid_ampdu_rx \<Rightarrow> bool" where
  "session_inv num wr \<longleftrightarrow>
     frame_seq (fst wr) = num \<and> reorder_ok (snd wr) \<and> slots_match (fst wr) (snd wr)"

lemma reorder_step_frame_seq:
  "reorder_step ok jf skb wr = Some wr' \<Longrightarrow> frame_seq (fst wr') = frame_seq (fst wr)"
  unfolding reorder_step_def
  by (cases wr; cases wr') (auto dest: rx_reorder_locked_frame frame_seq_frame)

lemma reorder_step_accounts:
  assumes "session_inv num wr"
  shows "\<exists>wr' ds gone. reorder_step ok jf skb wr = Some wr' \<and> session_inv num wr' \<and>
     delivered (fst wr') = delivered (fst wr) @ ds \<and>
     skbs (fst wr') = fold kfree_skb gone (skbs (fst wr)) \<and> mset gone \<subseteq># {#skb#} \<and>
     mset ds + mset (somes (reorder_buf (snd wr'))) + mset gone =
       mset (somes (reorder_buf (snd wr))) + {#skb#}"
proof -
  obtain w r where wr: "wr = (w, r)" by (cases wr)
  have r: "reorder_ok r" "slots_match w r" "reorder_safe r"
    using assms reorder_okD(1) by (auto simp: session_inv_def wr)
  obtain w' r' where 1: "wil_rx_reorder_locked ok jf skb (frame_seq w skb) (w, r) = Some (w', r')"
    using rx_reorder_locked_safe [OF r(3)] by blast
  obtain ds dropped where 2: "delivered w' = delivered w @ ds"
    "skbs w' = (if dropped then kfree_skb skb (skbs w) else skbs w)"
    "mset ds + mset (somes (reorder_buf r')) + (if dropped then {#skb#} else {#}) =
       mset (somes (reorder_buf r)) + {#skb#}"
    using rx_reorder_locked_conserves [OF r(1) frame_seq_bound 1] by blast
  have "reorder_step ok jf skb wr = Some (w', r')" using 1 by (simp add: reorder_step_def wr)
  moreover from this have "session_inv num (w', r')"
    using rx_reorder_locked_in_order [OF r(1,2) refl 1] reorder_step_frame_seq [of ok jf skb wr] assms
    by (auto simp: session_inv_def)
  ultimately show ?thesis
    using 2 by (rule_tac x = "(w', r')" in exI, rule_tac x = ds in exI,
        rule_tac x = "if dropped then [skb] else []" in exI) (cases dropped, simp_all add: wr)
qed

lemma numbered_dist:
  assumes "sorted_wrt (<) (map (\<lambda>p. seq_dist (f p) h) ds)" "\<forall>p \<in> set ds. seq_dist (f p) h < m"
    and "\<And>p. unat (f p) < 4096"
  shows "numbered (\<lambda>p. unat (f p)) 4096 (unat h) ds m"
  unfolding numbered_def
  using assms unat_from_dist [OF assms(3), of _ h]
  by (intro exI [of _ "map (\<lambda>p. seq_dist (f p) h) ds"]) simp

lemma reorder_step_orders:
  assumes "session_inv num wr" "reorder_step ok jf skb wr = Some wr'"
  shows "\<exists>ds m. delivered (fst wr') = delivered (fst wr) @ ds \<and>
     numbered (\<lambda>p. unat (num p)) 4096 (unat (head_seq_num (snd wr))) ds m \<and>
     unat (head_seq_num (snd wr')) = (unat (head_seq_num (snd wr)) + m) mod 4096 \<and> m \<le> 2049"
proof -
  obtain w r w' r' where wr: "wr = (w, r)" "wr' = (w', r')" by (cases wr, cases wr')
  have 1: "reorder_ok r" "slots_match w r" "frame_seq w = num"
    "wil_rx_reorder_locked ok jf skb (frame_seq w skb) (w, r) = Some (w', r')"
    using assms by (auto simp: wr session_inv_def reorder_step_def)
  have "unat (num p) < 4096" for p
    using 1(3) frame_seq_bound by blast
  then show ?thesis
    using rx_reorder_locked_in_order [OF 1(1,2) refl 1(4)] 1(3)
      numbered_dist [of num "head_seq_num r"] by (fastforce simp: wr)
qed

interpretation rs: ordered_sink "reorder_step ok jf" "session_inv num" "\<lambda>wr. delivered (fst wr)"
  "\<lambda>wr. mset (somes (reorder_buf (snd wr)))" "\<lambda>wr. skbs (fst wr)" kfree_skb "\<lambda>p. unat (num p)" 4096
  "\<lambda>wr. unat (head_seq_num (snd wr))" 2049
  for ok jf num
  by unfold_locales
    (rule reorder_step_accounts, assumption, simp add: session_inv_def reorder_ok_def,
      rule reorder_step_orders)

subsection \<open>Allocation and release\<close>

lemma tid_ampdu_rx_alloc_ok:
  assumes "2 \<le> n" "n dvd 4096" "n < 2048" "unat s0 < 4096"
  shows "\<exists>r. wil_tid_ampdu_rx_alloc True True True n s0 = Some r \<and> reorder_ok r \<and>
     window r = replicate n None \<and> head_seq_num r = s0"
proof -
  have n: "unat (of_nat n :: u16) = n" using assms(3) by (simp add: unat_of_nat)
  then have "(of_nat n :: u16) \<noteq> 0" using assms(1) by (metis not_numeral_le_zero unat_0)
  then show ?thesis
    using assms n
    by (simp add: wil_tid_ampdu_rx_alloc_def reorder_ok_def reorder_safe_def window_def)
qed

lemma seq_dist_window_end:
  assumes "reorder_ok r"
  shows "seq_dist (head_seq_num r + buf_size r) (head_seq_num r) = unat (buf_size r)"
proof (rule seq_dist_unique)
  have "unat (head_seq_num r + buf_size r) = unat (head_seq_num r) + unat (buf_size r)"
    using assms by (intro unat_add_lt) (simp add: reorder_ok_def)
  then show "(int (unat (head_seq_num r + buf_size r)) - int (unat (head_seq_num r)) -
      int (unat (buf_size r))) mod 4096 = 0"
    by (simp only: of_nat_add) simp
qed (use assms in \<open>simp add: reorder_ok_def\<close>)

lemma tid_ampdu_rx_free_flushes:
  assumes "reorder_ok r"
  shows "\<exists>w'. wil_tid_ampdu_rx_free ok (Some r) w = Some w' \<and>
     delivered w' = delivered w @ somes (window r) \<and> skbs w' = skbs w \<and> rx_frame w w'"
proof -
  have "unat (buf_size r) < 2048" using assms by (simp add: reorder_ok_def)
  from release_frames_window [OF assms seq_dist_window_end [OF assms] this, of ok w]
  obtain w' r' where
    1: "wil_release_reorder_frames ok (head_seq_num r + buf_size r) (w, r) = Some (w', r')"
    "advances w r (fst (spec_shift (unat (buf_size r)) (window r))) (unat (buf_size r)) w' r'"
    by blast
  have "fst (spec_shift (unat (buf_size r)) (window r)) = somes (window r)"
    using reorder_okD(3) [OF assms] by (simp add: spec_shift_def)
  then show ?thesis
    using 1 release_frames_frame [OF 1(1)] by (simp add: wil_tid_ampdu_rx_free_def advances_def)
qed

end
