(* ===== verification/Wil_Reorder_Props.thy ===== *)
theory Wil_Reorder_Props
  imports Wil_Reorder_Order
begin

text \<open>
  The properties of the reorder buffer, with the buffer sizes for which they fail: zero, and a
  size that does not divide the sequence space.
\<close>

subsection \<open>Sequence numbers\<close>

text \<open>
  \<open>seq_less\<close> compares 12-bit sequence numbers by their distance on the circle: \<open>a\<close> is
  less than \<open>b\<close> when \<open>b\<close> is between 1 and 2047 steps ahead; so of two different numbers at least
  one is less than the other unless they are half the circle apart, and never both.
\<close>

theorem seq_less_circle:
  "(seq_less a b \<longleftrightarrow> 0 < seq_dist b a \<and> seq_dist b a < 2048) \<and>
   \<not> (seq_less a b \<and> seq_less b a) \<and>
   (seq_less a b = seq_less b a \<longleftrightarrow> seq_dist a b = 0 \<or> seq_dist a b = 2048)"
proof (intro conjI)
  show "seq_less a b \<longleftrightarrow> 0 < seq_dist b a \<and> seq_dist b a < 2048" by (rule seq_less_ahead)
  show "\<not> (seq_less a b \<and> seq_less b a)"
    using seq_less_dist [of b a] seq_less_ahead [of a b] by auto
  show "seq_less a b = seq_less b a \<longleftrightarrow> seq_dist a b = 0 \<or> seq_dist a b = 2048"
    using seq_less_dist [of a b] seq_less_ahead [of b a] by auto
qed

subsection \<open>The window\<close>

definition ex_session :: "nat \<Rightarrow> u16 \<Rightarrow> wil_tid_ampdu_rx" where
  "ex_session n s0 = \<lparr>reorder_buf = replicate n None, reorder_time = replicate n 0,
     head_seq_num = s0, stored_mpdu_num = 0, ssn = s0, buf_size = of_nat n, ssn_last_drop = 0\<rparr>"

definition ex_desc :: "u32 \<Rightarrow> vring_desc" where
  "ex_desc sn = zero_desc\<lparr>mac_d0 := push_bit 16 sn\<rparr>"

text \<open>Frame \<open>p\<close> of this state has the sequence number \<open>num p\<close>; peer 0 has a session for TID 0.\<close>

definition ex_state :: "(skb_ptr \<Rightarrow> u32) \<Rightarrow> wil_tid_ampdu_rx \<Rightarrow> wil6210_priv" where
  "ex_state num r = set_tid_rx 0 0 (Some r)
     (wil_init_state\<lparr>skbs := \<lambda>p. zero_skb\<lparr>skb_users := 1, cb_rx := ex_desc (num p)\<rparr>\<rparr>)"

lemma set_tid_rx_same:
  assumes "wil_arrays_ok w" "cid < WIL6210_MAX_CID" "tid < WIL_STA_TID_NUM"
  shows "tid_rx (sta (set_tid_rx cid tid r w) ! cid) ! tid = r"
  using assms by (simp add: set_tid_rx_def upd_sta_def wil_arrays_okD)

text \<open>
  Claim C1. The receive path of a frame with a block acknowledgement session is the abstract
  window: \<open>wil_rx_reorder\<close> hands the frames of \<open>spec_rx\<close> to the stack in that order, frees the
  frame exactly when the specification drops it, and leaves the session's buffer as the window of
  the specification. (The size divides 4096 and is below 2048.)
\<close>

theorem rx_reorder_implements_window:
  assumes "wil_arrays_ok w"
    and "tid_rx (sta w ! wil_rxdesc_cid (cb_rx (skbs w skb))) ! wil_rxdesc_tid (cb_rx (skbs w skb)) = Some r"
    and "reorder_ok r"
    and "spec_rx (seq_dist (frame_seq w skb) (head_seq_num r)) skb (window r) = (ds, win', m, dropped)"
  shows "\<exists>w' r'. wil_rx_reorder ok jf skb w = Some w' \<and>
     delivered w' = delivered w @ ds \<and>
     skbs w' = (if dropped then kfree_skb skb (skbs w) else skbs w) \<and>
     tid_rx (sta w' ! wil_rxdesc_cid (cb_rx (skbs w skb))) ! wil_rxdesc_tid (cb_rx (skbs w skb)) = Some r' \<and>
     reorder_ok r' \<and> window r' = win' \<and>
     unat (head_seq_num r') = (unat (head_seq_num r) + m) mod 4096"
proof -
  obtain w1 r1 where 1: "wil_rx_reorder_locked ok jf skb (frame_seq w skb) (w, r) = Some (w1, r1)"
    "delivered w1 = delivered w @ ds" "skbs w1 = (if dropped then kfree_skb skb (skbs w) else skbs w)"
    "unat (head_seq_num r1) = (unat (head_seq_num r) + m) mod 4096" "reorder_ok r1" "window r1 = win'"
    using rx_reorder_locked_refines [OF assms(3) frame_seq_bound assms(4), of ok jf w] by blast
  have "wil_arrays_ok w1"
    using rx_reorder_locked_frame [OF 1(1)] assms(1) by (rule rx_frame_arrays)
  then show ?thesis
    using 1 assms(2) by (simp add: wil_rx_reorder_def frame_seq_def Let_def set_tid_rx_same
        wil_rxdesc_cid_bound wil_rxdesc_tid_bound set_tid_rx_def upd_sta_def wil_arrays_okD)
qed

lemma ex_state_simps:
  "sta (ex_state num r) ! 0 = zero_sta\<lparr>tid_rx := (tid_rx zero_sta)[0 := Some r]\<rparr>"
  "cb_rx (skbs (ex_state num r) p) = ex_desc (num p)"
  "klog (ex_state num r) = []"
  by (simp_all add: ex_state_def set_tid_rx_def upd_sta_def wil_init_state_def WIL6210_MAX_CID_def)

lemma ex_state_arrays: "wil_arrays_ok (ex_state num r)"
  unfolding ex_state_def
  by (rule set_tid_rx_arrays) (simp add: wil_arrays_ok_def wil_init_state_def zero_sta_def)

lemma ex_session_ok: "reorder_ok (ex_session 4 0)" "window (ex_session 4 0) = replicate 4 None"
  by (simp_all add: ex_session_def reorder_ok_def reorder_safe_def window_def)

lemma ex_desc_fields:
  "wil_rxdesc_cid (ex_desc 1) = 0" "wil_rxdesc_tid (ex_desc 1) = 0" "wil_rxdesc_seq (ex_desc 1) = 1"
  "wil_rxdesc_cid (ex_desc 0) = 0" "wil_rxdesc_tid (ex_desc 0) = 0" "wil_rxdesc_seq (ex_desc 0) = 0"
  by code_simp+

theorem rx_reorder_implements_window_witness:
  "\<exists>w' r'. wil_rx_reorder (\<lambda>_. True) 5 7 (ex_state (\<lambda>_. 1) (ex_session 4 0)) = Some w' \<and>
     delivered w' = [] \<and> tid_rx (sta w' ! 0) ! 0 = Some r' \<and>
     window r' = [None, Some 7, None, None] \<and> unat (head_seq_num r') = 0"
proof -
  let ?w = "ex_state (\<lambda>_. 1) (ex_session 4 0)"
  have d: "seq_dist (frame_seq ?w 7) (head_seq_num (ex_session 4 0)) = 1"
    by (simp add: frame_seq_def ex_state_simps ex_desc_fields ex_session_def) code_simp
  have s: "spec_rx 1 (7::nat) (replicate 4 None) = ([], [None, Some 7, None, None], 0, False)"
    by code_simp
  show ?thesis
    using rx_reorder_implements_window [OF ex_state_arrays _ ex_session_ok(1)
        s [folded ex_session_ok(2) d], of "\<lambda>_. True" 5]
    by (simp add: ex_state_simps ex_desc_fields zero_sta_def WIL_STA_TID_NUM_def ex_session_def) blast
qed

text \<open>
  The receive path never crashes on a frame: with the arrays at their sizes and every
  session satisfying the representation invariant (a non-zero size, the array of that size, the
  counter equal to the number of frames stored), \<open>wil_rx_reorder\<close> returns for every descriptor
  and keeps both; no index leaves its array and the two release loops end. Any size is allowed.
\<close>

theorem rx_reorder_never_crashes:
  assumes "wil_arrays_ok w" "sessions_safe w"
  shows "\<exists>w'. wil_rx_reorder ok jf skb w = Some w' \<and> wil_arrays_ok w' \<and> sessions_safe w'"
  by (rule wil_rx_reorder_total [OF assms])

lemma ex_state_sessions: "reorder_safe r \<Longrightarrow> sessions_safe (ex_state num r)"
  unfolding ex_state_def
  by (rule set_tid_rx_safe) (auto simp: sessions_safe_def wil_init_state_def zero_sta_def)

theorem rx_reorder_never_crashes_witness:
  "\<exists>w'. wil_rx_reorder (\<lambda>_. True) 5 7 (ex_state (\<lambda>_. 1) (ex_session 4 0)) = Some w' \<and>
     wil_arrays_ok w' \<and> sessions_safe w'"
  using reorder_okD(1) [OF ex_session_ok(1)]
  by (intro rx_reorder_never_crashes ex_state_arrays ex_state_sessions)

subsection \<open>Sessions\<close>

text \<open>
  Claim C14. Over any list of frames a session of a supported size loses and invents nothing: the
  run does not crash, and the frames given to it together with those already stored are exactly
  those handed to the stack, those still stored and those released. The buffers change by exactly
  one \<open>kfree_skb\<close> for each frame released, and only frames of the list are released: a stored frame is
  never overwritten, leaked or freed.
\<close>

theorem reorder_session_conserves:
  assumes "reorder_ok r" "slots_match w r"
  shows "\<exists>w' r' ds gone. run_inputs (reorder_step ok jf) frames (w, r) = Some (w', r') \<and>
     delivered w' = delivered w @ ds \<and> skbs w' = fold kfree_skb gone (skbs w) \<and>
     mset gone \<subseteq># mset frames \<and>
     mset ds + mset (somes (reorder_buf r')) + mset gone = mset (somes (reorder_buf r)) + mset frames"
  using rs.run_accounts [of "frame_seq w" "(w, r)" ok jf frames] assms
  by (auto simp: session_inv_def)

lemma ex_session_match: "slots_match w (ex_session 4 0)"
  by (simp add: slots_match_def ex_session_ok)

text \<open>The third frame repeats the number of the first: it is the one released.\<close>

theorem reorder_session_conserves_witness:
  "\<exists>w' r' ds gone. run_inputs (reorder_step (\<lambda>_. True) 5) [1, 2, 3]
       (ex_state (\<lambda>p. if p = 2 then 3 else 1) (ex_session 4 0), ex_session 4 0) = Some (w', r') \<and>
     delivered w' = ds \<and> skbs w' = fold kfree_skb gone (skbs (ex_state (\<lambda>p. if p = 2 then 3 else 1) (ex_session 4 0))) \<and>
     mset ds + mset (somes (reorder_buf r')) + mset gone = {#1, 2, 3#} \<and> size (mset gone) = 1"
proof -
  let ?w = "ex_state (\<lambda>p. if p = 2 then 3 else 1) (ex_session 4 0)"
  obtain w' r' ds gone where 1: "run_inputs (reorder_step (\<lambda>_. True) 5) [1, 2, 3] (?w, ex_session 4 0) = Some (w', r')"
    "delivered w' = delivered ?w @ ds" "skbs w' = fold kfree_skb gone (skbs ?w)"
    "mset ds + mset (somes (reorder_buf r')) + mset gone = mset (somes (reorder_buf (ex_session 4 0))) + mset [1, 2, 3]"
    using reorder_session_conserves [OF ex_session_ok(1) ex_session_match, of "\<lambda>_. True" 5 "[1, 2, 3]" ?w] by blast
  have "map_option (\<lambda>(w, r). (delivered w, somes (reorder_buf r)))
      (run_inputs (reorder_step (\<lambda>_. True) 5) [1, 2, 3] (?w, ex_session 4 0)) = Some ([], [1, 2])"
    by code_simp
  then have 2: "delivered w' = []" "somes (reorder_buf r') = [1, 2]" using 1(1) by simp_all
  then have "size (mset ds + mset [1, 2] + mset gone) = size (mset [1, 2, 3 :: nat])"
    using 1(4) by (simp add: ex_session_def)
  then have "size (mset gone) = 1" using 1(2) 2(1) by simp
  then show ?thesis using 1 2 by (intro exI [of _ w'] exI [of _ r'] exI [of _ ds] exI [of _ gone])
    (simp add: ex_session_def)
qed

text \<open>
  Claim C13. A session hands the frames out in sequence order: counted from the head before the run,
  the frames handed out have strictly increasing positions, all before the new head, and a
  frame's sequence number is its position modulo 4096. Each frame moves the head by at most 2049,
  so the positions are no more than the numbers say.
\<close>

theorem reorder_session_in_order:
  assumes "reorder_ok r" "slots_match w r"
    and "run_inputs (reorder_step ok jf) frames (w, r) = Some (w', r')"
  shows "\<exists>ds m. delivered w' = delivered w @ ds \<and>
     numbered (\<lambda>p. unat (frame_seq w p)) 4096 (unat (head_seq_num r)) ds m \<and>
     unat (head_seq_num r') = (unat (head_seq_num r) + m) mod 4096 \<and> m \<le> 2049 * length frames"
  using rs.run_orders [of "frame_seq w" "(w, r)" ok jf frames "(w', r')"] assms
  by (simp add: session_inv_def)

theorem reorder_session_in_order_witness:
  "(case run_inputs (reorder_step (\<lambda>_. True) 5) [1, 2, 3]
       (ex_state (\<lambda>p. of_nat (3 - p)) (ex_session 4 0), ex_session 4 0) of
      None \<Rightarrow> False
    | Some (w', r') \<Rightarrow> delivered w' = [3, 2, 1] \<and>
        (\<exists>ds m. delivered w' = ds \<and>
           numbered (\<lambda>p. unat (frame_seq (ex_state (\<lambda>p. of_nat (3 - p)) (ex_session 4 0)) p)) 4096 0 ds m))"
proof -
  let ?w = "ex_state (\<lambda>p. of_nat (3 - p)) (ex_session 4 0)"
  have "(case run_inputs (reorder_step (\<lambda>_. True) 5) [1, 2, 3] (?w, ex_session 4 0) of
      None \<Rightarrow> False | Some (w', r') \<Rightarrow> delivered w' = [3, 2, 1])"
    by code_simp
  then obtain w' r' where
    "run_inputs (reorder_step (\<lambda>_. True) 5) [1, 2, 3] (?w, ex_session 4 0) = Some (w', r')"
    "delivered w' = [3, 2, 1]"
    by (auto split: option.splits prod.splits)
  with reorder_session_in_order [OF ex_session_ok(1) ex_session_match this(1)]
  show ?thesis by (auto simp: ex_state_simps ex_session_def)
qed

subsection \<open>Setting a session up and tearing it down\<close>

text \<open>
  Claim C15. A session made for a supported size starts as an empty window whose head is the
  starting sequence number, and tearing a session down hands every frame it stores to the
  stack, in order, and frees none of them.
\<close>

theorem reorder_session_ends:
  assumes "reorder_ok r"
  shows "\<exists>w'. wil_tid_ampdu_rx_free ok (Some r) w = Some w' \<and>
     delivered w' = delivered w @ somes (window r) \<and> skbs w' = skbs w"
  using tid_ampdu_rx_free_flushes [OF assms] by blast

lemma ex_session_stored:
  "reorder_ok ((ex_session 4 0)\<lparr>reorder_buf := [None, Some 7, None, Some 9], stored_mpdu_num := 2\<rparr>)"
  by (simp add: ex_session_def reorder_ok_def reorder_safe_def)

theorem reorder_session_ends_witness:
  "\<exists>w'. wil_tid_ampdu_rx_free (\<lambda>_. True) (Some ((ex_session 4 0)
       \<lparr>reorder_buf := [None, Some 7, None, Some 9], stored_mpdu_num := 2\<rparr>)) wil_init_state =
       Some w' \<and> delivered w' = [7, 9] \<and> skbs w' = skbs wil_init_state"
  using reorder_session_ends [OF ex_session_stored, of "\<lambda>_. True" wil_init_state]
  by (auto simp: window_def ex_session_def wil_init_state_def)

text \<open>
  Allocation: with the three allocations granted and a supported size the new session is
  an empty window at the starting sequence number; if any allocation fails there is no session.
\<close>

theorem reorder_session_starts:
  assumes "2 \<le> n" "n dvd 4096" "n < 2048" "unat s0 < 4096"
  shows "(\<exists>r. wil_tid_ampdu_rx_alloc True True True n s0 = Some r \<and> reorder_ok r \<and>
      window r = replicate n None \<and> head_seq_num r = s0) \<and>
    (wil_tid_ampdu_rx_alloc m b t n s0 = None \<longleftrightarrow> \<not> (m \<and> b \<and> t))"
  using tid_ampdu_rx_alloc_ok [OF assms] by (simp add: wil_tid_ampdu_rx_alloc_def)

theorem reorder_session_starts_witness:
  "\<exists>r. wil_tid_ampdu_rx_alloc True True True 64 100 = Some r \<and> reorder_ok r"
  using reorder_session_starts [of 64 100 True True True] by (auto simp: dvd_def)

subsection \<open>Sizes for which the buffer does not work\<close>

text \<open>
  A session of size 0 (\<open>agg_wsize\<close> of 0 in the block acknowledgement request) crashes the
  kernel on the first frame that is not stale: \<open>reorder_index\<close> divides by the size.
\<close>

theorem reorder_size_zero_crashes:
  assumes "wil_tid_ampdu_rx_alloc True True True 0 s0 = Some r" "\<not> seq_less seq s0"
  shows "wil_rx_reorder_locked ok jf skb seq (w, r) = None"
  using assms rx_reorder_locked_size_zero [of r] by (auto simp: wil_tid_ampdu_rx_alloc_def)

theorem reorder_size_zero_crashes_witness:
  "wil_rx_reorder_locked (\<lambda>_. True) 5 7 11 (wil_init_state, ex_session 0 10) = None"
  by (rule reorder_size_zero_crashes [of 10])
    (simp add: wil_tid_ampdu_rx_alloc_def ex_session_def, code_simp)

text \<open>
  With a size that does not divide 4096 a frame inside the window is lost: in a session of
  size 10 with its head at 4090, the frames 4091 and then 1 (both new, and both in the window of
  4090 to 3) get the same slot, and the second is dropped as a duplicate.
\<close>

theorem reorder_size_ten_drops:
  "(case run_inputs (reorder_step (\<lambda>_. True) 5) [1, 2]
       (ex_state (\<lambda>p. if p = 1 then 4091 else 1) (ex_session 10 0),
        (ex_session 10 0)\<lparr>head_seq_num := 4090\<rparr>) of
      None \<Rightarrow> False
    | Some (w', r') \<Rightarrow> delivered w' = [] \<and> somes (reorder_buf r') = [1] \<and>
        skb_users (skbs w' 2) = 0 \<and> seq_dist 1 (head_seq_num r') < unat (buf_size r'))"
  by code_simp

end
