(* ===== verification/Wil_Vring.thy ===== *)
theory Wil_Vring
  imports Wil_Netif
begin

text \<open>
  The descriptor rings (\<open>struct vring\<close>, \<^verbatim>\<open>txrx.c\<close>): index arithmetic, allocation and
  release. An Rx ring is produced at \<open>swtail\<close> and consumed at \<open>swhead\<close>, a Tx ring the other way
  round. An access to an array outside its bounds, or through a NULL pointer, is the result \<open>None\<close>.
\<close>

subsection \<open>Array accesses\<close>

definition vring_d :: "vring \<Rightarrow> u32 \<Rightarrow> vring_desc option" where
  "vring_d v i =
     (case vr_va v of
       None \<Rightarrow> None
     | Some ds \<Rightarrow> if unat i < length ds then Some (ds ! unat i) else None)"

definition vring_set_d :: "u32 \<Rightarrow> vring_desc \<Rightarrow> vring \<Rightarrow> vring" where
  "vring_set_d i d v = v\<lparr>vr_va := map_option (\<lambda>ds. ds[unat i := d]) (vr_va v)\<rparr>"

definition vring_ctx :: "vring \<Rightarrow> u32 \<Rightarrow> skb_ptr option option" where
  "vring_ctx v i = (if unat i < length (vr_ctx v) then Some (vr_ctx v ! unat i) else None)"

definition vring_set_ctx :: "u32 \<Rightarrow> skb_ptr option \<Rightarrow> vring \<Rightarrow> vring" where
  "vring_set_ctx i c v = v\<lparr>vr_ctx := (vr_ctx v)[unat i := c]\<rparr>"

lemma vring_set_frame [simp]:
  "vr_size (vring_set_d i d v) = vr_size v" "vr_size (vring_set_ctx i c v) = vr_size v"
  "swtail (vring_set_d i d v) = swtail v" "swtail (vring_set_ctx i c v) = swtail v"
  "swhead (vring_set_d i d v) = swhead v" "swhead (vring_set_ctx i c v) = swhead v"
  "hwtail (vring_set_d i d v) = hwtail v" "hwtail (vring_set_ctx i c v) = hwtail v"
  "vr_pa (vring_set_d i d v) = vr_pa v" "vr_pa (vring_set_ctx i c v) = vr_pa v"
  "vr_ctx (vring_set_d i d v) = vr_ctx v" "vr_va (vring_set_ctx i c v) = vr_va v"
  "vr_va (vring_set_d i d v) = map_option (\<lambda>ds. ds[unat i := d]) (vr_va v)"
  "vr_ctx (vring_set_ctx i c v) = (vr_ctx v)[unat i := c]"
  by (simp_all add: vring_set_d_def vring_set_ctx_def)

subsection \<open>Index arithmetic\<close>

definition wil_vring_is_empty :: "vring \<Rightarrow> bool" where
  "wil_vring_is_empty v \<longleftrightarrow> swhead v = swtail v"

definition wil_vring_next_tail :: "vring \<Rightarrow> u32" where
  "wil_vring_next_tail v = (swtail v + 1) mod ucast (vr_size v)"

definition wil_vring_advance_head :: "vring \<Rightarrow> u32 \<Rightarrow> vring" where
  "wil_vring_advance_head v n = v\<lparr>swhead := (swhead v + n) mod ucast (vr_size v)\<rparr>"

definition wil_vring_is_full :: "vring \<Rightarrow> bool" where
  "wil_vring_is_full v \<longleftrightarrow> wil_vring_next_tail v = swhead v"

definition wil_vring_avail_tx :: "vring \<Rightarrow> int" where
  "wil_vring_avail_tx v =
     (let used = (ucast (vr_size v) + swhead v - swtail v) mod ucast (vr_size v) :: u32
      in int (unat (vr_size v)) - sint used - 1)"

text \<open>\<open>ring_span n a b\<close>: the number of slots from \<open>a\<close> up to \<open>b\<close> in a ring of \<open>n\<close>.\<close>

definition ring_span :: "nat \<Rightarrow> nat \<Rightarrow> nat \<Rightarrow> nat" where
  "ring_span n a b = (n + b - a) mod n"

text \<open>A ring with both indices inside and both arrays of its size.\<close>

definition vring_ok :: "vring \<Rightarrow> bool" where
  "vring_ok v \<longleftrightarrow>
     2 \<le> unat (vr_size v) \<and> unat (swhead v) < unat (vr_size v) \<and> unat (swtail v) < unat (vr_size v) \<and>
     length (vr_ctx v) = unat (vr_size v) \<and>
     (\<exists>ds. vr_va v = Some ds \<and> length ds = unat (vr_size v))"

lemma ring_span_bound: "0 < n \<Longrightarrow> ring_span n a b < n"
  by (simp add: ring_span_def)

lemma ring_span_cases:
  assumes "a < n" "b < n"
  shows "ring_span n a b = (if a \<le> b then b - a else n + b - a)"
proof (cases "a \<le> b")
  case True
  then have "(n + b - a) mod n = (b - a) mod n" by (metis Nat.add_diff_assoc mod_add_self1)
  then show ?thesis using True assms by (simp add: ring_span_def)
qed (use assms in \<open>simp add: ring_span_def\<close>)

lemma ring_span_empty: "a < n \<Longrightarrow> b < n \<Longrightarrow> ring_span n a b = 0 \<longleftrightarrow> a = b"
  by (auto simp: ring_span_cases)

lemma ring_span_next:
  assumes "a < n" "b < n" "(b + 1) mod n \<noteq> a"
  shows "ring_span n a ((b + 1) mod n) = ring_span n a b + 1"
proof (cases "b + 1 = n")
  case True
  then show ?thesis using assms by (auto simp: ring_span_cases)
next
  case False
  then have "b + 1 < n" using assms(2) by simp
  then show ?thesis using assms by (auto simp: ring_span_cases)
qed

lemma ring_span_advance:
  assumes "a < n" "b < n" "0 < ring_span n a b"
  shows "ring_span n ((a + 1) mod n) b = ring_span n a b - 1"
proof (cases "a + 1 = n")
  case True
  then show ?thesis using assms by (auto simp: ring_span_cases)
next
  case False
  then have "a + 1 < n" using assms(1) by simp
  then show ?thesis using assms by (auto simp: ring_span_cases split: if_splits)
qed

lemma ring_span_full:
  assumes "a < n" "b < n"
  shows "(b + 1) mod n = a \<longleftrightarrow> ring_span n a b = n - 1"
proof (cases "b + 1 = n")
  case True
  then show ?thesis using assms by (auto simp: ring_span_cases)
next
  case False
  then have "b + 1 < n" using assms(2) by simp
  then show ?thesis using assms by (auto simp: ring_span_cases)
qed

lemma ring_span_reach: "a < n \<Longrightarrow> b < n \<Longrightarrow> (a + ring_span n a b) mod n = b"
  by (auto simp: ring_span_cases)

lemma unat_vring_mod:
  "unat (x mod ucast (vr_size v) :: u32) = unat x mod unat (vr_size v)"
  by (simp add: unat_mod_distrib unat_ucast_up)

lemma vring_size_bound: "unat (vr_size v) < 65536"
  by (rule unat_u16_bound)

lemma unat_next_tail:
  assumes "vring_ok v"
  shows "unat (wil_vring_next_tail v) = (unat (swtail v) + 1) mod unat (vr_size v)"
proof -
  have "unat (swtail v + 1) = unat (swtail v) + 1"
    using assms vring_size_bound [of v] unat_add_lt [of "swtail v" 1] by (simp add: vring_ok_def)
  then show ?thesis unfolding wil_vring_next_tail_def unat_vring_mod by simp
qed

lemma unat_advance_head:
  assumes "vring_ok v" "unat n < 65536"
  shows "unat (swhead (wil_vring_advance_head v n)) = (unat (swhead v) + unat n) mod unat (vr_size v)"
proof -
  have "unat (swhead v + n) = unat (swhead v) + unat n"
    using assms vring_size_bound [of v] unat_add_lt [of "swhead v" n] by (simp add: vring_ok_def)
  then show ?thesis unfolding wil_vring_advance_head_def by (simp add: unat_vring_mod)
qed

definition vring_used :: "vring \<Rightarrow> nat" where
  "vring_used v = ring_span (unat (vr_size v)) (unat (swhead v)) (unat (swtail v))"

definition vring_tx_used :: "vring \<Rightarrow> nat" where
  "vring_tx_used v = ring_span (unat (vr_size v)) (unat (swtail v)) (unat (swhead v))"

lemma vring_empty_used: "vring_ok v \<Longrightarrow> wil_vring_is_empty v \<longleftrightarrow> vring_used v = 0"
  by (simp add: vring_used_def ring_span_empty vring_ok_def wil_vring_is_empty_def word_unat_eq_iff)

lemma vring_empty_tx_used: "vring_ok v \<Longrightarrow> wil_vring_is_empty v \<longleftrightarrow> vring_tx_used v = 0"
  by (auto simp: vring_tx_used_def ring_span_empty vring_ok_def wil_vring_is_empty_def word_unat_eq_iff)

lemma vring_full_used:
  assumes "vring_ok v"
  shows "wil_vring_is_full v \<longleftrightarrow> vring_used v = unat (vr_size v) - 1"
  using assms unfolding wil_vring_is_full_def word_unat_eq_iff unat_next_tail [OF assms] vring_used_def
  by (intro ring_span_full) (simp_all add: vring_ok_def)

text \<open>\<open>wil_vring_avail_tx\<close> is the number of free descriptors but one.\<close>

lemma vring_avail_tx:
  assumes "vring_ok v"
  shows "wil_vring_avail_tx v = int (unat (vr_size v) - vring_tx_used v - 1)"
proof -
  let ?n = "unat (vr_size v)"
  let ?used = "(ucast (vr_size v) + swhead v - swtail v) mod ucast (vr_size v) :: u32"
  have ok: "unat (swhead v) < ?n" "unat (swtail v) < ?n" "0 < ?n" "?n < 65536"
    using assms vring_size_bound by (auto simp: vring_ok_def)
  have c: "unat (ucast (vr_size v) :: u32) = ?n" by (simp add: unat_ucast_up)
  have "unat (ucast (vr_size v) + swhead v :: u32) = ?n + unat (swhead v)"
    using ok c unat_add_lt [of "ucast (vr_size v) :: u32" "swhead v"] by simp
  then have "unat (ucast (vr_size v) + swhead v - swtail v :: u32) = ?n + unat (swhead v) - unat (swtail v)"
    using ok by (simp add: unat_sub word_le_nat_alt)
  then have u: "unat ?used = vring_tx_used v"
    unfolding unat_vring_mod vring_tx_used_def ring_span_def by simp
  have "vring_tx_used v < ?n" using ok(3) by (simp add: vring_tx_used_def ring_span_bound)
  moreover from this have "sint ?used = int (vring_tx_used v)"
    using ok(4) u sint_small_u32 [of ?used] by simp
  ultimately show ?thesis by (simp add: wil_vring_avail_tx_def Let_def)
qed

subsection \<open>The slots in use\<close>

definition ring_slots :: "'a list \<Rightarrow> nat \<Rightarrow> nat \<Rightarrow> 'a list" where
  "ring_slots xs a k = map (\<lambda>j. xs ! ((a + j) mod length xs)) [0..<k]"

lemma ring_slots_0 [simp]: "ring_slots xs a 0 = []"
  by (simp add: ring_slots_def)

lemma ring_slots_Suc:
  "ring_slots xs a (Suc k) = xs ! (a mod length xs) # ring_slots xs ((a + 1) mod length xs) k"
  unfolding ring_slots_def map_upt_Suc by (simp add: mod_Suc_eq mod_add_left_eq [of "Suc a"])

lemma ring_slots_snoc: "ring_slots xs a (Suc k) = ring_slots xs a k @ [xs ! ((a + k) mod length xs)]"
  by (simp add: ring_slots_def)

lemma ring_slots_update:
  assumes "\<And>j. j < k \<Longrightarrow> (a + j) mod length xs \<noteq> i"
  shows "ring_slots (xs[i := x]) a k = ring_slots xs a k"
proof -
  have "xs[i := x] ! ((a + j) mod length xs) = xs ! ((a + j) mod length xs)" if "j < k" for j
    using assms [OF that] by (metis nth_list_update_neq)
  then show ?thesis by (simp add: ring_slots_def)
qed

lemma length_ring_slots [simp]: "length (ring_slots xs a k) = k"
  by (simp add: ring_slots_def)

text \<open>The slot before the first and the slot after the last are not in use.\<close>

lemma ring_slots_update_end:
  assumes "k < length xs"
  shows "ring_slots (xs[(a + k) mod length xs := x]) a k = ring_slots xs a k"
  using assms mod_shift_inj [of a _ "length xs" k] by (intro ring_slots_update) fastforce

lemma ring_slots_update_start:
  assumes "k < length xs" "a < length xs"
  shows "ring_slots (xs[a := x]) ((a + 1) mod length xs) k = ring_slots xs ((a + 1) mod length xs) k"
proof (rule ring_slots_update)
  fix j assume j: "j < k"
  show "((a + 1) mod length xs + j) mod length xs \<noteq> a"
  proof
    assume "((a + 1) mod length xs + j) mod length xs = a"
    then have "(a + (j + 1)) mod length xs = (a + 0) mod length xs"
      using assms(2) by (simp add: mod_add_left_eq)
    then have "j + 1 = 0" by (rule mod_shift_inj) (use j assms in auto)
    then show False by simp
  qed
qed

definition rx_posted :: "vring \<Rightarrow> skb_ptr option list" where
  "rx_posted v = ring_slots (vr_ctx v) (unat (swhead v)) (vring_used v)"

definition tx_posted :: "vring \<Rightarrow> skb_ptr option list" where
  "tx_posted v = ring_slots (vr_ctx v) (unat (swtail v)) (vring_tx_used v)"

subsection \<open>Allocation\<close>

text \<open>
  The results of \<open>kzalloc\<close> and \<open>dma_alloc_coherent\<close> are parameters; the second brings the bus
  address and the memory, whose contents are the allocator's. The result is the error and the ring.
\<close>

definition wil_vring_alloc ::
  "bool \<Rightarrow> (u64 \<times> vring_desc list) option \<Rightarrow> vring \<Rightarrow> errno option \<times> vring" where
  "wil_vring_alloc ctx_mem va_mem v =
     (let v = v\<lparr>swhead := 0, swtail := 0\<rparr>
      in if \<not> ctx_mem then (Some ENOMEM, v\<lparr>vr_ctx := [], vr_va := None\<rparr>)
         else case va_mem of
             None \<Rightarrow> (Some ENOMEM, v\<lparr>vr_ctx := [], vr_va := None\<rparr>)
           | Some (pa, mem) \<Rightarrow>
               (None, v\<lparr>vr_pa := pa, vr_ctx := replicate (unat (vr_size v)) None,
                  vr_va := Some (map (\<lambda>d. d\<lparr>desc_status := TX_DMA_STATUS_DU\<rparr>) mem)\<rparr>))"

lemma vring_alloc_ok:
  assumes "2 \<le> unat (vr_size v)" "length mem = unat (vr_size v)"
    and "wil_vring_alloc True (Some (pa, mem)) v = (rc, v')"
  shows "rc = None" "vring_ok v'" "vr_size v' = vr_size v" "hwtail v' = hwtail v"
    "swhead v' = 0" "swtail v' = 0" "vr_ctx v' = replicate (unat (vr_size v)) None"
    "\<forall>ds. vr_va v' = Some ds \<longrightarrow> (\<forall>d \<in> set ds. desc_done d)"
  using assms unfolding wil_vring_alloc_def vring_ok_def Let_def
  by (auto simp: desc_done_def TX_DMA_STATUS_DU_def BIT_def)

subsection \<open>Release\<close>

text \<open>
  \<open>wil_vring_free\<close>: the loop, then the two frees. \<open>None\<close> is a crash or a loop that does not end.
  The comparison with \<open>sngl_mapped\<close> is unsigned, as in C.
\<close>

definition vring_free_tx_step :: "wil6210_priv \<Rightarrow> vring \<Rightarrow> (wil6210_priv \<times> vring) option" where
  "vring_free_tx_step w v = do {
     d \<leftarrow> vring_d v (swtail v);
     skb \<leftarrow> vring_ctx v (swtail v);
     (case skb of
        None \<Rightarrow> Some (w, v\<lparr>swtail := wil_vring_next_tail v\<rparr>)
      | Some p \<Rightarrow>
          let w = klog_add
                ((if swtail v \<le> word_of_int (sngl_mapped (skbs w p))
                  then DmaUnmapSingle else DmaUnmapPage) (desc_pa d) (unat (desc_length d))) w;
              w = dev_kfree_skb p w;
              v = vring_set_ctx (swtail v) None v
          in Some (w, v\<lparr>swtail := wil_vring_next_tail v\<rparr>))
   }"

definition vring_free_rx_step :: "wil6210_priv \<Rightarrow> vring \<Rightarrow> (wil6210_priv \<times> vring) option" where
  "vring_free_rx_step w v = do {
     d \<leftarrow> vring_d v (swtail v);
     skb \<leftarrow> vring_ctx v (swhead v);
     let w = klog_add (DmaUnmapSingle (desc_pa d) (unat (desc_length d))) w;
     let w = (case skb of None \<Rightarrow> w | Some p \<Rightarrow> dev_kfree_skb p w);
     Some (w, wil_vring_advance_head v 1)
   }"

partial_function (option) vring_free_loop ::
  "bool \<Rightarrow> wil6210_priv \<Rightarrow> vring \<Rightarrow> (wil6210_priv \<times> vring) option" where
  "vring_free_loop tx w v =
     (if wil_vring_is_empty v then Some (w, v)
      else do {
        (w', v') \<leftarrow> (if tx then vring_free_tx_step w v else vring_free_rx_step w v);
        vring_free_loop tx w' v'
      })"

declare vring_free_loop.simps [code]

definition wil_vring_free :: "bool \<Rightarrow> wil6210_priv \<Rightarrow> vring \<Rightarrow> (wil6210_priv \<times> vring) option" where
  "wil_vring_free tx w v = do {
     (w, v) \<leftarrow> vring_free_loop tx w v;
     Some (w, v\<lparr>vr_pa := 0, vr_va := None, vr_ctx := []\<rparr>)
   }"

text \<open>Releasing a Tx ring: every buffer between the tail and the head is freed, in order.\<close>

lemma vring_ok_d: "vring_ok v \<Longrightarrow> unat i < unat (vr_size v) \<Longrightarrow> \<exists>d. vring_d v i = Some d"
  by (auto simp: vring_ok_def vring_d_def)

lemma vring_ok_ctx:
  "vring_ok v \<Longrightarrow> unat i < unat (vr_size v) \<Longrightarrow> vring_ctx v i = Some (vr_ctx v ! unat i)"
  by (auto simp: vring_ok_def vring_ctx_def)

lemma vring_okD:
  assumes "vring_ok v"
  shows "unat (swhead v) < unat (vr_size v)" "unat (swtail v) < unat (vr_size v)"
    "length (vr_ctx v) = unat (vr_size v)" "0 < unat (vr_size v)"
  using assms by (auto simp: vring_ok_def)

lemma vring_ok_update [simp]:
  "vring_ok (vring_set_ctx i c v) = vring_ok v"
  "vring_ok (vring_set_d i d v) = vring_ok v"
  by (auto simp: vring_ok_def)

lemma vring_ok_next_tail:
  assumes "vring_ok v"
  shows "vring_ok (v\<lparr>swtail := wil_vring_next_tail v\<rparr>)"
proof -
  have "unat (wil_vring_next_tail v) < unat (vr_size v)"
    unfolding unat_next_tail [OF assms] using vring_okD(4) [OF assms] by simp
  then show ?thesis using assms by (simp add: vring_ok_def)
qed

lemma vring_ok_advance:
  assumes "vring_ok v" "unat n < 65536"
  shows "vring_ok (wil_vring_advance_head v n)"
proof -
  have "unat (swhead (wil_vring_advance_head v n)) < unat (vr_size v)"
    unfolding unat_advance_head [OF assms] using vring_okD(4) [OF assms(1)] by simp
  then show ?thesis using assms by (simp add: vring_ok_def wil_vring_advance_head_def)
qed

lemma vring_tx_used_tail:
  assumes "vring_ok v" "vring_tx_used v = Suc k"
  shows "vring_tx_used (v\<lparr>swtail := wil_vring_next_tail v\<rparr>) = k"
  using assms(2) vring_okD [OF assms(1)]
    ring_span_advance [of "unat (swtail v)" "unat (vr_size v)" "unat (swhead v)"]
  by (simp add: vring_tx_used_def unat_next_tail [OF assms(1)])

lemma vring_used_head:
  assumes "vring_ok v" "vring_used v = Suc k"
  shows "vring_used (wil_vring_advance_head v 1) = k"
proof -
  have "vr_size (wil_vring_advance_head v 1) = vr_size v" "swtail (wil_vring_advance_head v 1) = swtail v"
    by (simp_all add: wil_vring_advance_head_def)
  then show ?thesis
    using assms(2) vring_okD [OF assms(1)] unat_advance_head [OF assms(1), of 1]
      ring_span_advance [of "unat (swhead v)" "unat (vr_size v)" "unat (swtail v)"]
    by (simp add: vring_used_def)
qed

lemma vring_used_set [simp]:
  "vring_used (vring_set_ctx i c v) = vring_used v" "vring_used (vring_set_d i d v) = vring_used v"
  "vring_tx_used (vring_set_ctx i c v) = vring_tx_used v"
  "vring_tx_used (vring_set_d i d v) = vring_tx_used v"
  by (simp_all add: vring_used_def vring_tx_used_def)

lemma vring_used_lt: "vring_ok v \<Longrightarrow> vring_used v < unat (vr_size v)"
  "vring_ok v \<Longrightarrow> vring_tx_used v < unat (vr_size v)"
  by (simp_all add: vring_used_def vring_tx_used_def ring_span_bound vring_okD(4))

lemma tx_posted_Suc:
  assumes "vring_ok v" "vring_tx_used v = Suc k"
  shows "tx_posted v = vr_ctx v ! unat (swtail v) #
      tx_posted ((vring_set_ctx (swtail v) c v)\<lparr>swtail := wil_vring_next_tail v\<rparr>)"
    "tx_posted v = vr_ctx v ! unat (swtail v) # tx_posted (v\<lparr>swtail := wil_vring_next_tail v\<rparr>)"
proof -
  have 1: "vring_tx_used ((vring_set_ctx (swtail v) c v)\<lparr>swtail := wil_vring_next_tail v\<rparr>) = k"
    using vring_tx_used_tail [OF assms] by (simp add: vring_tx_used_def)
  have 2: "k < length (vr_ctx v)" "unat (swtail v) < length (vr_ctx v)"
    using vring_used_lt(2) [OF assms(1)] assms(2) vring_okD [OF assms(1)] by simp_all
  show "tx_posted v = vr_ctx v ! unat (swtail v) #
      tx_posted ((vring_set_ctx (swtail v) c v)\<lparr>swtail := wil_vring_next_tail v\<rparr>)"
    using 1 2 assms vring_okD [OF assms(1)] ring_slots_update_start [of k "vr_ctx v" "unat (swtail v)"]
    by (simp add: tx_posted_def ring_slots_Suc unat_next_tail)
  show "tx_posted v = vr_ctx v ! unat (swtail v) # tx_posted (v\<lparr>swtail := wil_vring_next_tail v\<rparr>)"
    using 2 assms vring_okD [OF assms(1)] vring_tx_used_tail [OF assms]
    by (simp add: tx_posted_def ring_slots_Suc unat_next_tail)
qed

lemma vring_free_tx_loop:
  "vring_ok v \<Longrightarrow> vring_tx_used v = k \<Longrightarrow>
     \<exists>w' v'. vring_free_loop True w v = Some (w', v') \<and> vring_ok v' \<and> wil_vring_is_empty v' \<and>
       skbs w' = fold kfree_skb (somes (tx_posted v)) (skbs w) \<and>
       length (klog w') = length (klog w) + length (somes (tx_posted v))"
proof (induction k arbitrary: w v)
  case 0
  then show ?case
    by (simp add: vring_free_loop.simps [of True w v] vring_empty_tx_used tx_posted_def)
next
  case (Suc k)
  obtain d where d: "vring_d v (swtail v) = Some d"
    using vring_ok_d Suc.prems(1) vring_okD by blast
  have e: "\<not> wil_vring_is_empty v" using Suc.prems by (simp add: vring_empty_tx_used)
  have c: "vring_ctx v (swtail v) = Some (vr_ctx v ! unat (swtail v))"
    using vring_ok_ctx Suc.prems(1) vring_okD by blast
  show ?case
  proof (cases "vr_ctx v ! unat (swtail v)")
    case None
    then show ?thesis
      using Suc.IH [OF vring_ok_next_tail [OF Suc.prems(1)] vring_tx_used_tail [OF Suc.prems], of w]
        tx_posted_Suc(2) [OF Suc.prems] d e c
      by (simp add: vring_free_loop.simps [of True w v] vring_free_tx_step_def)
  next
    case (Some p)
    define v1 where "v1 = (vring_set_ctx (swtail v) None v)\<lparr>swtail := wil_vring_next_tail v\<rparr>"
    define w1 where "w1 = dev_kfree_skb p (klog_add
      ((if swtail v \<le> word_of_int (sngl_mapped (skbs w p)) then DmaUnmapSingle else DmaUnmapPage)
        (desc_pa d) (unat (desc_length d))) w)"
    have step: "vring_free_tx_step w v = Some (w1, v1)"
      using d c Some
      by (simp add: vring_free_tx_step_def v1_def w1_def Let_def wil_vring_next_tail_def)
    have w1: "skbs w1 = kfree_skb p (skbs w)" "length (klog w1) = length (klog w) + 1"
      by (simp_all add: w1_def klog_add_def)
    have "v1 = vring_set_ctx (swtail v) None (v\<lparr>swtail := wil_vring_next_tail v\<rparr>)"
      by (simp add: v1_def vring_set_ctx_def)
    then have "vring_ok v1" "vring_tx_used v1 = k"
      using vring_ok_next_tail Suc.prems vring_tx_used_tail by simp_all
    from Suc.IH [OF this, of w1] show ?thesis
      using tx_posted_Suc(1) [OF Suc.prems, of None] Some e step w1
      by (auto simp: vring_free_loop.simps [of True w v] v1_def)
  qed
qed

text \<open>
  Releasing an Rx ring: the loop moves the head, but takes the address it unmaps from the
  descriptor at the tail.
\<close>

lemma vring_free_rx_loop:
  "vring_ok v \<Longrightarrow> vring_used v = k \<Longrightarrow> vring_d v (swtail v) = Some d \<Longrightarrow>
     \<exists>w' v'. vring_free_loop False w v = Some (w', v') \<and> vring_ok v' \<and> wil_vring_is_empty v' \<and>
       skbs w' = fold kfree_skb (somes (rx_posted v)) (skbs w) \<and>
       klog w' = klog w @ replicate k (DmaUnmapSingle (desc_pa d) (unat (desc_length d)))"
proof (induction k arbitrary: w v)
  case 0
  then show ?case
    by (simp add: vring_free_loop.simps [of False w v] vring_empty_used rx_posted_def)
next
  case (Suc k)
  let ?v = "wil_vring_advance_head v 1"
  have v: "vring_ok ?v" "vring_used ?v = k" "vring_d ?v (swtail ?v) = Some d"
    using vring_ok_advance [OF Suc.prems(1), of 1] vring_used_head [OF Suc.prems(1,2)] Suc.prems(3)
    by (simp_all add: wil_vring_advance_head_def vring_d_def)
  have e: "\<not> wil_vring_is_empty v" using Suc.prems by (simp add: vring_empty_used)
  have c: "vring_ctx v (swhead v) = Some (vr_ctx v ! unat (swhead v))"
    using vring_ok_ctx Suc.prems(1) vring_okD by blast
  have p: "rx_posted v = vr_ctx v ! unat (swhead v) # rx_posted ?v"
    using unat_advance_head [OF Suc.prems(1), of 1] v(2) vring_okD [OF Suc.prems(1)]
    by (simp add: rx_posted_def ring_slots_Suc Suc.prems(2) wil_vring_advance_head_def)
  let ?w = "klog_add (DmaUnmapSingle (desc_pa d) (unat (desc_length d))) w"
  let ?w1 = "case vr_ctx v ! unat (swhead v) of None \<Rightarrow> ?w | Some p \<Rightarrow> dev_kfree_skb p ?w"
  have "vring_free_rx_step w v = Some (?w1, ?v)"
    using c Suc.prems(3) by (simp add: vring_free_rx_step_def Let_def)
  moreover have "skbs ?w1 = fold kfree_skb (somes [vr_ctx v ! unat (swhead v)]) (skbs w)"
    "klog ?w1 = klog w @ [DmaUnmapSingle (desc_pa d) (unat (desc_length d))]"
    by (simp_all add: klog_add_def split: option.split)
  ultimately show ?case
    using Suc.IH [OF v, of ?w1] e p
    by (cases "vr_ctx v ! unat (swhead v)")
      (auto simp: vring_free_loop.simps [of False w v])
qed

end
