(* ===== verification/Wil_Rx.thy ===== *)
theory Wil_Rx
  imports Wil_Vring Wil_Reorder_Order
begin

text \<open>
  The receive ring of \<^verbatim>\<open>txrx.c\<close>: posting buffers, reaping finished ones (with the radiotap
  header of sniffer mode) and the NAPI work \<open>wil_rx_handle\<close>. What the kernel does is gathered in
  the record \<open>rx_env\<close>, an argument of every operation.
\<close>

subsection \<open>The kernel's side\<close>

text \<open>
  \<open>env_alloc i\<close> is the outcome of the allocation for ring slot \<open>i\<close>: nothing (no memory), or a
  buffer, its contents, and its bus address (nothing when the mapping failed). \<open>env_expand\<close> is
  \<open>pskb_expand_head\<close>, \<open>env_eth_type_trans\<close> the kernel's function of that name and \<open>env_rtap_phy\<close>
  the module parameter \<open>rtap_include_phy_info\<close>.
\<close>

record rx_env =
  env_netif_ok :: "skb_ptr \<Rightarrow> bool"
  env_jiffies :: u64
  env_eth_type_trans :: "sk_buff \<Rightarrow> sk_buff"
  env_rtap_phy :: bool
  env_expand :: "nat \<Rightarrow> sk_buff \<Rightarrow> sk_buff option"
  env_alloc :: "u32 \<Rightarrow> (skb_ptr \<times> sk_buff \<times> u64 option) option"

definition upd_skb :: "skb_ptr \<Rightarrow> (sk_buff \<Rightarrow> sk_buff) \<Rightarrow> wil6210_priv \<Rightarrow> wil6210_priv" where
  "upd_skb p f w = w\<lparr>skbs := (skbs w)(p := f (skbs w p))\<rparr>"

subsection \<open>Posting buffers\<close>

definition wil_vring_alloc_skb ::
  "rx_env \<Rightarrow> u32 \<Rightarrow> nat \<Rightarrow> wil6210_priv \<Rightarrow> vring \<Rightarrow> (errno option \<times> wil6210_priv \<times> vring) option" where
  "wil_vring_alloc_skb env i headroom w v =
     (case env_alloc env i of
       None \<Rightarrow> Some (Some ENOMEM, w, v)
     | Some (p, b, mapping) \<Rightarrow> do {
         b \<leftarrow> skb_put RX_BUF_LEN (skb_reserve headroom b);
         let w = upd_skb p (\<lambda>_. b) w;
         (case mapping of
            None \<Rightarrow> Some (Some ENOMEM, dev_kfree_skb p w, v)
          | Some pa \<Rightarrow> do {
              d \<leftarrow> vring_d v i;
              _ \<leftarrow> vring_ctx v i;
              let d = d\<lparr>dma_d0 := BIT 9 OR RX_DMA_D0_CMD_DMA_IT, addr_low := lower_32_bits pa,
                addr_high := ucast (upper_32_bits pa), desc_status := 0,
                desc_length := of_nat RX_BUF_LEN\<rparr>;
              Some (None, klog_add (DmaMapSingle pa RX_BUF_LEN) w,
                vring_set_ctx i (Some p) (vring_set_d i d v))
            })
       })"

primrec rx_refill_loop ::
  "rx_env \<Rightarrow> nat \<Rightarrow> nat \<Rightarrow> wil6210_priv \<Rightarrow> vring \<Rightarrow> (errno option \<times> wil6210_priv \<times> vring) option" where
  "rx_refill_loop env headroom 0 w v = Some (None, w, v)"
| "rx_refill_loop env headroom (Suc cnt) w v =
     (let next_tail = wil_vring_next_tail v
      in if next_tail = swhead v then Some (None, w, v)
         else do {
           (rc, w, v) \<leftarrow> wil_vring_alloc_skb env (swtail v) headroom w v;
           (if rc \<noteq> None then Some (rc, w, v)
            else rx_refill_loop env headroom cnt w (v\<lparr>swtail := next_tail\<rparr>))
         })"

definition wil_rx_refill :: "rx_env \<Rightarrow> nat \<Rightarrow> wil6210_priv \<Rightarrow> (errno option \<times> wil6210_priv) option" where
  "wil_rx_refill env cnt w = do {
     let headroom = (if nd_type (ndev w) = ARPHRD_IEEE80211_RADIOTAP then WIL6210_RTAP_SIZE else 0);
     (rc, w, v) \<leftarrow> rx_refill_loop env headroom cnt w (vring_rx w);
     Some (rc, klog_add (IoWrite32 (HOSTADDR (hwtail v)) (swtail v)) (w\<lparr>vring_rx := v\<rparr>))
   }"

subsection \<open>The radiotap header\<close>

definition PKTHDR_RADIOTAP_VERSION :: u8 where "PKTHDR_RADIOTAP_VERSION = 0"
definition IEEE80211_RADIOTAP_FLAGS :: nat where "IEEE80211_RADIOTAP_FLAGS = 1"
definition IEEE80211_RADIOTAP_CHANNEL :: nat where "IEEE80211_RADIOTAP_CHANNEL = 3"
definition IEEE80211_RADIOTAP_MCS :: nat where "IEEE80211_RADIOTAP_MCS = 19"
definition IEEE80211_RADIOTAP_VENDOR_NAMESPACE :: nat where
  "IEEE80211_RADIOTAP_VENDOR_NAMESPACE = 30"
definition IEEE80211_RADIOTAP_F_BADFCS :: u8 where "IEEE80211_RADIOTAP_F_BADFCS = 0x40"
definition IEEE80211_RADIOTAP_MCS_HAVE_MCS :: u8 where "IEEE80211_RADIOTAP_MCS_HAVE_MCS = 0x02"
definition IEEE80211_FTYPE_DATA :: nat where "IEEE80211_FTYPE_DATA = 8"
definition RX_DMA_STATUS_ERROR :: u8 where "RX_DMA_STATUS_ERROR = BIT 2"
definition RX_DMA_STATUS_PHY_INFO :: u8 where "RX_DMA_STATUS_PHY_INFO = BIT 6"

text \<open>The centre frequency of a 60 GHz channel.\<close>

definition CHAN60G_center_freq :: "nat \<Rightarrow> nat" where
  "CHAN60G_center_freq ch = 56160 + 2160 * ch"

definition desc_bytes :: "vring_desc \<Rightarrow> u8 list" where
  "desc_bytes d = le32 (mac_d0 d) @ le32 (mac_d1 d) @ le32 (mac_d2 d) @ le32 (mac_d3 d) @
     le32 (dma_d0 d) @ le32 (addr_low d) @ le16 (addr_high d) @ le16 (dma_b10 d) @
     [desc_error d, desc_status d] @ le16 (desc_length d)"

lemma length_desc_bytes: "length (desc_bytes d) = 32"
  by (simp add: desc_bytes_def)

text \<open>The PHY information the hardware leaves after the frame, from an 8-byte boundary on.\<close>

definition rtap_phy_data :: "sk_buff \<Rightarrow> u8 list" where
  "rtap_phy_data s =
     (let d = cb_rx s
      in if desc_status d AND RX_DMA_STATUS_PHY_INFO = 0 then []
         else let len = min (8 + 128) (wil_rxdesc_phy_length d);
                  pad = (8 - (skb_addr s + length (skb_data s)) mod 8) mod 8
              in if 8 < len \<and> len + pad \<le> length (skb_tail s)
                 then take (len - 8) (drop pad (skb_tail s)) else [])"

definition rtap_header :: "bool \<Rightarrow> u8 list \<Rightarrow> nat option \<Rightarrow> vring_desc \<Rightarrow> u8 list" where
  "rtap_header phy_info phy chan d =
     (let rtap_len = (if phy_info then 24 + 32 + length phy else 18) :: nat;
          present = BIT IEEE80211_RADIOTAP_FLAGS OR BIT IEEE80211_RADIOTAP_CHANNEL OR
            BIT IEEE80211_RADIOTAP_MCS OR
            (if phy_info then BIT IEEE80211_RADIOTAP_VENDOR_NAMESPACE else 0);
          freq = (case chan of Some ch \<Rightarrow> CHAN60G_center_freq ch | None \<Rightarrow> 58320)
      in [PKTHDR_RADIOTAP_VERSION, 0] @ le16 (of_nat rtap_len) @ le32 present @
         [if desc_status d AND RX_DMA_STATUS_ERROR \<noteq> 0 then IEEE80211_RADIOTAP_F_BADFCS else 0, 0] @
         le16 (of_nat freq) @ le16 0 @
         [IEEE80211_RADIOTAP_MCS_HAVE_MCS, 0, of_nat (wil_rxdesc_mcs d), 0] @
         (if phy_info
          then [0x04, 0xce, 0x14, 1] @ le16 (of_nat (32 + length phy)) @ desc_bytes d @ phy
          else []))"

definition wil_rx_add_radiotap_header ::
  "rx_env \<Rightarrow> skb_ptr \<Rightarrow> wil6210_priv \<Rightarrow> wil6210_priv option" where
  "wil_rx_add_radiotap_header env p w =
     (let s = skbs w p;
          phy = (if env_rtap_phy env then rtap_phy_data s else []);
          hdr = rtap_header (env_rtap_phy env) phy (wd_channel (wdev w)) (cb_rx s)
      in case (if skb_headroom s < length hdr then env_expand env (length hdr) s else Some s) of
           None \<Rightarrow> Some w
         | Some s \<Rightarrow> do {
             s \<leftarrow> skb_push hdr s;
             Some (upd_skb p (\<lambda>_. s) w)
           })"

subsection \<open>Reaping\<close>

text \<open>
  What becomes of a frame taken from the ring: in sniffer mode it is passed on as it is; a frame
  that is not data, or is short, is freed; the others get their addresses swapped back and the
  result of the checksum offload.
\<close>

definition rx_classify :: "vring_desc \<Rightarrow> skb_ptr \<Rightarrow> wil6210_priv \<Rightarrow> skb_ptr option \<times> wil6210_priv" where
  "rx_classify d p w =
     (if nd_type (ndev w) \<noteq> ARPHRD_ETHER then (Some p, w)
      else if wil_rxdesc_ftype d * 4 \<noteq> IEEE80211_FTYPE_DATA then (None, dev_kfree_skb p w)
      else if skb_len (skbs w p) < ETH_HLEN then (None, dev_kfree_skb p w)
      else
        let w = (if wil_rxdesc_ds_bits d = 1
              then upd_skb p (\<lambda>s. s\<lparr>skb_data := wil_swap_ethaddr (skb_data s)\<rparr>) w else w);
            w = (if nd_rxcsum (ndev w) \<and> desc_status d AND RX_DMA_STATUS_L4_IDENT \<noteq> 0 \<and>
                desc_error d AND RX_DMA_ERROR_L4_ERR = 0
              then upd_skb p (\<lambda>s. s\<lparr>skb_ip_summed := CHECKSUM_UNNECESSARY\<rparr>) w else w)
        in (Some p, w))"

text \<open>
  \<open>wil_vring_reap_rx\<close>: the buffer reaped (if any), the state and the ring.
\<close>

definition wil_vring_reap_rx ::
  "rx_env \<Rightarrow> wil6210_priv \<Rightarrow> vring \<Rightarrow> (skb_ptr option \<times> wil6210_priv \<times> vring) option" where
  "wil_vring_reap_rx env w v =
     (if wil_vring_is_empty v then Some (None, w, v)
      else do {
        d \<leftarrow> vring_d v (swhead v);
        (if desc_status d AND RX_DMA_STATUS_DU = 0 then Some (None, w, v)
         else do {
           ctx \<leftarrow> vring_ctx v (swhead v);
           let v = vring_set_ctx (swhead v) None v;
           let w = klog_add (DmaUnmapSingle (desc_pa d) RX_BUF_LEN) w;
           p \<leftarrow> ctx;
           let w = upd_skb p (\<lambda>s. (skb_trim (unat (desc_length d)) s)\<lparr>cb_rx := d\<rparr>) w;
           let mcs = of_nat (wil_rxdesc_mcs d);
           let w = upd_sta (wil_rxdesc_cid d)
                 (\<lambda>s. s\<lparr>sta_stats := (sta_stats s)\<lparr>last_mcs_rx := mcs\<rparr>\<rparr>) w;
           let w = w\<lparr>wstats := (wstats w)\<lparr>ws_last_mcs_rx := mcs\<rparr>\<rparr>;
           w \<leftarrow> (if nd_type (ndev w) = ARPHRD_IEEE80211_RADIOTAP
                 then wil_rx_add_radiotap_header env p w else Some w);
           let v = wil_vring_advance_head v 1;
           let (skb, w) = rx_classify d p w;
           Some (skb, w, v)
         })
      })"

subsection \<open>The NAPI work\<close>

definition ETH_P_802_2 :: u16 where "ETH_P_802_2 = 0x0004"

definition rx_deliver :: "rx_env \<Rightarrow> skb_ptr \<Rightarrow> wil6210_priv \<Rightarrow> wil6210_priv option" where
  "rx_deliver env p w =
     (if wd_iftype (wdev w) = NL80211_IFTYPE_MONITOR
      then Some (wil_netif_rx_any (env_netif_ok env) p
        (upd_skb p (\<lambda>s. s\<lparr>skb_ip_summed := CHECKSUM_UNNECESSARY, skb_protocol := ETH_P_802_2\<rparr>) w))
      else wil_rx_reorder (env_netif_ok env) (env_jiffies env) p
        (upd_skb p (env_eth_type_trans env) w))"

primrec rx_handle_loop :: "rx_env \<Rightarrow> nat \<Rightarrow> wil6210_priv \<Rightarrow> (nat \<times> wil6210_priv) option" where
  "rx_handle_loop env 0 w = Some (0, w)"
| "rx_handle_loop env (Suc quota) w = do {
     (skb, w, v) \<leftarrow> wil_vring_reap_rx env w (vring_rx w);
     let w = w\<lparr>vring_rx := v\<rparr>;
     (case skb of
        None \<Rightarrow> Some (Suc quota, w)
      | Some p \<Rightarrow> do {
          w \<leftarrow> rx_deliver env p w;
          rx_handle_loop env quota w
        })
   }"

definition wil_rx_handle :: "rx_env \<Rightarrow> nat \<Rightarrow> wil6210_priv \<Rightarrow> (nat \<times> wil6210_priv) option" where
  "wil_rx_handle env quota w =
     (if vr_va (vring_rx w) = None then Some (quota, w)
      else do {
        (quota, w) \<leftarrow> rx_handle_loop env quota w;
        (_, w) \<leftarrow> wil_rx_refill env (unat (vr_size (vring_rx w))) w;
        Some (quota, w)
      })"

definition wil_rx_fini :: "wil6210_priv \<Rightarrow> wil6210_priv option" where
  "wil_rx_fini w =
     (if vr_va (vring_rx w) = None then Some w
      else do {
        (w, v) \<leftarrow> wil_vring_free False w (vring_rx w);
        Some (w\<lparr>vring_rx := v\<rparr>)
      })"

end
