(* ===== verification/Wil_Rx_Correct.thy ===== *)
theory Wil_Rx_Correct
  imports Wil_Rx
begin

text \<open>
  Correctness of the receive ring: the slots from the head to the tail hold the posted buffers in
  order; refilling appends to them, reaping takes the first, and the NAPI work never crashes.
\<close>

subsection \<open>The ring invariant\<close>

definition rx_ring_ok :: "vring \<Rightarrow> bool" where
  "rx_ring_ok v \<longleftrightarrow> vring_ok v \<and> None \<notin> set (rx_posted v)"

definition rx_inv :: "wil6210_priv \<Rightarrow> bool" where
  "rx_inv w \<longleftrightarrow> wil_arrays_ok w \<and> sessions_safe w \<and> rx_ring_ok (vring_rx w)"

text \<open>
  What the driver relies on: \<open>dev_alloc_skb\<close> returns a buffer with the room asked for, and
  \<open>pskb_expand_head\<close> makes the headroom it is asked for.
\<close>

definition rx_headroom :: "wil6210_priv \<Rightarrow> nat" where
  "rx_headroom w = (if nd_type (ndev w) = ARPHRD_IEEE80211_RADIOTAP then WIL6210_RTAP_SIZE else 0)"

definition rx_env_ok :: "nat \<Rightarrow> rx_env \<Rightarrow> bool" where
  "rx_env_ok headroom env \<longleftrightarrow>
     (\<forall>i p b m. env_alloc env i = Some (p, b, m) \<longrightarrow> RX_BUF_LEN + headroom \<le> length (skb_tail b)) \<and>
     (\<forall>n s s'. env_expand env n s = Some s' \<longrightarrow> n \<le> skb_headroom s')"

lemma rx_inv_simps [simp]:
  "wil_arrays_ok (upd_skb p f w) = wil_arrays_ok w" "sessions_safe (upd_skb p f w) = sessions_safe w"
  "vring_rx (upd_skb p f w) = vring_rx w" "ndev (upd_skb p f w) = ndev w"
  "wil_arrays_ok (klog_add e w) = wil_arrays_ok w" "sessions_safe (klog_add e w) = sessions_safe w"
  "vring_rx (klog_add e w) = vring_rx w" "ndev (klog_add e w) = ndev w"
  "sta (klog_add e w) = sta w" "klog (klog_add e w) = klog w @ [e]"
  "wil_arrays_ok (dev_kfree_skb p w) = wil_arrays_ok w"
  "sessions_safe (dev_kfree_skb p w) = sessions_safe w" "ndev (dev_kfree_skb p w) = ndev w"
  "wil_arrays_ok (w\<lparr>vring_rx := v\<rparr>) = wil_arrays_ok w" "sessions_safe (w\<lparr>vring_rx := v\<rparr>) = sessions_safe w"
  "wil_arrays_ok (w\<lparr>wstats := s\<rparr>) = wil_arrays_ok w" "sessions_safe (w\<lparr>wstats := s\<rparr>) = sessions_safe w"
  by (simp_all add: wil_arrays_ok_def sessions_safe_def upd_skb_def klog_add_def dev_kfree_skb_def)

text \<open>An operation that touches only buffers and the log.\<close>

definition buf_frame :: "wil6210_priv \<Rightarrow> wil6210_priv \<Rightarrow> bool" where
  "buf_frame w w' \<longleftrightarrow> w' = w\<lparr>skbs := skbs w', klog := klog w'\<rparr>"

lemma buf_frame_refl [simp, intro]: "buf_frame w w"
  by (simp add: buf_frame_def)

lemma buf_frame_trans: "buf_frame w w1 \<Longrightarrow> buf_frame w1 w2 \<Longrightarrow> buf_frame w w2"
  unfolding buf_frame_def by (cases w, cases w1, cases w2) simp

lemma buf_frame_upd [simp, intro]:
  "buf_frame w (upd_skb p f w)" "buf_frame w (klog_add e w)" "buf_frame w (dev_kfree_skb p w)"
  by (simp_all add: buf_frame_def upd_skb_def klog_add_def dev_kfree_skb_def)

lemma buf_frameD:
  assumes "buf_frame w w'"
  shows "wil_arrays_ok w' = wil_arrays_ok w" "sessions_safe w' = sessions_safe w"
    "vring_rx w' = vring_rx w" "ndev w' = ndev w" "wdev w' = wdev w" "sta w' = sta w"
    "vring_tx w' = vring_tx w"
  by (subst assms [unfolded buf_frame_def], simp add: wil_arrays_ok_def sessions_safe_def)+

subsection \<open>Posting\<close>

lemma rx_tail_slot:
  assumes "vring_ok v"
  shows "unat (swtail v) = (unat (swhead v) + vring_used v) mod length (vr_ctx v)"
  using vring_okD [OF assms] ring_span_reach [of "unat (swhead v)" "unat (vr_size v)" "unat (swtail v)"]
  by (simp add: vring_used_def)

lemma vring_used_next_tail:
  assumes "vring_ok v" "wil_vring_next_tail v \<noteq> swhead v"
  shows "vring_used (v\<lparr>swtail := wil_vring_next_tail v\<rparr>) = vring_used v + 1"
  using assms(2) vring_okD [OF assms(1)]
    ring_span_next [of "unat (swhead v)" "unat (vr_size v)" "unat (swtail v)"]
  by (simp add: vring_used_def unat_next_tail [OF assms(1)] word_unat_eq_iff)

lemma rx_posted_post:
  assumes "vring_ok v" "wil_vring_next_tail v \<noteq> swhead v"
  shows "rx_posted ((vring_set_ctx (swtail v) c (vring_set_d (swtail v) d v))
      \<lparr>swtail := wil_vring_next_tail v\<rparr>) = rx_posted v @ [c]"
proof -
  let ?v = "(vring_set_ctx (swtail v) c (vring_set_d (swtail v) d v))\<lparr>swtail := wil_vring_next_tail v\<rparr>"
  have u: "vring_used ?v = Suc (vring_used v)"
    using vring_used_next_tail [OF assms] by (simp add: vring_used_def)
  have "vring_used v < length (vr_ctx v)"
    using vring_used_lt(1) [OF assms(1)] vring_okD(3) [OF assms(1)] by simp
  then show ?thesis
    unfolding rx_posted_def u ring_slots_snoc
    using ring_slots_update_end [of "vring_used v" "vr_ctx v" "unat (swhead v)" c]
      vring_okD(4) [OF assms(1)] vring_okD(3) [OF assms(1)]
    by (simp add: rx_tail_slot [OF assms(1)])
qed

lemma alloc_skb_ok:
  assumes "vring_ok v" "unat i < unat (vr_size v)" "rx_env_ok headroom env"
  shows "\<exists>rc w' v'. wil_vring_alloc_skb env i headroom w v = Some (rc, w', v') \<and> buf_frame w w' \<and>
     (rc = None \<longrightarrow> (\<exists>p d. v' = vring_set_ctx i (Some p) (vring_set_d i d v) \<and> \<not> desc_done d)) \<and>
     (rc \<noteq> None \<longrightarrow> v' = v)"
proof (cases "env_alloc env i")
  case None
  then show ?thesis by (simp add: wil_vring_alloc_skb_def)
next
  case (Some x)
  obtain p b m where x: "x = (p, b, m)" by (cases x)
  have "RX_BUF_LEN + headroom \<le> length (skb_tail b)"
    using assms(3) Some x unfolding rx_env_ok_def by blast
  then have "RX_BUF_LEN \<le> length (skb_tail (skb_reserve headroom b))"
    by (simp add: skb_reserve_def)
  then obtain b' where b': "skb_put RX_BUF_LEN (skb_reserve headroom b) = Some b'"
    by (simp add: skb_put_def)
  obtain d where d: "vring_d v i = Some d" using vring_ok_d [OF assms(1,2)] by blast
  show ?thesis
  proof (cases m)
    case None
    then show ?thesis
      using Some x b' by (auto simp: wil_vring_alloc_skb_def Let_def intro: buf_frame_trans)
  next
    case (Some pa)
    define d' where "d' = d\<lparr>dma_d0 := BIT 9 OR RX_DMA_D0_CMD_DMA_IT, addr_low := lower_32_bits pa,
      addr_high := ucast (upper_32_bits pa), desc_status := 0, desc_length := of_nat RX_BUF_LEN\<rparr>"
    have "\<not> desc_done d'" by (simp add: d'_def desc_done_bit)
    moreover have "wil_vring_alloc_skb env i headroom w v = Some (None,
        klog_add (DmaMapSingle pa RX_BUF_LEN) (upd_skb p (\<lambda>_. b') w),
        vring_set_ctx i (Some p) (vring_set_d i d' v))"
      using Some \<open>env_alloc env i = Some x\<close> x b' d vring_ok_ctx [OF assms(1,2)]
      by (simp add: wil_vring_alloc_skb_def Let_def d'_def)
    ultimately show ?thesis by (blast intro: buf_frame_trans)
  qed
qed

text \<open>
  The descriptors posted: \<open>hw_owned v\<close> says that every slot in use belongs to the hardware.
\<close>

definition rx_descs :: "vring \<Rightarrow> vring_desc list" where
  "rx_descs v = (case vr_va v of None \<Rightarrow> [] | Some ds \<Rightarrow>
     ring_slots ds (unat (swhead v)) (vring_used v))"

lemma rx_descs_post:
  assumes "vring_ok v" "wil_vring_next_tail v \<noteq> swhead v"
  shows "rx_descs ((vring_set_ctx (swtail v) c (vring_set_d (swtail v) d v))
      \<lparr>swtail := wil_vring_next_tail v\<rparr>) = rx_descs v @ [d]"
proof -
  let ?v = "(vring_set_ctx (swtail v) c (vring_set_d (swtail v) d v))\<lparr>swtail := wil_vring_next_tail v\<rparr>"
  obtain ds where ds: "vr_va v = Some ds" "length ds = length (vr_ctx v)"
    using assms(1) by (auto simp: vring_ok_def)
  have u: "vring_used ?v = Suc (vring_used v)"
    using vring_used_next_tail [OF assms] by (simp add: vring_used_def)
  have "vring_used v < length ds"
    using vring_used_lt(1) [OF assms(1)] vring_okD(3) [OF assms(1)] ds(2) by simp
  then show ?thesis
    unfolding rx_descs_def u ring_slots_snoc
    using ring_slots_update_end [of "vring_used v" ds "unat (swhead v)" d]
      vring_okD(4) [OF assms(1)] vring_okD(3) [OF assms(1)] ds
    by (simp add: rx_tail_slot [OF assms(1)] ring_slots_snoc)
qed

lemma refill_loop_ok:
  "rx_ring_ok v \<Longrightarrow> rx_env_ok headroom env \<Longrightarrow>
     \<exists>rc w' v' ps ds. rx_refill_loop env headroom cnt w v = Some (rc, w', v') \<and> buf_frame w w' \<and>
       rx_ring_ok v' \<and> vr_size v' = vr_size v \<and> swhead v' = swhead v \<and> hwtail v' = hwtail v \<and>
       rx_posted v' = rx_posted v @ ps \<and> rx_descs v' = rx_descs v @ ds \<and>
       length ds = length ps \<and> (\<forall>d \<in> set ds. \<not> desc_done d) \<and>
       (rc = None \<longrightarrow> wil_vring_is_full v' \<or> length ps = cnt)"
proof (induction cnt arbitrary: w v)
  case 0
  then show ?case by (auto intro!: exI [of _ "[]"])
next
  case (Suc cnt)
  have v: "vring_ok v" "unat (swtail v) < unat (vr_size v)"
    using Suc.prems(1) vring_okD by (auto simp: rx_ring_ok_def)
  show ?case
  proof (cases "wil_vring_next_tail v = swhead v")
    case True
    then show ?thesis
      using Suc.prems(1) by (auto simp: wil_vring_is_full_def intro!: exI [of _ "[]"])
  next
    case False
    from alloc_skb_ok [OF v Suc.prems(2), of w] obtain rc w1 v1 where
      1: "wil_vring_alloc_skb env (swtail v) headroom w v = Some (rc, w1, v1)" "buf_frame w w1"
      "rc = None \<longrightarrow> (\<exists>p d. v1 = vring_set_ctx (swtail v) (Some p) (vring_set_d (swtail v) d v) \<and>
         \<not> desc_done d)" "rc \<noteq> None \<longrightarrow> v1 = v" by blast
    show ?thesis
    proof (cases rc)
      case (Some e)
      then show ?thesis
        using 1 False Suc.prems(1) by (auto intro!: exI [of _ "[]"])
    next
      case None
      then obtain p d where
        pd: "v1 = vring_set_ctx (swtail v) (Some p) (vring_set_d (swtail v) d v)" "\<not> desc_done d"
        using 1(3) by blast
      let ?v2 = "v1\<lparr>swtail := wil_vring_next_tail v\<rparr>"
      have "?v2 = vring_set_ctx (swtail v) (Some p) (vring_set_d (swtail v) d
          (v\<lparr>swtail := wil_vring_next_tail v\<rparr>))"
        by (simp add: pd(1) vring_set_ctx_def vring_set_d_def)
      then have "vring_ok ?v2" using vring_ok_next_tail [OF v(1)] by simp
      moreover have p2: "rx_posted ?v2 = rx_posted v @ [Some p]" "rx_descs ?v2 = rx_descs v @ [d]"
        unfolding pd(1) using rx_posted_post [OF v(1) False] rx_descs_post [OF v(1) False] by simp_all
      ultimately have "rx_ring_ok ?v2" using Suc.prems(1) by (simp add: rx_ring_ok_def)
      from Suc.IH [OF this Suc.prems(2), of w1] obtain rc' w' v' ps ds where
        2: "rx_refill_loop env headroom cnt w1 ?v2 = Some (rc', w', v')" "buf_frame w1 w'"
        "rx_ring_ok v'" "vr_size v' = vr_size v" "swhead v' = swhead v" "hwtail v' = hwtail v"
        "rx_posted v' = rx_posted v @ Some p # ps" "rx_descs v' = rx_descs v @ d # ds"
        "length ds = length ps" "\<forall>d \<in> set ds. \<not> desc_done d"
        "rc' = None \<longrightarrow> wil_vring_is_full v' \<or> length ps = cnt"
        by (auto simp: p2) (auto simp: pd)
      have "rx_refill_loop env headroom (Suc cnt) w v = Some (rc', w', v')"
        using 1(1) None 2(1) False by simp
      with 2 pd(2) buf_frame_trans [OF 1(2) 2(2)] show ?thesis
        by (intro exI [of _ rc'] exI [of _ w'] exI [of _ v'] exI [of _ "Some p # ps"]
            exI [of _ "d # ds"]) simp
    qed
  qed
qed

text \<open>A refill reports an error only when an allocation or a mapping fails.\<close>

lemma alloc_skb_succeeds:
  "wil_vring_alloc_skb env i headroom w v = Some (rc, w', v') \<Longrightarrow>
     env_alloc env i = Some (p, b, Some pa) \<Longrightarrow> rc = None"
  by (auto simp: wil_vring_alloc_skb_def Let_def Option.bind_eq_Some_conv)

lemma refill_loop_succeeds:
  "rx_refill_loop env headroom cnt w v = Some (rc, w', v') \<Longrightarrow>
     (\<And>i. \<exists>p b pa. env_alloc env i = Some (p, b, Some pa)) \<Longrightarrow> rc = None"
proof (induction cnt arbitrary: w v)
  case (Suc cnt)
  obtain p b pa where a: "env_alloc env (swtail v) = Some (p, b, Some pa)" using Suc.prems(2) by blast
  show ?case
    using Suc.prems(1) alloc_skb_succeeds [OF _ a] Suc.IH [OF _ Suc.prems(2)]
    by (fastforce simp: Let_def Option.bind_eq_Some_conv split: if_splits)
qed simp

lemma wil_rx_refill_ok:
  assumes "rx_ring_ok (vring_rx w)" "rx_env_ok (rx_headroom w) env"
  shows "\<exists>rc w' ps ds. wil_rx_refill env cnt w = Some (rc, w') \<and>
     rx_ring_ok (vring_rx w') \<and> wil_arrays_ok w' = wil_arrays_ok w \<and>
     sessions_safe w' = sessions_safe w \<and> sta w' = sta w \<and> ndev w' = ndev w \<and>
     vr_size (vring_rx w') = vr_size (vring_rx w) \<and> swhead (vring_rx w') = swhead (vring_rx w) \<and>
     rx_posted (vring_rx w') = rx_posted (vring_rx w) @ ps \<and>
     rx_descs (vring_rx w') = rx_descs (vring_rx w) @ ds \<and> length ds = length ps \<and>
     (\<forall>d \<in> set ds. \<not> desc_done d) \<and>
     (rc = None \<longrightarrow> wil_vring_is_full (vring_rx w') \<or> length ps = cnt) \<and>
     last (klog w') = IoWrite32 (HOSTADDR (hwtail (vring_rx w))) (swtail (vring_rx w'))"
proof -
  from refill_loop_ok [OF assms, of cnt w] obtain rc w1 v1 ps ds where
    1: "rx_refill_loop env (rx_headroom w) cnt w (vring_rx w) = Some (rc, w1, v1)" "buf_frame w w1"
    "rx_ring_ok v1" "vr_size v1 = vr_size (vring_rx w)" "swhead v1 = swhead (vring_rx w)"
    "hwtail v1 = hwtail (vring_rx w)"
    "rx_posted v1 = rx_posted (vring_rx w) @ ps" "rx_descs v1 = rx_descs (vring_rx w) @ ds"
    "length ds = length ps" "\<forall>d \<in> set ds. \<not> desc_done d"
    "rc = None \<longrightarrow> wil_vring_is_full v1 \<or> length ps = cnt"
    by blast
  define w2 where "w2 = klog_add (IoWrite32 (HOSTADDR (hwtail v1)) (swtail v1)) (w1\<lparr>vring_rx := v1\<rparr>)"
  have "wil_rx_refill env cnt w = Some (rc, w2)"
    using 1(1) by (simp add: wil_rx_refill_def rx_headroom_def Let_def w2_def)
  with 1 buf_frameD [OF 1(2)] show ?thesis
    by (intro exI [of _ rc] exI [of _ w2] exI [of _ ps] exI [of _ ds] conjI) (simp_all add: w2_def)
qed

subsection \<open>Reaping\<close>

lemma rtap_header_ok:
  assumes "rx_env_ok headroom env"
  shows "\<exists>w'. wil_rx_add_radiotap_header env p w = Some w' \<and> buf_frame w w'"
proof -
  let ?s = "skbs w p" and ?phy = "if env_rtap_phy env then rtap_phy_data (skbs w p) else []"
  let ?hdr = "rtap_header (env_rtap_phy env) ?phy (wd_channel (wdev w)) (cb_rx ?s)"
  show ?thesis
  proof (cases "if skb_headroom ?s < length ?hdr then env_expand env (length ?hdr) ?s else Some ?s")
    case None
    then show ?thesis by (simp add: wil_rx_add_radiotap_header_def Let_def)
  next
    case (Some s)
    then have "length ?hdr \<le> skb_headroom s"
      using assms by (auto simp: rx_env_ok_def split: if_splits)
    then obtain s' where "skb_push ?hdr s = Some s'" by (simp add: skb_push_def)
    then show ?thesis
      using Some by (auto simp: wil_rx_add_radiotap_header_def Let_def)
  qed
qed

lemma rx_posted_take:
  assumes "vring_ok v" "vring_used v = Suc k"
  shows "rx_posted v = vr_ctx v ! unat (swhead v) #
      rx_posted (wil_vring_advance_head (vring_set_ctx (swhead v) None v) 1)"
proof -
  let ?v = "vring_set_ctx (swhead v) None v"
  have v: "vring_ok ?v" "vring_used ?v = Suc k" using assms by simp_all
  have "k < length (vr_ctx v)" "unat (swhead v) < length (vr_ctx v)"
    using vring_used_lt(1) [OF assms(1)] assms(2) vring_okD [OF assms(1)] by simp_all
  moreover have "vring_used (wil_vring_advance_head ?v 1) = k" by (rule vring_used_head [OF v])
  ultimately show ?thesis
    using unat_advance_head [OF v(1), of 1] vring_okD [OF assms(1)] assms(2)
      ring_slots_update_start [of k "vr_ctx v" "unat (swhead v)"]
    by (simp add: rx_posted_def ring_slots_Suc wil_vring_advance_head_def)
qed

text \<open>
  The result of reaping from a ring in order: nothing when the first descriptor is not finished;
  otherwise the first buffer leaves the ring, and it is returned or (a frame that is not data, or
  is short) freed.
\<close>

definition sta_same_sessions :: "wil6210_priv \<Rightarrow> wil6210_priv \<Rightarrow> bool" where
  "sta_same_sessions w w' \<longleftrightarrow>
     wil_arrays_ok w' = wil_arrays_ok w \<and> sessions_safe w' = sessions_safe w \<and>
     vring_rx w' = vring_rx w \<and> ndev w' = ndev w \<and> wdev w' = wdev w \<and>
     map tid_rx (sta w') = map tid_rx (sta w)"

lemma sta_same_refl [simp, intro]: "sta_same_sessions w w"
  by (simp add: sta_same_sessions_def)

lemma sta_same_trans: "sta_same_sessions w w1 \<Longrightarrow> sta_same_sessions w1 w2 \<Longrightarrow> sta_same_sessions w w2"
  by (simp add: sta_same_sessions_def)

lemma buf_frame_sta_same: "buf_frame w w' \<Longrightarrow> sta_same_sessions w w'"
  by (simp add: sta_same_sessions_def buf_frameD)

lemma upd_stats_same: "sta_same_sessions w
   ((upd_sta cid (\<lambda>s. s\<lparr>sta_stats := f (sta_stats s)\<rparr>) w)\<lparr>wstats := x\<rparr>)"
proof -
  let ?w = "upd_sta cid (\<lambda>s. s\<lparr>sta_stats := f (sta_stats s)\<rparr>) w"
  have 1: "map tid_rx (sta ?w) = map tid_rx (sta w)" "map sta_addr (sta ?w) = map sta_addr (sta w)"
    by (simp_all add: upd_sta_def map_update_id)
  have P: "(\<forall>s \<in> set (sta v). length (tid_rx s) = WIL_STA_TID_NUM \<and> length (sta_addr s) = 6) \<longleftrightarrow>
      (\<forall>t \<in> set (map tid_rx (sta v)). length t = WIL_STA_TID_NUM) \<and>
      (\<forall>a \<in> set (map sta_addr (sta v)). length a = 6)" for v
    by auto
  have "(\<forall>s \<in> set (sta ?w). length (tid_rx s) = WIL_STA_TID_NUM \<and> length (sta_addr s) = 6) \<longleftrightarrow>
      (\<forall>s \<in> set (sta w). length (tid_rx s) = WIL_STA_TID_NUM \<and> length (sta_addr s) = 6)"
    by (simp only: P 1)
  moreover have "sessions_safe ?w = sessions_safe w" by (simp only: sessions_safe_map 1)
  ultimately show ?thesis
    using 1 by (simp add: sta_same_sessions_def wil_arrays_ok_def) (simp add: upd_sta_def)
qed

lemma rx_classify_ok:
  "\<exists>c w'. rx_classify d p w = (c, w') \<and> buf_frame w w' \<and> (c = Some p \<or> c = None)"
  by (auto simp: rx_classify_def Let_def intro: buf_frame_trans)

lemma reap_rx_ok:
  assumes "rx_ring_ok v" "rx_env_ok headroom env"
  shows "\<exists>c w' v'. wil_vring_reap_rx env w v = Some (c, w', v') \<and> sta_same_sessions w w' \<and>
     rx_ring_ok v' \<and> vr_size v' = vr_size v \<and> hwtail v' = hwtail v \<and>
     ((c = None \<and> v' = v \<and> w' = w) \<or>
      (\<exists>p. rx_posted v = Some p # rx_posted v' \<and> (c = Some p \<or> c = None)))"
proof (cases "vring_used v")
  case 0
  then have "wil_vring_is_empty v" using assms(1) by (simp add: rx_ring_ok_def vring_empty_used)
  then show ?thesis using assms(1) by (simp add: wil_vring_reap_rx_def)
next
  case (Suc k)
  have v: "vring_ok v" using assms(1) by (simp add: rx_ring_ok_def)
  have ne: "\<not> wil_vring_is_empty v" using Suc v by (simp add: vring_empty_used)
  obtain d where d: "vring_d v (swhead v) = Some d" using vring_ok_d [OF v] vring_okD [OF v] by blast
  note c = vring_ok_ctx [OF v vring_okD(1) [OF v]]
  let ?v = "wil_vring_advance_head (vring_set_ctx (swhead v) None v) 1"
  note t = rx_posted_take [OF v Suc]
  obtain p where p: "vr_ctx v ! unat (swhead v) = Some p"
    using assms(1) t by (cases "vr_ctx v ! unat (swhead v)") (auto simp: rx_ring_ok_def)
  have ok: "rx_ring_ok ?v" "vr_size ?v = vr_size v" "hwtail ?v = hwtail v"
    using vring_ok_advance [of "vring_set_ctx (swhead v) None v" 1] v assms(1) t
    by (simp_all add: rx_ring_ok_def wil_vring_advance_head_def)
  show ?thesis
  proof (cases "desc_status d AND RX_DMA_STATUS_DU = 0")
    case True
    then show ?thesis using ne d assms(1) by (simp add: wil_vring_reap_rx_def)
  next
    case False
    define w1 where "w1 = upd_skb p (\<lambda>s. (skb_trim (unat (desc_length d)) s)\<lparr>cb_rx := d\<rparr>)
      (klog_add (DmaUnmapSingle (desc_pa d) RX_BUF_LEN) w)"
    define w2 where "w2 = (upd_sta (wil_rxdesc_cid d) (\<lambda>s. s\<lparr>sta_stats := (sta_stats s)
      \<lparr>last_mcs_rx := of_nat (wil_rxdesc_mcs d)\<rparr>\<rparr>) w1)
      \<lparr>wstats := (wstats w1)\<lparr>ws_last_mcs_rx := of_nat (wil_rxdesc_mcs d)\<rparr>\<rparr>"
    have w2: "sta_same_sessions w w2"
      unfolding w2_def
      by (rule sta_same_trans [OF buf_frame_sta_same upd_stats_same])
        (auto simp: w1_def intro: buf_frame_trans)
    have f: "wstats (upd_sta a b w1) = wstats w1" "ndev (upd_sta a b w1) = ndev w1" for a b
      by (simp_all add: upd_sta_def)
    have n2: "ndev w2 = ndev w1" by (simp add: w2_def f)
    obtain w3 where w3: "(if nd_type (ndev w2) = ARPHRD_IEEE80211_RADIOTAP
        then wil_rx_add_radiotap_header env p w2 else Some w2) = Some w3" "buf_frame w2 w3"
      using rtap_header_ok [OF assms(2), of p w2] by (cases "nd_type (ndev w2) = ARPHRD_IEEE80211_RADIOTAP") auto
    obtain c w' where c': "rx_classify d p w3 = (c, w')" "buf_frame w3 w'" "c = Some p \<or> c = None"
      using rx_classify_ok by blast
    have "wil_vring_reap_rx env w v = Some (c, w', ?v)"
      using ne d False c p w3(1) c'(1)
      by (cases "nd_type (ndev w1) = ARPHRD_IEEE80211_RADIOTAP")
        (simp_all add: wil_vring_reap_rx_def w1_def [symmetric] Let_def f n2 w2_def [symmetric])
    moreover from this have "sta_same_sessions w w'"
      using w2 w3(2) c'(2) by (blast intro: sta_same_trans buf_frame_sta_same)
    ultimately show ?thesis using ok t p c'(3)
      by (intro exI [of _ c] exI [of _ w'] exI [of _ ?v]) simp
  qed
qed

subsection \<open>The NAPI work\<close>

lemma rx_frame_vring_ndev: "rx_frame w w' \<Longrightarrow> vring_rx w' = vring_rx w"
  by (subst rx_frame_def [THEN iffD1, THEN conjunct1], assumption) simp

text \<open>Delivering a frame keeps the ring and the type of the device.\<close>

lemma rx_frame_type: "rx_frame w w' \<Longrightarrow> nd_type (ndev w') = nd_type (ndev w)"
  by (simp add: rx_frame_def)

lemma set_tid_rx_keeps [simp]:
  "vring_rx (set_tid_rx cid tid r w) = vring_rx w" "ndev (set_tid_rx cid tid r w) = ndev w"
  by (simp_all add: set_tid_rx_def upd_sta_def)

lemma rx_reorder_keeps:
  assumes "wil_rx_reorder ok jf skb w = Some w'"
  shows "vring_rx w' = vring_rx w \<and> nd_type (ndev w') = nd_type (ndev w)"
proof -
  obtain w1 where "rx_frame w w1" "vring_rx w' = vring_rx w1" "ndev w' = ndev w1"
    using assms rx_reorder_locked_frame
    by (fastforce simp: wil_rx_reorder_def Let_def Option.bind_eq_Some_conv split: option.splits)
  then show ?thesis using rx_frame_type rx_frame_vring_ndev by metis
qed

lemma rx_deliver_ok:
  assumes "wil_arrays_ok w" "sessions_safe w"
  shows "\<exists>w'. rx_deliver env p w = Some w' \<and> wil_arrays_ok w' \<and> sessions_safe w' \<and>
     vring_rx w' = vring_rx w \<and> nd_type (ndev w') = nd_type (ndev w)"
proof (cases "wd_iftype (wdev w) = NL80211_IFTYPE_MONITOR")
  case True
  then show ?thesis
    using assms by (auto simp: rx_deliver_def rx_frame_type [OF rx_frame_netif]
        intro: rx_frame_arrays [OF rx_frame_netif] rx_frame_sessions [OF rx_frame_netif])
next
  case False
  let ?w = "upd_skb p (env_eth_type_trans env) w"
  obtain w' where "wil_rx_reorder (env_netif_ok env) (env_jiffies env) p ?w = Some w'"
    "wil_arrays_ok w'" "sessions_safe w'"
    using wil_rx_reorder_total [of ?w "env_netif_ok env" "env_jiffies env" p] assms by auto
  then show ?thesis
    using False rx_reorder_keeps [of "env_netif_ok env" "env_jiffies env" p ?w w']
    by (simp add: rx_deliver_def)
qed

lemma rx_handle_loop_ok:
  "rx_inv w \<Longrightarrow> rx_env_ok (rx_headroom w) env \<Longrightarrow>
     \<exists>q' w' ps. rx_handle_loop env q w = Some (q', w') \<and> rx_inv w' \<and> q' \<le> q \<and>
       nd_type (ndev w') = nd_type (ndev w) \<and> vr_size (vring_rx w') = vr_size (vring_rx w) \<and>
       rx_posted (vring_rx w) = ps @ rx_posted (vring_rx w') \<and> q - q' \<le> length ps"
proof (induction q arbitrary: w)
  case 0
  then show ?case by simp
next
  case (Suc q)
  have r: "rx_ring_ok (vring_rx w)" using Suc.prems(1) by (simp add: rx_inv_def)
  from reap_rx_ok [OF r Suc.prems(2), of w] obtain c w1 v1 where
    1: "wil_vring_reap_rx env w (vring_rx w) = Some (c, w1, v1)" "sta_same_sessions w w1"
    "rx_ring_ok v1" "vr_size v1 = vr_size (vring_rx w)"
    "(c = None \<and> v1 = vring_rx w \<and> w1 = w) \<or>
     (\<exists>p. rx_posted (vring_rx w) = Some p # rx_posted v1 \<and> (c = Some p \<or> c = None))"
    by blast
  define w2 where "w2 = w1\<lparr>vring_rx := v1\<rparr>"
  have w2: "rx_inv w2" "nd_type (ndev w2) = nd_type (ndev w)" "vring_rx w2 = v1"
    using 1(2,3) Suc.prems(1) by (simp_all add: rx_inv_def sta_same_sessions_def w2_def)
  show ?case
  proof (cases c)
    case None
    then have "rx_handle_loop env (Suc q) w = Some (Suc q, w2)"
      using 1(1) by (simp add: w2_def)
    then show ?thesis using w2 1(4,5) None by (auto simp: Cons_eq_append_conv)
  next
    case (Some p)
    obtain w3 where 3: "rx_deliver env p w2 = Some w3" "wil_arrays_ok w3" "sessions_safe w3"
      "vring_rx w3 = v1" "nd_type (ndev w3) = nd_type (ndev w)"
      using rx_deliver_ok [of w2 env p] w2 by (auto simp: rx_inv_def)
    have i3: "rx_inv w3" using 3 1(3) by (simp add: rx_inv_def)
    have h: "rx_headroom w3 = rx_headroom w" by (simp add: rx_headroom_def 3(5))
    from Suc.IH [OF i3, unfolded h, OF Suc.prems(2)] obtain q' w' ps where
      4: "rx_handle_loop env q w3 = Some (q', w')" "rx_inv w'" "q' \<le> q"
      "nd_type (ndev w') = nd_type (ndev w3)" "vr_size (vring_rx w') = vr_size (vring_rx w3)"
      "rx_posted (vring_rx w3) = ps @ rx_posted (vring_rx w')" "q - q' \<le> length ps" by blast
    have "rx_handle_loop env (Suc q) w = Some (q', w')"
      using 1(1) Some 3(1) 4(1) by (simp add: w2_def [symmetric])
    then show ?thesis
      using 1(4,5) Some 3(4,5) 4 by (intro exI [of _ q'] exI [of _ w'] exI [of _ "Some p # ps"]) auto
  qed
qed

lemma wil_rx_handle_ok:
  assumes "rx_inv w" "rx_env_ok (rx_headroom w) env"
  shows "\<exists>q' w'. wil_rx_handle env q w = Some (q', w') \<and> rx_inv w' \<and> q' \<le> q"
proof -
  from rx_handle_loop_ok [OF assms, of q] obtain q' w1 where
    1: "rx_handle_loop env q w = Some (q', w1)" "rx_inv w1" "q' \<le> q"
    "nd_type (ndev w1) = nd_type (ndev w)" by blast
  then have "rx_env_ok (rx_headroom w1) env" using assms(2) by (simp add: rx_headroom_def)
  from wil_rx_refill_ok [OF _ this] 1(2) obtain rc w' where
    2: "wil_rx_refill env (unat (vr_size (vring_rx w1))) w1 = Some (rc, w')"
    "rx_ring_ok (vring_rx w')" "wil_arrays_ok w' = wil_arrays_ok w1"
    "sessions_safe w' = sessions_safe w1"
    unfolding rx_inv_def by blast
  have "vr_va (vring_rx w) \<noteq> None" using assms(1) by (auto simp: rx_inv_def rx_ring_ok_def vring_ok_def)
  then have "wil_rx_handle env q w = Some (q', w')" using 1(1) 2(1) by (auto simp: wil_rx_handle_def)
  then show ?thesis using 1(2,3) 2 by (auto simp: rx_inv_def)
qed

end
