(* ===== verification/Wil_Rx_Props.thy ===== *)
theory Wil_Rx_Props
  imports Wil_Rx_Correct
begin

text \<open>
  The properties of the receive ring and of the release of both kinds of rings.
\<close>

subsection \<open>Example rings\<close>

definition ex_ring :: "u32 \<Rightarrow> u32 \<Rightarrow> vring_desc list \<Rightarrow> skb_ptr option list \<Rightarrow> vring" where
  "ex_ring h t ds cs = \<lparr>vr_pa = 0x1000, vr_va = Some ds, vr_size = of_nat (length ds), swtail = t,
     swhead = h, hwtail = 0x8801b0, vr_ctx = cs\<rparr>"

definition ex_env :: rx_env where
  "ex_env = \<lparr>env_netif_ok = (\<lambda>_. True), env_jiffies = 0, env_eth_type_trans = id,
     env_rtap_phy = False, env_expand = (\<lambda>_ _. None),
     env_alloc = (\<lambda>i. Some (100 + unat i,
       zero_skb\<lparr>skb_users := 1, skb_tail := replicate (RX_BUF_LEN + WIL6210_RTAP_SIZE) 0\<rparr>,
       Some (0x1000 * ucast i)))\<rparr>"

lemma ex_env_ok: "rx_env_ok (rx_headroom w) ex_env"
  by (simp add: rx_env_ok_def ex_env_def rx_headroom_def)

definition ex_rx_state :: "vring \<Rightarrow> wil6210_priv" where
  "ex_rx_state v = wil_init_state\<lparr>vring_rx := v\<rparr>"

definition ex_rx_ring :: vring where
  "ex_rx_ring = ex_ring 0 2
     [zero_desc\<lparr>desc_status := 1, desc_length := 60, mac_d0 := 0x400\<rparr>,
      zero_desc\<lparr>desc_status := 1, desc_length := 60, mac_d0 := 0x800, addr_low := 0x2000\<rparr>,
      zero_desc\<lparr>addr_low := 0x3000\<rparr>, zero_desc] [Some 7, Some 8, None, None]"

lemma ex_rx_ring_ok: "rx_ring_ok ex_rx_ring" "rx_posted ex_rx_ring = [Some 7, Some 8]"
proof -
  have "vring_used ex_rx_ring = Suc (Suc 0)" by code_simp
  then show "rx_posted ex_rx_ring = [Some 7, Some 8]"
    by (simp add: rx_posted_def ring_slots_def ex_rx_ring_def ex_ring_def)
  then show "rx_ring_ok ex_rx_ring"
    by (simp add: rx_ring_ok_def) (simp add: vring_ok_def ex_rx_ring_def ex_ring_def)
qed

lemma ex_rx_inv: "rx_inv (ex_rx_state ex_rx_ring)"
proof -
  have "wil_arrays_ok (ex_rx_state v)" "sessions_safe (ex_rx_state v)" for v
    unfolding ex_rx_state_def rx_inv_simps by (rule wil_arrays_ok_init sessions_safe_init)+
  then show ?thesis using ex_rx_ring_ok(1) by (simp add: rx_inv_def ex_rx_state_def)
qed

subsection \<open>The receive path\<close>

text \<open>
  Claim C2. The receive work of NAPI never crashes: from a state in which the arrays have their sizes,
  every session is well formed and every slot of the ring between head and tail holds a buffer,
  \<open>wil_rx_handle\<close> returns, with the same true afterwards and no more than its quota used, whatever
  the hardware wrote to the descriptors.
\<close>

theorem rx_handle_never_crashes:
  assumes "rx_inv w" "rx_env_ok (rx_headroom w) env"
  shows "\<exists>q' w'. wil_rx_handle env q w = Some (q', w') \<and> rx_inv w' \<and> q' \<le> q"
  by (rule wil_rx_handle_ok [OF assms])

theorem rx_handle_never_crashes_witness:
  "\<exists>q' w'. wil_rx_handle ex_env 16 (ex_rx_state ex_rx_ring) = Some (q', w') \<and> rx_inv w' \<and> q' \<le> 16"
  by (rule rx_handle_never_crashes [OF ex_rx_inv ex_env_ok])

text \<open>
  Claim C16. A refill that reports success with a count of at least the ring's size fills the ring: one slot
  stays free, the buffers already posted stay in place and in order, every descriptor added is owned
  by the hardware, and the last thing done is to tell the hardware the new tail.
\<close>

theorem rx_refill_fills_ring:
  assumes "rx_ring_ok (vring_rx w)" "rx_env_ok (rx_headroom w) env"
    and "unat (vr_size (vring_rx w)) \<le> cnt" "wil_rx_refill env cnt w = Some (None, w')"
  shows "length (rx_posted (vring_rx w')) = unat (vr_size (vring_rx w)) - 1 \<and>
    rx_ring_ok (vring_rx w') \<and>
    (\<exists>ps ds. rx_posted (vring_rx w') = rx_posted (vring_rx w) @ ps \<and>
       rx_descs (vring_rx w') = rx_descs (vring_rx w) @ ds \<and> length ds = length ps \<and>
       (\<forall>d \<in> set ds. \<not> desc_done d)) \<and>
    last (klog w') = IoWrite32 (HOSTADDR (hwtail (vring_rx w))) (swtail (vring_rx w'))"
proof -
  from wil_rx_refill_ok [OF assms(1,2), of cnt] assms(4) obtain ps ds where
    1: "rx_ring_ok (vring_rx w')" "vr_size (vring_rx w') = vr_size (vring_rx w)"
    "rx_posted (vring_rx w') = rx_posted (vring_rx w) @ ps"
    "rx_descs (vring_rx w') = rx_descs (vring_rx w) @ ds" "length ds = length ps"
    "\<forall>d \<in> set ds. \<not> desc_done d" "wil_vring_is_full (vring_rx w') \<or> length ps = cnt"
    "last (klog w') = IoWrite32 (HOSTADDR (hwtail (vring_rx w))) (swtail (vring_rx w'))"
    by auto
  have ok: "vring_ok (vring_rx w')" using 1(1) by (simp add: rx_ring_ok_def)
  have len: "length (rx_posted v) = vring_used v" for v by (simp add: rx_posted_def)
  have "vring_used (vring_rx w') < unat (vr_size (vring_rx w))"
    using vring_used_lt(1) [OF ok] 1(2) by simp
  moreover have "vring_used (vring_rx w') = vring_used (vring_rx w) + length ps"
    using arg_cong [OF 1(3), of length] by (simp add: len)
  ultimately have "length ps \<noteq> cnt" using assms(3) by linarith
  then have "vring_used (vring_rx w') = unat (vr_size (vring_rx w)) - 1"
    using 1(2,7) vring_full_used [OF ok] by simp
  then have "length (rx_posted (vring_rx w')) = unat (vr_size (vring_rx w)) - 1" by (simp add: len)
  then show ?thesis using 1 by blast
qed

theorem rx_refill_fills_ring_witness:
  "\<exists>w'. wil_rx_refill ex_env 4 (ex_rx_state ex_rx_ring) = Some (None, w') \<and>
     length (rx_posted (vring_rx w')) = 3"
proof -
  let ?w = "ex_rx_state ex_rx_ring"
  have ok: "rx_ring_ok (vring_rx ?w)" "unat (vr_size (vring_rx ?w)) = 4"
    using ex_rx_ring_ok by (simp_all add: ex_rx_state_def ex_rx_ring_def ex_ring_def)
  from wil_rx_refill_ok [OF ok(1) ex_env_ok, of 4] obtain rc w' where
    r: "wil_rx_refill ex_env 4 ?w = Some (rc, w')" by blast
  have "\<exists>p b pa. env_alloc ex_env i = Some (p, b, Some pa)" for i by (simp add: ex_env_def)
  with r have "rc = None"
    by (auto simp: wil_rx_refill_def Let_def Option.bind_eq_Some_conv dest!: refill_loop_succeeds)
  with r have "wil_rx_refill ex_env 4 ?w = Some (None, w')" by simp
  from rx_refill_fills_ring [OF ok(1) ex_env_ok _ this] ok(2) this show ?thesis by auto
qed

text \<open>
  Claim C17. A finished descriptor at the head: its buffer leaves the ring, which keeps the others in order;
  the buffer's control block is the descriptor and its data is cut to the length the hardware
  wrote; and it is passed on exactly when it is a data frame of at least an Ethernet header, and
  freed otherwise (normal mode).
\<close>

theorem rx_reap_takes_first:
  assumes "rx_ring_ok v" "rx_posted v = Some p # rest" "nd_type (ndev w) = ARPHRD_ETHER"
    and "vring_d v (swhead v) = Some d" "desc_done d" "skb_frags (skbs w p) = []"
  shows "\<exists>c w' v'. wil_vring_reap_rx env w v = Some (c, w', v') \<and> rx_posted v' = rest \<and>
     rx_ring_ok v' \<and> cb_rx (skbs w' p) = d \<and>
     length (skb_data (skbs w' p)) = min (length (skb_data (skbs w p))) (unat (desc_length d)) \<and>
     (if wil_rxdesc_ftype d = 2 \<and> 14 \<le> length (skb_data (skbs w' p))
      then c = Some p \<and> skb_users (skbs w' p) = skb_users (skbs w p)
      else c = None \<and> skb_users (skbs w' p) = skb_users (skbs w p) - 1)"
proof -
  have v: "vring_ok v" using assms(1) by (simp add: rx_ring_ok_def)
  obtain k where k: "vring_used v = Suc k"
    using assms(2) by (metis length_ring_slots length_Cons rx_posted_def)
  let ?v = "wil_vring_advance_head (vring_set_ctx (swhead v) None v) 1"
  note t = rx_posted_take [OF v k]
  have p: "vr_ctx v ! unat (swhead v) = Some p" "rx_posted ?v = rest" using t assms(2) by simp_all
  have ok: "rx_ring_ok ?v"
    using vring_ok_advance [of "vring_set_ctx (swhead v) None v" 1] v assms(1) t
    by (simp add: rx_ring_ok_def)
  have ne: "\<not> wil_vring_is_empty v" using k v by (simp add: vring_empty_used)
  have du: "desc_status d AND RX_DMA_STATUS_DU \<noteq> 0" using assms(5) by (simp add: rx_status_DU_done)
  note c = vring_ok_ctx [OF v vring_okD(1) [OF v]]
  define w1 where "w1 = upd_skb p (\<lambda>s. (skb_trim (unat (desc_length d)) s)\<lparr>cb_rx := d\<rparr>)
    (klog_add (DmaUnmapSingle (desc_pa d) RX_BUF_LEN) w)"
  define w2 where "w2 = (upd_sta (wil_rxdesc_cid d) (\<lambda>s. s\<lparr>sta_stats := (sta_stats s)
    \<lparr>last_mcs_rx := of_nat (wil_rxdesc_mcs d)\<rparr>\<rparr>) w1)
    \<lparr>wstats := (wstats w1)\<lparr>ws_last_mcs_rx := of_nat (wil_rxdesc_mcs d)\<rparr>\<rparr>"
  have f: "wstats (upd_sta a b w1) = wstats w1" "ndev (upd_sta a b w1) = ndev w"
    "skbs (upd_sta a b w1) = skbs w1" for a b
    by (simp_all add: upd_sta_def w1_def)
  have reap: "wil_vring_reap_rx env w v = (case rx_classify d p w2 of (c, w) \<Rightarrow> Some (c, w, ?v))"
    using ne assms(3,4) du c p(1)
    by (simp add: wil_vring_reap_rx_def w1_def [symmetric] Let_def f w2_def [symmetric]
        ARPHRD_ETHER_def ARPHRD_IEEE80211_RADIOTAP_def)
  have s2: "skbs w2 p = (skb_trim (unat (desc_length d)) (skbs w p))\<lparr>cb_rx := d\<rparr>"
    "nd_type (ndev w2) = ARPHRD_ETHER"
    using assms(3) by (simp_all add: w2_def f) (simp add: w1_def upd_skb_def klog_add_def)
  have l2: "length (skb_data (skbs w2 p)) = min (length (skb_data (skbs w p))) (unat (desc_length d))"
    "skb_len (skbs w2 p) = length (skb_data (skbs w2 p))"
    "cb_rx (skbs w2 p) = d" "skb_users (skbs w2 p) = skb_users (skbs w p)"
    using assms(6) by (auto simp: s2(1) skb_trim_def skb_len_def)
  have ft: "wil_rxdesc_ftype d * 4 = IEEE80211_FTYPE_DATA \<longleftrightarrow> wil_rxdesc_ftype d = 2"
    by (auto simp: IEEE80211_FTYPE_DATA_def)
  have swap: "length (wil_swap_ethaddr xs) = length xs" for xs
    by (simp add: wil_swap_ethaddr_def swap16_at_update)
  show ?thesis
    unfolding reap using ok p(2) l2 s2(2)
    by (auto simp: rx_classify_def ft Let_def upd_skb_def kfree_skb_def ETH_HLEN_def swap
        split: prod.split)
qed

theorem rx_reap_takes_first_witness:
  "\<exists>c w' v'. wil_vring_reap_rx ex_env (ex_rx_state ex_rx_ring) ex_rx_ring = Some (c, w', v') \<and>
     c = None \<and> rx_posted v' = [Some 8]"
proof -
  have "vring_d ex_rx_ring (swhead ex_rx_ring) =
      Some (zero_desc\<lparr>desc_status := 1, desc_length := 60, mac_d0 := 0x400\<rparr>)"
    by (simp add: vring_d_def ex_rx_ring_def ex_ring_def)
  moreover have "desc_done (zero_desc\<lparr>desc_status := 1, desc_length := 60, mac_d0 := 0x400\<rparr>)"
    by (simp add: desc_done_bit)
  moreover have "wil_rxdesc_ftype (zero_desc\<lparr>desc_status := 1, desc_length := 60, mac_d0 := 0x400\<rparr>) = 1"
    by code_simp
  ultimately show ?thesis
    using rx_reap_takes_first [OF ex_rx_ring_ok(1,2), of "ex_rx_state ex_rx_ring" _ ex_env]
    by (fastforce simp: ex_rx_state_def wil_init_state_def zero_skb_def)
qed

text \<open>
  A frame that is not data ends the receive work: \<open>wil_vring_reap_rx\<close> frees it and returns
  \<open>NULL\<close>, which \<open>wil_rx_handle\<close> takes for the end of the finished frames. With such a frame at the
  head nothing is delivered and no quota used, whatever is finished behind it.
\<close>

theorem rx_handle_stops_at_non_data:
  assumes "rx_ring_ok (vring_rx w)" "rx_posted (vring_rx w) = Some p # rest"
    and "nd_type (ndev w) = ARPHRD_ETHER" "vring_d (vring_rx w) (swhead (vring_rx w)) = Some d"
    and "desc_done d" "wil_rxdesc_ftype d \<noteq> 2" "skb_frags (skbs w p) = []"
  shows "\<exists>w'. rx_handle_loop env (Suc q) w = Some (Suc q, w') \<and> rx_posted (vring_rx w') = rest"
  using rx_reap_takes_first [OF assms(1-5,7), of env] assms(6) by auto

theorem rx_handle_stops_at_non_data_witness:
  "\<exists>w'. rx_handle_loop ex_env 16 (ex_rx_state ex_rx_ring) = Some (16, w') \<and>
     rx_posted (vring_rx w') = [Some 8] \<and> desc_done (the (vring_d ex_rx_ring 1))"
proof -
  have v: "vring_rx (ex_rx_state ex_rx_ring) = ex_rx_ring" "skb_frags (skbs (ex_rx_state ex_rx_ring) 7) = []"
    "nd_type (ndev (ex_rx_state ex_rx_ring)) = ARPHRD_ETHER"
    by (simp_all add: ex_rx_state_def wil_init_state_def zero_skb_def)
  have d: "vring_d ex_rx_ring (swhead ex_rx_ring) =
      Some (zero_desc\<lparr>desc_status := 1, desc_length := 60, mac_d0 := 0x400\<rparr>)"
    by (simp add: vring_d_def ex_rx_ring_def ex_ring_def)
  have "\<exists>w'. rx_handle_loop ex_env (Suc 15) (ex_rx_state ex_rx_ring) = Some (Suc 15, w') \<and>
      rx_posted (vring_rx w') = [Some 8]"
  proof (rule rx_handle_stops_at_non_data [of _ 7])
    show "rx_ring_ok (vring_rx (ex_rx_state ex_rx_ring))"
      "rx_posted (vring_rx (ex_rx_state ex_rx_ring)) = [Some 7, Some 8]"
      by (simp_all add: v ex_rx_ring_ok)
    show "vring_d (vring_rx (ex_rx_state ex_rx_ring)) (swhead (vring_rx (ex_rx_state ex_rx_ring))) =
      Some (zero_desc\<lparr>desc_status := 1, desc_length := 60, mac_d0 := 0x400\<rparr>)"
      by (simp add: v d)
    show "wil_rxdesc_ftype (zero_desc\<lparr>desc_status := 1, desc_length := 60, mac_d0 := 0x400\<rparr>) \<noteq> 2"
      by code_simp
  qed (simp_all add: v desc_done_bit)
  moreover have "desc_done (the (vring_d ex_rx_ring 1))"
    by (simp add: desc_done_bit vring_d_def ex_rx_ring_def ex_ring_def)
  ultimately show ?thesis by simp
qed

subsection \<open>Releasing a ring\<close>

text \<open>
  Releasing a Tx ring ends, frees every buffer between the tail and the head exactly once, with one
  unmapping for each, and leaves no descriptor memory.
\<close>

theorem tx_free_releases:
  assumes "vring_ok v"
  shows "\<exists>w' v'. wil_vring_free True w v = Some (w', v') \<and>
     skbs w' = fold kfree_skb (somes (tx_posted v)) (skbs w) \<and>
     length (klog w') = length (klog w) + length (somes (tx_posted v)) \<and>
     vr_va v' = None \<and> vr_ctx v' = []"
  using vring_free_tx_loop [OF assms refl, of w] by (auto simp: wil_vring_free_def)

lemma ex_tx_free_ok: "vring_ok (ex_ring 2 0 [zero_desc, zero_desc, zero_desc] [Some 4, Some 5, None])"
  by (simp add: vring_ok_def ex_ring_def)

theorem tx_free_releases_witness:
  "\<exists>w' v'. wil_vring_free True wil_init_state
       (ex_ring 2 0 [zero_desc, zero_desc, zero_desc] [Some 4, Some 5, None]) = Some (w', v') \<and>
     length (klog w') = 2"
proof -
  let ?v = "ex_ring 2 0 [zero_desc, zero_desc, zero_desc] [Some 4, Some 5, None]"
  have "length (somes (tx_posted ?v)) = 2" by code_simp
  with tx_free_releases [OF ex_tx_free_ok, of wil_init_state] show ?thesis
    by (auto simp: wil_init_state_def)
qed

text \<open>
  Releasing an Rx ring frees every posted buffer once, but unmaps the wrong memory: each
  unmapping takes the address and length of the descriptor at the tail, which is the one slot
  that is not posted, so none of the posted buffers' own mappings is released.
\<close>

theorem rx_free_unmaps_tail:
  assumes "vring_ok v" "vring_d v (swtail v) = Some d"
  shows "\<exists>w' v'. wil_vring_free False w v = Some (w', v') \<and>
     skbs w' = fold kfree_skb (somes (rx_posted v)) (skbs w) \<and>
     klog w' = klog w @ replicate (length (rx_posted v))
       (DmaUnmapSingle (desc_pa d) (unat (desc_length d)))"
  using vring_free_rx_loop [OF assms(1) refl assms(2), of w]
  by (auto simp: wil_vring_free_def rx_posted_def)

theorem rx_free_unmaps_tail_witness:
  "\<exists>w' v'. wil_vring_free False wil_init_state ex_rx_ring = Some (w', v') \<and>
     klog w' = [DmaUnmapSingle 0x3000 0, DmaUnmapSingle 0x3000 0]"
proof -
  have "vring_d ex_rx_ring (swtail ex_rx_ring) = Some (zero_desc\<lparr>addr_low := 0x3000\<rparr>)"
    by (simp add: vring_d_def ex_rx_ring_def ex_ring_def)
  moreover have "desc_pa (zero_desc\<lparr>addr_low := 0x3000\<rparr>) = 0x3000"
    by (simp add: desc_pa_def zero_desc_def)
  ultimately show ?thesis
    using rx_free_unmaps_tail [of ex_rx_ring _ wil_init_state] ex_rx_ring_ok
    by (auto simp: rx_ring_ok_def zero_desc_def wil_init_state_def numeral_2_eq_2)
qed

end
