(* ===== verification/Wil_Tx.thy ===== *)
theory Wil_Tx
  imports Wil_Rx_Correct
begin

text \<open>
  The transmit rings of \<^verbatim>\<open>txrx.c\<close>: the layout of the Tx descriptor, filling descriptors for a
  buffer and its fragments, and reclaiming the finished ones. A Tx ring is produced at \<open>swhead\<close>
  and consumed at \<open>swtail\<close>.
\<close>

subsection \<open>Layout of the Tx descriptor\<close>

text \<open>
  The bit fields of each dword as position, length and mask (\<^verbatim>\<open>txrx.h\<close> gives all three).
\<close>

definition tx_mac_0_fields :: "(nat \<times> nat \<times> u32) list" where
  "tx_mac_0_fields = [(0, 10, 0x3FF), (10, 1, 0x400), (11, 1, 0x800), (12, 2, 0x3000), (14, 1, 0x4000),
     (15, 1, 0x8000), (22, 5, 0x7C00000), (27, 1, 0x8000000), (31, 1, 0x80000000)]"

definition tx_mac_1_fields :: "(nat \<times> nat \<times> u32) list" where
  "tx_mac_1_fields = [(0, 4, 0xF), (4, 1, 0x10), (15, 1, 0x8000), (16, 4, 0xF0000), (20, 1, 0x100000),
     (21, 2, 0x600000), (23, 1, 0x800000), (24, 7, 0x7F000000), (31, 1, 0x80000000)]"

definition tx_mac_2_fields :: "(nat \<times> nat \<times> u32) list" where
  "tx_mac_2_fields = [(0, 8, 0xFF), (8, 10, 0x3FF00), (18, 2, 0xC0000), (20, 1, 0x100000),
     (21, 1, 0x200000)]"

definition tx_mac_3_fields :: "(nat \<times> nat \<times> u32) list" where
  "tx_mac_3_fields = [(0, 32, 0xFFFFFFFF)]"

definition tx_dma_0_fields :: "(nat \<times> nat \<times> u32) list" where
  "tx_dma_0_fields = [(0, 8, 0xFF), (8, 1, 0x100), (9, 1, 0x200), (10, 1, 0x400), (11, 2, 0x1800),
     (13, 1, 0x2000), (14, 1, 0x4000), (15, 1, 0x8000), (16, 5, 0x1F0000), (21, 1, 0x200000),
     (30, 2, 0xC0000000)]"

definition tx_offload_cfg_fields :: "(nat \<times> nat \<times> u32) list" where
  "tx_offload_cfg_fields = [(0, 8, 0x00FF), (8, 7, 0x7F00), (15, 1, 0x8000)]"

definition fields_consistent :: "(nat \<times> nat \<times> u32) list \<Rightarrow> bool" where
  "fields_consistent fs \<longleftrightarrow>
     (\<forall>(p, l, m) \<in> set fs. m = push_bit p (mask l)) \<and>
     (\<forall>(i, a) \<in> set (enumerate 0 fs). \<forall>(j, b) \<in> set (enumerate 0 fs).
        i \<noteq> j \<longrightarrow> snd (snd a) AND snd (snd b) = 0)"

definition MAC_CFG_DESC_TX_1_DST_INDEX_POS :: nat where "MAC_CFG_DESC_TX_1_DST_INDEX_POS = 16"
definition MAC_CFG_DESC_TX_1_DST_INDEX_EN_POS :: nat where "MAC_CFG_DESC_TX_1_DST_INDEX_EN_POS = 20"
definition MAC_CFG_DESC_TX_2_NUM_OF_DESCRIPTORS_POS :: nat where
  "MAC_CFG_DESC_TX_2_NUM_OF_DESCRIPTORS_POS = 0"
definition MAC_CFG_DESC_TX_2_NUM_OF_DESCRIPTORS_MSK :: u32 where
  "MAC_CFG_DESC_TX_2_NUM_OF_DESCRIPTORS_MSK = 0xFF"
definition MAC_CFG_DESC_TX_2_L2_TRANSLATION_TYPE_POS :: nat where
  "MAC_CFG_DESC_TX_2_L2_TRANSLATION_TYPE_POS = 18"
definition MAC_CFG_DESC_TX_2_SNAP_HDR_INSERTION_EN_POS :: nat where
  "MAC_CFG_DESC_TX_2_SNAP_HDR_INSERTION_EN_POS = 20"
definition DMA_CFG_DESC_TX_0_L4_LENGTH_MSK :: u32 where "DMA_CFG_DESC_TX_0_L4_LENGTH_MSK = 0xFF"
definition DMA_CFG_DESC_TX_0_CMD_EOP_POS :: nat where "DMA_CFG_DESC_TX_0_CMD_EOP_POS = 8"
definition DMA_CFG_DESC_TX_0_CMD_DMA_IT_POS :: nat where "DMA_CFG_DESC_TX_0_CMD_DMA_IT_POS = 10"
definition DMA_CFG_DESC_TX_0_SEGMENT_BUF_DETAILS_POS :: nat where
  "DMA_CFG_DESC_TX_0_SEGMENT_BUF_DETAILS_POS = 11"
definition DMA_CFG_DESC_TX_0_TCP_SEG_EN_POS :: nat where "DMA_CFG_DESC_TX_0_TCP_SEG_EN_POS = 13"
definition DMA_CFG_DESC_TX_0_IPV4_CHECKSUM_EN_POS :: nat where
  "DMA_CFG_DESC_TX_0_IPV4_CHECKSUM_EN_POS = 14"
definition DMA_CFG_DESC_TX_0_TCP_UDP_CHECKSUM_EN_POS :: nat where
  "DMA_CFG_DESC_TX_0_TCP_UDP_CHECKSUM_EN_POS = 15"
definition DMA_CFG_DESC_TX_0_QID_POS :: nat where "DMA_CFG_DESC_TX_0_QID_POS = 16"
definition DMA_CFG_DESC_TX_0_PSEUDO_HEADER_CALC_EN_POS :: nat where
  "DMA_CFG_DESC_TX_0_PSEUDO_HEADER_CALC_EN_POS = 21"
definition DMA_CFG_DESC_TX_0_L4_TYPE_POS :: nat where "DMA_CFG_DESC_TX_0_L4_TYPE_POS = 30"
definition DMA_CFG_DESC_TX_OFFLOAD_CFG_IP_LEN_MSK :: u16 where
  "DMA_CFG_DESC_TX_OFFLOAD_CFG_IP_LEN_MSK = 0x00FF"
definition DMA_CFG_DESC_TX_OFFLOAD_CFG_MAC_LEN_POS :: nat where
  "DMA_CFG_DESC_TX_OFFLOAD_CFG_MAC_LEN_POS = 8"
definition DMA_CFG_DESC_TX_OFFLOAD_CFG_L3T_IPV4_POS :: nat where
  "DMA_CFG_DESC_TX_OFFLOAD_CFG_L3T_IPV4_POS = 15"

lemmas tx_pos_defs =
  MAC_CFG_DESC_TX_1_DST_INDEX_POS_def MAC_CFG_DESC_TX_1_DST_INDEX_EN_POS_def
  MAC_CFG_DESC_TX_2_NUM_OF_DESCRIPTORS_POS_def MAC_CFG_DESC_TX_2_NUM_OF_DESCRIPTORS_MSK_def
  MAC_CFG_DESC_TX_2_L2_TRANSLATION_TYPE_POS_def MAC_CFG_DESC_TX_2_SNAP_HDR_INSERTION_EN_POS_def
  DMA_CFG_DESC_TX_0_L4_LENGTH_MSK_def DMA_CFG_DESC_TX_0_CMD_EOP_POS_def
  DMA_CFG_DESC_TX_0_CMD_DMA_IT_POS_def DMA_CFG_DESC_TX_0_SEGMENT_BUF_DETAILS_POS_def
  DMA_CFG_DESC_TX_0_TCP_SEG_EN_POS_def DMA_CFG_DESC_TX_0_IPV4_CHECKSUM_EN_POS_def
  DMA_CFG_DESC_TX_0_TCP_UDP_CHECKSUM_EN_POS_def DMA_CFG_DESC_TX_0_QID_POS_def
  DMA_CFG_DESC_TX_0_PSEUDO_HEADER_CALC_EN_POS_def DMA_CFG_DESC_TX_0_L4_TYPE_POS_def
  DMA_CFG_DESC_TX_OFFLOAD_CFG_IP_LEN_MSK_def DMA_CFG_DESC_TX_OFFLOAD_CFG_MAC_LEN_POS_def
  DMA_CFG_DESC_TX_OFFLOAD_CFG_L3T_IPV4_POS_def

subsection \<open>Filling a descriptor\<close>

definition wil_tx_desc_map :: "vring_desc \<Rightarrow> u64 \<Rightarrow> u32 \<Rightarrow> nat \<Rightarrow> vring_desc" where
  "wil_tx_desc_map d pa len vring_index =
     d\<lparr>addr_low := lower_32_bits pa, addr_high := ucast (upper_32_bits pa), dma_b10 := 0,
       desc_error := 0, desc_status := 0, desc_length := ucast len,
       dma_d0 := push_bit DMA_CFG_DESC_TX_0_QID_POS (of_nat vring_index),
       mac_d0 := 0,
       mac_d1 := BIT MAC_CFG_DESC_TX_1_DST_INDEX_EN_POS OR push_bit MAC_CFG_DESC_TX_1_DST_INDEX_POS 0,
       mac_d2 := BIT MAC_CFG_DESC_TX_2_SNAP_HDR_INSERTION_EN_POS OR
         push_bit MAC_CFG_DESC_TX_2_L2_TRANSLATION_TYPE_POS 1,
       mac_d3 := 0\<rparr>"

text \<open>
  \<open>wil_tx_desc_offload_setup\<close>: with no descriptor it only returns the protocol (0 not TCP, 1
  TCPv4, 2 TCPv6).
\<close>

definition wil_tx_desc_offload_setup ::
  "vring_desc option \<Rightarrow> sk_buff \<Rightarrow> int \<Rightarrow> vring_desc option \<times> nat" where
  "wil_tx_desc_offload_setup d s tso_desc_type =
     (let is_ip4 = (skb_protocol s = ETH_P_IP);
          is_ip6 = (\<not> is_ip4 \<and> skb_protocol s = ETH_P_IPV6);
          is_tcp = ((is_ip4 \<or> is_ip6) \<and> hdr_l4proto s = IPPROTO_TCP);
          is_udp = ((is_ip4 \<or> is_ip6) \<and> hdr_l4proto s = IPPROTO_UDP);
          setup = (\<lambda>d.
            if \<not> (is_ip4 \<or> is_ip6) then d
            else
              let d = (if is_ip4
                    then d\<lparr>dma_b10 := dma_b10 d OR BIT DMA_CFG_DESC_TX_OFFLOAD_CFG_L3T_IPV4_POS\<rparr> else d);
                  d = d\<lparr>dma_b10 := dma_b10 d OR
                    (of_nat (hdr_net_len s) AND DMA_CFG_DESC_TX_OFFLOAD_CFG_IP_LEN_MSK)\<rparr>;
                  d = d\<lparr>dma_b10 := dma_b10 d OR push_bit DMA_CFG_DESC_TX_OFFLOAD_CFG_MAC_LEN_POS 0x0e\<rparr>
              in if \<not> (is_tcp \<or> is_udp) then d
                 else
                   let d = d\<lparr>dma_d0 := dma_d0 d OR BIT DMA_CFG_DESC_TX_0_TCP_UDP_CHECKSUM_EN_POS OR
                         BIT DMA_CFG_DESC_TX_0_PSEUDO_HEADER_CALC_EN_POS\<rparr>
                   in if is_tcp
                      then
                        let d = d\<lparr>dma_d0 := dma_d0 d OR push_bit DMA_CFG_DESC_TX_0_L4_TYPE_POS 2 OR
                              (of_nat (hdr_tcp_len s) AND DMA_CFG_DESC_TX_0_L4_LENGTH_MSK)\<rparr>
                        in if tso_desc_type \<noteq> -1
                           then
                             let d = d\<lparr>dma_d0 := dma_d0 d OR BIT DMA_CFG_DESC_TX_0_TCP_SEG_EN_POS OR
                                   push_bit DMA_CFG_DESC_TX_0_SEGMENT_BUF_DETAILS_POS
                                     (word_of_int tso_desc_type)\<rparr>;
                                 d = (if is_ip4
                                   then d\<lparr>dma_d0 := dma_d0 d OR
                                     BIT DMA_CFG_DESC_TX_0_IPV4_CHECKSUM_EN_POS\<rparr> else d)
                             in d\<lparr>mac_d2 := mac_d2 d OR
                                  push_bit MAC_CFG_DESC_TX_2_NUM_OF_DESCRIPTORS_POS 1\<rparr>
                           else d
                      else d\<lparr>dma_d0 := dma_d0 d OR (8 AND DMA_CFG_DESC_TX_0_L4_LENGTH_MSK)\<rparr>)
      in (map_option setup d, if is_tcp then if is_ip4 then 1 else 2 else 0))"

definition wil_tx_last_desc :: "nat \<Rightarrow> vring_desc \<Rightarrow> vring_desc" where
  "wil_tx_last_desc vring_index d =
     d\<lparr>dma_d0 := dma_d0 d OR BIT DMA_CFG_DESC_TX_0_CMD_EOP_POS OR BIT 9 OR
       BIT DMA_CFG_DESC_TX_0_CMD_DMA_IT_POS OR push_bit DMA_CFG_DESC_TX_0_QID_POS (of_nat vring_index)\<rparr>"

definition wil_set_tx_desc_count :: "nat \<Rightarrow> vring_desc \<Rightarrow> vring_desc" where
  "wil_set_tx_desc_count cnt d =
     d\<lparr>mac_d2 := (mac_d2 d AND NOT MAC_CFG_DESC_TX_2_NUM_OF_DESCRIPTORS_MSK) OR
       push_bit MAC_CFG_DESC_TX_2_NUM_OF_DESCRIPTORS_POS (of_nat cnt)\<rparr>"

subsection \<open>Sending a buffer\<close>

text \<open>
  The parameter \<open>dma i\<close> is the outcome of the DMA mapping made for ring slot \<open>i\<close>: the bus
  address, or nothing. \<open>tx_put\<close> fills slot \<open>i\<close> for \<open>len\<close> bytes of buffer \<open>p\<close> and takes a
  reference to it.
\<close>

definition tx_fill :: "wil6210_priv \<Rightarrow> skb_ptr \<Rightarrow> nat \<Rightarrow> u64 \<Rightarrow> u32 \<Rightarrow> nat \<Rightarrow> vring_desc \<Rightarrow> vring_desc" where
  "tx_fill w p vring_index pa len cnt d =
     (let s = skbs w p;
          d = wil_tx_desc_map d pa len vring_index;
          d = (if skb_ip_summed s = CHECKSUM_PARTIAL \<and> nd_hw_csum (ndev w)
            then the (fst (wil_tx_desc_offload_setup (Some d) s (-1))) else d)
      in d\<lparr>mac_d2 := mac_d2 d OR push_bit MAC_CFG_DESC_TX_2_NUM_OF_DESCRIPTORS_POS (of_nat cnt)\<rparr>)"

definition tx_put ::
  "skb_ptr \<Rightarrow> nat \<Rightarrow> u32 \<Rightarrow> u64 \<Rightarrow> u32 \<Rightarrow> nat \<Rightarrow> wil6210_priv \<times> vring \<Rightarrow> (wil6210_priv \<times> vring) option" where
  "tx_put p vring_index i pa len cnt wv = (case wv of (w, v) \<Rightarrow> do {
     d \<leftarrow> vring_d v i;
     _ \<leftarrow> vring_ctx v i;
     Some (w\<lparr>skbs := skb_get p (skbs w)\<rparr>,
       vring_set_ctx i (Some p) (vring_set_d i (tx_fill w p vring_index pa len cnt d) v))
   })"

text \<open>The fragments; the result is the number of the fragment whose mapping failed, if any.\<close>

fun tx_map_frags ::
  "(u32 \<Rightarrow> u64 option) \<Rightarrow> skb_ptr \<Rightarrow> nat \<Rightarrow> nat \<Rightarrow> nat \<Rightarrow> nat list \<Rightarrow> wil6210_priv \<times> vring
     \<Rightarrow> (nat option \<times> wil6210_priv \<times> vring) option" where
  "tx_map_frags dma p vring_index cnt f [] wv = Some (None, wv)"
| "tx_map_frags dma p vring_index cnt f (len # fs) wv =
     (case wv of (w, v) \<Rightarrow>
       let i = (swhead v + of_nat f + 1) mod ucast (vr_size v)
       in case dma i of
            None \<Rightarrow> Some (Some f, w, v)
          | Some pa \<Rightarrow> do {
              wv \<leftarrow> tx_put p vring_index i pa (of_nat len) cnt (klog_add (DmaMapPage pa len) w, v);
              tx_map_frags dma p vring_index cnt (f + 1) fs wv
            })"

text \<open>The error path: undo the slots \<open>swhead + n - 1\<close> down to \<open>swhead\<close>.\<close>

fun tx_undo :: "skb_ptr \<Rightarrow> nat \<Rightarrow> wil6210_priv \<times> vring \<Rightarrow> (wil6210_priv \<times> vring) option" where
  "tx_undo p 0 wv = Some wv"
| "tx_undo p (Suc n) wv =
     (case wv of (w, v) \<Rightarrow>
       let i = (swhead v + of_nat n) mod ucast (vr_size v)
       in do {
         d \<leftarrow> vring_d v i;
         let w = klog_add ((if i \<le> word_of_int (sngl_mapped (skbs w p))
               then DmaUnmapSingle else DmaUnmapPage) (desc_pa d) (unat (desc_length d))) w;
         tx_undo p n (dev_kfree_skb p w, vring_set_d i (d\<lparr>desc_status := TX_DMA_STATUS_DU\<rparr>) v)
       })"

definition tx_stop_if_low :: "vring \<Rightarrow> wil6210_priv \<Rightarrow> wil6210_priv" where
  "tx_stop_if_low v w =
     (if wil_vring_avail_tx v < int (unat (vr_size v)) div 8
      then w\<lparr>ndev := (ndev w)\<lparr>nd_queues_stopped := True\<rparr>\<rparr> else w)"

definition wil_tx_vring ::
  "(u32 \<Rightarrow> u64 option) \<Rightarrow> nat \<Rightarrow> skb_ptr \<Rightarrow> wil6210_priv \<Rightarrow> (errno option \<times> wil6210_priv) option" where
  "wil_tx_vring dma vring_index p w =
     (let v = vring_tx w ! vring_index;
          s = skbs w p;
          avail = wil_vring_avail_tx v;
          nr_frags = length (skb_frags s);
          i = swhead v;
          w = tx_stop_if_low v w
      in if avail < 1 + int nr_frags then Some (Some ENOMEM, w)
         else
           let w = upd_skb p (\<lambda>s. s\<lparr>sngl_mapped := sint i, nodma_desc := -1\<rparr>) w
           in case dma i of
                None \<Rightarrow> Some (Some EINVAL, w)
              | Some pa \<Rightarrow> do {
                  wv \<leftarrow> tx_put p vring_index i pa (of_nat (skb_headlen s)) (nr_frags + 1)
                        (klog_add (DmaMapSingle pa (skb_headlen s)) w, v);
                  (failed, w, v) \<leftarrow> tx_map_frags dma p vring_index (nr_frags + 1) 0 (skb_frags s) wv;
                  (case failed of
                     Some f \<Rightarrow> do {
                       (w, v) \<leftarrow> tx_undo p (f + 1) (w, v);
                       Some (Some EINVAL, set_vring_tx vring_index v w)
                     }
                   | None \<Rightarrow> do {
                       let i = (if nr_frags = 0 then swhead v
                             else (swhead v + of_nat (nr_frags - 1) + 1) mod ucast (vr_size v));
                       d \<leftarrow> vring_d v i;
                       let v = vring_set_d i (wil_tx_last_desc vring_index d) v;
                       let v = wil_vring_advance_head v (of_nat (nr_frags + 1));
                       Some (None, klog_add (IoWrite32 (HOSTADDR (hwtail v)) (swhead v))
                         (set_vring_tx vring_index v w))
                     })
                })"

subsection \<open>Reclaiming\<close>

text \<open>The last finished slot from \<open>i\<close> up to the head, or \<open>rel\<close>.\<close>

partial_function (option) tx_scan :: "vring \<Rightarrow> u32 \<Rightarrow> u32 \<Rightarrow> u32 option" where
  "tx_scan v i rel =
     (if i = swhead v then Some rel
      else do {
        d \<leftarrow> vring_d v i;
        tx_scan v ((i + 1) mod ucast (vr_size v))
          (if desc_status d AND TX_DMA_STATUS_DU \<noteq> 0 then i else rel)
      })"

declare tx_scan.simps [code]

definition count_tx :: "u64 \<Rightarrow> wil_net_stats \<Rightarrow> wil_net_stats" where
  "count_tx len st = st\<lparr>tx_packets := tx_packets st + 1, tx_bytes := tx_bytes st + len\<rparr>"

definition count_tx_error :: "wil_net_stats \<Rightarrow> wil_net_stats" where
  "count_tx_error st = st\<lparr>tx_errors := tx_errors st + 1\<rparr>"

definition tx_release_slot :: "nat \<Rightarrow> u32 \<Rightarrow> vring_desc \<Rightarrow> wil6210_priv \<times> vring \<Rightarrow> (wil6210_priv \<times> vring) option" where
  "tx_release_slot cid i d wv = (case wv of (w, v) \<Rightarrow> do {
     skb \<leftarrow> vring_ctx v i;
     let w = (case skb of
            None \<Rightarrow> w
          | Some p \<Rightarrow>
              let s = skbs w p;
                  w = upd_stats cid
                    (if desc_error d = 0 then count_tx (of_nat (skb_len s)) else count_tx_error) w;
                  w = klog_add ((if sint i \<le> sngl_mapped s then DmaUnmapSingle else DmaUnmapPage)
                    (desc_pa d) (unat (desc_length d))) w
              in dev_kfree_skb p w);
     Some (w, vring_set_d i (d\<lparr>addr_low := 0, addr_high := 0, desc_length := 0, desc_status := 0,
       dma_b10 := 0\<rparr>) (vring_set_ctx i None v))
   })"

partial_function (option) tx_release_loop ::
  "nat \<Rightarrow> u32 \<Rightarrow> u32 \<Rightarrow> nat \<Rightarrow> wil6210_priv \<times> vring \<Rightarrow> (nat \<times> u32 \<times> wil6210_priv \<times> vring) option" where
  "tx_release_loop cid rel i cleared wv =
     (if i = rel then Some (cleared, i, wv)
      else do {
        d \<leftarrow> vring_d (snd wv) i;
        (if dma_d0 d AND BIT DMA_CFG_DESC_TX_0_CMD_EOP_POS \<noteq> 0 \<and> desc_status d AND TX_DMA_STATUS_DU = 0
         then Some (cleared, i, wv)
         else do {
           wv \<leftarrow> tx_release_slot cid i d wv;
           tx_release_loop cid rel ((i + 1) mod ucast (vr_size (snd wv))) (cleared + 1) wv
         })
      })"

declare tx_release_loop.simps [code]

definition wil_tx_complete :: "nat \<Rightarrow> wil6210_priv \<Rightarrow> (nat \<times> wil6210_priv) option" where
  "wil_tx_complete ringid w =
     (let v = vring_tx w ! ringid;
          cid = unat (fst (vring2cid_tid w ! ringid))
      in if vr_va v = None then Some (0, w)
         else do {
           rel \<leftarrow> tx_scan v (swtail v) (swtail v);
           (cleared, i, w, v) \<leftarrow> tx_release_loop cid rel (swtail v) 0 (w, v);
           let v = v\<lparr>swtail := i\<rparr>;
           let w = set_vring_tx ringid v w;
           let w = (if wil_vring_avail_tx v > int (unat (vr_size v)) div 4
                 then w\<lparr>ndev := (ndev w)\<lparr>nd_queues_stopped := False\<rparr>\<rparr> else w);
           Some (cleared, w)
         })"

definition wil_vring_fini_tx :: "nat \<Rightarrow> wil6210_priv \<Rightarrow> wil6210_priv option" where
  "wil_vring_fini_tx i w =
     (if vr_va (vring_tx w ! i) = None then Some w
      else do {
        (w, v) \<leftarrow> wil_vring_free True w (vring_tx w ! i);
        Some (set_vring_tx i v w)
      })"

end
