(* ===== verification/Wil_Tx_Correct.thy ===== *)
theory Wil_Tx_Correct
  imports Wil_Tx
begin

text \<open>
  Correctness of the transmit rings: sending appends one slot per segment to the slots in use and
  takes a reference for each, or leaves the ring and the references as they were; reclaiming takes
  slots from the front and drops their references.
\<close>

subsection \<open>References\<close>

lemma kfree_skb_get [simp]: "kfree_skb p (skb_get p h) = h"
  by (simp add: kfree_skb_def skb_get_def)

lemma kfree_skb_get_funpow: "(kfree_skb p ^^ n) ((skb_get p ^^ n) h) = h"
proof (induction n)
  case (Suc n)
  have "(kfree_skb p ^^ Suc n) ((skb_get p ^^ Suc n) h) =
      (kfree_skb p ^^ n) (kfree_skb p (skb_get p ((skb_get p ^^ n) h)))"
    by (subst funpow_Suc_right) simp
  with Suc show ?case by simp
qed simp

lemma skb_get_funpow: "(skb_get p ^^ n) h = h(p := (h p)\<lparr>skb_users := skb_users (h p) + n\<rparr>)"
proof (induction n)
  case (Suc n)
  have "(skb_get p ^^ Suc n) h = skb_get p (h(p := (h p)\<lparr>skb_users := skb_users (h p) + n\<rparr>))"
    by (simp only: funpow.simps o_apply Suc)
  also have "\<dots> = h(p := (h p)\<lparr>skb_users := skb_users (h p) + Suc n\<rparr>)"
    by (simp add: skb_get_def)
  finally show ?case .
qed simp

subsection \<open>Sending\<close>

lemma tx_slot:
  assumes "vring_ok v" "f < 65536"
  shows "unat ((swhead v + of_nat f) mod ucast (vr_size v)) =
     (unat (swtail v) + (vring_tx_used v + f)) mod length (vr_ctx v)"
proof -
  have "unat (swhead v + of_nat f) = unat (swhead v) + f"
    using assms(2) vring_okD(1) [OF assms(1)] vring_size_bound [of v]
      unat_add_lt [of "swhead v" "of_nat f"]
    by (simp add: unat_of_nat)
  moreover have "(unat (swtail v) + vring_tx_used v) mod unat (vr_size v) = unat (swhead v)"
    using vring_okD [OF assms(1)] by (simp add: vring_tx_used_def ring_span_reach)
  ultimately show ?thesis
    unfolding unat_vring_mod vring_okD(3) [OF assms(1)] by (metis add.assoc mod_add_left_eq)
qed

lemma tx_slot_bound:
  "vring_ok v \<Longrightarrow> unat (x mod ucast (vr_size v) :: u32) < unat (vr_size v)"
  using vring_okD(4) by (simp add: unat_vring_mod)

lemma tx_put_ok:
  assumes "vring_ok v" "unat i < unat (vr_size v)"
  shows "\<exists>d. tx_put p idx i pa len cnt (w, v) =
     Some (w\<lparr>skbs := skb_get p (skbs w)\<rparr>, vring_set_ctx i (Some p) (vring_set_d i d v))"
  using vring_ok_d [OF assms] vring_ok_ctx [OF assms] by (auto simp: tx_put_def)

text \<open>\<open>ring_same v v'\<close>: the same ring but for the contents of its arrays.\<close>

definition ring_same :: "vring \<Rightarrow> vring \<Rightarrow> bool" where
  "ring_same v v' \<longleftrightarrow> swhead v' = swhead v \<and> swtail v' = swtail v \<and> vr_size v' = vr_size v \<and>
     hwtail v' = hwtail v \<and> (vring_ok v \<longrightarrow> vring_ok v')"

lemma ring_same_refl [simp]: "ring_same v v"
  by (simp add: ring_same_def)

lemma ring_same_trans: "ring_same v v1 \<Longrightarrow> ring_same v1 v2 \<Longrightarrow> ring_same v v2"
  by (simp add: ring_same_def)

lemma ring_same_set [simp]: "ring_same v (vring_set_ctx i c v)" "ring_same v (vring_set_d i d v)"
  by (simp_all add: ring_same_def)

lemma ring_same_used: "ring_same v v' \<Longrightarrow> vring_tx_used v' = vring_tx_used v"
  by (simp add: ring_same_def vring_tx_used_def)

definition tx_slots :: "vring \<Rightarrow> nat \<Rightarrow> skb_ptr option list" where
  "tx_slots v k = ring_slots (vr_ctx v) (unat (swtail v)) (vring_tx_used v + k)"

lemma tx_slots_0: "tx_slots v 0 = tx_posted v"
  by (simp add: tx_slots_def tx_posted_def)

lemma tx_slots_set_d [simp]: "tx_slots (vring_set_d i d v) k = tx_slots v k"
  by (simp add: tx_slots_def)

lemma tx_slots_put:
  assumes "vring_ok v" "vring_tx_used v + f < unat (vr_size v)"
  defines "i \<equiv> (swhead v + of_nat f) mod ucast (vr_size v)"
  shows "tx_slots (vring_set_ctx i (Some p) v) f = tx_slots v f"
    "tx_slots (vring_set_ctx i (Some p) v) (Suc f) = tx_slots v f @ [Some p]"
proof -
  have f: "f < 65536" using assms(2) vring_size_bound [of v] by simp
  have k: "vring_tx_used v + f < length (vr_ctx v)" using assms vring_okD(3) by simp
  note s = tx_slot [OF assms(1) f, folded i_def]
  show "tx_slots (vring_set_ctx i (Some p) v) f = tx_slots v f"
    using ring_slots_update_end [OF k] by (simp add: tx_slots_def s)
  then show "tx_slots (vring_set_ctx i (Some p) v) (Suc f) = tx_slots v f @ [Some p]"
    using nth_list_update_eq [of "(unat (swtail v) + (vring_tx_used v + f)) mod length (vr_ctx v)"
        "vr_ctx v" "Some p"] k
    by (simp add: tx_slots_def ring_slots_snoc s add.assoc mod_less_divisor
        del: nth_list_update_eq) (metis gr_zeroI less_nat_zero_code mod_less_divisor)
qed

lemma buf_frame_skbs [simp, intro]: "buf_frame w (w\<lparr>skbs := h\<rparr>)"
  by (simp add: buf_frame_def)

lemma tx_map_frags_ok:
  "vring_ok v \<Longrightarrow> vring_tx_used v + f + 1 + length fs < unat (vr_size v) \<Longrightarrow>
     \<exists>res w' v'. tx_map_frags dma p idx cnt f fs (w, v) = Some (res, w', v') \<and>
       buf_frame w w' \<and> ring_same v v' \<and>
       (res = None \<longrightarrow> skbs w' = (skb_get p ^^ length fs) (skbs w) \<and>
          tx_slots v' (f + 1 + length fs) = tx_slots v (f + 1) @ replicate (length fs) (Some p)) \<and>
       (\<forall>g. res = Some g \<longrightarrow> f \<le> g \<and> g < f + length fs \<and>
          skbs w' = (skb_get p ^^ (g - f)) (skbs w) \<and> tx_slots v' (f + 1) = tx_slots v (f + 1)) \<and>
       (res = None \<longleftrightarrow> (\<forall>j < length fs. dma ((swhead v + of_nat (f + j) + 1) mod ucast (vr_size v)) \<noteq> None))"
proof (induction fs arbitrary: f w v)
  case Nil
  then show ?case by simp
next
  case (Cons len fs)
  let ?i = "(swhead v + of_nat f + 1) mod ucast (vr_size v)"
  have i: "?i = (swhead v + of_nat (f + 1)) mod ucast (vr_size v)" by (simp add: ac_simps)
  show ?case
  proof (cases "dma ?i")
    case None
    then show ?thesis by (auto simp: Let_def intro!: exI [of _ 0])
  next
    case (Some pa)
    have b: "unat ?i < unat (vr_size v)" by (rule tx_slot_bound [OF Cons.prems(1)])
    let ?w = "klog_add (DmaMapPage pa len) w"
    obtain d where
      d: "tx_put p idx ?i pa (of_nat len) cnt (?w, v) = Some (?w\<lparr>skbs := skb_get p (skbs ?w)\<rparr>,
        vring_set_ctx ?i (Some p) (vring_set_d ?i d v))"
      using tx_put_ok [OF Cons.prems(1) b] by blast
    define w1 where "w1 = ?w\<lparr>skbs := skb_get p (skbs ?w)\<rparr>"
    define v1 where "v1 = vring_set_ctx ?i (Some p) (vring_set_d ?i d v)"
    have v1: "ring_same v v1" "vring_ok v1" "vring_tx_used v1 = vring_tx_used v"
      "swhead v1 = swhead v" "vr_size v1 = vr_size v"
      using Cons.prems(1) by (auto simp: v1_def ring_same_def)
    have sl: "tx_slots v1 (f + 1) = tx_slots v (f + 1)"
      "tx_slots v1 (Suc (f + 1)) = tx_slots v (f + 1) @ [Some p]"
      using tx_slots_put [of "vring_set_d ?i d v" "f + 1" p] Cons.prems i
      by (simp_all add: v1_def)
    have w1: "buf_frame w w1" "skbs w1 = skb_get p (skbs w)"
      unfolding w1_def using buf_frame_trans [OF buf_frame_upd(2) buf_frame_skbs]
      by (simp_all add: klog_add_def)
    have step: "tx_map_frags dma p idx cnt f (len # fs) (w, v) =
        tx_map_frags dma p idx cnt (f + 1) fs (w1, v1)"
      using Some d by (simp add: w1_def v1_def Let_def)
    have "vring_tx_used v1 + (f + 1) + 1 + length fs < unat (vr_size v1)"
      using Cons.prems(2) v1 by simp
    from Cons.IH [OF v1(2) this, of w1] obtain res w' v' where
      IH: "tx_map_frags dma p idx cnt (f + 1) fs (w1, v1) = Some (res, w', v')"
      "buf_frame w1 w'" "ring_same v1 v'"
      "res = None \<longrightarrow> skbs w' = (skb_get p ^^ length fs) (skbs w1) \<and>
         tx_slots v' (f + 1 + 1 + length fs) = tx_slots v1 (f + 1 + 1) @ replicate (length fs) (Some p)"
      "\<forall>g. res = Some g \<longrightarrow> f + 1 \<le> g \<and> g < f + 1 + length fs \<and>
         skbs w' = (skb_get p ^^ (g - (f + 1))) (skbs w1) \<and> tx_slots v' (f + 1 + 1) = tx_slots v1 (f + 1 + 1)"
      "res = None \<longleftrightarrow> (\<forall>j < length fs. dma ((swhead v + of_nat (f + 1 + j) + 1) mod ucast (vr_size v)) \<noteq> None)"
      unfolding v1(4,5) by blast
    have A: "res = None \<longrightarrow> skbs w' = (skb_get p ^^ length (len # fs)) (skbs w) \<and>
        tx_slots v' (f + 1 + length (len # fs)) = tx_slots v (f + 1) @ replicate (length (len # fs)) (Some p)"
      using IH(4) w1(2) sl(2) by (simp add: funpow_swap1)
    have B: "f \<le> g \<and> g < f + length (len # fs) \<and> skbs w' = (skb_get p ^^ (g - f)) (skbs w) \<and>
        tx_slots v' (f + 1) = tx_slots v (f + 1)" if g: "res = Some g" for g
    proof -
      have g1: "f + 1 \<le> g" "g < f + 1 + length fs" "skbs w' = (skb_get p ^^ (g - (f + 1))) (skbs w1)"
        "tx_slots v' (f + 1 + 1) = tx_slots v1 (f + 1 + 1)"
        using IH(5) g by blast+
      have "g - f = Suc (g - (f + 1))" using g1(1) by simp
      then have "skbs w' = (skb_get p ^^ (g - f)) (skbs w)"
        using g1(3) w1(2) by (simp add: funpow_swap1)
      moreover have "tx_slots v' (f + 1) = tx_slots v (f + 1)"
      proof -
        have "tx_slots u (f + 1 + 1) = tx_slots u (f + 1) @ [vr_ctx u ! ((unat (swtail u) +
            (vring_tx_used u + (f + 1))) mod length (vr_ctx u))]" for u
          by (simp add: tx_slots_def ring_slots_snoc)
        then have "tx_slots v' (f + 1) = tx_slots v1 (f + 1)" using g1(4) by simp
        then show ?thesis using sl(1) by simp
      qed
      ultimately show ?thesis using g1 by simp
    qed
    have C: "res = None \<longleftrightarrow>
        (\<forall>j < length (len # fs). dma ((swhead v + of_nat (f + j) + 1) mod ucast (vr_size v)) \<noteq> None)"
      unfolding IH(6) using Some by (auto simp: less_Suc_eq_0_disj)
    show ?thesis
      unfolding step IH(1)
      using buf_frame_trans [OF w1(1) IH(2)] ring_same_trans [OF v1(1) IH(3)] A B C
      by (intro exI [of _ res] exI [of _ w'] exI [of _ v']) blast
  qed
qed

lemma tx_undo_ok:
  "vring_ok v \<Longrightarrow> n \<le> 65536 \<Longrightarrow>
     \<exists>w' v'. tx_undo p n (w, v) = Some (w', v') \<and> buf_frame w w' \<and> ring_same v v' \<and>
       vr_ctx v' = vr_ctx v \<and> skbs w' = (kfree_skb p ^^ n) (skbs w)"
proof (induction n arbitrary: w v)
  case 0
  then show ?case by simp
next
  case (Suc n)
  let ?i = "(swhead v + of_nat n) mod ucast (vr_size v)"
  obtain d where d: "vring_d v ?i = Some d"
    using vring_ok_d [OF Suc.prems(1) tx_slot_bound [OF Suc.prems(1)]] by blast
  define w1 where "w1 = dev_kfree_skb p (klog_add ((if ?i \<le> word_of_int (sngl_mapped (skbs w p))
    then DmaUnmapSingle else DmaUnmapPage) (desc_pa d) (unat (desc_length d))) w)"
  define v1 where "v1 = vring_set_d ?i (d\<lparr>desc_status := TX_DMA_STATUS_DU\<rparr>) v"
  have v1: "vring_ok v1" "ring_same v v1" "vr_ctx v1 = vr_ctx v"
    using Suc.prems(1) by (simp_all add: v1_def)
  have w1: "buf_frame w w1" "skbs w1 = kfree_skb p (skbs w)"
    unfolding w1_def by (blast intro: buf_frame_trans, simp add: klog_add_def)
  obtain w' v' where "tx_undo p n (w1, v1) = Some (w', v')" "buf_frame w1 w'" "ring_same v1 v'"
    "vr_ctx v' = vr_ctx v1" "skbs w' = (kfree_skb p ^^ n) (skbs w1)"
    using Suc.IH [OF v1(1), of w1] Suc.prems(2) by auto
  moreover have "tx_undo p (Suc n) (w, v) = tx_undo p n (w1, v1)"
    using d by (simp add: w1_def v1_def Let_def)
  ultimately show ?case
    using v1 w1 by (auto simp: funpow_swap1 intro: buf_frame_trans ring_same_trans)
qed

definition tx_ring :: "nat \<Rightarrow> wil6210_priv \<Rightarrow> vring" where
  "tx_ring i w = vring_tx w ! i"

lemma tx_ring_set [simp]:
  "i < length (vring_tx w) \<Longrightarrow> tx_ring i (set_vring_tx i v w) = v"
  "tx_ring i (klog_add e w) = tx_ring i w" "skbs (set_vring_tx i v w) = skbs w"
  "klog (set_vring_tx i v w) = klog w"
  by (simp_all add: tx_ring_def set_vring_tx_def klog_add_def)

lemma tx_stop_frame:
  "skbs (tx_stop_if_low v w) = skbs w" "vring_tx (tx_stop_if_low v w) = vring_tx w"
  by (simp_all add: tx_stop_if_low_def)

lemma ring_same_posted: "ring_same v v' \<Longrightarrow> vr_ctx v' = vr_ctx v \<Longrightarrow> tx_posted v' = tx_posted v"
  by (simp add: tx_posted_def ring_same_used) (simp add: ring_same_def)

lemma tx_slots_prefix:
  assumes "tx_slots v' (Suc k) = tx_slots v (Suc k)"
  shows "tx_slots v' k = tx_slots v k"
proof -
  have "tx_slots u (Suc k) = tx_slots u k @ [vr_ctx u ! ((unat (swtail u) +
      (vring_tx_used u + k)) mod length (vr_ctx u))]" for u
    by (simp add: tx_slots_def ring_slots_snoc)
  then show ?thesis using assms by simp
qed

lemma tx_advance_head:
  assumes "vring_ok v" "vring_tx_used v + k < unat (vr_size v)"
  shows "vring_ok (wil_vring_advance_head v (of_nat k))"
    "tx_posted (wil_vring_advance_head v (of_nat k)) = tx_slots v k"
proof -
  have k: "k < 65536" "unat (of_nat k :: u32) = k"
    using assms(2) vring_size_bound [of v] by (simp_all add: unat_of_nat)
  show "vring_ok (wil_vring_advance_head v (of_nat k))"
    using assms(1) k by (intro vring_ok_advance) simp_all
  let ?n = "unat (vr_size v)" and ?t = "unat (swtail v)" and ?h = "unat (swhead v)"
  let ?v = "wil_vring_advance_head v (of_nat k)"
  note ok = vring_okD [OF assms(1)]
  have h: "?h = (?t + vring_tx_used v) mod ?n"
    using ok by (simp add: vring_tx_used_def ring_span_reach)
  have "unat (swhead ?v) = (?t + (vring_tx_used v + k)) mod ?n"
    using unat_advance_head [OF assms(1), of "of_nat k"] k h by (simp add: mod_add_left_eq add.assoc)
  then have "ring_span ?n ?t (unat (swhead ?v)) = vring_tx_used v + k"
    using ok(2,4) assms(2) mod_shift_inj [of ?t "ring_span ?n ?t (unat (swhead ?v))" ?n "vring_tx_used v + k"]
      ring_span_reach [of ?t ?n "unat (swhead ?v)"] ring_span_bound [of ?n ?t "unat (swhead ?v)"]
    by simp
  then have "vring_tx_used ?v = vring_tx_used v + k"
    by (simp add: vring_tx_used_def wil_vring_advance_head_def)
  then show "tx_posted ?v = tx_slots v k"
    by (simp add: tx_posted_def tx_slots_def wil_vring_advance_head_def)
qed

text \<open>The outcomes of \<open>wil_tx_vring\<close>.\<close>

definition tx_room :: "vring \<Rightarrow> nat \<Rightarrow> bool" where
  "tx_room v n \<longleftrightarrow> vring_tx_used v + n < unat (vr_size v)"

lemma tx_avail_room:
  "vring_ok v \<Longrightarrow> wil_vring_avail_tx v < 1 + int n \<longleftrightarrow> \<not> tx_room v (n + 1)"
proof -
  assume v: "vring_ok v"
  have "b < a \<Longrightarrow> int (a - b - 1) < 1 + int n \<longleftrightarrow> \<not> b + (n + 1) < a" for a b :: nat
    by auto
  from this [OF vring_used_lt(2) [OF v]] show ?thesis
    unfolding vring_avail_tx [OF v] tx_room_def .
qed

lemma wil_tx_vring_ok:
  fixes p :: skb_ptr
  assumes "i < length (vring_tx w)" "vring_ok (tx_ring i w)"
  defines "n \<equiv> length (skb_frags (skbs w p))"
  shows "\<exists>rc w'. wil_tx_vring dma i p w = Some (rc, w') \<and> vring_ok (tx_ring i w') \<and>
     (rc = Some ENOMEM \<longleftrightarrow> \<not> tx_room (tx_ring i w) (n + 1)) \<and>
     (rc = None \<longrightarrow> tx_posted (tx_ring i w') = tx_posted (tx_ring i w) @ replicate (n + 1) (Some p) \<and>
        skb_users (skbs w' p) = skb_users (skbs w p) + n + 1 \<and>
        last (klog w') = IoWrite32 (HOSTADDR (hwtail (tx_ring i w))) (swhead (tx_ring i w'))) \<and>
     (rc \<noteq> None \<longrightarrow> swhead (tx_ring i w') = swhead (tx_ring i w) \<and>
        tx_posted (tx_ring i w') = tx_posted (tx_ring i w) \<and>
        (\<forall>q. skb_users (skbs w' q) = skb_users (skbs w q)))"
proof -
  let ?v = "tx_ring i w"
  note v = assms(2)
  show ?thesis
  proof (cases "tx_room ?v (n + 1)")
    case False
    then show ?thesis
      using v tx_avail_room [OF v, of n]
      by (simp add: wil_tx_vring_def tx_ring_def [symmetric] n_def Let_def tx_stop_frame)
        (simp add: tx_ring_def tx_stop_frame)
  next
    case room: True
    have av: "\<not> wil_vring_avail_tx ?v < 1 + int n" using room tx_avail_room [OF v] by simp
    define w0 where "w0 = upd_skb p (\<lambda>s. s\<lparr>sngl_mapped := sint (swhead ?v), nodma_desc := -1\<rparr>)
      (tx_stop_if_low ?v w)"
    have w0: "vring_tx w0 = vring_tx w" "\<And>q. skb_users (skbs w0 q) = skb_users (skbs w q)"
      "skb_frags (skbs w0 p) = skb_frags (skbs w p)" "skb_headlen (skbs w0 p) = skb_headlen (skbs w p)"
      by (simp_all add: w0_def upd_skb_def tx_stop_frame skb_headlen_def)
    show ?thesis
    proof (cases "dma (swhead ?v)")
      case None
      then show ?thesis
        using av v room w0
        by (simp add: wil_tx_vring_def tx_ring_def [symmetric] n_def [symmetric] Let_def w0_def [symmetric])
          (simp add: tx_ring_def w0)
    next
      case (Some pa)
      define w1 where "w1 = klog_add (DmaMapSingle pa (skb_headlen (skbs w p))) w0"
      obtain d where d: "tx_put p i (swhead ?v) pa (of_nat (skb_headlen (skbs w p))) (n + 1) (w1, ?v) =
          Some (w1\<lparr>skbs := skb_get p (skbs w1)\<rparr>,
            vring_set_ctx (swhead ?v) (Some p) (vring_set_d (swhead ?v) d ?v))"
        using tx_put_ok [OF v vring_okD(1) [OF v]] by blast
      define w2 where "w2 = w1\<lparr>skbs := skb_get p (skbs w1)\<rparr>"
      define v2 where "v2 = vring_set_ctx (swhead ?v) (Some p) (vring_set_d (swhead ?v) d ?v)"
      have v2: "ring_same ?v v2" "vring_ok v2" "vring_tx_used v2 = vring_tx_used ?v"
        "vr_size v2 = vr_size ?v" "swhead v2 = swhead ?v"
        using v by (auto simp: v2_def ring_same_def)
      have h0: "(swhead ?v + of_nat 0) mod ucast (vr_size ?v) = swhead ?v"
        using vring_okD(1) [OF v] by (simp add: word_unat_eq_iff unat_vring_mod)
      have s2: "tx_slots v2 0 = tx_slots ?v 0" "tx_slots v2 (Suc 0) = tx_slots ?v 0 @ [Some p]"
        using tx_slots_put [of "vring_set_d (swhead ?v) d ?v" 0 p] v vring_used_lt(2) [OF v] h0
        by (simp_all add: v2_def)
      have w2: "skbs w2 = skb_get p (skbs w0)" "vring_tx w2 = vring_tx w"
        by (simp_all add: w2_def w1_def klog_add_def w0)
      have "vring_tx_used v2 + 0 + 1 + length (skb_frags (skbs w p)) < unat (vr_size v2)"
        using room v2 by (simp add: tx_room_def n_def)
      from tx_map_frags_ok [OF v2(2) this, of dma p i "n + 1" w2, folded n_def] obtain res w3 v3 where
        f: "tx_map_frags dma p i (n + 1) 0 (skb_frags (skbs w p)) (w2, v2) = Some (res, w3, v3)"
        "buf_frame w2 w3" "ring_same v2 v3"
        "res = None \<longrightarrow> skbs w3 = (skb_get p ^^ n) (skbs w2) \<and>
           tx_slots v3 (0 + 1 + n) = tx_slots v2 (0 + 1) @ replicate n (Some p)"
        "\<forall>g. res = Some g \<longrightarrow> 0 \<le> g \<and> g < 0 + n \<and>
           skbs w3 = (skb_get p ^^ (g - 0)) (skbs w2) \<and> tx_slots v3 (0 + 1) = tx_slots v2 (0 + 1)"
        by blast
      have v3: "ring_same ?v v3" "vring_ok v3" "swhead v3 = swhead ?v" "vr_size v3 = vr_size ?v"
        "hwtail v3 = hwtail ?v"
        using ring_same_trans [OF v2(1) f(3)] v by (auto simp: ring_same_def)
      have w3: "vring_tx w3 = vring_tx w" using buf_frameD(7) [OF f(2)] w2(2) by simp
      have step: "wil_tx_vring dma i p w = (case res of
          Some g \<Rightarrow> do { (w, v) \<leftarrow> tx_undo p (g + 1) (w3, v3); Some (Some EINVAL, set_vring_tx i v w) }
        | None \<Rightarrow> do {
            let j = (if n = 0 then swhead v3 else (swhead v3 + of_nat (n - 1) + 1) mod ucast (vr_size v3));
            d \<leftarrow> vring_d v3 j;
            let v = wil_vring_advance_head (vring_set_d j (wil_tx_last_desc i d) v3) (of_nat (n + 1));
            Some (None, klog_add (IoWrite32 (HOSTADDR (hwtail v)) (swhead v)) (set_vring_tx i v w3)) })"
        using av Some d f(1)
        by (cases res) (simp_all add: wil_tx_vring_def tx_ring_def [symmetric] n_def [symmetric] Let_def
            w0_def [symmetric] w1_def [symmetric] w2_def [symmetric] v2_def [symmetric] w0)
      show ?thesis
      proof (cases res)
        case None
        define j where "j = (if n = 0 then swhead v3
          else (swhead v3 + of_nat (n - 1) + 1) mod ucast (vr_size v3))"
        have "unat j < unat (vr_size v3)"
          using vring_okD(1) [OF v3(2)] tx_slot_bound [OF v3(2)] by (simp add: j_def)
        then obtain dl where dl: "vring_d v3 j = Some dl" using vring_ok_d [OF v3(2)] by blast
        define v4 where "v4 = vring_set_d j (wil_tx_last_desc i dl) v3"
        have e4: "swhead v4 = swhead v3" "vr_size v4 = vr_size v3" "hwtail v4 = hwtail v3"
          by (simp_all add: v4_def)
        have u4: "vring_ok v4" "vring_tx_used v4 + (n + 1) < unat (vr_size v4)" "hwtail v4 = hwtail ?v"
          using v3 room ring_same_used [OF v3(1)] by (simp_all add: v4_def tx_room_def)
        note a = tx_advance_head [OF u4(1,2)]
        have "tx_slots v4 (n + 1) = tx_posted ?v @ replicate (n + 1) (Some p)"
          using f(4) None s2 by (simp add: v4_def tx_slots_0)
        moreover have "skbs w3 = (skb_get p ^^ (n + 1)) (skbs w0)"
          using f(4) None w2(1) by (simp add: funpow_swap1)
        then have "skb_users (skbs w3 p) = skb_users (skbs w p) + n + 1"
          unfolding skb_get_funpow by (simp add: w0)
        moreover have "wil_tx_vring dma i p w = Some (None, klog_add (IoWrite32 (HOSTADDR (hwtail ?v))
            (swhead (wil_vring_advance_head v4 (of_nat (n + 1)))))
            (set_vring_tx i (wil_vring_advance_head v4 (of_nat (n + 1))) w3))"
          using step None dl v3(5)
          by (simp add: e4 j_def [symmetric] Let_def v4_def [symmetric] wil_vring_advance_head_def)
        ultimately show ?thesis
          using a room assms(1) w3 by (simp add: klog_add_def tx_ring_def set_vring_tx_def)
      next
        case (Some g)
        then have g: "g < n" "skbs w3 = (skb_get p ^^ g) (skbs w2)" "tx_slots v3 1 = tx_slots v2 1"
          using f(5) by auto
        have "g + 1 \<le> 65536"
          using g(1) room vring_size_bound [of ?v] by (simp add: tx_room_def)
        from tx_undo_ok [OF v3(2) this, of p w3] obtain w5 v5 where
          u: "tx_undo p (g + 1) (w3, v3) = Some (w5, v5)" "buf_frame w3 w5" "ring_same v3 v5"
          "vr_ctx v5 = vr_ctx v3" "skbs w5 = (kfree_skb p ^^ (g + 1)) (skbs w3)" by blast
        have "skbs w3 = (skb_get p ^^ (g + 1)) (skbs w0)"
          using g(2) w2(1) by (simp add: funpow_swap1)
        then have "skbs w5 = skbs w0" using u(5) kfree_skb_get_funpow by metis
        moreover have "tx_posted v5 = tx_posted ?v"
          using ring_same_posted [OF u(3,4)] tx_slots_prefix [of v3 0 v2] g(3) s2(1)
          by (simp add: tx_slots_0)
        moreover have "swhead v5 = swhead ?v" "vring_ok v5"
          using u(3) v3 by (simp_all add: ring_same_def)
        moreover have "wil_tx_vring dma i p w = Some (Some EINVAL, set_vring_tx i v5 w5)"
          using step Some u(1) by simp
        ultimately show ?thesis
          using room assms(1) w3 buf_frameD(7) [OF u(2)] w0(2)
          by (simp add: tx_ring_def set_vring_tx_def)
      qed
    qed
  qed
qed

subsection \<open>Reclaiming\<close>

definition tx_descs :: "vring \<Rightarrow> vring_desc list" where
  "tx_descs v = (case vr_va v of None \<Rightarrow> [] | Some ds \<Rightarrow>
     ring_slots ds (unat (swtail v)) (vring_tx_used v))"

text \<open>The scan finds a slot in use at some distance from where it starts, or keeps its answer.\<close>

lemma tx_scan_ok:
  "vring_ok (v\<lparr>swtail := i\<rparr>) \<Longrightarrow> vring_tx_used (v\<lparr>swtail := i\<rparr>) = k \<Longrightarrow>
     \<exists>r. tx_scan v i rel = Some r \<and>
       (r = rel \<or> (\<exists>j < k. unat r = (unat i + j) mod unat (vr_size v)))"
proof (induction k arbitrary: i rel)
  case 0
  have "i = swhead v"
    using vring_empty_tx_used [OF "0.prems"(1)] "0.prems"(2) by (simp add: wil_vring_is_empty_def)
  then show ?case by (subst tx_scan.simps) simp
next
  case (Suc k)
  let ?u = "v\<lparr>swtail := i\<rparr>" and ?next = "(i + 1) mod ucast (vr_size v)"
  have ne: "i \<noteq> swhead v"
    using vring_empty_tx_used [OF Suc.prems(1)] Suc.prems(2) by (simp add: wil_vring_is_empty_def)
  obtain d where d: "vring_d v i = Some d"
    using vring_ok_d [OF Suc.prems(1), of i] vring_okD(2) [OF Suc.prems(1)] by (auto simp: vring_d_def)
  have n: "wil_vring_next_tail ?u = ?next" by (simp add: wil_vring_next_tail_def)
  have u': "vring_ok (v\<lparr>swtail := ?next\<rparr>)" "vring_tx_used (v\<lparr>swtail := ?next\<rparr>) = k"
    using vring_ok_next_tail [OF Suc.prems(1)] vring_tx_used_tail [OF Suc.prems] unfolding n by simp_all
  have un: "unat ?next = (unat i + 1) mod unat (vr_size v)"
    using unat_next_tail [OF Suc.prems(1)] unfolding n by simp
  define rel' where "rel' = (if desc_status d AND TX_DMA_STATUS_DU \<noteq> 0 then i else rel)"
  from Suc.IH [OF u', of rel'] obtain r where
    r: "tx_scan v ?next rel' = Some r" "r = rel' \<or> (\<exists>j < k. unat r = (unat ?next + j) mod unat (vr_size v))"
    by blast
  have "tx_scan v i rel = Some r"
    using ne d r(1) by (simp add: tx_scan.simps [of v i] rel'_def)
  moreover have "unat i = (unat i + 0) mod unat (vr_size v)"
    using vring_okD(2) [OF Suc.prems(1)] by simp
  moreover have "(unat ?next + j) mod unat (vr_size v) = (unat i + Suc j) mod unat (vr_size v)" for j
    unfolding un by (simp add: mod_add_left_eq)
  ultimately show ?case
    using r(2) unfolding rel'_def by (metis Suc_mono zero_less_Suc)
qed

lemma tx_release_slot_ok:
  assumes "unat i < length (vr_ctx v)"
  shows "\<exists>w' d'. tx_release_slot cid i d (w, v) = Some (w', vring_set_d i d' (vring_set_ctx i None v)) \<and>
     vring_tx w' = vring_tx w \<and> skbs w' = fold kfree_skb (somes [vr_ctx v ! unat i]) (skbs w)"
  using assms
  by (cases "vr_ctx v ! unat i") (auto simp: tx_release_slot_def vring_ctx_def Let_def klog_add_def)

lemma tx_posted_set_d [simp]: "tx_posted (vring_set_d i d v) = tx_posted v"
  by (simp add: tx_posted_def)

lemma swtail_set:
  "(vring_set_d i d v)\<lparr>swtail := t\<rparr> = vring_set_d i d (v\<lparr>swtail := t\<rparr>)"
  "(vring_set_ctx i c v)\<lparr>swtail := t\<rparr> = vring_set_ctx i c (v\<lparr>swtail := t\<rparr>)"
  by (simp_all add: vring_set_d_def vring_set_ctx_def)

lemma tx_release_loop_ok:
  "vring_ok (v\<lparr>swtail := i\<rparr>) \<Longrightarrow> j \<le> vring_tx_used (v\<lparr>swtail := i\<rparr>) \<Longrightarrow>
   unat rel = (unat i + j) mod unat (vr_size v) \<Longrightarrow>
     \<exists>m i' w' v' gone. tx_release_loop cid rel i c (w, v) = Some (c + m, i', w', v') \<and> m \<le> j \<and>
       swhead v' = swhead v \<and> vr_size v' = vr_size v \<and> vring_ok (v'\<lparr>swtail := i'\<rparr>) \<and>
       length gone = m \<and> tx_posted (v\<lparr>swtail := i\<rparr>) = gone @ tx_posted (v'\<lparr>swtail := i'\<rparr>) \<and>
       vring_tx w' = vring_tx w \<and> skbs w' = fold kfree_skb (somes gone) (skbs w)"
proof (induction j arbitrary: i w v c)
  case 0
  then have i: "i = rel" using vring_okD(2) [OF "0.prems"(1)] by (simp add: word_unat_eq_iff)
  then have "tx_release_loop cid rel i c (w, v) = Some (c + 0, i, w, v)"
    by (subst tx_release_loop.simps) simp
  then show ?case using "0.prems"(1) by fastforce
next
  case (Suc j)
  let ?u = "v\<lparr>swtail := i\<rparr>" and ?next = "(i + 1) mod ucast (vr_size v)"
  note ok = vring_okD [OF Suc.prems(1)]
  obtain k where k: "vring_tx_used ?u = Suc k" "j \<le> k"
    using Suc.prems(2) by (cases "vring_tx_used ?u") auto
  have ne: "i \<noteq> rel"
  proof
    assume "i = rel"
    then have "(unat i + Suc j) mod unat (vr_size v) = (unat i + 0) mod unat (vr_size v)"
      using Suc.prems(3) ok(2) by simp
    then have "Suc j = 0"
      by (rule mod_shift_inj) (use vring_used_lt(2) [OF Suc.prems(1)] k ok in auto)
    then show False by simp
  qed
  have i: "unat i < length (vr_ctx v)" using ok by simp
  obtain d where d: "vring_d v i = Some d"
    using vring_ok_d [OF Suc.prems(1), of i] ok(2) by (auto simp: vring_d_def)
  show ?case
  proof (cases "dma_d0 d AND BIT DMA_CFG_DESC_TX_0_CMD_EOP_POS \<noteq> 0 \<and> desc_status d AND TX_DMA_STATUS_DU = 0")
    case True
    then have "tx_release_loop cid rel i c (w, v) = Some (c + 0, i, w, v)"
      using ne d by (subst tx_release_loop.simps) simp
    then show ?thesis using Suc.prems(1) by fastforce
  next
    case False
    from tx_release_slot_ok [OF i, of cid d w] obtain w1 d' where
      1: "tx_release_slot cid i d (w, v) = Some (w1, vring_set_d i d' (vring_set_ctx i None v))"
      "vring_tx w1 = vring_tx w" "skbs w1 = fold kfree_skb (somes [vr_ctx v ! unat i]) (skbs w)" by blast
    define v1 where "v1 = vring_set_d i d' (vring_set_ctx i None v)"
    have n: "wil_vring_next_tail ?u = ?next" by (simp add: wil_vring_next_tail_def)
    have u1: "v1\<lparr>swtail := ?next\<rparr> = vring_set_d i d' (vring_set_ctx i None (?u\<lparr>swtail := ?next\<rparr>))"
      by (simp add: v1_def swtail_set)
    have v1: "vring_ok (v1\<lparr>swtail := ?next\<rparr>)" "vring_tx_used (v1\<lparr>swtail := ?next\<rparr>) = k"
      "vr_size v1 = vr_size v" "swhead v1 = swhead v"
      using vring_ok_next_tail [OF Suc.prems(1)] vring_tx_used_tail [OF Suc.prems(1) k(1)]
      unfolding n by (simp_all only: u1 vring_ok_update vring_used_set) (simp_all add: v1_def)
    have p1: "tx_posted ?u = vr_ctx v ! unat i # tx_posted (v1\<lparr>swtail := ?next\<rparr>)"
      using tx_posted_Suc(1) [OF Suc.prems(1) k(1), of None]
      unfolding n u1 by (simp add: swtail_set)
    have "unat ?next = (unat i + 1) mod unat (vr_size v)"
      using unat_next_tail [OF Suc.prems(1)] unfolding n by simp
    then have rel: "unat rel = (unat ?next + j) mod unat (vr_size v1)"
      using Suc.prems(3) by (simp add: v1 mod_add_left_eq)
    have j: "j \<le> vring_tx_used (v1\<lparr>swtail := ?next\<rparr>)" using k v1(2) by simp
    from Suc.IH [OF v1(1) j rel, of "c + 1" w1] obtain m i' w' v' gone where
      2: "tx_release_loop cid rel ?next (c + 1) (w1, v1) = Some (c + 1 + m, i', w', v')" "m \<le> j"
      "swhead v' = swhead v1" "vr_size v' = vr_size v1" "vring_ok (v'\<lparr>swtail := i'\<rparr>)"
      "length gone = m" "tx_posted (v1\<lparr>swtail := ?next\<rparr>) = gone @ tx_posted (v'\<lparr>swtail := i'\<rparr>)"
      "vring_tx w' = vring_tx w1" "skbs w' = fold kfree_skb (somes gone) (skbs w1)" by blast
    have "tx_release_loop cid rel i c (w, v) = tx_release_loop cid rel ?next (c + 1) (w1, v1)"
      using ne d False 1(1) by (subst tx_release_loop.simps) (auto simp: v1_def [symmetric] v1(3))
    then have "tx_release_loop cid rel i c (w, v) = Some (c + Suc m, i', w', v')" using 2(1) by simp
    moreover have "skbs w' = fold kfree_skb (somes (vr_ctx v ! unat i # gone)) (skbs w)"
      using 2(9) 1(3) somes_append [of "[vr_ctx v ! unat i]" gone] by simp
    ultimately show ?thesis
      using 1(2) 2 v1(3,4) p1
      by (intro exI [of _ "Suc m"] exI [of _ i'] exI [of _ w'] exI [of _ v']
          exI [of _ "vr_ctx v ! unat i # gone"]) simp
  qed
qed

lemma wil_tx_complete_ok:
  assumes "i < length (vring_tx w)" "vring_ok (tx_ring i w)"
  shows "\<exists>m w' gone. wil_tx_complete i w = Some (m, w') \<and> vring_ok (tx_ring i w') \<and>
     length gone = m \<and> tx_posted (tx_ring i w) = gone @ tx_posted (tx_ring i w') \<and>
     skbs w' = fold kfree_skb (somes gone) (skbs w) \<and> swhead (tx_ring i w') = swhead (tx_ring i w) \<and>
     (tx_posted (tx_ring i w) \<noteq> [] \<longrightarrow> tx_posted (tx_ring i w') \<noteq> [])"
proof -
  let ?v = "tx_ring i w"
  have same: "?v\<lparr>swtail := swtail ?v\<rparr> = ?v" by simp
  note v = assms(2)
  obtain r where r: "tx_scan ?v (swtail ?v) (swtail ?v) = Some r"
    "r = swtail ?v \<or> (\<exists>j < vring_tx_used ?v. unat r = (unat (swtail ?v) + j) mod unat (vr_size ?v))"
    using tx_scan_ok [of "swtail ?v" ?v "vring_tx_used ?v" "swtail ?v"] v by auto
  obtain j where j: "j \<le> vring_tx_used ?v - 1" "unat r = (unat (swtail ?v) + j) mod unat (vr_size ?v)"
  proof (cases "r = swtail ?v")
    case True
    then show ?thesis using that [of 0] vring_okD(2) [OF v] by simp
  next
    case False
    then obtain j where "j < vring_tx_used ?v" "unat r = (unat (swtail ?v) + j) mod unat (vr_size ?v)"
      using r(2) by blast
    then show ?thesis using that [of j] by simp
  qed
  let ?cid = "unat (fst (vring2cid_tid w ! i))"
  have "j \<le> vring_tx_used ?v" using j(1) by simp
  with tx_release_loop_ok [of "swtail ?v" ?v j r ?cid 0 w] v j(2) obtain m i' w1 v1 gone where
    1: "tx_release_loop ?cid r (swtail ?v) 0 (w, ?v) = Some (m, i', w1, v1)" "m \<le> j"
    "swhead v1 = swhead ?v" "vring_ok (v1\<lparr>swtail := i'\<rparr>)" "length gone = m"
    "tx_posted ?v = gone @ tx_posted (v1\<lparr>swtail := i'\<rparr>)" "vring_tx w1 = vring_tx w"
    "skbs w1 = fold kfree_skb (somes gone) (skbs w)"
    by auto
  define w2 where "w2 = set_vring_tx i (v1\<lparr>swtail := i'\<rparr>) w1"
  define w' where "w' = (if wil_vring_avail_tx (v1\<lparr>swtail := i'\<rparr>) > int (unat (vr_size (v1\<lparr>swtail := i'\<rparr>))) div 4
    then w2\<lparr>ndev := (ndev w2)\<lparr>nd_queues_stopped := False\<rparr>\<rparr> else w2)"
  have w': "tx_ring i w' = v1\<lparr>swtail := i'\<rparr>" "skbs w' = skbs w1"
    using assms(1) 1(7) by (simp_all add: w'_def w2_def tx_ring_def set_vring_tx_def)
  have "vr_va ?v \<noteq> None" using v by (auto simp: vring_ok_def)
  then have "wil_tx_complete i w = Some (m, w')"
    using r(1) 1(1) by (auto simp: wil_tx_complete_def tx_ring_def [symmetric] Let_def w2_def [symmetric]
        w'_def)
  moreover have "tx_posted ?v \<noteq> [] \<longrightarrow> tx_posted (tx_ring i w') \<noteq> []"
  proof
    assume that: "tx_posted ?v \<noteq> []"
    have "length (tx_posted ?v) = vring_tx_used ?v" by (simp add: tx_posted_def)
    moreover have "length (tx_posted ?v) = m + length (tx_posted (tx_ring i w'))"
      using 1(5,6) w' by simp
    moreover have "0 < length (tx_posted ?v)" using that by simp
    ultimately have "0 < length (tx_posted (tx_ring i w'))" using 1(2) j(1) by linarith
    then show "tx_posted (tx_ring i w') \<noteq> []" by simp
  qed
  moreover have "vring_ok (tx_ring i w')" "swhead (tx_ring i w') = swhead ?v"
    "tx_posted ?v = gone @ tx_posted (tx_ring i w')" "skbs w' = fold kfree_skb (somes gone) (skbs w)"
    using 1 w' by simp_all
  ultimately show ?thesis using 1(5) by blast
qed

end
