(* ===== verification/Wil_Tx_Props.thy ===== *)
theory Wil_Tx_Props
  imports Wil_Tx_Correct Wil_Rx_Props
begin

text \<open>The properties of the transmit path.\<close>

subsection \<open>Descriptors\<close>

text \<open>
  The layout of the Tx descriptor is consistent: in each dword every field's mask is its length
  shifted to its position, and no two fields overlap.
\<close>

theorem tx_desc_layout_consistent:
  "fields_consistent tx_mac_0_fields \<and> fields_consistent tx_mac_1_fields \<and>
   fields_consistent tx_mac_2_fields \<and> fields_consistent tx_mac_3_fields \<and>
   fields_consistent tx_dma_0_fields \<and> fields_consistent tx_offload_cfg_fields"
  by (intro conjI) code_simp+

text \<open>
  Claim C19. A descriptor prepared for a segment carries its address and length exactly, belongs to
  the hardware, names its ring, and the address a later unmapping reads back is the one mapped
  (48-bit bus addresses, 16-bit lengths, and a ring number of at most 31).
\<close>

theorem tx_desc_map_faithful:
  fixes d :: vring_desc
  assumes "unat pa < 2 ^ 48" "unat len < 65536" "i < 32"
  defines "d' \<equiv> wil_tx_desc_map d pa len i"
  shows "desc_pa d' = pa \<and> unat (desc_length d') = unat len \<and> \<not> desc_done d' \<and>
     unat (WIL_GET_BITS (dma_d0 d') 16 20) = i \<and> desc_error d' = 0"
proof (intro conjI)
  show "desc_pa d' = pa"
    using take_bit_48 [OF assms(1)] by (simp add: d'_def wil_tx_desc_map_def desc_pa_def pa_split)
  show "unat (desc_length d') = unat len"
    using assms(2) by (simp add: d'_def wil_tx_desc_map_def unsigned_ucast_eq take_bit_nat_def)
  show "\<not> desc_done d'" by (simp add: d'_def wil_tx_desc_map_def desc_done_bit)
  show "unat (WIL_GET_BITS (dma_d0 d') 16 20) = i"
  proof -
    have "unat (push_bit 16 (of_nat i) :: u32) = i * 65536"
      using assms(3) by (simp add: push_bit_eq_mult unat_word_ariths unat_of_nat)
    then show ?thesis
      using assms(3) unfolding unat_WIL_GET_BITS
      by (simp add: d'_def wil_tx_desc_map_def DMA_CFG_DESC_TX_0_QID_POS_def)
  qed
  show "desc_error d' = 0" by (simp add: d'_def wil_tx_desc_map_def)
qed

theorem tx_desc_map_faithful_witness:
  "desc_pa (wil_tx_desc_map zero_desc 0x123456789abc 1500 23) = 0x123456789abc \<and>
   unat (WIL_GET_BITS (dma_d0 (wil_tx_desc_map zero_desc 0x123456789abc 1500 23)) 16 20) = 23"
  using tx_desc_map_faithful [where pa = "0x123456789abc" and len = 1500 and i = 23 and d = zero_desc] by simp

subsection \<open>Sending\<close>

text \<open>
  Claim C3. Sending a buffer of \<open>n\<close> fragments either reports that the ring has no room for its
  \<open>n + 1\<close> segments (exactly when it has not), or a mapping failed, and then ring and reference
  counts are as before; or it succeeds: \<open>n + 1\<close> slots are added behind the ones in use, one
  reference is taken for each, and telling the hardware the new head is the last thing done. It
  never crashes and never overruns the ring.
\<close>

theorem tx_vring_all_or_nothing:
  assumes "i < length (vring_tx w)" "vring_ok (tx_ring i w)"
  shows "\<exists>rc w'. wil_tx_vring dma i p w = Some (rc, w') \<and> vring_ok (tx_ring i w') \<and>
     (rc = Some ENOMEM \<longleftrightarrow> \<not> tx_room (tx_ring i w) (length (skb_frags (skbs w p)) + 1)) \<and>
     (if rc = None
      then tx_posted (tx_ring i w') =
          tx_posted (tx_ring i w) @ replicate (length (skb_frags (skbs w p)) + 1) (Some p) \<and>
        skb_users (skbs w' p) = skb_users (skbs w p) + length (skb_frags (skbs w p)) + 1 \<and>
        last (klog w') = IoWrite32 (HOSTADDR (hwtail (tx_ring i w))) (swhead (tx_ring i w'))
      else swhead (tx_ring i w') = swhead (tx_ring i w) \<and>
        tx_posted (tx_ring i w') = tx_posted (tx_ring i w) \<and>
        (\<forall>q. skb_users (skbs w' q) = skb_users (skbs w q)))"
  using wil_tx_vring_ok [OF assms, of dma p] by (metis (no_types, lifting))

definition ex_tx_state :: wil6210_priv where
  "ex_tx_state = set_vring_tx 0 (ex_ring 2 0 (replicate 8 zero_desc)
       [Some 4, Some 5, None, None, None, None, None, None])
     (wil_init_state\<lparr>skbs := \<lambda>p. zero_skb\<lparr>skb_users := 1, skb_data := replicate 20 0,
        skb_frags := [100, 200]\<rparr>\<rparr>)"

lemma ex_tx_ok: "0 < length (vring_tx ex_tx_state)" "vring_ok (tx_ring 0 ex_tx_state)"
proof -
  show 1: "0 < length (vring_tx ex_tx_state)"
    by (simp add: ex_tx_state_def set_vring_tx_def wil_init_state_def WIL6210_MAX_TX_RINGS_def)
  have "tx_ring 0 ex_tx_state = ex_ring 2 0 (replicate 8 zero_desc)
      [Some 4, Some 5, None, None, None, None, None, None]"
    unfolding ex_tx_state_def
    by (subst tx_ring_set(1)) (simp_all add: wil_init_state_def WIL6210_MAX_TX_RINGS_def)
  then show "vring_ok (tx_ring 0 ex_tx_state)"
    by (simp add: vring_ok_def ex_ring_def)
qed

theorem tx_vring_all_or_nothing_witness:
  "\<exists>rc w'. wil_tx_vring (\<lambda>_. Some 0x1000) 0 9 ex_tx_state = Some (rc, w') \<and>
     vring_ok (tx_ring 0 w') \<and> rc \<noteq> Some ENOMEM"
proof -
  have "tx_room (tx_ring 0 ex_tx_state) (length (skb_frags (skbs ex_tx_state 9)) + 1)"
    by code_simp
  with tx_vring_all_or_nothing [OF ex_tx_ok, of "\<lambda>_. Some 0x1000" 9] show ?thesis by blast
qed

subsection \<open>Reclaiming\<close>

text \<open>
  Claim C18. Reclaiming takes slots from the front of those in use only, returns their number, and
  drops one reference for each buffer in them; the order of the others and the head stay.
\<close>

theorem tx_complete_reclaims_front:
  assumes "i < length (vring_tx w)" "vring_ok (tx_ring i w)"
  shows "\<exists>m w' gone. wil_tx_complete i w = Some (m, w') \<and> vring_ok (tx_ring i w') \<and>
     length gone = m \<and> tx_posted (tx_ring i w) = gone @ tx_posted (tx_ring i w') \<and>
     skbs w' = fold kfree_skb (somes gone) (skbs w) \<and> swhead (tx_ring i w') = swhead (tx_ring i w)"
  using wil_tx_complete_ok [OF assms] by blast

theorem tx_complete_reclaims_front_witness:
  "\<exists>m w' gone. wil_tx_complete 0 ex_tx_state = Some (m, w') \<and> length gone = m \<and>
     tx_posted (tx_ring 0 ex_tx_state) = gone @ tx_posted (tx_ring 0 w')"
  using tx_complete_reclaims_front [OF ex_tx_ok] by blast

text \<open>
  Reclaiming never empties a ring: the scan stops at the last finished descriptor and the
  release loop stops before it, so its buffer stays in the ring until a later frame is finished,
  even when the hardware has finished everything.
\<close>

theorem tx_complete_keeps_last:
  assumes "i < length (vring_tx w)" "vring_ok (tx_ring i w)" "tx_posted (tx_ring i w) \<noteq> []"
  shows "\<exists>m w'. wil_tx_complete i w = Some (m, w') \<and> tx_posted (tx_ring i w') \<noteq> [] \<and>
     m < length (tx_posted (tx_ring i w))"
proof -
  obtain m w' gone where 1: "wil_tx_complete i w = Some (m, w')" "length gone = m"
    "tx_posted (tx_ring i w) = gone @ tx_posted (tx_ring i w')" "tx_posted (tx_ring i w') \<noteq> []"
    using wil_tx_complete_ok [OF assms(1,2)] assms(3) by blast
  have "0 < length (tx_posted (tx_ring i w'))" using 1(4) by simp
  then have "m < length (tx_posted (tx_ring i w))" unfolding 1(3) using 1(2) by simp
  with 1 show ?thesis by blast
qed

theorem tx_complete_keeps_last_witness:
  "\<exists>m w'. wil_tx_complete 0 ex_tx_state = Some (m, w') \<and> m < 2"
proof -
  have "length (tx_posted (tx_ring 0 ex_tx_state)) = 2" by code_simp
  then show ?thesis using tx_complete_keeps_last [OF ex_tx_ok] by force
qed

end
