(* ===== verification/Wil_Tso.thy ===== *)
theory Wil_Tso
  imports Wil_Tx_Correct
begin

text \<open>
  Segmentation offload (\<open>wil_tx_vring_tso\<close>, \<^verbatim>\<open>txrx.c\<close>): one descriptor for the headers,
  one for the data of the linear part, and the fragments cut into pieces of the segment size. The
  local variables of the C function are the record \<open>tso_state\<close>.
\<close>

subsection \<open>Local state\<close>

text \<open>
  \<open>ts_d\<close> is the slot of the descriptor \<open>d\<close> points to and \<open>ts_sg\<close> that of \<open>sg_desc\<close>; lengths are
  \<open>int\<close> as in C.
\<close>

record tso_state =
  ts_d :: u32
  ts_first :: bool
  ts_sg :: "u32 option"
  ts_sg_cnt :: nat
  ts_rem :: int
  ts_used :: nat
  ts_end_first :: nat

definition upd_desc :: "u32 \<Rightarrow> (vring_desc \<Rightarrow> vring_desc) \<Rightarrow> vring \<Rightarrow> vring option" where
  "upd_desc i f v = do { d \<leftarrow> vring_d v i; Some (vring_set_d i (f d) v) }"

definition tso_put ::
  "skb_ptr \<Rightarrow> nat \<Rightarrow> int \<Rightarrow> u32 \<Rightarrow> u64 \<Rightarrow> int \<Rightarrow> wil6210_priv \<times> vring \<Rightarrow> (wil6210_priv \<times> vring) option" where
  "tso_put p vring_index desc_type i pa len wv = (case wv of (w, v) \<Rightarrow> do {
     v \<leftarrow> upd_desc i (\<lambda>d. the (fst (wil_tx_desc_offload_setup
            (Some (wil_tx_desc_map d pa (word_of_int len) vring_index)) (skbs w p) desc_type))) v;
     _ \<leftarrow> vring_ctx v i;
     Some (w\<lparr>skbs := skb_get p (skbs w)\<rparr>, vring_set_ctx i (Some p) v)
   })"

text \<open>The descriptors of a full segment are complete: mark the last, count them in the first.\<close>

definition tso_close :: "nat \<Rightarrow> tso_state \<Rightarrow> vring \<Rightarrow> vring option" where
  "tso_close vring_index st v = do {
     v \<leftarrow> upd_desc (ts_d st) (wil_tx_last_desc vring_index) v;
     (case ts_sg st of
        None \<Rightarrow> Some v
      | Some g \<Rightarrow> upd_desc g (wil_set_tx_desc_count (ts_sg_cnt st + ts_end_first st)) v)
   }"

text \<open>The pieces of one fragment of \<open>fsize\<close> bytes, \<open>len\<close> of them left; \<open>False\<close> is the error exit.\<close>

partial_function (option) tso_frag ::
  "(u32 \<Rightarrow> u64 option) \<Rightarrow> skb_ptr \<Rightarrow> nat \<Rightarrow> int \<Rightarrow> int \<Rightarrow> int \<Rightarrow> tso_state \<Rightarrow> wil6210_priv \<times> vring
     \<Rightarrow> (bool \<times> tso_state \<times> wil6210_priv \<times> vring) option" where
  "tso_frag dma p vring_index avail mss len st wv =
     (if len \<le> 0 then Some (True, st, wv)
      else if ts_rem st = 0 then do {
        v \<leftarrow> tso_close vring_index st (snd wv);
        tso_frag dma p vring_index avail mss len
          (st\<lparr>ts_rem := mss, ts_sg := None, ts_sg_cnt := 0, ts_end_first := 0\<rparr>) (fst wv, v)
      }
      else if int (ts_used st) = avail then Some (False, st, wv)
      else
        let lenmss = (if len > ts_rem st then ts_rem st else len);
            i = (swhead (snd wv) + of_nat (ts_used st)) mod ucast (vr_size (snd wv))
        in (case dma i of
              None \<Rightarrow> Some (False, st, wv)
            | Some pa \<Rightarrow> do {
                wv \<leftarrow> tso_put p vring_index (if ts_first st then 2 else 1) i pa lenmss
                  (klog_add (DmaMapPage pa (nat lenmss)) (fst wv), snd wv);
                tso_frag dma p vring_index avail mss (len - lenmss)
                  (st\<lparr>ts_d := i, ts_first := True,
                     ts_sg := (case ts_sg st of None \<Rightarrow> Some i | Some g \<Rightarrow> Some g),
                     ts_used := ts_used st + 1, ts_sg_cnt := ts_sg_cnt st + 1,
                     ts_rem := ts_rem st - lenmss\<rparr>) wv
              }))"

declare tso_frag.simps [code]

primrec tso_frags ::
  "(u32 \<Rightarrow> u64 option) \<Rightarrow> skb_ptr \<Rightarrow> nat \<Rightarrow> int \<Rightarrow> int \<Rightarrow> nat list \<Rightarrow> tso_state \<Rightarrow> wil6210_priv \<times> vring
     \<Rightarrow> (bool \<times> tso_state \<times> wil6210_priv \<times> vring) option" where
  "tso_frags dma p vring_index avail mss [] st wv = Some (True, st, wv)"
| "tso_frags dma p vring_index avail mss (f # fs) st wv = do {
     (good, st, wv) \<leftarrow> tso_frag dma p vring_index avail mss (int f) st wv;
     (if good then tso_frags dma p vring_index avail mss fs st wv else Some (False, st, wv))
   }"

text \<open>
  The error path: it undoes the slots \<open>swhead + descs_used\<close> down to \<open>swhead + 1\<close>.
\<close>

primrec tso_undo :: "skb_ptr \<Rightarrow> nat \<Rightarrow> wil6210_priv \<times> vring \<Rightarrow> (wil6210_priv \<times> vring) option" where
  "tso_undo p 0 wv = Some wv"
| "tso_undo p (Suc n) wv =
     (let w = fst wv; v = snd wv;
          i = (swhead v + of_nat (Suc n)) mod ucast (vr_size v)
      in do {
        d \<leftarrow> vring_d v i;
        let w = klog_add ((if sint i > sngl_mapped (skbs w p)
              then DmaUnmapPage else DmaUnmapSingle) (desc_pa d) (unat (desc_length d))) w;
        tso_undo p n (dev_kfree_skb p w, vring_set_d i (d\<lparr>desc_status := TX_DMA_STATUS_DU\<rparr>) v)
      })"

definition tso_hdrlen :: "sk_buff \<Rightarrow> nat" where
  "tso_hdrlen s = 0x0e + hdr_net_len s + hdr_tcp_len s"

text \<open>Clearing the length and checksum fields of the network header.\<close>

definition tso_zero_lengths :: "nat \<Rightarrow> sk_buff \<Rightarrow> sk_buff" where
  "tso_zero_lengths tcp_ver s =
     (let o1 = hdr_net_off s
      in if tcp_ver = 1
         then s\<lparr>skb_data := (skb_data s)[o1 + 2 := 0, o1 + 3 := 0, o1 + 10 := 0, o1 + 11 := 0]\<rparr>
         else s\<lparr>skb_data := (skb_data s)[o1 + 4 := 0, o1 + 5 := 0]\<rparr>)"

text \<open>The segment descriptors after the header's, then the closing of the packet or the undoing.\<close>

definition tso_body ::
  "(u32 \<Rightarrow> u64 option) \<Rightarrow> skb_ptr \<Rightarrow> nat \<Rightarrow> int \<Rightarrow> int \<Rightarrow> int \<Rightarrow> nat list \<Rightarrow> u32 \<Rightarrow> wil6210_priv \<times> vring
     \<Rightarrow> (bool \<times> tso_state \<times> wil6210_priv \<times> vring) option" where
  "tso_body dma p vring_index avail mss len fs h wv =
     (let st = \<lparr>ts_d = h, ts_first = False, ts_sg = None, ts_sg_cnt = 0, ts_rem = mss,
            ts_used = 1, ts_end_first = 1\<rparr>
      in if len > 0 then
           let i = (h + 1) mod ucast (vr_size (snd wv))
           in (case dma i of
                 None \<Rightarrow> Some (False, st, wv)
               | Some pa \<Rightarrow> do {
                   (w, v) \<leftarrow> tso_put p vring_index 1 i pa len
                     (klog_add (DmaMapSingle pa (nat len)) (fst wv), snd wv);
                   tso_frags dma p vring_index avail mss fs
                     (st\<lparr>ts_d := i, ts_first := True, ts_sg := Some i, ts_sg_cnt := 1, ts_used := 2,
                        ts_rem := mss - len\<rparr>)
                     (upd_skb p (\<lambda>s. s\<lparr>sngl_mapped := sint i\<rparr>) w, v)
                 })
         else tso_frags dma p vring_index avail mss fs st wv)"

text \<open>The end of the function: completing the last segment and telling the hardware, or undoing.\<close>

definition tso_finish :: "skb_ptr \<Rightarrow> nat \<Rightarrow> u32 \<Rightarrow> bool \<times> tso_state \<times> wil6210_priv \<times> vring
     \<Rightarrow> (errno option \<times> wil6210_priv) option" where
  "tso_finish p idx h r = (case r of (good, st, w, v) \<Rightarrow>
     (if good then do {
        v \<leftarrow> tso_close idx st v;
        v \<leftarrow> upd_desc (ts_d st) (\<lambda>d. d\<lparr>dma_d0 := dma_d0 d OR
               push_bit DMA_CFG_DESC_TX_0_SEGMENT_BUF_DETAILS_POS 3\<rparr>) v;
        v \<leftarrow> upd_desc h (wil_set_tx_desc_count (ts_used st)) v;
        let v = wil_vring_advance_head v (of_nat (ts_used st));
        Some (None, klog_add (IoWrite32 (HOSTADDR (hwtail v)) (swhead v)) (set_vring_tx idx v w))
      }
      else do {
        (w, v) \<leftarrow> tso_undo p (ts_used st) (w, v);
        Some (Some EINVAL, set_vring_tx idx v w)
      }))"

definition wil_tx_vring_tso ::
  "(u32 \<Rightarrow> u64 option) \<Rightarrow> nat \<Rightarrow> skb_ptr \<Rightarrow> wil6210_priv \<Rightarrow> (errno option \<times> wil6210_priv) option" where
  "wil_tx_vring_tso dma vring_index p w =
     (let v = vring_tx w ! vring_index;
          h = swhead v;
          avail = wil_vring_avail_tx v;
          nr_frags = length (skb_frags (skbs w p));
          mss = int (unat (skb_gso_size (skbs w p)));
          w = tx_stop_if_low v w
      in if avail < int (nr_frags * 3 + 1) then Some (Some ENOMEM, w)
         else
           let tcp_ver = snd (wil_tx_desc_offload_setup None (skbs w p) 0)
           in if tcp_ver = 0 then Some (Some EINVAL, w)
              else
                let hdrlen = tso_hdrlen (skbs w p);
                    w = upd_skb p (tso_zero_lengths tcp_ver) w
                in case dma h of
                     None \<Rightarrow> Some (Some EINVAL, w)
                   | Some pa \<Rightarrow> do {
                       (w, v) \<leftarrow> tso_put p vring_index 0 h pa (int hdrlen)
                         (klog_add (DmaMapSingle pa hdrlen) w, v);
                       v \<leftarrow> upd_desc h (wil_tx_last_desc vring_index) v;
                       let w = upd_skb p (\<lambda>s. s\<lparr>sngl_mapped := sint h, nodma_desc := sint h\<rparr>) w;
                       let len = int (skb_headlen (skbs w p)) - int hdrlen;
                       res \<leftarrow> tso_body dma p vring_index avail mss len (skb_frags (skbs w p)) h (w, v);
                       tso_finish p vring_index h res
                     })"

subsection \<open>Correctness\<close>

lemma upd_desc_ok:
  "vring_ok v \<Longrightarrow> unat i < unat (vr_size v) \<Longrightarrow> \<exists>d. upd_desc i f v = Some (vring_set_d i d v)"
  using vring_ok_d [of v i] by (auto simp: upd_desc_def)

lemma vring_d_other: "j \<noteq> i \<Longrightarrow> vring_d (vring_set_d i d v) j = vring_d v j"
  by (auto simp: vring_d_def word_unat_eq_iff split: option.split)

lemma tso_put_ok:
  assumes "vring_ok v" "unat i < unat (vr_size v)"
  shows "\<exists>v'. tso_put p idx t i pa len (w, v) = Some (w\<lparr>skbs := skb_get p (skbs w)\<rparr>, v') \<and>
     ring_same v v' \<and> vring_ok v' \<and> (\<forall>j. j \<noteq> i \<longrightarrow> vring_d v' j = vring_d v j) \<and>
     (\<forall>f. vring_tx_used v + f < unat (vr_size v) \<and> i = (swhead v + of_nat f) mod ucast (vr_size v) \<longrightarrow>
        tx_slots v' (Suc f) = tx_slots v f @ [Some p])"
proof -
  have "vring_d (vring_set_ctx i c (vring_set_d i d v)) j = vring_d v j" if "j \<noteq> i" for c d j
    using vring_d_other [OF that] by (simp add: vring_d_def)
  moreover obtain d where "upd_desc i (\<lambda>d. the (fst (wil_tx_desc_offload_setup
      (Some (wil_tx_desc_map d pa (word_of_int len) idx)) (skbs w p) t))) v = Some (vring_set_d i d v)"
    using upd_desc_ok [OF assms] by blast
  moreover have "vring_ctx (vring_set_d i d v) i = Some (vr_ctx v ! unat i)"
    using assms vring_okD(3) [OF assms(1)] by (simp add: vring_ctx_def)
  moreover have "tx_slots (vring_set_ctx i (Some p) (vring_set_d i d v)) (Suc f) = tx_slots v f @ [Some p]"
    if "vring_tx_used v + f < unat (vr_size v)" "i = (swhead v + of_nat f) mod ucast (vr_size v)" for f
    using tx_slots_put(2) [of "vring_set_d i d v" f p] assms(1) that ring_same_used [OF ring_same_set(2) [of v i d]]
    by simp
  ultimately show ?thesis
    using assms(1) by (auto simp: tso_put_def ring_same_def)
qed

text \<open>A state whose slots are inside the ring.\<close>

definition tso_ok :: "vring \<Rightarrow> tso_state \<Rightarrow> bool" where
  "tso_ok v st \<longleftrightarrow> unat (ts_d st) < unat (vr_size v) \<and>
     (\<forall>g. ts_sg st = Some g \<longrightarrow> unat g < unat (vr_size v)) \<and> 0 \<le> ts_rem st"

lemma tso_close_ok:
  assumes "vring_ok v" "tso_ok v st"
  shows "\<exists>v'. tso_close idx st v = Some v' \<and> ring_same v v' \<and> vring_ok v' \<and>
    (\<forall>k. tx_slots v' k = tx_slots v k)"
proof -
  obtain d where 1: "upd_desc (ts_d st) (wil_tx_last_desc idx) v = Some (vring_set_d (ts_d st) d v)"
    using upd_desc_ok [OF assms(1)] assms(2) unfolding tso_ok_def by blast
  let ?v = "vring_set_d (ts_d st) d v"
  show ?thesis
  proof (cases "ts_sg st")
    case None
    then show ?thesis using 1 assms(1) by (simp add: tso_close_def)
  next
    case (Some g)
    then obtain d' where "upd_desc g (wil_set_tx_desc_count (ts_sg_cnt st + ts_end_first st)) ?v =
        Some (vring_set_d g d' ?v)"
      using upd_desc_ok [of ?v g] assms by (auto simp: tso_ok_def)
    then show ?thesis using 1 Some assms(1) by (auto simp: tso_close_def ring_same_def)
  qed
qed

lemma tso_ok_same: "ring_same v v' \<Longrightarrow> tso_ok v' st = tso_ok v st"
  by (simp add: tso_ok_def ring_same_def)

definition tso_progress ::
  "skb_ptr \<Rightarrow> int \<Rightarrow> tso_state \<Rightarrow> wil6210_priv \<Rightarrow> vring \<Rightarrow> tso_state \<Rightarrow> wil6210_priv \<Rightarrow> vring \<Rightarrow> bool" where
  "tso_progress p avail st w v st' w' v' \<longleftrightarrow>
     ring_same v v' \<and> vring_ok v' \<and> tso_ok v' st' \<and> ts_used st \<le> ts_used st' \<and>
     int (ts_used st') \<le> avail \<and> buf_frame w w' \<and>
     skbs w' = (skb_get p ^^ (ts_used st' - ts_used st)) (skbs w) \<and>
     tx_slots v' (ts_used st') = tx_slots v (ts_used st) @ replicate (ts_used st' - ts_used st) (Some p)"

text \<open>\<open>avail\<close> is no more than what is free.\<close>

definition tso_room :: "vring \<Rightarrow> int \<Rightarrow> bool" where
  "tso_room v avail \<longleftrightarrow> int (vring_tx_used v) + avail < int (unat (vr_size v))"

lemma tso_room_same: "ring_same v v' \<Longrightarrow> tso_room v' avail = tso_room v avail"
  by (simp add: tso_room_def ring_same_used) (simp add: ring_same_def)

lemma tso_room_avail: "vring_ok v \<Longrightarrow> tso_room v (wil_vring_avail_tx v)"
  using vring_used_lt(2) [of v] by (simp add: tso_room_def vring_avail_tx of_nat_diff)

lemma tso_roomD: "tso_room v avail \<Longrightarrow> int n \<le> avail \<Longrightarrow> vring_tx_used v + n < unat (vr_size v)"
  unfolding tso_room_def by linarith

lemma tso_progress_trans:
  assumes "tso_progress p avail st w v st1 w1 v1" "tso_progress p avail st1 w1 v1 st2 w2 v2"
  shows "tso_progress p avail st w v st2 w2 v2"
proof -
  have "(skb_get p ^^ (ts_used st2 - ts_used st1)) ((skb_get p ^^ (ts_used st1 - ts_used st)) h) =
      (skb_get p ^^ (ts_used st2 - ts_used st)) h" for h
    using assms by (simp add: tso_progress_def flip: funpow_add [THEN fun_cong, unfolded o_apply])
  moreover have "ts_used st1 - ts_used st + (ts_used st2 - ts_used st1) = ts_used st2 - ts_used st"
    using assms by (simp add: tso_progress_def)
  then have "replicate (ts_used st1 - ts_used st) x @ replicate (ts_used st2 - ts_used st1) x =
      replicate (ts_used st2 - ts_used st) x" for x :: "skb_ptr option"
    by (metis replicate_add)
  ultimately show ?thesis
    using assms by (auto simp: tso_progress_def intro: ring_same_trans buf_frame_trans)
qed

lemma tso_frag_ok:
  assumes "0 < mss"
  shows "vring_ok v \<Longrightarrow> tso_ok v st \<Longrightarrow> int (ts_used st) \<le> avail \<Longrightarrow> tso_room v avail \<Longrightarrow>
     \<exists>b st' w' v'. tso_frag dma p idx avail mss len st (w, v) = Some (b, st', w', v') \<and>
       tso_progress p avail st w v st' w' v'"
proof (induction "2 * nat len + (if ts_rem st = 0 then 1 else 0)" arbitrary: len st w v rule: less_induct)
  case less
  note r = less.prems
  consider "len \<le> 0" | "0 < len" "ts_rem st = 0" | "0 < len" "ts_rem st \<noteq> 0" "int (ts_used st) = avail"
    | "0 < len" "ts_rem st \<noteq> 0" "int (ts_used st) \<noteq> avail" by linarith
  then show ?case
  proof cases
    case 1
    then have "tso_frag dma p idx avail mss len st (w, v) = Some (True, st, w, v)"
      by (subst tso_frag.simps) simp
    then show ?thesis using r by (auto simp: tso_progress_def)
  next
    case 2
    obtain v1 where v1: "tso_close idx st v = Some v1" "ring_same v v1" "vring_ok v1"
      "\<forall>k. tx_slots v1 k = tx_slots v k"
      using tso_close_ok [OF r(1,2)] by blast
    let ?st = "st\<lparr>ts_rem := mss, ts_sg := None, ts_sg_cnt := 0, ts_end_first := 0\<rparr>"
    have st1: "tso_ok v1 ?st" "int (ts_used ?st) \<le> avail" "tso_room v1 avail"
      using r(2-4) tso_ok_same [OF v1(2)] tso_room_same [OF v1(2)] assms
      by (simp_all add: tso_ok_def v1(2) [unfolded ring_same_def])
    have "2 * nat len + (if ts_rem ?st = 0 then 1 else 0) < 2 * nat len + (if ts_rem st = 0 then 1 else 0)"
      using 2 assms by simp
    from less.hyps [OF this v1(3) st1, of w] obtain b st' w' v' where
      IH: "tso_frag dma p idx avail mss len ?st (w, v1) = Some (b, st', w', v')"
      "tso_progress p avail ?st w v1 st' w' v'" by blast
    have "tso_frag dma p idx avail mss len st (w, v) = Some (b, st', w', v')"
      using 2 v1(1) IH(1) by (subst tso_frag.simps) simp
    moreover have "tso_progress p avail st w v st' w' v'"
      using IH(2) v1(2,4) by (auto simp: tso_progress_def intro: ring_same_trans)
    ultimately show ?thesis by blast
  next
    case 3
    then have "tso_frag dma p idx avail mss len st (w, v) = Some (False, st, w, v)"
      by (subst tso_frag.simps) simp
    then show ?thesis using r by (auto simp: tso_progress_def)
  next
    case 4
    define lenmss where "lenmss = (if len > ts_rem st then ts_rem st else len)"
    define i where "i = (swhead v + of_nat (ts_used st)) mod ucast (vr_size v)"
    have l: "0 < lenmss" "lenmss \<le> len" "lenmss \<le> ts_rem st"
      using 4 r(2) by (auto simp: lenmss_def tso_ok_def)
    show ?thesis
    proof (cases "dma i")
      case None
      then have "tso_frag dma p idx avail mss len st (w, v) = Some (False, st, w, v)"
        using 4 by (subst tso_frag.simps) (simp add: Let_def i_def)
      then show ?thesis using r by (auto simp: tso_progress_def)
    next
      case (Some pa)
      let ?w = "klog_add (DmaMapPage pa (nat lenmss)) w"
      have ib: "unat i < unat (vr_size v)" unfolding i_def by (rule tx_slot_bound [OF r(1)])
      obtain v1 where v1: "tso_put p idx (if ts_first st then 2 else 1) i pa lenmss (?w, v) =
          Some (?w\<lparr>skbs := skb_get p (skbs ?w)\<rparr>, v1)" "ring_same v v1" "vring_ok v1"
        "tx_slots v1 (Suc (ts_used st)) = tx_slots v (ts_used st) @ [Some p]"
      proof -
        have "vring_tx_used v + ts_used st < unat (vr_size v)" by (rule tso_roomD [OF r(4,3)])
        then show thesis using that tso_put_ok [OF r(1) ib] i_def by blast
      qed
      define w1 where "w1 = ?w\<lparr>skbs := skb_get p (skbs ?w)\<rparr>"
      define st1 where "st1 = st\<lparr>ts_d := i, ts_first := True,
        ts_sg := (case ts_sg st of None \<Rightarrow> Some i | Some g \<Rightarrow> Some g),
        ts_used := ts_used st + 1, ts_sg_cnt := ts_sg_cnt st + 1, ts_rem := ts_rem st - lenmss\<rparr>"
      have ok1: "tso_ok v1 st1" "int (ts_used st1) \<le> avail" "tso_room v1 avail"
        using r(2-4) 4 l ib v1(2) tso_room_same [OF v1(2)]
        by (auto simp: tso_ok_def st1_def ring_same_def split: option.splits)
      have "2 * nat (len - lenmss) + (if ts_rem st1 = 0 then 1 else 0) <
          2 * nat len + (if ts_rem st = 0 then 1 else 0)"
        using l 4 by auto
      from less.hyps [OF this v1(3) ok1, of w1] obtain b st' w' v' where
        IH: "tso_frag dma p idx avail mss (len - lenmss) st1 (w1, v1) = Some (b, st', w', v')"
        "tso_progress p avail st1 w1 v1 st' w' v'" by blast
      have "tso_frag dma p idx avail mss len st (w, v) = Some (b, st', w', v')"
        using 4 Some v1(1) IH(1)
        by (subst tso_frag.simps)
          (simp add: Let_def i_def [symmetric] lenmss_def [symmetric] w1_def [symmetric] st1_def)
      moreover have "buf_frame w w1" unfolding w1_def by (blast intro: buf_frame_trans)
      then have "tso_progress p avail st w v st1 w1 v1"
        using v1 ok1 by (simp add: tso_progress_def) (simp add: st1_def w1_def klog_add_def)
      ultimately show ?thesis using tso_progress_trans IH(2) by blast
    qed
  qed
qed

lemma tso_frags_ok:
  assumes "0 < mss"
  shows "vring_ok v \<Longrightarrow> tso_ok v st \<Longrightarrow> int (ts_used st) \<le> avail \<Longrightarrow> tso_room v avail \<Longrightarrow>
     \<exists>b st' w' v'. tso_frags dma p idx avail mss fs st (w, v) = Some (b, st', w', v') \<and>
       tso_progress p avail st w v st' w' v'"
proof (induction fs arbitrary: st w v)
  case Nil
  then show ?case by (auto simp: tso_progress_def)
next
  case (Cons f fs)
  obtain b st1 w1 v1 where
    1: "tso_frag dma p idx avail mss (int f) st (w, v) = Some (b, st1, w1, v1)"
    "tso_progress p avail st w v st1 w1 v1"
    using tso_frag_ok [OF assms Cons.prems] by blast
  show ?case
  proof (cases b)
    case True
    obtain b' st' w' v' where
      "tso_frags dma p idx avail mss fs st1 (w1, v1) = Some (b', st', w', v')"
      "tso_progress p avail st1 w1 v1 st' w' v'"
      using Cons.IH [of v1 st1 w1] 1(2) Cons.prems(4) tso_room_same [of v v1] by (auto simp: tso_progress_def)
    then show ?thesis using 1 True tso_progress_trans [OF 1(2)] by auto
  next
    case False
    then show ?thesis using 1 by auto
  qed
qed

text \<open>Reference counts: \<open>p\<close>'s count grows by \<open>k\<close>, the others stay.\<close>

definition users_grow :: "skb_ptr \<Rightarrow> nat \<Rightarrow> wil6210_priv \<Rightarrow> wil6210_priv \<Rightarrow> bool" where
  "users_grow p k w w' \<longleftrightarrow>
     (\<forall>q. skb_users (skbs w' q) = skb_users (skbs w q) + (if q = p then k else 0))"

lemma users_grow_trans: "users_grow p k w w1 \<Longrightarrow> users_grow p m w1 w2 \<Longrightarrow> users_grow p (k + m) w w2"
  by (simp add: users_grow_def)

lemma users_grow_get: "skbs w' = (skb_get p ^^ k) (skbs w) \<Longrightarrow> users_grow p k w w'"
  by (simp add: users_grow_def skb_get_funpow)

lemma users_grow_same:
  "(\<And>q. skb_users (skbs w' q) = skb_users (skbs w q)) \<Longrightarrow> users_grow p 0 w w'"
  by (simp add: users_grow_def)

lemma kfree_skb_funpow:
  "skb_users ((kfree_skb p ^^ n) h q) = skb_users (h q) - (if q = p then n else 0)"
proof -
  have "(kfree_skb p ^^ n) h = h(p := (h p)\<lparr>skb_users := skb_users (h p) - n\<rparr>)"
  proof (induction n)
    case (Suc n)
    have "(kfree_skb p ^^ Suc n) h = kfree_skb p (h(p := (h p)\<lparr>skb_users := skb_users (h p) - n\<rparr>))"
      by (simp only: funpow.simps o_apply Suc)
    also have "\<dots> = h(p := (h p)\<lparr>skb_users := skb_users (h p) - Suc n\<rparr>)"
      by (simp add: kfree_skb_def)
    finally show ?case .
  qed simp
  then show ?thesis by simp
qed

lemma tso_undo_ok:
  "vring_ok v \<Longrightarrow>
     \<exists>w' v'. tso_undo p n (w, v) = Some (w', v') \<and> buf_frame w w' \<and> ring_same v v' \<and> vring_ok v' \<and>
       skbs w' = (kfree_skb p ^^ n) (skbs w) \<and> (\<forall>k. tx_slots v' k = tx_slots v k)"
proof (induction n arbitrary: w v)
  case 0
  then show ?case by simp
next
  case (Suc n)
  let ?i = "(swhead v + of_nat (Suc n)) mod ucast (vr_size v)"
  obtain d where d: "vring_d v ?i = Some d"
    using vring_ok_d [OF Suc.prems(1) tx_slot_bound [OF Suc.prems(1)]] by blast
  define w1 where "w1 = dev_kfree_skb p (klog_add ((if sint ?i > sngl_mapped (skbs w p)
    then DmaUnmapPage else DmaUnmapSingle) (desc_pa d) (unat (desc_length d))) w)"
  define v1 where "v1 = vring_set_d ?i (d\<lparr>desc_status := TX_DMA_STATUS_DU\<rparr>) v"
  have v1: "vring_ok v1" "ring_same v v1" "\<forall>k. tx_slots v1 k = tx_slots v k"
    using Suc.prems(1) by (simp_all add: v1_def)
  have w1: "buf_frame w w1" "skbs w1 = kfree_skb p (skbs w)"
    unfolding w1_def by (blast intro: buf_frame_trans, simp add: klog_add_def)
  obtain w' v' where "tso_undo p n (w1, v1) = Some (w', v')" "buf_frame w1 w'" "ring_same v1 v'"
    "vring_ok v'" "skbs w' = (kfree_skb p ^^ n) (skbs w1)" "\<forall>k. tx_slots v' k = tx_slots v1 k"
    using Suc.IH [OF v1(1), of w1] by auto
  moreover have "tso_undo p (Suc n) (w, v) = tso_undo p n (w1, v1)"
    using d by (simp add: w1_def v1_def Let_def)
  ultimately show ?case
    using v1 w1 by (auto simp: funpow_swap1 intro: buf_frame_trans ring_same_trans)
qed

lemma tso_body_ok:
  assumes "0 < mss" "len \<le> mss" "2 \<le> avail" "vring_ok v" "h = swhead v" "tso_room v avail"
  shows "\<exists>b st w' v'. tso_body dma p idx avail mss len fs h (w, v) = Some (b, st, w', v') \<and>
     ring_same v v' \<and> vring_ok v' \<and> tso_ok v' st \<and> 1 \<le> ts_used st \<and> int (ts_used st) \<le> avail \<and>
     buf_frame w w' \<and> users_grow p (ts_used st - 1) w w' \<and>
     tx_slots v' (ts_used st) = tx_slots v 1 @ replicate (ts_used st - 1) (Some p)"
proof -
  define st where "st = \<lparr>ts_d = h, ts_first = False, ts_sg = None, ts_sg_cnt = 0, ts_rem = mss,
    ts_used = 1, ts_end_first = 1\<rparr>"
  have st: "tso_ok v st" "int (ts_used st) \<le> avail"
    using assms vring_okD(1) [OF assms(4)] by (simp_all add: st_def tso_ok_def)
  show ?thesis
  proof (cases "0 < len")
    case False
    from tso_frags_ok [OF assms(1,4) st assms(6), of dma p idx fs w] obtain b st' w' v' where
      "tso_frags dma p idx avail mss fs st (w, v) = Some (b, st', w', v')"
      "tso_progress p avail st w v st' w' v'" by blast
    moreover from this have "users_grow p (ts_used st' - 1) w w'"
      by (intro users_grow_get) (simp add: tso_progress_def st_def)
    ultimately show ?thesis
      using False by (auto simp: tso_body_def st_def [symmetric] tso_progress_def) (simp add: st_def)
  next
    case True
    let ?i = "(h + 1) mod ucast (vr_size v)"
    have ib: "unat ?i < unat (vr_size v)" by (rule tx_slot_bound [OF assms(4)])
    show ?thesis
    proof (cases "dma ?i")
      case None
      then show ?thesis
        using True st assms(3,4)
        by (auto simp: tso_body_def st_def [symmetric] Let_def intro!: users_grow_same)
          (simp_all add: st_def users_grow_same)
    next
      case (Some pa)
      let ?w = "klog_add (DmaMapSingle pa (nat len)) w"
      obtain v1 where v1: "tso_put p idx 1 ?i pa len (?w, v) = Some (?w\<lparr>skbs := skb_get p (skbs ?w)\<rparr>, v1)"
        "ring_same v v1" "vring_ok v1" "tx_slots v1 2 = tx_slots v 1 @ [Some p]"
      proof -
        have "vring_tx_used v + 1 < unat (vr_size v)" by (rule tso_roomD [OF assms(6)]) (use assms(3) in simp)
        moreover have "?i = (swhead v + of_nat 1) mod ucast (vr_size v)" by (simp add: assms(5))
        ultimately show thesis using that tso_put_ok [OF assms(4) ib] by (metis numeral_2_eq_2 One_nat_def)
      qed
      define w1 where "w1 = upd_skb p (\<lambda>s. s\<lparr>sngl_mapped := sint ?i\<rparr>) (?w\<lparr>skbs := skb_get p (skbs ?w)\<rparr>)"
      define st1 where "st1 = st\<lparr>ts_d := ?i, ts_first := True, ts_sg := Some ?i, ts_sg_cnt := 1,
        ts_used := 2, ts_rem := mss - len\<rparr>"
      have ok1: "tso_ok v1 st1" "int (ts_used st1) \<le> avail" "tso_room v1 avail"
        using ib v1(2) assms(2,3,6) tso_room_same [OF v1(2)] by (simp_all add: tso_ok_def st1_def ring_same_def)
      have b1: "buf_frame w w1" unfolding w1_def by (blast intro: buf_frame_trans)
      have g1: "users_grow p 1 w w1"
        by (simp add: users_grow_def w1_def upd_skb_def skb_get_def klog_add_def)
      from tso_frags_ok [OF assms(1) v1(3) ok1, of dma p idx fs w1] obtain b st' w' v' where
        2: "tso_frags dma p idx avail mss fs st1 (w1, v1) = Some (b, st', w', v')"
        "tso_progress p avail st1 w1 v1 st' w' v'" by blast
      have "users_grow p (ts_used st' - 2) w1 w'"
        using 2(2) by (intro users_grow_get) (simp add: tso_progress_def st1_def)
      moreover have "2 \<le> ts_used st'" using 2(2) by (simp add: tso_progress_def st1_def)
      then have "1 + (ts_used st' - 2) = ts_used st' - 1" by arith
      ultimately have "users_grow p (ts_used st' - 1) w w'"
        using users_grow_trans [OF g1, of "ts_used st' - 2" w'] by simp
      moreover have "tso_body dma p idx avail mss len fs h (w, v) = Some (b, st', w', v')"
        using True Some v1(1) 2(1) unfolding st1_def st_def w1_def
        by (simp add: tso_body_def Let_def)
      moreover have "1 \<le> ts_used st'" using 2(2) by (simp add: tso_progress_def st1_def)
      moreover have "Some p # replicate (ts_used st' - 2) (Some p) = replicate (ts_used st' - 1) (Some p)"
        using \<open>1 + (ts_used st' - 2) = ts_used st' - 1\<close> by (metis plus_1_eq_Suc replicate_Suc)
      then have "tx_slots v' (ts_used st') = tx_slots v 1 @ replicate (ts_used st' - 1) (Some p)"
        using 2(2) v1(4) by (simp add: tso_progress_def st1_def)
      ultimately show ?thesis
        using 2(2) v1(2) b1 by (auto simp: tso_progress_def intro: ring_same_trans buf_frame_trans)
    qed
  qed
qed

lemma tso_zero_lengths_frame [simp]:
  "skb_users (tso_zero_lengths t s) = skb_users s" "skb_frags (tso_zero_lengths t s) = skb_frags s"
  "skb_gso_size (tso_zero_lengths t s) = skb_gso_size s"
  "length (skb_data (tso_zero_lengths t s)) = length (skb_data s)"
  by (simp_all add: tso_zero_lengths_def Let_def skb_headlen_def)

definition tx_outcome :: "nat \<Rightarrow> skb_ptr \<Rightarrow> wil6210_priv \<Rightarrow> errno option \<times> wil6210_priv \<Rightarrow> bool" where
  "tx_outcome i p w r \<longleftrightarrow> vring_ok (tx_ring i (snd r)) \<and>
     (if fst r = None
      then \<exists>k. 0 < k \<and> users_grow p k w (snd r) \<and>
        tx_posted (tx_ring i (snd r)) = tx_posted (tx_ring i w) @ replicate k (Some p) \<and>
        last (klog (snd r)) =
          IoWrite32 (HOSTADDR (hwtail (tx_ring i w))) (swhead (tx_ring i (snd r)))
      else swhead (tx_ring i (snd r)) = swhead (tx_ring i w) \<and>
        tx_posted (tx_ring i (snd r)) = tx_posted (tx_ring i w) \<and>
        users_grow p 0 w (snd r))"

lemma tso_finish_good:
  assumes v: "vring_ok v0" "ring_same v0 v" "vring_ok v" "tso_ok v st" and h: "h = swhead v0"
  obtains v3 where "ring_same v0 v3" "vring_ok v3" "\<And>k. tx_slots v3 k = tx_slots v k"
    "\<And>w. tso_finish p i h (True, st, w, v) =
      Some (None, klog_add (IoWrite32 (HOSTADDR (hwtail v0))
          (swhead (wil_vring_advance_head v3 (of_nat (ts_used st)))))
        (set_vring_tx i (wil_vring_advance_head v3 (of_nat (ts_used st))) w))"
proof -
  obtain v1 where v1: "tso_close i st v = Some v1" "ring_same v v1" "vring_ok v1"
    "\<forall>k. tx_slots v1 k = tx_slots v k"
    using tso_close_ok [OF v(3,4)] by blast
  have "unat (ts_d st) < unat (vr_size v1)" using v(4) v1(2) by (simp add: tso_ok_def ring_same_def)
  then obtain d1 where d1: "upd_desc (ts_d st) (\<lambda>d. d\<lparr>dma_d0 := dma_d0 d OR
       push_bit DMA_CFG_DESC_TX_0_SEGMENT_BUF_DETAILS_POS 3\<rparr>) v1 = Some (vring_set_d (ts_d st) d1 v1)"
    using upd_desc_ok [OF v1(3)] by blast
  define v2 where "v2 = vring_set_d (ts_d st) d1 v1"
  have s2: "ring_same v0 v2" "vring_ok v2"
    using ring_same_trans [OF v(2) v1(2)] v1(3) by (simp_all add: v2_def ring_same_def)
  then have "unat h < unat (vr_size v2)" using vring_okD(1) [OF s2(2)] h by (simp add: ring_same_def)
  then obtain d2 where d2: "upd_desc h (wil_set_tx_desc_count (ts_used st)) v2 = Some (vring_set_d h d2 v2)"
    using upd_desc_ok [OF s2(2)] by blast
  define v3 where "v3 = vring_set_d h d2 v2"
  have s3: "ring_same v0 v3" "vring_ok v3" using s2 by (simp_all add: v3_def ring_same_def)
  have "hwtail (wil_vring_advance_head v3 x) = hwtail v0" for x
    using s3(1) by (simp add: ring_same_def wil_vring_advance_head_def)
  then have "tso_finish p i h (True, st, w, v) =
      Some (None, klog_add (IoWrite32 (HOSTADDR (hwtail v0))
          (swhead (wil_vring_advance_head v3 (of_nat (ts_used st)))))
        (set_vring_tx i (wil_vring_advance_head v3 (of_nat (ts_used st))) w))" for w
    using v1(1) d1 d2 by (simp add: tso_finish_def v2_def [symmetric] v3_def [symmetric] Let_def)
  moreover have "tx_slots v3 k = tx_slots v k" for k using v1(4) by (simp add: v3_def v2_def)
  ultimately show thesis using that s3 by blast
qed

text \<open>The slots in use are the first ones.\<close>

lemma tx_slots_prefix_0: "\<exists>xs. tx_slots v n = tx_posted v @ xs \<and> length xs = n"
proof (induction n)
  case (Suc n)
  then show ?case by (auto simp: tx_slots_def ring_slots_snoc)
qed (simp add: tx_slots_0)

lemma tx_slots_posted:
  assumes "ring_same v0 v" "tx_slots v n = tx_posted v0 @ replicate n (Some p)"
  shows "tx_posted v = tx_posted v0"
proof -
  have "length (tx_posted v) = length (tx_posted v0)" by (simp add: tx_posted_def ring_same_used [OF assms(1)])
  then show ?thesis using tx_slots_prefix_0 [of v n] assms(2) by auto
qed

lemma tso_finish_ok:
  assumes i: "i < length (vring_tx w0)" "tx_ring i w0 = v0" "vring_tx w = vring_tx w0"
    and v: "vring_ok v0" "ring_same v0 v" "vring_ok v" "tso_ok v st"
    and st: "0 < ts_used st" "int (ts_used st) \<le> wil_vring_avail_tx v0" "users_grow p (ts_used st) w0 w"
    and h: "h = swhead v0" and sl: "tx_slots v (ts_used st) = tx_posted v0 @ replicate (ts_used st) (Some p)"
  shows "\<exists>r. tso_finish p i h (b, st, w, v) = Some r \<and> tx_outcome i p w0 r"
proof (cases b)
  case False
  obtain w' v' where u: "tso_undo p (ts_used st) (w, v) = Some (w', v')" "buf_frame w w'" "ring_same v v'"
    "vring_ok v'" "skbs w' = (kfree_skb p ^^ ts_used st) (skbs w)" "\<forall>k. tx_slots v' k = tx_slots v k"
    using tso_undo_ok [OF v(3)] by blast
  have "users_grow p 0 w0 w'"
    using st(3) by (simp add: users_grow_def u(5) kfree_skb_funpow)
  moreover have "i < length (vring_tx w')" using buf_frameD(7) [OF u(2)] i by simp
  moreover have "swhead v' = swhead v0" using ring_same_trans [OF v(2) u(3)] by (simp add: ring_same_def)
  moreover have "tx_posted v' = tx_posted v0"
    using tx_slots_posted [OF ring_same_trans [OF v(2) u(3)], of "ts_used st" p] sl u(6) by simp
  ultimately show ?thesis
    using False u(1,4) i by (simp add: tso_finish_def tx_outcome_def users_grow_def)
next
  case True
  obtain v3 where s3: "ring_same v0 v3" "vring_ok v3" "\<And>k. tx_slots v3 k = tx_slots v k"
    "\<And>w. tso_finish p i h (True, st, w, v) =
      Some (None, klog_add (IoWrite32 (HOSTADDR (hwtail v0))
          (swhead (wil_vring_advance_head v3 (of_nat (ts_used st)))))
        (set_vring_tx i (wil_vring_advance_head v3 (of_nat (ts_used st))) w))"
    using tso_finish_good [OF v h] by metis
  have room: "vring_tx_used v3 + ts_used st < unat (vr_size v3)"
  proof -
    have "int k \<le> int (a - b - 1) \<Longrightarrow> b < a \<Longrightarrow> b + k < a" for a b k :: nat by auto
    from this [OF st(2) [unfolded vring_avail_tx [OF v(1)]] vring_used_lt(2) [OF v(1)]]
    show ?thesis using s3(1) by (simp add: ring_same_used) (simp add: ring_same_def)
  qed
  note a = tx_advance_head [OF s3(2) room]
  let ?v = "wil_vring_advance_head v3 (of_nat (ts_used st))"
  have "tx_posted ?v = tx_posted v0 @ replicate (ts_used st) (Some p)"
    unfolding a(2) s3(3) by (rule sl)
  moreover have "skbs (klog_add e w') = skbs w'" "last (klog (klog_add e w')) = e" for e w'
    by (simp_all add: klog_add_def)
  ultimately show ?thesis
    using True i st a(1) s3(4) by (simp add: tx_outcome_def users_grow_def)
qed

text \<open>Past the header's descriptor the function is its body followed by its end.\<close>

lemma tso_header:
  fixes p :: skb_ptr
  assumes v: "vring_ok (tx_ring i w)"
    and "\<not> wil_vring_avail_tx (tx_ring i w) < int (length (skb_frags (skbs w p)) * 3 + 1)"
    and "snd (wil_tx_desc_offload_setup None (skbs w p) 0) \<noteq> 0" "dma (swhead (tx_ring i w)) = Some pa"
  obtains w3 v2 where
    "wil_tx_vring_tso dma i p w = do {
       res \<leftarrow> tso_body dma p i (wil_vring_avail_tx (tx_ring i w)) (int (unat (skb_gso_size (skbs w p))))
         (int (skb_headlen (skbs w p)) - int (tso_hdrlen (skbs w p))) (skb_frags (skbs w p))
         (swhead (tx_ring i w)) (w3, v2);
       tso_finish p i (swhead (tx_ring i w)) res }"
    "ring_same (tx_ring i w) v2" "vring_ok v2" "vring_tx w3 = vring_tx w" "users_grow p 1 w w3"
    "klog w3 = klog w @ [DmaMapSingle pa (tso_hdrlen (skbs w p))]"
    "sngl_mapped (skbs w3 p) = sint (swhead (tx_ring i w))"
    "\<And>j. j \<noteq> swhead (tx_ring i w) \<Longrightarrow> vring_d v2 j = vring_d (tx_ring i w) j"
    "tx_slots v2 1 = tx_posted (tx_ring i w) @ [Some p]"
proof -
  let ?v = "tx_ring i w" and ?tcp = "snd (wil_tx_desc_offload_setup None (skbs w p) 0)"
  define w1 where "w1 = upd_skb p (tso_zero_lengths ?tcp) (tx_stop_if_low ?v w)"
  have w0: "skbs (tx_stop_if_low ?v w) = skbs w" "klog (tx_stop_if_low ?v w) = klog w"
    "vring_tx (tx_stop_if_low ?v w) = vring_tx w"
    by (simp_all add: tx_stop_if_low_def)
  define w2 where "w2 = klog_add (DmaMapSingle pa (tso_hdrlen (skbs w p))) w1"
  obtain v1 where v1: "tso_put p i 0 (swhead ?v) pa (int (tso_hdrlen (skbs w p))) (w2, ?v) =
      Some (w2\<lparr>skbs := skb_get p (skbs w2)\<rparr>, v1)" "ring_same ?v v1" "vring_ok v1"
      "\<And>j. j \<noteq> swhead ?v \<Longrightarrow> vring_d v1 j = vring_d ?v j" "tx_slots v1 1 = tx_posted ?v @ [Some p]"
  proof -
    have "vring_tx_used ?v + 0 < unat (vr_size ?v)" using vring_used_lt(2) [OF v] by simp
    moreover have "swhead ?v = (swhead ?v + of_nat 0) mod ucast (vr_size ?v)"
      using vring_okD(1) [OF v] by (simp add: word_unat_eq_iff unat_vring_mod)
    ultimately show thesis
      using that tso_put_ok [OF v vring_okD(1) [OF v]] by (metis tx_slots_0 One_nat_def)
  qed
  have "unat (swhead ?v) < unat (vr_size v1)"
    using vring_okD(1) [OF v] v1(2) by (simp add: ring_same_def)
  then obtain d where d: "upd_desc (swhead ?v) (wil_tx_last_desc i) v1 = Some (vring_set_d (swhead ?v) d v1)"
    using upd_desc_ok [OF v1(3)] by blast
  define v2 where "v2 = vring_set_d (swhead ?v) d v1"
  have v2: "ring_same ?v v2" "vring_ok v2"
    using v1 by (simp_all add: v2_def ring_same_def)
  have d2: "vring_d v2 j = vring_d ?v j" if "j \<noteq> swhead ?v" for j
    using that v1(4) [OF that] by (simp add: v2_def vring_d_other)
  define w3 where "w3 = upd_skb p (\<lambda>s. s\<lparr>sngl_mapped := sint (swhead ?v), nodma_desc := sint (swhead ?v)\<rparr>)
    (w2\<lparr>skbs := skb_get p (skbs w2)\<rparr>)"
  have w3: "vring_tx w3 = vring_tx w" "users_grow p 1 w w3"
    "skb_frags (skbs w3 p) = skb_frags (skbs w p)" "skb_headlen (skbs w3 p) = skb_headlen (skbs w p)"
    "klog w3 = klog w @ [DmaMapSingle pa (tso_hdrlen (skbs w p))]"
    "sngl_mapped (skbs w3 p) = sint (swhead ?v)"
    by (simp_all add: w3_def w2_def upd_skb_def klog_add_def users_grow_def skb_get_def w1_def w0
        skb_headlen_def)
  have "wil_tx_vring_tso dma i p w = do {
       res \<leftarrow> tso_body dma p i (wil_vring_avail_tx ?v) (int (unat (skb_gso_size (skbs w p))))
         (int (skb_headlen (skbs w p)) - int (tso_hdrlen (skbs w p))) (skb_frags (skbs w p))
         (swhead ?v) (w3, v2);
       tso_finish p i (swhead ?v) res }"
    using assms(2-4) v1(1) d w3(3,4)
    by (simp add: wil_tx_vring_tso_def tx_ring_def [symmetric] Let_def w0(1)
        w1_def [symmetric] w2_def [symmetric] v2_def [symmetric] w3_def [symmetric])
  moreover have "tx_slots v2 1 = tx_posted ?v @ [Some p]" using v1(5) by (simp add: v2_def)
  ultimately show thesis using that v2 w3 d2 by blast
qed

lemma wil_tx_vring_tso_ok:
  fixes p :: skb_ptr
  assumes "i < length (vring_tx w)" "vring_ok (tx_ring i w)" "0 < skb_gso_size (skbs w p)"
    "int (skb_headlen (skbs w p)) - int (tso_hdrlen (skbs w p)) \<le> int (unat (skb_gso_size (skbs w p)))"
    "2 \<le> wil_vring_avail_tx (tx_ring i w)"
  shows "\<exists>r. wil_tx_vring_tso dma i p w = Some r \<and> tx_outcome i p w r"
proof -
  let ?v = "tx_ring i w" and ?tcp = "snd (wil_tx_desc_offload_setup None (skbs w p) 0)"
  note v = assms(2)
  define w0 where "w0 = tx_stop_if_low ?v w"
  define w1 where "w1 = upd_skb p (tso_zero_lengths ?tcp) w0"
  have w1: "vring_tx w1 = vring_tx w" "tx_ring i w1 = ?v" "users_grow p 0 w w1" "skbs w0 = skbs w"
    "vring_tx w0 = vring_tx w" "tx_ring i w0 = ?v"
    by (simp_all add: w0_def w1_def upd_skb_def tx_stop_frame users_grow_def tx_ring_def)
  have fail: "tx_outcome i p w (Some e, w')" if "vring_tx w' = vring_tx w" "users_grow p 0 w w'" for e w'
    using that v by (simp add: tx_outcome_def tx_ring_def)
  consider "wil_vring_avail_tx ?v < int (length (skb_frags (skbs w p)) * 3 + 1)"
    | "\<not> wil_vring_avail_tx ?v < int (length (skb_frags (skbs w p)) * 3 + 1)" "?tcp = 0"
    | "\<not> wil_vring_avail_tx ?v < int (length (skb_frags (skbs w p)) * 3 + 1)" "?tcp \<noteq> 0" "dma (swhead ?v) = None"
    | pa where "\<not> wil_vring_avail_tx ?v < int (length (skb_frags (skbs w p)) * 3 + 1)" "?tcp \<noteq> 0"
      "dma (swhead ?v) = Some pa" by fastforce
  then show ?thesis
  proof cases
    case 1
    then have "wil_tx_vring_tso dma i p w = Some (Some ENOMEM, w0)"
      by (simp add: wil_tx_vring_tso_def tx_ring_def [symmetric] Let_def w0_def)
    moreover have "users_grow p 0 w w0" by (rule users_grow_same) (simp add: w1)
    ultimately show ?thesis using fail w1(5) by blast
  next
    case 2
    then have "wil_tx_vring_tso dma i p w = Some (Some EINVAL, w0)"
      by (simp add: wil_tx_vring_tso_def tx_ring_def [symmetric] Let_def w0_def w1(4) [unfolded w0_def])
    moreover have "users_grow p 0 w w0" by (rule users_grow_same) (simp add: w1)
    ultimately show ?thesis using fail w1(5) by blast
  next
    case 3
    then have "wil_tx_vring_tso dma i p w = Some (Some EINVAL, w1)"
      by (simp add: wil_tx_vring_tso_def tx_ring_def [symmetric] Let_def w1_def w0_def w1(4) [unfolded w0_def])
    then show ?thesis using fail w1 by blast
  next
    case 4
    from tso_header [where dma = dma, OF v 4] obtain w3 v2 where h: "wil_tx_vring_tso dma i p w = do {
       res \<leftarrow> tso_body dma p i (wil_vring_avail_tx ?v) (int (unat (skb_gso_size (skbs w p))))
         (int (skb_headlen (skbs w p)) - int (tso_hdrlen (skbs w p))) (skb_frags (skbs w p))
         (swhead ?v) (w3, v2);
       tso_finish p i (swhead ?v) res }"
      "ring_same ?v v2" "vring_ok v2" "vring_tx w3 = vring_tx w" "users_grow p 1 w w3"
      "tx_slots v2 1 = tx_posted ?v @ [Some p]" by metis
    have v2: "swhead ?v = swhead v2" using h(2) by (simp add: ring_same_def)
    have gso: "0 < int (unat (skb_gso_size (skbs w p)))"
      using assms(3) unfolding word_less_nat_alt of_nat_0_less_iff by simp
    have rm: "tso_room v2 (wil_vring_avail_tx ?v)"
      using tso_room_avail [OF v] tso_room_same [OF h(2)] by simp
    obtain b st w4 v4 where body: "tso_body dma p i (wil_vring_avail_tx ?v) (int (unat (skb_gso_size (skbs w p))))
        (int (skb_headlen (skbs w p)) - int (tso_hdrlen (skbs w p))) (skb_frags (skbs w p)) (swhead ?v) (w3, v2) =
        Some (b, st, w4, v4)" "ring_same v2 v4" "vring_ok v4" "tso_ok v4 st" "1 \<le> ts_used st"
        "int (ts_used st) \<le> wil_vring_avail_tx ?v" "buf_frame w3 w4" "users_grow p (ts_used st - 1) w3 w4"
        "tx_slots v4 (ts_used st) = tx_slots v2 1 @ replicate (ts_used st - 1) (Some p)"
      using tso_body_ok [OF gso assms(4,5) h(3) v2 rm, of dma p i "skb_frags (skbs w p)" w3]
      by blast
    have "users_grow p (ts_used st) w w4"
      using users_grow_trans [OF h(5) body(8)] body(5) by simp
    moreover have "tx_slots v4 (ts_used st) = tx_posted ?v @ replicate (ts_used st) (Some p)"
      using body(5,9) h(6) by (cases "ts_used st") simp_all
    ultimately obtain r where r: "tso_finish p i (swhead ?v) (b, st, w4, v4) = Some r" "tx_outcome i p w r"
      using tso_finish_ok [OF assms(1) refl _ v ring_same_trans [OF h(2) body(2)] body(3,4) _ body(6) _ refl, of w4 p b]
        body(5) buf_frameD(7) [OF body(7)] h(4) by auto
    with h(1) body(1) show ?thesis by simp
  qed
qed

end
