(* ===== verification/Wil_Tso_Props.thy ===== *)
theory Wil_Tso_Props
  imports Wil_Tso Wil_Tx_Props
begin

text \<open>
  Properties of segmentation offload: when it succeeds or fails it leaves the ring and the
  reference counts consistent, provided the ring has two free slots; the two branches where it
  does not, one in the ring accounting and one in the undoing of the mappings, are stated as they
  are.
\<close>

lemma tso_closed_single:
  "tso_body dma p idx avail mss len [] h (w, v) =
     (let st = \<lparr>ts_d = h, ts_first = False, ts_sg = None, ts_sg_cnt = 0, ts_rem = mss,
            ts_used = 1, ts_end_first = 1\<rparr>; i = (h + 1) mod ucast (vr_size v)
      in if len > 0 then (case dma i of None \<Rightarrow> Some (False, st, w, v)
           | Some pa \<Rightarrow> do {
               (w, v) \<leftarrow> tso_put p idx 1 i pa len (klog_add (DmaMapSingle pa (nat len)) w, v);
               Some (True, st\<lparr>ts_d := i, ts_first := True, ts_sg := Some i, ts_sg_cnt := 1, ts_used := 2,
                  ts_rem := mss - len\<rparr>, upd_skb p (\<lambda>s. s\<lparr>sngl_mapped := sint i\<rparr>) w, v) })
         else Some (True, st, w, v))"
  by (simp add: tso_body_def Let_def split: option.split prod.split)

text \<open>
  Claim C4. Sending a segmented buffer through a ring with at least two free slots, whose linear
  part holds at most one segment of data, never crashes. Either it fails, and the head, what
  the slots in use hold and every reference count are as before; or it succeeds, and behind what the
  ring held there are some slots more that all hold the buffer, one reference taken for each, and
  telling the hardware the new head is the last thing done.
\<close>

theorem tx_tso_accounts:
  assumes "i < length (vring_tx w)" "vring_ok (tx_ring i w)" "0 < skb_gso_size (skbs w p)"
    "int (skb_headlen (skbs w p)) - int (tso_hdrlen (skbs w p)) \<le> int (unat (skb_gso_size (skbs w p)))"
    "2 \<le> wil_vring_avail_tx (tx_ring i w)"
  shows "\<exists>rc w'. wil_tx_vring_tso dma i p w = Some (rc, w') \<and> vring_ok (tx_ring i w') \<and>
     (if rc = None
      then \<exists>k. 0 < k \<and>
        (\<forall>q. skb_users (skbs w' q) = skb_users (skbs w q) + (if q = p then k else 0)) \<and>
        tx_posted (tx_ring i w') = tx_posted (tx_ring i w) @ replicate k (Some p) \<and>
        last (klog w') = IoWrite32 (HOSTADDR (hwtail (tx_ring i w))) (swhead (tx_ring i w'))
      else swhead (tx_ring i w') = swhead (tx_ring i w) \<and>
        tx_posted (tx_ring i w') = tx_posted (tx_ring i w) \<and>
        (\<forall>q. skb_users (skbs w' q) = skb_users (skbs w q)))"
  using wil_tx_vring_tso_ok [OF assms, of dma] unfolding tx_outcome_def users_grow_def by fastforce

definition ex_tso_skb :: sk_buff where
  "ex_tso_skb = zero_skb\<lparr>skb_users := 1, skb_data := replicate 100 0, skb_frags := [500],
     skb_gso_size := 300, skb_protocol := ETH_P_IP, hdr_l4proto := IPPROTO_TCP,
     hdr_net_off := 14, hdr_net_len := 20, hdr_tcp_len := 20\<rparr>"

definition ex_tso_state :: "u32 \<Rightarrow> sk_buff \<Rightarrow> wil6210_priv" where
  "ex_tso_state h s = set_vring_tx 0 (ex_ring h 0 (replicate 8 zero_desc) (replicate 8 None))
     (wil_init_state\<lparr>skbs := \<lambda>p. s\<rparr>)"

lemma ex_tso_state_ok:
  "0 < length (vring_tx (ex_tso_state h s))"
  "tx_ring 0 (ex_tso_state h s) = ex_ring h 0 (replicate 8 zero_desc) (replicate 8 None)"
  "skbs (ex_tso_state h s) = (\<lambda>p. s)"
  "h < 8 \<Longrightarrow> vring_ok (tx_ring 0 (ex_tso_state h s))"
proof -
  show "0 < length (vring_tx (ex_tso_state h s))"
    by (simp add: ex_tso_state_def set_vring_tx_def wil_init_state_def WIL6210_MAX_TX_RINGS_def)
  show 1: "tx_ring 0 (ex_tso_state h s) = ex_ring h 0 (replicate 8 zero_desc) (replicate 8 None)"
    unfolding ex_tso_state_def
    by (subst tx_ring_set(1)) (simp_all add: wil_init_state_def WIL6210_MAX_TX_RINGS_def)
  show "skbs (ex_tso_state h s) = (\<lambda>p. s)" by (simp add: ex_tso_state_def)
  show "h < 8 \<Longrightarrow> vring_ok (tx_ring 0 (ex_tso_state h s))"
    unfolding 1 by (simp add: vring_ok_def ex_ring_def word_less_nat_alt)
qed

theorem tx_tso_accounts_witness:
  "\<exists>rc w'. wil_tx_vring_tso (\<lambda>_. Some 0x1000) 0 9 (ex_tso_state 0 ex_tso_skb) = Some (rc, w') \<and>
     vring_ok (tx_ring 0 w')"
proof -
  have "0 < skb_gso_size ex_tso_skb" "int (skb_headlen ex_tso_skb) - int (tso_hdrlen ex_tso_skb)
      \<le> int (unat (skb_gso_size ex_tso_skb))"
    by (simp_all add: ex_tso_skb_def skb_headlen_def tso_hdrlen_def)
  moreover have "2 \<le> wil_vring_avail_tx (tx_ring 0 (ex_tso_state 0 ex_tso_skb))"
    unfolding ex_tso_state_ok by (simp add: ex_ring_def wil_vring_avail_tx_def)
  moreover have "(0::u32) < 8" by simp
  ultimately show ?thesis
    using tx_tso_accounts [OF ex_tso_state_ok(1) ex_tso_state_ok(4), of 0 ex_tso_skb 9 "\<lambda>_. Some 0x1000"]
    unfolding ex_tso_state_ok(3) by blast
qed

text \<open>
  When the linear data cannot be mapped after the headers were, the error path unmaps the
  slot behind the headers, with whatever address an earlier frame left there, and the mapping of the
  headers is never undone: the loop undoes the slots \<open>swhead + 1\<close> to \<open>swhead + descs_used\<close> where the
  ones in use are \<open>swhead\<close> to \<open>swhead + descs_used - 1\<close>.
\<close>

theorem tso_undo_misses_header:
  assumes "i < length (vring_tx w)" "vring_ok (tx_ring i w)"
    and "int (length (skb_frags (skbs w p)) * 3 + 1) \<le> wil_vring_avail_tx (tx_ring i w)"
    and "snd (wil_tx_desc_offload_setup None (skbs w p) 0) \<noteq> 0"
    and "dma (swhead (tx_ring i w)) = Some pa" "tso_hdrlen (skbs w p) < skb_headlen (skbs w p)"
    and "dma ((swhead (tx_ring i w) + 1) mod ucast (vr_size (tx_ring i w))) = None"
    and "vring_d (tx_ring i w) ((swhead (tx_ring i w) + 1) mod ucast (vr_size (tx_ring i w))) = Some d"
  shows "\<exists>w' e. wil_tx_vring_tso dma i p w = Some (Some EINVAL, w') \<and>
     klog w' = klog w @ [DmaMapSingle pa (tso_hdrlen (skbs w p)), e] \<and>
     e \<in> {DmaUnmapSingle (desc_pa d) (unat (desc_length d)), DmaUnmapPage (desc_pa d) (unat (desc_length d))}"
proof -
  let ?v = "tx_ring i w" and ?i = "(swhead (tx_ring i w) + 1) mod ucast (vr_size (tx_ring i w))"
  have room: "\<not> wil_vring_avail_tx ?v < int (length (skb_frags (skbs w p)) * 3 + 1)"
    using assms(3) by simp
  obtain w3 v2 where h: "wil_tx_vring_tso dma i p w = do {
       res \<leftarrow> tso_body dma p i (wil_vring_avail_tx ?v) (int (unat (skb_gso_size (skbs w p))))
         (int (skb_headlen (skbs w p)) - int (tso_hdrlen (skbs w p))) (skb_frags (skbs w p))
         (swhead ?v) (w3, v2);
       tso_finish p i (swhead ?v) res }"
    "ring_same ?v v2" "klog w3 = klog w @ [DmaMapSingle pa (tso_hdrlen (skbs w p))]"
    "\<And>j. j \<noteq> swhead ?v \<Longrightarrow> vring_d v2 j = vring_d ?v j"
    using tso_header [where dma = dma, OF assms(2) room assms(4,5)] by blast
  have ne: "?i \<noteq> swhead ?v" using assms(5,7) by auto
  have same: "swhead v2 = swhead ?v" "vr_size v2 = vr_size ?v" using h(2) by (simp_all add: ring_same_def)
  have d: "vring_d v2 ?i = Some d" using h(4) [OF ne] assms(8) by simp
  show ?thesis
    using h(1) assms(6,7) same d
    by (simp add: tso_body_def tso_finish_def Let_def klog_add_def dev_kfree_skb_def h(3) set_vring_tx_def)
qed

definition ex_undo_dma :: "u32 \<Rightarrow> u64 option" where
  "ex_undo_dma i = (if i = 0 then Some 0x1000 else None)"

theorem tso_undo_misses_header_witness:
  "\<exists>w' e. wil_tx_vring_tso ex_undo_dma 0 9 (ex_tso_state 0 ex_tso_skb) = Some (Some EINVAL, w') \<and>
     klog w' = klog (ex_tso_state 0 ex_tso_skb) @ [DmaMapSingle 0x1000 54, e]"
proof -
  have "int (length (skb_frags ex_tso_skb) * 3 + 1) \<le> wil_vring_avail_tx (tx_ring 0 (ex_tso_state 0 ex_tso_skb))"
    "swhead (tx_ring 0 (ex_tso_state 0 ex_tso_skb)) = 0"
    "(0 + 1) mod ucast (vr_size (tx_ring 0 (ex_tso_state 0 ex_tso_skb))) = (1::u32)"
    unfolding ex_tso_state_ok(2) by (simp_all add: ex_ring_def ex_tso_skb_def wil_vring_avail_tx_def)
  moreover have "vring_d (tx_ring 0 (ex_tso_state 0 ex_tso_skb)) 1 = Some zero_desc"
    unfolding ex_tso_state_ok(2) by (simp add: ex_ring_def vring_d_def)
  moreover have "snd (wil_tx_desc_offload_setup None ex_tso_skb 0) \<noteq> 0" "tso_hdrlen ex_tso_skb = 54"
    "skb_headlen ex_tso_skb = 100" by code_simp+
  moreover have "(0::u32) < 8" by simp
  ultimately show ?thesis
    using tso_undo_misses_header [OF ex_tso_state_ok(1) ex_tso_state_ok(4), of 0 ex_tso_skb 9 ex_undo_dma
        "0x1000" zero_desc]
    by (fastforce simp: ex_tso_state_ok(3) ex_undo_dma_def)
qed

text \<open>
  The room check counts three slots for a fragment and one for the headers, and none for
  data in the linear part: with one free slot left, a buffer with no fragment and some linear data
  is accepted, takes two slots, and makes the head meet the tail. The full ring then looks empty.
\<close>

theorem tso_overfills_ring:
  assumes "i < length (vring_tx w)" "vring_ok (tx_ring i w)" "wil_vring_avail_tx (tx_ring i w) = 1"
    and "skb_frags (skbs w p) = []" "tso_hdrlen (skbs w p) < skb_headlen (skbs w p)"
    and "int (skb_headlen (skbs w p)) - int (tso_hdrlen (skbs w p)) \<le> int (unat (skb_gso_size (skbs w p)))"
    and "snd (wil_tx_desc_offload_setup None (skbs w p) 0) \<noteq> 0" "\<forall>j. dma j \<noteq> None"
  shows "\<exists>w'. wil_tx_vring_tso dma i p w = Some (None, w') \<and> wil_vring_is_empty (tx_ring i w')"
proof -
  let ?v = "tx_ring i w" and ?i = "(swhead (tx_ring i w) + 1) mod ucast (vr_size (tx_ring i w))"
  define len where "len = int (skb_headlen (skbs w p)) - int (tso_hdrlen (skbs w p))"
  have room: "\<not> wil_vring_avail_tx ?v < int (length (skb_frags (skbs w p)) * 3 + 1)"
    using assms(3,4) by simp
  obtain pa where pa: "dma (swhead ?v) = Some pa" using assms(8) by blast
  obtain w3 v2 where h: "wil_tx_vring_tso dma i p w = do {
       res \<leftarrow> tso_body dma p i (wil_vring_avail_tx ?v) (int (unat (skb_gso_size (skbs w p))))
         len (skb_frags (skbs w p)) (swhead ?v) (w3, v2);
       tso_finish p i (swhead ?v) res }"
    "ring_same ?v v2" "vring_ok v2" "vring_tx w3 = vring_tx w"
    using tso_header [where dma = dma, OF assms(2) room assms(7) pa] unfolding len_def by blast
  have same: "swhead v2 = swhead ?v" "vr_size v2 = vr_size ?v" using h(2) by (simp_all add: ring_same_def)
  obtain pa1 where pa1: "dma ?i = Some pa1" using assms(8) by blast
  have ib: "unat ?i < unat (vr_size v2)" using tx_slot_bound [OF assms(2)] same by simp
  define w4 where "w4 = klog_add (DmaMapSingle pa1 (nat len)) w3"
  obtain v5 where v5: "tso_put p i 1 ?i pa1 len (w4, v2) = Some (w4\<lparr>skbs := skb_get p (skbs w4)\<rparr>, v5)"
    "ring_same v2 v5" "vring_ok v5"
    using tso_put_ok [OF h(3) ib] by blast
  define w5 where "w5 = upd_skb p (\<lambda>s. s\<lparr>sngl_mapped := sint ?i\<rparr>) (w4\<lparr>skbs := skb_get p (skbs w4)\<rparr>)"
  define st where "st = \<lparr>ts_d = ?i, ts_first = True, ts_sg = Some ?i, ts_sg_cnt = 1,
    ts_rem = int (unat (skb_gso_size (skbs w p))) - len, ts_used = 2, ts_end_first = 1\<rparr>"
  have "tso_body dma p i (wil_vring_avail_tx ?v) (int (unat (skb_gso_size (skbs w p)))) len
      (skb_frags (skbs w p)) (swhead ?v) (w3, v2) = Some (True, st, w5, v5)"
    using assms(4,5) pa1 v5(1)
    by (simp add: tso_body_def Let_def len_def same w4_def w5_def st_def)
  moreover have "tso_ok v5 st"
    using ib v5(2) assms(6) by (simp add: tso_ok_def st_def ring_same_def len_def)
  note fin = tso_finish_good [OF assms(2) ring_same_trans [OF h(2) v5(2)] v5(3) this refl, of p i]
  obtain v6 where v6: "ring_same ?v v6" "vring_ok v6" "\<And>w. tso_finish p i (swhead ?v) (True, st, w, v5) =
      Some (None, klog_add (IoWrite32 (HOSTADDR (hwtail ?v))
          (swhead (wil_vring_advance_head v6 (of_nat (ts_used st)))))
        (set_vring_tx i (wil_vring_advance_head v6 (of_nat (ts_used st))) w))" by (rule fin) (rule that)
  let ?v6 = "wil_vring_advance_head v6 2"
  have "unat (swhead ?v6) = unat (swtail ?v6)"
  proof -
    let ?n = "unat (vr_size v6)"
    have n: "?n = vring_tx_used v6 + 2"
      using assms(3) vring_used_lt(2) [OF v6(2)] v6(1) unfolding vring_avail_tx [OF assms(2)]
      by (simp add: ring_same_used) (simp add: ring_same_def)
    have "unat (swhead v6) = (unat (swtail v6) + vring_tx_used v6) mod ?n"
      using vring_okD [OF v6(2)] by (simp add: vring_tx_used_def ring_span_reach)
    then have "unat (swhead ?v6) = ((unat (swtail v6) + vring_tx_used v6) mod ?n + 2) mod ?n"
      using unat_advance_head [OF v6(2), of 2] by simp
    then have "unat (swhead ?v6) = (unat (swtail v6) + (vring_tx_used v6 + 2)) mod ?n"
      unfolding mod_add_left_eq add.assoc .
    then have "unat (swhead ?v6) = (unat (swtail v6) + ?n) mod ?n" unfolding n .
    then show ?thesis using vring_okD(2) [OF v6(2)] by (simp add: wil_vring_advance_head_def)
  qed
  moreover have "i < length (vring_tx w5)"
    using assms(1) h(4) by (simp add: w5_def w4_def upd_skb_def klog_add_def)
  ultimately show ?thesis
    using h(1) v6(3) by (simp add: st_def wil_vring_is_empty_def word_unat_eq_iff)
qed

theorem tso_overfills_ring_witness:
  "\<exists>w'. wil_tx_vring_tso (\<lambda>_. Some 0x1000) 0 9 (ex_tso_state 6 (ex_tso_skb\<lparr>skb_frags := []\<rparr>)) =
     Some (None, w') \<and> wil_vring_is_empty (tx_ring 0 w')"
proof -
  let ?s = "ex_tso_skb\<lparr>skb_frags := []\<rparr>"
  have "wil_vring_avail_tx (tx_ring 0 (ex_tso_state 6 ?s)) = 1"
    unfolding ex_tso_state_ok(2) by (simp add: ex_ring_def wil_vring_avail_tx_def)
  moreover have "skb_frags ?s = []" "tso_hdrlen ?s < skb_headlen ?s"
    "int (skb_headlen ?s) - int (tso_hdrlen ?s) \<le> int (unat (skb_gso_size ?s))"
    "snd (wil_tx_desc_offload_setup None ?s 0) \<noteq> 0" by code_simp+
  moreover have "(6::u32) < 8" by simp
  ultimately show ?thesis
    using tso_overfills_ring [OF ex_tso_state_ok(1) ex_tso_state_ok(4), of 6 ?s 9 "\<lambda>_. Some 0x1000"]
    unfolding ex_tso_state_ok(3) by blast
qed

end
