(* ===== verification/Wil_Io.thy ===== *)
theory Wil_Io
  imports Wil_Hw Wil_State
begin

text \<open>
  Access to the device's memory: the 32-bit register accesses and the copy loops of
  \<^verbatim>\<open>main.c\<close>. What the device answers to a read is an oracle, indexed by the number of
  questions asked before, so that the firmware may change its memory between any two reads; a write
  is an entry of the log.
\<close>

subsection \<open>The environment\<close>

text \<open>
  \<open>we_io n off\<close> is the dword the device answers at byte offset \<open>off\<close> of the BAR to the read asked
  at time \<open>n\<close>, \<open>we_alloc n\<close> tells whether the allocation asked at time \<open>n\<close> succeeds, \<open>we_over\<close> are
  the bytes that lie in host memory behind a buffer given to the device.
\<close>

record wmi_env =
  we_io :: "nat \<Rightarrow> u32 \<Rightarrow> u32"
  we_alloc :: "nat \<Rightarrow> bool"
  we_over :: "u8 list"

definition tick :: "wil6210_priv \<Rightarrow> wil6210_priv" where
  "tick w = w\<lparr>io_clock := io_clock w + 1\<rparr>"

definition ioread32 :: "wmi_env \<Rightarrow> u32 \<Rightarrow> wil6210_priv \<Rightarrow> u32 \<times> wil6210_priv" where
  "ioread32 env off w = (we_io env (io_clock w) off, tick w)"

definition iowrite32 :: "u32 \<Rightarrow> u32 \<Rightarrow> wil6210_priv \<Rightarrow> wil6210_priv" where
  "iowrite32 x off w = klog_add (IoWrite32 off x) w"

definition kmalloc :: "wmi_env \<Rightarrow> wil6210_priv \<Rightarrow> bool \<times> wil6210_priv" where
  "kmalloc env w = (we_alloc env (io_clock w), tick w)"

subsection \<open>The copy loops\<close>

text \<open>\<open>for (count += 4; count > 4; count -= 4)\<close> with one 32-bit transaction each.\<close>

fun copy_fromio :: "wmi_env \<Rightarrow> nat \<Rightarrow> u32 \<Rightarrow> wil6210_priv \<Rightarrow> u32 list \<times> wil6210_priv" where
  "copy_fromio env cnt s w =
     (if cnt > 4 then
        let (x, w) = ioread32 env s w;
            (xs, w) = copy_fromio env (cnt - 4) (s + 4) w
        in (x # xs, w)
      else ([], w))"

fun copy_toio :: "nat \<Rightarrow> u8 list \<Rightarrow> u32 \<Rightarrow> wil6210_priv \<Rightarrow> wil6210_priv" where
  "copy_toio cnt src d w =
     (if cnt > 4 then copy_toio (cnt - 4) (drop 4 src) (d + 4) (iowrite32 (le_word (take 4 src)) d w)
      else w)"

declare copy_fromio.simps [simp del] copy_toio.simps [simp del]

text \<open>
  The bytes written to the destination, and the source with what lies behind it: a count that is no
  multiple of four is rounded up.
\<close>

definition wil_memcpy_fromio_32 ::
  "wmi_env \<Rightarrow> u32 \<Rightarrow> nat \<Rightarrow> wil6210_priv \<Rightarrow> u8 list \<times> wil6210_priv" where
  "wil_memcpy_fromio_32 env src cnt w =
     (let (xs, w) = copy_fromio env (cnt + 4) src w in (concat (map le32 xs), w))"

definition wil_memcpy_toio_32 ::
  "wmi_env \<Rightarrow> u32 \<Rightarrow> u8 list \<Rightarrow> nat \<Rightarrow> wil6210_priv \<Rightarrow> wil6210_priv" where
  "wil_memcpy_toio_32 env dst src cnt w = copy_toio (cnt + 4) (src @ we_over env) dst w"

subsection \<open>What they do\<close>

definition io_frame :: "wil6210_priv \<Rightarrow> wil6210_priv \<Rightarrow> bool" where
  "io_frame w w' \<longleftrightarrow> w' = w\<lparr>klog := klog w', io_clock := io_clock w'\<rparr> \<and> io_clock w \<le> io_clock w'"

lemma io_frame_refl [simp, intro]: "io_frame w w"
  by (simp add: io_frame_def)

lemma io_frame_trans [trans]: "io_frame w w1 \<Longrightarrow> io_frame w1 w2 \<Longrightarrow> io_frame w w2"
  unfolding io_frame_def by (cases w, cases w1, cases w2) simp

lemma io_frame_step [simp, intro]: "io_frame w (tick w)" "io_frame w (klog_add e w)"
  "io_frame w (iowrite32 x off w)"
  by (simp_all add: io_frame_def tick_def klog_add_def iowrite32_def)

lemma copy_fromio_ok:
  "io_frame w (snd (copy_fromio env cnt s w)) \<and> klog (snd (copy_fromio env cnt s w)) = klog w \<and>
     io_clock (snd (copy_fromio env cnt s w)) = io_clock w + (cnt - 1) div 4 \<and>
     fst (copy_fromio env cnt s w) =
       map (\<lambda>k. we_io env (io_clock w + k) (s + 4 * of_nat k)) [0..<(cnt - 1) div 4]"
proof (induction env cnt s w rule: copy_fromio.induct)
  case (1 env cnt s w)
  show ?case
  proof (cases "cnt > 4")
    case False
    then have "(cnt - 1) div 4 = 0" by auto
    then show ?thesis using False by (subst (1 2 3 4) copy_fromio.simps) simp
  next
    case True
    then have n: "(cnt - 1) div 4 = Suc ((cnt - 4 - 1) div 4)" by auto
    note IH = "1.IH" [OF True, of "ioread32 env s w" "fst (ioread32 env s w)" "snd (ioread32 env s w)"]
    obtain xs w' where r: "copy_fromio env (cnt - 4) (s + 4) (tick w) = (xs, w')" by force
    have "copy_fromio env cnt s w = (we_io env (io_clock w) s # xs, w')"
      using True r by (subst copy_fromio.simps) (simp add: ioread32_def)
    moreover have "map (\<lambda>k. we_io env (io_clock w + k) (s + 4 * of_nat k)) [0..<Suc m] =
        we_io env (io_clock w) s #
        map (\<lambda>k. we_io env (io_clock (tick w) + k) (s + 4 + 4 * of_nat k)) [0..<m]" for m
      by (simp add: tick_def upt_conv_Cons map_Suc_upt [symmetric] algebra_simps del: upt_Suc)
    ultimately show ?thesis
      using IH r io_frame_trans [OF io_frame_step(1)] unfolding n
      by (simp add: ioread32_def) (simp add: tick_def)
  qed
qed

lemma copy_toio_ok:
  "copy_toio cnt src d w = w\<lparr>klog := klog w @
     map (\<lambda>k. IoWrite32 (d + 4 * of_nat k) (le_word (take 4 (drop (4 * k) src)))) [0..<(cnt - 1) div 4]\<rparr>"
proof (induction cnt src d w rule: copy_toio.induct)
  case (1 cnt src d w)
  show ?case
  proof (cases "cnt > 4")
    case False
    then have "(cnt - 1) div 4 = 0" by auto
    then show ?thesis using False by (subst copy_toio.simps) simp
  next
    case True
    then have n: "(cnt - 1) div 4 = Suc ((cnt - 4 - 1) div 4)" by auto
    have "map (\<lambda>k. IoWrite32 (d + 4 * of_nat k) (le_word (take 4 (drop (4 * k) src)))) [0..<Suc m] =
        IoWrite32 d (le_word (take 4 src)) #
        map (\<lambda>k. IoWrite32 (d + 4 + 4 * of_nat k) (le_word (take 4 (drop (4 * k) (drop 4 src))))) [0..<m]" for m
      by (simp add: upt_conv_Cons map_Suc_upt [symmetric] algebra_simps del: upt_Suc)
    then show ?thesis
      using "1.IH" [OF True] True unfolding n
      by (subst copy_toio.simps) (simp add: iowrite32_def klog_add_def)
  qed
qed

lemma length_concat_le32: "length (concat (map (\<lambda>k. le32 (f k)) xs)) = 4 * length xs"
  by (induction xs) simp_all

lemma wil_memcpy_fromio_ok:
  assumes "wil_memcpy_fromio_32 env src cnt w = (bs, w')"
  shows "io_frame w w'" "klog w' = klog w" "length bs = 4 * ((3 + cnt) div 4)"
    and "io_clock w' = io_clock w + (3 + cnt) div 4"
    and "bs = concat (map (\<lambda>k. le32 (we_io env (io_clock w + k) (src + 4 * of_nat k))) [0..<(3 + cnt) div 4])"
  using copy_fromio_ok [of w env "cnt + 4" src] assms
  by (auto simp: wil_memcpy_fromio_32_def length_concat_le32 o_def split: prod.splits)

lemma wil_memcpy_toio_klog:
  "wil_memcpy_toio_32 env dst src cnt w = w\<lparr>klog := klog w @
     map (\<lambda>k. IoWrite32 (dst + 4 * of_nat k) (le_word (take 4 (drop (4 * k) (src @ we_over env)))))
       [0..<(3 + cnt) div 4]\<rparr>"
  by (simp add: wil_memcpy_toio_32_def copy_toio_ok)

lemma io_frame_toio [simp, intro]: "io_frame w (wil_memcpy_toio_32 env dst src cnt w)"
  by (simp add: wil_memcpy_toio_klog io_frame_def)

lemma io_frame_clock: "io_frame w w' \<Longrightarrow> io_clock w \<le> io_clock w'"
  by (simp add: io_frame_def)

lemma io_frameD:
  assumes "io_frame w w'"
  shows "wstatus w' = wstatus w" "mbox_tx w' = mbox_tx w" "mbox_rx w' = mbox_rx w" "wmi_seq w' = wmi_seq w"
    "wmi_ready w' = wmi_ready w" "reply_id w' = reply_id w" "reply_buf w' = reply_buf w" "reply_size w' = reply_size w"
    "pending_wmi_ev w' = pending_wmi_ev w" "back_pending w' = back_pending w" "sta w' = sta w" "skbs w' = skbs w"
    "vring_tx w' = vring_tx w" "vring_rx w' = vring_rx w" "ndev w' = ndev w" "wdev w' = wdev w"
    "isr_misc w' = isr_misc w" "vring2cid_tid w' = vring2cid_tid w" "vring_txdata w' = vring_txdata w" "scan_request w' = scan_request w"
  by (subst assms [unfolded io_frame_def, THEN conjunct1], simp)+

end
