(* ===== verification/Wil_Wmi_Ids.thy ===== *)
theory Wil_Wmi_Ids
  imports Wil_Prelude
begin

text \<open>
  The numbers of the protocol between driver and firmware (WMI, \<^verbatim>\<open>wmi.h\<close>): the identifiers
  of the commands and of the events. Each enumeration is its constants and the list of them; no two
  constants of one enumeration have the same number.
\<close>

subsection \<open>Commands, from the host to the firmware\<close>

definition WMI_CONNECT_CMDID :: u16 where "WMI_CONNECT_CMDID = 0x0001"
definition WMI_DISCONNECT_CMDID :: u16 where "WMI_DISCONNECT_CMDID = 0x0003"
definition WMI_DISCONNECT_STA_CMDID :: u16 where "WMI_DISCONNECT_STA_CMDID = 0x0004"
definition WMI_START_SCAN_CMDID :: u16 where "WMI_START_SCAN_CMDID = 0x0007"
definition WMI_SET_BSS_FILTER_CMDID :: u16 where "WMI_SET_BSS_FILTER_CMDID = 0x0009"
definition WMI_SET_PROBED_SSID_CMDID :: u16 where "WMI_SET_PROBED_SSID_CMDID = 0x000a"
definition WMI_SET_LISTEN_INT_CMDID :: u16 where "WMI_SET_LISTEN_INT_CMDID = 0x000b"
definition WMI_BCON_CTRL_CMDID :: u16 where "WMI_BCON_CTRL_CMDID = 0x000f"
definition WMI_ADD_CIPHER_KEY_CMDID :: u16 where "WMI_ADD_CIPHER_KEY_CMDID = 0x0016"
definition WMI_DELETE_CIPHER_KEY_CMDID :: u16 where "WMI_DELETE_CIPHER_KEY_CMDID = 0x0017"
definition WMI_SET_APPIE_CMDID :: u16 where "WMI_SET_APPIE_CMDID = 0x003f"
definition WMI_SET_WSC_STATUS_CMDID :: u16 where "WMI_SET_WSC_STATUS_CMDID = 0x0041"
definition WMI_PXMT_RANGE_CFG_CMDID :: u16 where "WMI_PXMT_RANGE_CFG_CMDID = 0x0042"
definition WMI_PXMT_SNR2_RANGE_CFG_CMDID :: u16 where "WMI_PXMT_SNR2_RANGE_CFG_CMDID = 0x0043"
definition WMI_FAST_MEM_ACC_MODE_CMDID :: u16 where "WMI_FAST_MEM_ACC_MODE_CMDID = 0x0300"
definition WMI_MEM_READ_CMDID :: u16 where "WMI_MEM_READ_CMDID = 0x0800"
definition WMI_MEM_WR_CMDID :: u16 where "WMI_MEM_WR_CMDID = 0x0801"
definition WMI_ECHO_CMDID :: u16 where "WMI_ECHO_CMDID = 0x0803"
definition WMI_DEEP_ECHO_CMDID :: u16 where "WMI_DEEP_ECHO_CMDID = 0x0804"
definition WMI_CONFIG_MAC_CMDID :: u16 where "WMI_CONFIG_MAC_CMDID = 0x0805"
definition WMI_CONFIG_PHY_DEBUG_CMDID :: u16 where "WMI_CONFIG_PHY_DEBUG_CMDID = 0x0806"
definition WMI_ADD_DEBUG_TX_PCKT_CMDID :: u16 where "WMI_ADD_DEBUG_TX_PCKT_CMDID = 0x0808"
definition WMI_PHY_GET_STATISTICS_CMDID :: u16 where "WMI_PHY_GET_STATISTICS_CMDID = 0x0809"
definition WMI_FS_TUNE_CMDID :: u16 where "WMI_FS_TUNE_CMDID = 0x080a"
definition WMI_CORR_MEASURE_CMDID :: u16 where "WMI_CORR_MEASURE_CMDID = 0x080b"
definition WMI_READ_RSSI_CMDID :: u16 where "WMI_READ_RSSI_CMDID = 0x080c"
definition WMI_TEMP_SENSE_CMDID :: u16 where "WMI_TEMP_SENSE_CMDID = 0x080e"
definition WMI_DC_CALIB_CMDID :: u16 where "WMI_DC_CALIB_CMDID = 0x080f"
definition WMI_SEND_TONE_CMDID :: u16 where "WMI_SEND_TONE_CMDID = 0x0810"
definition WMI_IQ_TX_CALIB_CMDID :: u16 where "WMI_IQ_TX_CALIB_CMDID = 0x0811"
definition WMI_IQ_RX_CALIB_CMDID :: u16 where "WMI_IQ_RX_CALIB_CMDID = 0x0812"
definition WMI_SET_UCODE_IDLE_CMDID :: u16 where "WMI_SET_UCODE_IDLE_CMDID = 0x0813"
definition WMI_SET_WORK_MODE_CMDID :: u16 where "WMI_SET_WORK_MODE_CMDID = 0x0815"
definition WMI_LO_LEAKAGE_CALIB_CMDID :: u16 where "WMI_LO_LEAKAGE_CALIB_CMDID = 0x0816"
definition WMI_MARLON_R_ACTIVATE_CMDID :: u16 where "WMI_MARLON_R_ACTIVATE_CMDID = 0x0817"
definition WMI_MARLON_R_READ_CMDID :: u16 where "WMI_MARLON_R_READ_CMDID = 0x0818"
definition WMI_MARLON_R_WRITE_CMDID :: u16 where "WMI_MARLON_R_WRITE_CMDID = 0x0819"
definition WMI_MARLON_R_TXRX_SEL_CMDID :: u16 where "WMI_MARLON_R_TXRX_SEL_CMDID = 0x081a"
definition MAC_IO_STATIC_PARAMS_CMDID :: u16 where "MAC_IO_STATIC_PARAMS_CMDID = 0x081b"
definition MAC_IO_DYNAMIC_PARAMS_CMDID :: u16 where "MAC_IO_DYNAMIC_PARAMS_CMDID = 0x081c"
definition WMI_SILENT_RSSI_CALIB_CMDID :: u16 where "WMI_SILENT_RSSI_CALIB_CMDID = 0x081d"
definition WMI_RF_RX_TEST_CMDID :: u16 where "WMI_RF_RX_TEST_CMDID = 0x081e"
definition WMI_CFG_RX_CHAIN_CMDID :: u16 where "WMI_CFG_RX_CHAIN_CMDID = 0x0820"
definition WMI_VRING_CFG_CMDID :: u16 where "WMI_VRING_CFG_CMDID = 0x0821"
definition WMI_VRING_BA_EN_CMDID :: u16 where "WMI_VRING_BA_EN_CMDID = 0x0823"
definition WMI_VRING_BA_DIS_CMDID :: u16 where "WMI_VRING_BA_DIS_CMDID = 0x0824"
definition WMI_RCP_ADDBA_RESP_CMDID :: u16 where "WMI_RCP_ADDBA_RESP_CMDID = 0x0825"
definition WMI_RCP_DELBA_CMDID :: u16 where "WMI_RCP_DELBA_CMDID = 0x0826"
definition WMI_SET_SSID_CMDID :: u16 where "WMI_SET_SSID_CMDID = 0x0827"
definition WMI_GET_SSID_CMDID :: u16 where "WMI_GET_SSID_CMDID = 0x0828"
definition WMI_SET_PCP_CHANNEL_CMDID :: u16 where "WMI_SET_PCP_CHANNEL_CMDID = 0x0829"
definition WMI_GET_PCP_CHANNEL_CMDID :: u16 where "WMI_GET_PCP_CHANNEL_CMDID = 0x082a"
definition WMI_SW_TX_REQ_CMDID :: u16 where "WMI_SW_TX_REQ_CMDID = 0x082b"
definition WMI_READ_MAC_RXQ_CMDID :: u16 where "WMI_READ_MAC_RXQ_CMDID = 0x0830"
definition WMI_READ_MAC_TXQ_CMDID :: u16 where "WMI_READ_MAC_TXQ_CMDID = 0x0831"
definition WMI_WRITE_MAC_RXQ_CMDID :: u16 where "WMI_WRITE_MAC_RXQ_CMDID = 0x0832"
definition WMI_WRITE_MAC_TXQ_CMDID :: u16 where "WMI_WRITE_MAC_TXQ_CMDID = 0x0833"
definition WMI_WRITE_MAC_XQ_FIELD_CMDID :: u16 where "WMI_WRITE_MAC_XQ_FIELD_CMDID = 0x0834"
definition WMI_MLME_PUSH_CMDID :: u16 where "WMI_MLME_PUSH_CMDID = 0x0835"
definition WMI_BEAMFORMING_MGMT_CMDID :: u16 where "WMI_BEAMFORMING_MGMT_CMDID = 0x0836"
definition WMI_BF_TXSS_MGMT_CMDID :: u16 where "WMI_BF_TXSS_MGMT_CMDID = 0x0837"
definition WMI_BF_SM_MGMT_CMDID :: u16 where "WMI_BF_SM_MGMT_CMDID = 0x0838"
definition WMI_BF_RXSS_MGMT_CMDID :: u16 where "WMI_BF_RXSS_MGMT_CMDID = 0x0839"
definition WMI_SET_SECTORS_CMDID :: u16 where "WMI_SET_SECTORS_CMDID = 0x0849"
definition WMI_MAINTAIN_PAUSE_CMDID :: u16 where "WMI_MAINTAIN_PAUSE_CMDID = 0x0850"
definition WMI_MAINTAIN_RESUME_CMDID :: u16 where "WMI_MAINTAIN_RESUME_CMDID = 0x0851"
definition WMI_RS_MGMT_CMDID :: u16 where "WMI_RS_MGMT_CMDID = 0x0852"
definition WMI_RF_MGMT_CMDID :: u16 where "WMI_RF_MGMT_CMDID = 0x0853"
definition WMI_BF_CTRL_CMDID :: u16 where "WMI_BF_CTRL_CMDID = 0x0862"
definition WMI_NOTIFY_REQ_CMDID :: u16 where "WMI_NOTIFY_REQ_CMDID = 0x0863"
definition WMI_GET_STATUS_CMDID :: u16 where "WMI_GET_STATUS_CMDID = 0x0864"
definition WMI_UNIT_TEST_CMDID :: u16 where "WMI_UNIT_TEST_CMDID = 0x0900"
definition WMI_HICCUP_CMDID :: u16 where "WMI_HICCUP_CMDID = 0x0901"
definition WMI_FLASH_READ_CMDID :: u16 where "WMI_FLASH_READ_CMDID = 0x0902"
definition WMI_FLASH_WRITE_CMDID :: u16 where "WMI_FLASH_WRITE_CMDID = 0x0903"
definition WMI_SECURITY_UNIT_TEST_CMDID :: u16 where "WMI_SECURITY_UNIT_TEST_CMDID = 0x0904"
definition WMI_P2P_CFG_CMDID :: u16 where "WMI_P2P_CFG_CMDID = 0x0910"
definition WMI_PORT_ALLOCATE_CMDID :: u16 where "WMI_PORT_ALLOCATE_CMDID = 0x0911"
definition WMI_PORT_DELETE_CMDID :: u16 where "WMI_PORT_DELETE_CMDID = 0x0912"
definition WMI_POWER_MGMT_CFG_CMDID :: u16 where "WMI_POWER_MGMT_CFG_CMDID = 0x0913"
definition WMI_START_LISTEN_CMDID :: u16 where "WMI_START_LISTEN_CMDID = 0x0914"
definition WMI_START_SEARCH_CMDID :: u16 where "WMI_START_SEARCH_CMDID = 0x0915"
definition WMI_DISCOVERY_START_CMDID :: u16 where "WMI_DISCOVERY_START_CMDID = 0x0916"
definition WMI_DISCOVERY_STOP_CMDID :: u16 where "WMI_DISCOVERY_STOP_CMDID = 0x0917"
definition WMI_PCP_START_CMDID :: u16 where "WMI_PCP_START_CMDID = 0x0918"
definition WMI_PCP_STOP_CMDID :: u16 where "WMI_PCP_STOP_CMDID = 0x0919"
definition WMI_GET_PCP_FACTOR_CMDID :: u16 where "WMI_GET_PCP_FACTOR_CMDID = 0x091b"
definition WMI_SET_MAC_ADDRESS_CMDID :: u16 where "WMI_SET_MAC_ADDRESS_CMDID = 0xf003"
definition WMI_ABORT_SCAN_CMDID :: u16 where "WMI_ABORT_SCAN_CMDID = 0xf007"
definition WMI_SET_PMK_CMDID :: u16 where "WMI_SET_PMK_CMDID = 0xf028"
definition WMI_SET_PROMISCUOUS_MODE_CMDID :: u16 where "WMI_SET_PROMISCUOUS_MODE_CMDID = 0xf041"
definition WMI_GET_PMK_CMDID :: u16 where "WMI_GET_PMK_CMDID = 0xf048"
definition WMI_SET_PASSPHRASE_CMDID :: u16 where "WMI_SET_PASSPHRASE_CMDID = 0xf049"
definition WMI_SEND_ASSOC_RES_CMDID :: u16 where "WMI_SEND_ASSOC_RES_CMDID = 0xf04a"
definition WMI_SET_ASSOC_REQ_RELAY_CMDID :: u16 where "WMI_SET_ASSOC_REQ_RELAY_CMDID = 0xf04b"
definition WMI_EAPOL_TX_CMDID :: u16 where "WMI_EAPOL_TX_CMDID = 0xf04c"
definition WMI_MAC_ADDR_REQ_CMDID :: u16 where "WMI_MAC_ADDR_REQ_CMDID = 0xf04d"
definition WMI_FW_VER_CMDID :: u16 where "WMI_FW_VER_CMDID = 0xf04e"

lemmas wmi_command_id_defs =
  WMI_CONNECT_CMDID_def WMI_DISCONNECT_CMDID_def WMI_DISCONNECT_STA_CMDID_def
  WMI_START_SCAN_CMDID_def WMI_SET_BSS_FILTER_CMDID_def WMI_SET_PROBED_SSID_CMDID_def
  WMI_SET_LISTEN_INT_CMDID_def WMI_BCON_CTRL_CMDID_def WMI_ADD_CIPHER_KEY_CMDID_def
  WMI_DELETE_CIPHER_KEY_CMDID_def WMI_SET_APPIE_CMDID_def WMI_SET_WSC_STATUS_CMDID_def
  WMI_PXMT_RANGE_CFG_CMDID_def WMI_PXMT_SNR2_RANGE_CFG_CMDID_def WMI_FAST_MEM_ACC_MODE_CMDID_def
  WMI_MEM_READ_CMDID_def WMI_MEM_WR_CMDID_def WMI_ECHO_CMDID_def WMI_DEEP_ECHO_CMDID_def
  WMI_CONFIG_MAC_CMDID_def WMI_CONFIG_PHY_DEBUG_CMDID_def WMI_ADD_DEBUG_TX_PCKT_CMDID_def
  WMI_PHY_GET_STATISTICS_CMDID_def WMI_FS_TUNE_CMDID_def WMI_CORR_MEASURE_CMDID_def
  WMI_READ_RSSI_CMDID_def WMI_TEMP_SENSE_CMDID_def WMI_DC_CALIB_CMDID_def
  WMI_SEND_TONE_CMDID_def WMI_IQ_TX_CALIB_CMDID_def WMI_IQ_RX_CALIB_CMDID_def
  WMI_SET_UCODE_IDLE_CMDID_def WMI_SET_WORK_MODE_CMDID_def WMI_LO_LEAKAGE_CALIB_CMDID_def
  WMI_MARLON_R_ACTIVATE_CMDID_def WMI_MARLON_R_READ_CMDID_def WMI_MARLON_R_WRITE_CMDID_def
  WMI_MARLON_R_TXRX_SEL_CMDID_def MAC_IO_STATIC_PARAMS_CMDID_def MAC_IO_DYNAMIC_PARAMS_CMDID_def
  WMI_SILENT_RSSI_CALIB_CMDID_def WMI_RF_RX_TEST_CMDID_def WMI_CFG_RX_CHAIN_CMDID_def
  WMI_VRING_CFG_CMDID_def WMI_VRING_BA_EN_CMDID_def WMI_VRING_BA_DIS_CMDID_def
  WMI_RCP_ADDBA_RESP_CMDID_def WMI_RCP_DELBA_CMDID_def WMI_SET_SSID_CMDID_def
  WMI_GET_SSID_CMDID_def WMI_SET_PCP_CHANNEL_CMDID_def WMI_GET_PCP_CHANNEL_CMDID_def
  WMI_SW_TX_REQ_CMDID_def WMI_READ_MAC_RXQ_CMDID_def WMI_READ_MAC_TXQ_CMDID_def
  WMI_WRITE_MAC_RXQ_CMDID_def WMI_WRITE_MAC_TXQ_CMDID_def WMI_WRITE_MAC_XQ_FIELD_CMDID_def
  WMI_MLME_PUSH_CMDID_def WMI_BEAMFORMING_MGMT_CMDID_def WMI_BF_TXSS_MGMT_CMDID_def
  WMI_BF_SM_MGMT_CMDID_def WMI_BF_RXSS_MGMT_CMDID_def WMI_SET_SECTORS_CMDID_def
  WMI_MAINTAIN_PAUSE_CMDID_def WMI_MAINTAIN_RESUME_CMDID_def WMI_RS_MGMT_CMDID_def
  WMI_RF_MGMT_CMDID_def WMI_BF_CTRL_CMDID_def WMI_NOTIFY_REQ_CMDID_def WMI_GET_STATUS_CMDID_def
  WMI_UNIT_TEST_CMDID_def WMI_HICCUP_CMDID_def WMI_FLASH_READ_CMDID_def
  WMI_FLASH_WRITE_CMDID_def WMI_SECURITY_UNIT_TEST_CMDID_def WMI_P2P_CFG_CMDID_def
  WMI_PORT_ALLOCATE_CMDID_def WMI_PORT_DELETE_CMDID_def WMI_POWER_MGMT_CFG_CMDID_def
  WMI_START_LISTEN_CMDID_def WMI_START_SEARCH_CMDID_def WMI_DISCOVERY_START_CMDID_def
  WMI_DISCOVERY_STOP_CMDID_def WMI_PCP_START_CMDID_def WMI_PCP_STOP_CMDID_def
  WMI_GET_PCP_FACTOR_CMDID_def WMI_SET_MAC_ADDRESS_CMDID_def WMI_ABORT_SCAN_CMDID_def
  WMI_SET_PMK_CMDID_def WMI_SET_PROMISCUOUS_MODE_CMDID_def WMI_GET_PMK_CMDID_def
  WMI_SET_PASSPHRASE_CMDID_def WMI_SEND_ASSOC_RES_CMDID_def WMI_SET_ASSOC_REQ_RELAY_CMDID_def
  WMI_EAPOL_TX_CMDID_def WMI_MAC_ADDR_REQ_CMDID_def WMI_FW_VER_CMDID_def

definition wmi_command_id :: "u16 list" where
  "wmi_command_id = [WMI_CONNECT_CMDID, WMI_DISCONNECT_CMDID, WMI_DISCONNECT_STA_CMDID,
     WMI_START_SCAN_CMDID, WMI_SET_BSS_FILTER_CMDID, WMI_SET_PROBED_SSID_CMDID,
     WMI_SET_LISTEN_INT_CMDID, WMI_BCON_CTRL_CMDID, WMI_ADD_CIPHER_KEY_CMDID,
     WMI_DELETE_CIPHER_KEY_CMDID, WMI_SET_APPIE_CMDID, WMI_SET_WSC_STATUS_CMDID,
     WMI_PXMT_RANGE_CFG_CMDID, WMI_PXMT_SNR2_RANGE_CFG_CMDID, WMI_FAST_MEM_ACC_MODE_CMDID,
     WMI_MEM_READ_CMDID, WMI_MEM_WR_CMDID, WMI_ECHO_CMDID, WMI_DEEP_ECHO_CMDID,
     WMI_CONFIG_MAC_CMDID, WMI_CONFIG_PHY_DEBUG_CMDID, WMI_ADD_DEBUG_TX_PCKT_CMDID,
     WMI_PHY_GET_STATISTICS_CMDID, WMI_FS_TUNE_CMDID, WMI_CORR_MEASURE_CMDID,
     WMI_READ_RSSI_CMDID, WMI_TEMP_SENSE_CMDID, WMI_DC_CALIB_CMDID, WMI_SEND_TONE_CMDID,
     WMI_IQ_TX_CALIB_CMDID, WMI_IQ_RX_CALIB_CMDID, WMI_SET_UCODE_IDLE_CMDID,
     WMI_SET_WORK_MODE_CMDID, WMI_LO_LEAKAGE_CALIB_CMDID, WMI_MARLON_R_ACTIVATE_CMDID,
     WMI_MARLON_R_READ_CMDID, WMI_MARLON_R_WRITE_CMDID, WMI_MARLON_R_TXRX_SEL_CMDID,
     MAC_IO_STATIC_PARAMS_CMDID, MAC_IO_DYNAMIC_PARAMS_CMDID, WMI_SILENT_RSSI_CALIB_CMDID,
     WMI_RF_RX_TEST_CMDID, WMI_CFG_RX_CHAIN_CMDID, WMI_VRING_CFG_CMDID, WMI_VRING_BA_EN_CMDID,
     WMI_VRING_BA_DIS_CMDID, WMI_RCP_ADDBA_RESP_CMDID, WMI_RCP_DELBA_CMDID, WMI_SET_SSID_CMDID,
     WMI_GET_SSID_CMDID, WMI_SET_PCP_CHANNEL_CMDID, WMI_GET_PCP_CHANNEL_CMDID,
     WMI_SW_TX_REQ_CMDID, WMI_READ_MAC_RXQ_CMDID, WMI_READ_MAC_TXQ_CMDID,
     WMI_WRITE_MAC_RXQ_CMDID, WMI_WRITE_MAC_TXQ_CMDID, WMI_WRITE_MAC_XQ_FIELD_CMDID,
     WMI_MLME_PUSH_CMDID, WMI_BEAMFORMING_MGMT_CMDID, WMI_BF_TXSS_MGMT_CMDID,
     WMI_BF_SM_MGMT_CMDID, WMI_BF_RXSS_MGMT_CMDID, WMI_SET_SECTORS_CMDID,
     WMI_MAINTAIN_PAUSE_CMDID, WMI_MAINTAIN_RESUME_CMDID, WMI_RS_MGMT_CMDID, WMI_RF_MGMT_CMDID,
     WMI_BF_CTRL_CMDID, WMI_NOTIFY_REQ_CMDID, WMI_GET_STATUS_CMDID, WMI_UNIT_TEST_CMDID,
     WMI_HICCUP_CMDID, WMI_FLASH_READ_CMDID, WMI_FLASH_WRITE_CMDID, WMI_SECURITY_UNIT_TEST_CMDID,
     WMI_P2P_CFG_CMDID, WMI_PORT_ALLOCATE_CMDID, WMI_PORT_DELETE_CMDID, WMI_POWER_MGMT_CFG_CMDID,
     WMI_START_LISTEN_CMDID, WMI_START_SEARCH_CMDID, WMI_DISCOVERY_START_CMDID,
     WMI_DISCOVERY_STOP_CMDID, WMI_PCP_START_CMDID, WMI_PCP_STOP_CMDID, WMI_GET_PCP_FACTOR_CMDID,
     WMI_SET_MAC_ADDRESS_CMDID, WMI_ABORT_SCAN_CMDID, WMI_SET_PMK_CMDID,
     WMI_SET_PROMISCUOUS_MODE_CMDID, WMI_GET_PMK_CMDID, WMI_SET_PASSPHRASE_CMDID,
     WMI_SEND_ASSOC_RES_CMDID, WMI_SET_ASSOC_REQ_RELAY_CMDID, WMI_EAPOL_TX_CMDID,
     WMI_MAC_ADDR_REQ_CMDID, WMI_FW_VER_CMDID]"

lemma wmi_command_id_distinct: "distinct wmi_command_id"
  by (simp add: wmi_command_id_def wmi_command_id_defs)

subsection \<open>Events, from the firmware to the host\<close>

definition WMI_READY_EVENTID :: u16 where "WMI_READY_EVENTID = 0x1001"
definition WMI_CONNECT_EVENTID :: u16 where "WMI_CONNECT_EVENTID = 0x1002"
definition WMI_DISCONNECT_EVENTID :: u16 where "WMI_DISCONNECT_EVENTID = 0x1003"
definition WMI_SCAN_COMPLETE_EVENTID :: u16 where "WMI_SCAN_COMPLETE_EVENTID = 0x100a"
definition WMI_REPORT_STATISTICS_EVENTID :: u16 where "WMI_REPORT_STATISTICS_EVENTID = 0x100b"
definition WMI_RD_MEM_RSP_EVENTID :: u16 where "WMI_RD_MEM_RSP_EVENTID = 0x1800"
definition WMI_FW_READY_EVENTID :: u16 where "WMI_FW_READY_EVENTID = 0x1801"
definition WMI_EXIT_FAST_MEM_ACC_MODE_EVENTID :: u16 where "WMI_EXIT_FAST_MEM_ACC_MODE_EVENTID = 0x0200"
definition WMI_ECHO_RSP_EVENTID :: u16 where "WMI_ECHO_RSP_EVENTID = 0x1803"
definition WMI_FS_TUNE_DONE_EVENTID :: u16 where "WMI_FS_TUNE_DONE_EVENTID = 0x180a"
definition WMI_CORR_MEASURE_EVENTID :: u16 where "WMI_CORR_MEASURE_EVENTID = 0x180b"
definition WMI_READ_RSSI_EVENTID :: u16 where "WMI_READ_RSSI_EVENTID = 0x180c"
definition WMI_TEMP_SENSE_DONE_EVENTID :: u16 where "WMI_TEMP_SENSE_DONE_EVENTID = 0x180e"
definition WMI_DC_CALIB_DONE_EVENTID :: u16 where "WMI_DC_CALIB_DONE_EVENTID = 0x180f"
definition WMI_IQ_TX_CALIB_DONE_EVENTID :: u16 where "WMI_IQ_TX_CALIB_DONE_EVENTID = 0x1811"
definition WMI_IQ_RX_CALIB_DONE_EVENTID :: u16 where "WMI_IQ_RX_CALIB_DONE_EVENTID = 0x1812"
definition WMI_SET_WORK_MODE_DONE_EVENTID :: u16 where "WMI_SET_WORK_MODE_DONE_EVENTID = 0x1815"
definition WMI_LO_LEAKAGE_CALIB_DONE_EVENTID :: u16 where "WMI_LO_LEAKAGE_CALIB_DONE_EVENTID = 0x1816"
definition WMI_MARLON_R_ACTIVATE_DONE_EVENTID :: u16 where "WMI_MARLON_R_ACTIVATE_DONE_EVENTID = 0x1817"
definition WMI_MARLON_R_READ_DONE_EVENTID :: u16 where "WMI_MARLON_R_READ_DONE_EVENTID = 0x1818"
definition WMI_MARLON_R_WRITE_DONE_EVENTID :: u16 where "WMI_MARLON_R_WRITE_DONE_EVENTID = 0x1819"
definition WMI_MARLON_R_TXRX_SEL_DONE_EVENTID :: u16 where "WMI_MARLON_R_TXRX_SEL_DONE_EVENTID = 0x181a"
definition WMI_SILENT_RSSI_CALIB_DONE_EVENTID :: u16 where "WMI_SILENT_RSSI_CALIB_DONE_EVENTID = 0x181d"
definition WMI_RF_RX_TEST_DONE_EVENTID :: u16 where "WMI_RF_RX_TEST_DONE_EVENTID = 0x181e"
definition WMI_CFG_RX_CHAIN_DONE_EVENTID :: u16 where "WMI_CFG_RX_CHAIN_DONE_EVENTID = 0x1820"
definition WMI_VRING_CFG_DONE_EVENTID :: u16 where "WMI_VRING_CFG_DONE_EVENTID = 0x1821"
definition WMI_BA_STATUS_EVENTID :: u16 where "WMI_BA_STATUS_EVENTID = 0x1823"
definition WMI_RCP_ADDBA_REQ_EVENTID :: u16 where "WMI_RCP_ADDBA_REQ_EVENTID = 0x1824"
definition WMI_ADDBA_RESP_SENT_EVENTID :: u16 where "WMI_ADDBA_RESP_SENT_EVENTID = 0x1825"
definition WMI_DELBA_EVENTID :: u16 where "WMI_DELBA_EVENTID = 0x1826"
definition WMI_GET_SSID_EVENTID :: u16 where "WMI_GET_SSID_EVENTID = 0x1828"
definition WMI_GET_PCP_CHANNEL_EVENTID :: u16 where "WMI_GET_PCP_CHANNEL_EVENTID = 0x182a"
definition WMI_SW_TX_COMPLETE_EVENTID :: u16 where "WMI_SW_TX_COMPLETE_EVENTID = 0x182b"
definition WMI_READ_MAC_RXQ_EVENTID :: u16 where "WMI_READ_MAC_RXQ_EVENTID = 0x1830"
definition WMI_READ_MAC_TXQ_EVENTID :: u16 where "WMI_READ_MAC_TXQ_EVENTID = 0x1831"
definition WMI_WRITE_MAC_RXQ_EVENTID :: u16 where "WMI_WRITE_MAC_RXQ_EVENTID = 0x1832"
definition WMI_WRITE_MAC_TXQ_EVENTID :: u16 where "WMI_WRITE_MAC_TXQ_EVENTID = 0x1833"
definition WMI_WRITE_MAC_XQ_FIELD_EVENTID :: u16 where "WMI_WRITE_MAC_XQ_FIELD_EVENTID = 0x1834"
definition WMI_BEAFORMING_MGMT_DONE_EVENTID :: u16 where "WMI_BEAFORMING_MGMT_DONE_EVENTID = 0x1836"
definition WMI_BF_TXSS_MGMT_DONE_EVENTID :: u16 where "WMI_BF_TXSS_MGMT_DONE_EVENTID = 0x1837"
definition WMI_BF_RXSS_MGMT_DONE_EVENTID :: u16 where "WMI_BF_RXSS_MGMT_DONE_EVENTID = 0x1839"
definition WMI_RS_MGMT_DONE_EVENTID :: u16 where "WMI_RS_MGMT_DONE_EVENTID = 0x1852"
definition WMI_RF_MGMT_STATUS_EVENTID :: u16 where "WMI_RF_MGMT_STATUS_EVENTID = 0x1853"
definition WMI_BF_SM_MGMT_DONE_EVENTID :: u16 where "WMI_BF_SM_MGMT_DONE_EVENTID = 0x1838"
definition WMI_RX_MGMT_PACKET_EVENTID :: u16 where "WMI_RX_MGMT_PACKET_EVENTID = 0x1840"
definition WMI_TX_MGMT_PACKET_EVENTID :: u16 where "WMI_TX_MGMT_PACKET_EVENTID = 0x1841"
definition WMI_DATA_PORT_OPEN_EVENTID :: u16 where "WMI_DATA_PORT_OPEN_EVENTID = 0x1860"
definition WMI_WBE_LINKDOWN_EVENTID :: u16 where "WMI_WBE_LINKDOWN_EVENTID = 0x1861"
definition WMI_BF_CTRL_DONE_EVENTID :: u16 where "WMI_BF_CTRL_DONE_EVENTID = 0x1862"
definition WMI_NOTIFY_REQ_DONE_EVENTID :: u16 where "WMI_NOTIFY_REQ_DONE_EVENTID = 0x1863"
definition WMI_GET_STATUS_DONE_EVENTID :: u16 where "WMI_GET_STATUS_DONE_EVENTID = 0x1864"
definition WMI_UNIT_TEST_EVENTID :: u16 where "WMI_UNIT_TEST_EVENTID = 0x1900"
definition WMI_FLASH_READ_DONE_EVENTID :: u16 where "WMI_FLASH_READ_DONE_EVENTID = 0x1902"
definition WMI_FLASH_WRITE_DONE_EVENTID :: u16 where "WMI_FLASH_WRITE_DONE_EVENTID = 0x1903"
definition WMI_PORT_ALLOCATED_EVENTID :: u16 where "WMI_PORT_ALLOCATED_EVENTID = 0x1911"
definition WMI_PORT_DELETED_EVENTID :: u16 where "WMI_PORT_DELETED_EVENTID = 0x1912"
definition WMI_LISTEN_STARTED_EVENTID :: u16 where "WMI_LISTEN_STARTED_EVENTID = 0x1914"
definition WMI_SEARCH_STARTED_EVENTID :: u16 where "WMI_SEARCH_STARTED_EVENTID = 0x1915"
definition WMI_DISCOVERY_STARTED_EVENTID :: u16 where "WMI_DISCOVERY_STARTED_EVENTID = 0x1916"
definition WMI_DISCOVERY_STOPPED_EVENTID :: u16 where "WMI_DISCOVERY_STOPPED_EVENTID = 0x1917"
definition WMI_PCP_STARTED_EVENTID :: u16 where "WMI_PCP_STARTED_EVENTID = 0x1918"
definition WMI_PCP_STOPPED_EVENTID :: u16 where "WMI_PCP_STOPPED_EVENTID = 0x1919"
definition WMI_PCP_FACTOR_EVENTID :: u16 where "WMI_PCP_FACTOR_EVENTID = 0x191a"
definition WMI_SET_CHANNEL_EVENTID :: u16 where "WMI_SET_CHANNEL_EVENTID = 0x9000"
definition WMI_ASSOC_REQ_EVENTID :: u16 where "WMI_ASSOC_REQ_EVENTID = 0x9001"
definition WMI_EAPOL_RX_EVENTID :: u16 where "WMI_EAPOL_RX_EVENTID = 0x9002"
definition WMI_MAC_ADDR_RESP_EVENTID :: u16 where "WMI_MAC_ADDR_RESP_EVENTID = 0x9003"
definition WMI_FW_VER_EVENTID :: u16 where "WMI_FW_VER_EVENTID = 0x9004"

lemmas wmi_event_id_defs =
  WMI_READY_EVENTID_def WMI_CONNECT_EVENTID_def WMI_DISCONNECT_EVENTID_def
  WMI_SCAN_COMPLETE_EVENTID_def WMI_REPORT_STATISTICS_EVENTID_def WMI_RD_MEM_RSP_EVENTID_def
  WMI_FW_READY_EVENTID_def WMI_EXIT_FAST_MEM_ACC_MODE_EVENTID_def WMI_ECHO_RSP_EVENTID_def
  WMI_FS_TUNE_DONE_EVENTID_def WMI_CORR_MEASURE_EVENTID_def WMI_READ_RSSI_EVENTID_def
  WMI_TEMP_SENSE_DONE_EVENTID_def WMI_DC_CALIB_DONE_EVENTID_def WMI_IQ_TX_CALIB_DONE_EVENTID_def
  WMI_IQ_RX_CALIB_DONE_EVENTID_def WMI_SET_WORK_MODE_DONE_EVENTID_def
  WMI_LO_LEAKAGE_CALIB_DONE_EVENTID_def WMI_MARLON_R_ACTIVATE_DONE_EVENTID_def
  WMI_MARLON_R_READ_DONE_EVENTID_def WMI_MARLON_R_WRITE_DONE_EVENTID_def
  WMI_MARLON_R_TXRX_SEL_DONE_EVENTID_def WMI_SILENT_RSSI_CALIB_DONE_EVENTID_def
  WMI_RF_RX_TEST_DONE_EVENTID_def WMI_CFG_RX_CHAIN_DONE_EVENTID_def
  WMI_VRING_CFG_DONE_EVENTID_def WMI_BA_STATUS_EVENTID_def WMI_RCP_ADDBA_REQ_EVENTID_def
  WMI_ADDBA_RESP_SENT_EVENTID_def WMI_DELBA_EVENTID_def WMI_GET_SSID_EVENTID_def
  WMI_GET_PCP_CHANNEL_EVENTID_def WMI_SW_TX_COMPLETE_EVENTID_def WMI_READ_MAC_RXQ_EVENTID_def
  WMI_READ_MAC_TXQ_EVENTID_def WMI_WRITE_MAC_RXQ_EVENTID_def WMI_WRITE_MAC_TXQ_EVENTID_def
  WMI_WRITE_MAC_XQ_FIELD_EVENTID_def WMI_BEAFORMING_MGMT_DONE_EVENTID_def
  WMI_BF_TXSS_MGMT_DONE_EVENTID_def WMI_BF_RXSS_MGMT_DONE_EVENTID_def
  WMI_RS_MGMT_DONE_EVENTID_def WMI_RF_MGMT_STATUS_EVENTID_def WMI_BF_SM_MGMT_DONE_EVENTID_def
  WMI_RX_MGMT_PACKET_EVENTID_def WMI_TX_MGMT_PACKET_EVENTID_def WMI_DATA_PORT_OPEN_EVENTID_def
  WMI_WBE_LINKDOWN_EVENTID_def WMI_BF_CTRL_DONE_EVENTID_def WMI_NOTIFY_REQ_DONE_EVENTID_def
  WMI_GET_STATUS_DONE_EVENTID_def WMI_UNIT_TEST_EVENTID_def WMI_FLASH_READ_DONE_EVENTID_def
  WMI_FLASH_WRITE_DONE_EVENTID_def WMI_PORT_ALLOCATED_EVENTID_def WMI_PORT_DELETED_EVENTID_def
  WMI_LISTEN_STARTED_EVENTID_def WMI_SEARCH_STARTED_EVENTID_def
  WMI_DISCOVERY_STARTED_EVENTID_def WMI_DISCOVERY_STOPPED_EVENTID_def
  WMI_PCP_STARTED_EVENTID_def WMI_PCP_STOPPED_EVENTID_def WMI_PCP_FACTOR_EVENTID_def
  WMI_SET_CHANNEL_EVENTID_def WMI_ASSOC_REQ_EVENTID_def WMI_EAPOL_RX_EVENTID_def
  WMI_MAC_ADDR_RESP_EVENTID_def WMI_FW_VER_EVENTID_def

definition wmi_event_id :: "u16 list" where
  "wmi_event_id = [WMI_READY_EVENTID, WMI_CONNECT_EVENTID, WMI_DISCONNECT_EVENTID,
     WMI_SCAN_COMPLETE_EVENTID, WMI_REPORT_STATISTICS_EVENTID, WMI_RD_MEM_RSP_EVENTID,
     WMI_FW_READY_EVENTID, WMI_EXIT_FAST_MEM_ACC_MODE_EVENTID, WMI_ECHO_RSP_EVENTID,
     WMI_FS_TUNE_DONE_EVENTID, WMI_CORR_MEASURE_EVENTID, WMI_READ_RSSI_EVENTID,
     WMI_TEMP_SENSE_DONE_EVENTID, WMI_DC_CALIB_DONE_EVENTID, WMI_IQ_TX_CALIB_DONE_EVENTID,
     WMI_IQ_RX_CALIB_DONE_EVENTID, WMI_SET_WORK_MODE_DONE_EVENTID,
     WMI_LO_LEAKAGE_CALIB_DONE_EVENTID, WMI_MARLON_R_ACTIVATE_DONE_EVENTID,
     WMI_MARLON_R_READ_DONE_EVENTID, WMI_MARLON_R_WRITE_DONE_EVENTID,
     WMI_MARLON_R_TXRX_SEL_DONE_EVENTID, WMI_SILENT_RSSI_CALIB_DONE_EVENTID,
     WMI_RF_RX_TEST_DONE_EVENTID, WMI_CFG_RX_CHAIN_DONE_EVENTID, WMI_VRING_CFG_DONE_EVENTID,
     WMI_BA_STATUS_EVENTID, WMI_RCP_ADDBA_REQ_EVENTID, WMI_ADDBA_RESP_SENT_EVENTID,
     WMI_DELBA_EVENTID, WMI_GET_SSID_EVENTID, WMI_GET_PCP_CHANNEL_EVENTID,
     WMI_SW_TX_COMPLETE_EVENTID, WMI_READ_MAC_RXQ_EVENTID, WMI_READ_MAC_TXQ_EVENTID,
     WMI_WRITE_MAC_RXQ_EVENTID, WMI_WRITE_MAC_TXQ_EVENTID, WMI_WRITE_MAC_XQ_FIELD_EVENTID,
     WMI_BEAFORMING_MGMT_DONE_EVENTID, WMI_BF_TXSS_MGMT_DONE_EVENTID,
     WMI_BF_RXSS_MGMT_DONE_EVENTID, WMI_RS_MGMT_DONE_EVENTID, WMI_RF_MGMT_STATUS_EVENTID,
     WMI_BF_SM_MGMT_DONE_EVENTID, WMI_RX_MGMT_PACKET_EVENTID, WMI_TX_MGMT_PACKET_EVENTID,
     WMI_DATA_PORT_OPEN_EVENTID, WMI_WBE_LINKDOWN_EVENTID, WMI_BF_CTRL_DONE_EVENTID,
     WMI_NOTIFY_REQ_DONE_EVENTID, WMI_GET_STATUS_DONE_EVENTID, WMI_UNIT_TEST_EVENTID,
     WMI_FLASH_READ_DONE_EVENTID, WMI_FLASH_WRITE_DONE_EVENTID, WMI_PORT_ALLOCATED_EVENTID,
     WMI_PORT_DELETED_EVENTID, WMI_LISTEN_STARTED_EVENTID, WMI_SEARCH_STARTED_EVENTID,
     WMI_DISCOVERY_STARTED_EVENTID, WMI_DISCOVERY_STOPPED_EVENTID, WMI_PCP_STARTED_EVENTID,
     WMI_PCP_STOPPED_EVENTID, WMI_PCP_FACTOR_EVENTID, WMI_SET_CHANNEL_EVENTID,
     WMI_ASSOC_REQ_EVENTID, WMI_EAPOL_RX_EVENTID, WMI_MAC_ADDR_RESP_EVENTID,
     WMI_FW_VER_EVENTID]"

lemma wmi_event_id_distinct: "distinct wmi_event_id"
  by (simp add: wmi_event_id_def wmi_event_id_defs)

lemmas wmi_id_defs = wmi_command_id_defs wmi_event_id_defs

end
