(* ===== verification/Wil_Mbox.thy ===== *)
theory Wil_Mbox
  imports Wil_Io Wil_Wmi_Ids
begin

text \<open>
  The mailbox between driver and firmware (\<^verbatim>\<open>wmi.c\<close>): translation of firmware addresses,
  sending a command (\<open>__wmi_send\<close>), calling and waiting for the answer (\<open>wmi_call\<close>), taking events
  out of the mailbox (\<open>wmi_recv_cmd\<close>) and the queue of pending events.
\<close>

subsection \<open>Firmware addresses\<close>

text \<open>The rows of \<open>fw_mapping\<close>: from (inclusive), to (exclusive), host address.\<close>

definition fw_mapping :: "(u32 \<times> u32 \<times> u32) list" where
  "fw_mapping = [
     (0x000000, 0x040000, 0x8c0000),
     (0x800000, 0x808000, 0x900000),
     (0x840000, 0x860000, 0x908000),
     (0x880000, 0x88a000, 0x880000),
     (0x8c0000, 0x949000, 0x8c0000)]"

primrec addr_remap :: "(u32 \<times> u32 \<times> u32) list \<Rightarrow> u32 \<Rightarrow> u32" where
  "addr_remap [] x = 0"
| "addr_remap (m # ms) x =
     (case m of (f, t, h) \<Rightarrow> if f \<le> x \<and> x < t then x + h - f else addr_remap ms x)"

definition wmi_addr_remap :: "u32 \<Rightarrow> u32" where
  "wmi_addr_remap = addr_remap fw_mapping"

text \<open>Both return the offset from the start of the BAR, nothing for a NULL pointer.\<close>

definition wmi_addr :: "u32 \<Rightarrow> u32 option" where
  "wmi_addr p =
     (if p mod 4 \<noteq> 0 then None
      else if p < WIL6210_FW_HOST_OFF then None
      else if HOSTADDR p > WIL6210_MEM_SIZE - 4 then None
      else Some (HOSTADDR p))"

definition wmi_buffer :: "u32 \<Rightarrow> u32 option" where
  "wmi_buffer p =
     (if p mod 4 \<noteq> 0 then None
      else
        let p = wmi_addr_remap p
        in if p < WIL6210_FW_HOST_OFF then None
           else if HOSTADDR p > WIL6210_MEM_SIZE - 4 then None
           else Some (HOSTADDR p))"

subsection \<open>Headers\<close>

definition WIL_MBOX_HDR_TYPE_WMI :: u16 where "WIL_MBOX_HDR_TYPE_WMI = 0"

text \<open>\<open>struct wil6210_mbox_hdr\<close> and \<open>struct wil6210_mbox_hdr_wmi\<close>, eight bytes each.\<close>

definition mbox_hdr_bytes :: "wil6210_mbox_hdr \<Rightarrow> u8 list" where
  "mbox_hdr_bytes h = le16 (hdr_seq h) @ le16 (hdr_len h) @ le16 (hdr_type h) @ [hdr_flags h, 0]"

definition mbox_hdr_parse :: "u8 list \<Rightarrow> wil6210_mbox_hdr" where
  "mbox_hdr_parse bs = \<lparr>hdr_seq = le_word (take 2 bs), hdr_len = le_word (take 2 (drop 2 bs)),
     hdr_type = le_word (take 2 (drop 4 bs)), hdr_flags = bs ! 6\<rparr>"

definition wil6210_mbox_hdr_wmi :: "u16 \<Rightarrow> u8 list" where
  "wil6210_mbox_hdr_wmi cmdid = le16 0 @ le16 cmdid @ le16 0 @ le16 0"

lemma mbox_hdr_parse_bytes: "mbox_hdr_parse (mbox_hdr_bytes h @ bs) = h"
proof -
  have 2: "take 2 (le16 x @ ys) = le16 x" "drop 2 (le16 x @ ys) = ys"
    "drop 4 (le16 x @ le16 y @ ys) = ys" "(le16 x @ le16 y @ le16 z @ b # ys) ! 6 = b"
    for x y z b and ys :: "u8 list"
    by (simp_all add: nth_append)
  have "drop 4 (mbox_hdr_bytes h @ bs) = le16 (hdr_type h) @ hdr_flags h # 0 # bs"
    "drop 2 (mbox_hdr_bytes h @ bs) = le16 (hdr_len h) @ le16 (hdr_type h) @ hdr_flags h # 0 # bs"
    "take 2 (mbox_hdr_bytes h @ bs) = le16 (hdr_seq h)"
    "(mbox_hdr_bytes h @ bs) ! 6 = hdr_flags h"
    by (simp_all add: mbox_hdr_bytes_def nth_append)
  then show ?thesis
    unfolding mbox_hdr_parse_def by (simp add: 2 le16_roundtrip)
qed

text \<open>\<open>struct wil6210_mbox_ring_desc\<close> as read from the device: the words \<open>sync\<close> and \<open>addr\<close>.\<close>

definition read_mbox_desc :: "wmi_env \<Rightarrow> u32 \<Rightarrow> wil6210_priv \<Rightarrow> (u32 \<times> u32) \<times> wil6210_priv" where
  "read_mbox_desc env off w =
     (let (bs, w) = wil_memcpy_fromio_32 env off 8 w
      in ((le_word (take 4 bs), le_word (take 4 (drop 4 bs))), w))"

text \<open>Offsets in \<open>struct wil6210_mbox_ctl\<close> of the registers used at run time.\<close>

definition tx_tail_off :: u32 where "tx_tail_off = 8"
definition tx_head_off :: u32 where "tx_head_off = 12"
definition rx_tail_off :: u32 where "rx_tail_off = 24"
definition rx_head_off :: u32 where "rx_head_off = 28"

text \<open>
  The next slot of a mailbox ring. The sum is taken in 64 bits (\<open>sizeof\<close> is unsigned long); a ring
  of size 0 is a division by zero (\<open>None\<close>).
\<close>

definition mbox_next :: "wil6210_mbox_ring \<Rightarrow> u32 \<Rightarrow> u32 option" where
  "mbox_next r p =
     (if mb_size r = 0 then None
      else Some (mb_base r + of_nat ((unat (p - mb_base r) + 8) mod unat (mb_size r))))"

subsection \<open>Sending\<close>

text \<open>Up to five reads of the head descriptor, until the firmware has cleared \<open>sync\<close>.\<close>

primrec poll_head :: "wmi_env \<Rightarrow> u32 \<Rightarrow> nat \<Rightarrow> u32 \<times> u32 \<Rightarrow> wil6210_priv \<Rightarrow> (u32 \<times> u32) \<times> wil6210_priv" where
  "poll_head env off 0 d w = (d, w)"
| "poll_head env off (Suc n) d w =
     (let (d, w) = read_mbox_desc env off w
      in if fst d = 0 then (d, w) else poll_head env off n d w)"

text \<open>Up to five reads of the tail register, until the next slot is free.\<close>

primrec poll_tail :: "wmi_env \<Rightarrow> u32 \<Rightarrow> nat \<Rightarrow> wil6210_priv \<Rightarrow> wil6210_priv" where
  "poll_tail env next_head 0 w = w"
| "poll_tail env next_head (Suc n) w =
     (let (t, w) = ioread32 env (HOST_MBOX + tx_tail_off) w;
          w = w\<lparr>mbox_tx := (mbox_tx w)\<lparr>mb_tail := t\<rparr>\<rparr>
      in if next_head \<noteq> t then w else poll_tail env next_head n w)"

definition do_wmi_send ::
  "wmi_env \<Rightarrow> u16 \<Rightarrow> u8 list \<Rightarrow> u16 \<Rightarrow> wil6210_priv \<Rightarrow> (errno option \<times> wil6210_priv) option" where
  "do_wmi_send env cmdid buf len w =
     (let r = mbox_tx w
      in if 16 + unat len > unat (mb_entry_size r) then Some (Some ERANGE, w)
         else if \<not> test_bit wil_status_fwready (wstatus w) then Some (Some EAGAIN, w)
         else (case wmi_addr (mb_head r) of
             None \<Rightarrow> Some (Some EINVAL, w)
           | Some head \<Rightarrow>
               let (d, w) = poll_head env head 5 (0, 0) w
               in if fst d \<noteq> 0 then Some (Some EBUSY, w)
                  else do {
                    next_head \<leftarrow> mbox_next r (mb_head r);
                    let w = poll_tail env next_head 5 w;
                    (if next_head = mb_tail (mbox_tx w) then Some (Some EBUSY, w)
                     else (case wmi_buffer (snd d) of
                         None \<Rightarrow> Some (Some EINVAL, w)
                       | Some dst \<Rightarrow>
                           let w = w\<lparr>wmi_seq := wmi_seq w + 1\<rparr>;
                               hdr = \<lparr>hdr_seq = wmi_seq w, hdr_len = 8 + len,
                                 hdr_type = WIL_MBOX_HDR_TYPE_WMI, hdr_flags = 0\<rparr>;
                               w = wil_memcpy_toio_32 env dst
                                 (mbox_hdr_bytes hdr @ wil6210_mbox_hdr_wmi cmdid) 16 w;
                               w = wil_memcpy_toio_32 env (dst + 16) buf (unat len) w;
                               w = iowrite32 1 (HOSTADDR (mb_head r)) w;
                               w = w\<lparr>mbox_tx := (mbox_tx w)\<lparr>mb_head := next_head\<rparr>\<rparr>;
                               w = iowrite32 next_head (HOST_MBOX + tx_head_off) w
                           in Some (None, iowrite32 SW_INT_MBOX HOST_SW_INT w)))
                  }))"

definition wmi_send ::
  "wmi_env \<Rightarrow> u16 \<Rightarrow> u8 list \<Rightarrow> wil6210_priv \<Rightarrow> (errno option \<times> wil6210_priv) option" where
  "wmi_send env cmdid buf w = do_wmi_send env cmdid buf (of_nat (length buf)) w"

subsection \<open>Calling\<close>

text \<open>
  \<open>wmi_call\<close> sends a command, registers for the answer and waits. Other contexts run meanwhile:
  \<open>cc_race\<close> is what they do between the sending and the registering, \<open>cc_wait\<close> what they do until
  the completion or the timeout. The result is the error, the contents of the caller's reply
  buffer and the state. \<open>wmi_ready\<close> is the counter of the completion.
\<close>

record call_env =
  cc_wmi :: wmi_env
  cc_race :: "wil6210_priv \<Rightarrow> wil6210_priv option"
  cc_wait :: "wil6210_priv \<Rightarrow> wil6210_priv option"

definition wait_for_wmi_ready :: "wil6210_priv \<Rightarrow> errno option \<times> wil6210_priv" where
  "wait_for_wmi_ready w =
     (if wmi_ready w = 0 then (Some ETIME, w) else (None, w\<lparr>wmi_ready := wmi_ready w - 1\<rparr>))"

text \<open>
  The size of the reply is passed in a \<open>u8\<close> and stored in a \<open>u16\<close>: a buffer of 256 bytes or more is
  announced as its size modulo 256.
\<close>

definition reply_len :: "u8 list option \<Rightarrow> u16" where
  "reply_len reply = (case reply of None \<Rightarrow> 0 | Some bs \<Rightarrow> ucast (of_nat (length bs) :: u8))"

lemma reply_len_unat [simp]: "reply_len None = 0" "unat (reply_len (Some bs)) = length bs mod 256"
  by (simp_all add: reply_len_def unat_of_nat unsigned_ucast_eq take_bit_eq_mod mod_mod_cancel)

definition wmi_call ::
  "call_env \<Rightarrow> u16 \<Rightarrow> u8 list \<Rightarrow> u16 \<Rightarrow> u8 list option \<Rightarrow> wil6210_priv
     \<Rightarrow> (errno option \<times> u8 list option \<times> wil6210_priv) option" where
  "wmi_call env cmdid buf rid reply w = do {
     (rc, w) \<leftarrow> wmi_send (cc_wmi env) cmdid buf w;
     (if rc \<noteq> None then Some (rc, reply, w)
      else do {
        w \<leftarrow> cc_race env w;
        let w = w\<lparr>reply_id := rid, reply_buf := reply,
          reply_size := reply_len reply\<rparr>;
        w \<leftarrow> cc_wait env w;
        let (rc, w) = wait_for_wmi_ready w;
        Some (rc, reply_buf w, w\<lparr>reply_id := 0, reply_buf := None, reply_size := 0\<rparr>)
      })
   }"

subsection \<open>Receiving\<close>

definition wmi_read_hdr :: "wmi_env \<Rightarrow> u32 \<Rightarrow> wil6210_priv \<Rightarrow> wil6210_mbox_hdr option \<times> wil6210_priv" where
  "wmi_read_hdr env p w =
     (case wmi_buffer p of
        None \<Rightarrow> (None, w)
      | Some src \<Rightarrow> let (bs, w) = wil_memcpy_fromio_32 env src 8 w in (Some (mbox_hdr_parse bs), w))"

text \<open>
  One round of the loop of \<open>wmi_recv_cmd\<close>; the flag tells whether it goes on.
\<close>

definition recv_one :: "wmi_env \<Rightarrow> wil6210_priv \<Rightarrow> (bool \<times> wil6210_priv) option" where
  "recv_one env w =
     (let (h, w) = ioread32 env (HOST_MBOX + rx_head_off) w;
          w = w\<lparr>mbox_rx := (mbox_rx w)\<lparr>mb_head := h\<rparr>\<rparr>;
          r = mbox_rx w
      in if mb_tail r = h then Some (False, w)
         else
           let (d, w) = read_mbox_desc env (HOSTADDR (mb_tail r)) w
           in if fst d = 0 then Some (False, w)
              else
                let (hdr, w) = wmi_read_hdr env (snd d) w
                in (case hdr of
                      None \<Rightarrow> Some (False, w)
                    | Some hdr \<Rightarrow>
                        let src = the (wmi_buffer (snd d)) + 8;
                            (ok, w) = kmalloc env w
                        in if \<not> ok then Some (False, w)
                           else
                             let (bs, w) = wil_memcpy_fromio_32 env src (unat (hdr_len hdr)) w;
                                 w = iowrite32 0 (HOSTADDR (mb_tail r)) w
                             in do {
                               tail \<leftarrow> mbox_next r (mb_tail r);
                               let w = w\<lparr>mbox_rx := (mbox_rx w)\<lparr>mb_tail := tail\<rparr>\<rparr>;
                               let w = iowrite32 tail (HOST_MBOX + rx_tail_off) w;
                               let w = w\<lparr>pending_wmi_ev := pending_wmi_ev w @ [\<lparr>ev_hdr = hdr, ev_data = bs\<rparr>]\<rparr>;
                               Some (True, klog_add (QueueWork wmi_event_work) w)
                             }))"

partial_function (option) recv_loop :: "wmi_env \<Rightarrow> wil6210_priv \<Rightarrow> wil6210_priv option" where
  "recv_loop env w = do {
     (more, w) \<leftarrow> recv_one env w;
     (if more then recv_loop env w else Some w)
   }"

declare recv_loop.simps [code]

definition wmi_recv_cmd :: "wmi_env \<Rightarrow> wil6210_priv \<Rightarrow> wil6210_priv option" where
  "wmi_recv_cmd env w =
     (if \<not> test_bit wil_status_reset_done (wstatus w) then Some w else recv_loop env w)"

text \<open>\<open>wil_cache_mbox_regs\<close> (\<^verbatim>\<open>interrupt.c\<close>): the shadow copy of the mailbox registers.\<close>

definition mbox_ring_parse :: "u8 list \<Rightarrow> wil6210_mbox_ring" where
  "mbox_ring_parse bs = \<lparr>mb_base = le_word (take 4 bs), mb_entry_size = le_word (take 2 (drop 4 bs)),
     mb_size = le_word (take 2 (drop 6 bs)), mb_tail = le_word (take 4 (drop 8 bs)),
     mb_head = le_word (take 4 (drop 12 bs))\<rparr>"

definition wil_cache_mbox_regs :: "wmi_env \<Rightarrow> wil6210_priv \<Rightarrow> wil6210_priv" where
  "wil_cache_mbox_regs env w =
     (let (bs, w) = wil_memcpy_fromio_32 env HOST_MBOX 32 w
      in w\<lparr>mbox_tx := mbox_ring_parse bs, mbox_rx := mbox_ring_parse (drop 16 bs)\<rparr>)"

subsection \<open>Pending events\<close>

definition next_wmi_ev :: "wil6210_priv \<Rightarrow> pending_wmi_event option \<times> wil6210_priv" where
  "next_wmi_ev w =
     (case pending_wmi_ev w of
        [] \<Rightarrow> (None, w)
      | e # es \<Rightarrow> (Some e, w\<lparr>pending_wmi_ev := es\<rparr>))"

definition wmi_event_flush :: "wil6210_priv \<Rightarrow> wil6210_priv" where
  "wmi_event_flush w = w\<lparr>pending_wmi_ev := []\<rparr>"

end
