(* ===== verification/Wil_Link.thy ===== *)
theory Wil_Link
  imports Wil_Io
begin

text \<open>
  Peers and link state (\<^verbatim>\<open>main.c\<close>): finding the connection of a MAC address, the first
  unused Tx ring, the carrier of the network device.
\<close>

definition ether_addr_equal :: "mac_addr \<Rightarrow> mac_addr \<Rightarrow> bool" where
  "ether_addr_equal a b \<longleftrightarrow> take 6 a = take 6 b"

text \<open>The index of the first element that satisfies a test; nothing stands for a negative result.\<close>

primrec find_index :: "('a \<Rightarrow> bool) \<Rightarrow> 'a list \<Rightarrow> nat option" where
  "find_index P [] = None"
| "find_index P (x # xs) = (if P x then Some 0 else map_option Suc (find_index P xs))"

definition wil_find_cid :: "wil6210_priv \<Rightarrow> mac_addr \<Rightarrow> nat option" where
  "wil_find_cid w mac =
     find_index (\<lambda>s. sta_status s \<noteq> wil_sta_unused \<and> ether_addr_equal (sta_addr s) mac) (sta w)"

definition wil_find_free_vring :: "wil6210_priv \<Rightarrow> nat option" where
  "wil_find_free_vring w = find_index (\<lambda>v. vr_va v = None) (vring_tx w)"

definition wil_link_on :: "wil6210_priv \<Rightarrow> wil6210_priv" where
  "wil_link_on w = w\<lparr>ndev := (ndev w)\<lparr>nd_carrier := True, nd_queues_stopped := False\<rparr>\<rparr>"

definition wil_link_off :: "wil6210_priv \<Rightarrow> wil6210_priv" where
  "wil_link_off w = w\<lparr>ndev := (ndev w)\<lparr>nd_queues_stopped := True, nd_carrier := False\<rparr>\<rparr>"

lemma find_index_Some:
  "find_index P xs = Some i \<longleftrightarrow> i < length xs \<and> P (xs ! i) \<and> (\<forall>j < i. \<not> P (xs ! j))"
proof (induction xs arbitrary: i)
  case (Cons x xs)
  show ?case
  proof (cases i)
    case 0
    then show ?thesis by (auto simp: map_option_case split: option.split)
  next
    case (Suc k)
    have "find_index P (x # xs) = Some (Suc k) \<longleftrightarrow> \<not> P x \<and> find_index P xs = Some k" by auto
    also have "\<dots> \<longleftrightarrow> \<not> P x \<and> k < length xs \<and> P (xs ! k) \<and> (\<forall>j < k. \<not> P (xs ! j))"
      unfolding Cons ..
    finally show ?thesis unfolding Suc by (auto simp: less_Suc_eq_0_disj)
  qed
qed simp

lemma find_index_None: "find_index P xs = None \<longleftrightarrow> (\<forall>x \<in> set xs. \<not> P x)"
  by (induction xs) auto

lemma wil_find_cid_Some:
  "wil_find_cid w mac = Some cid \<Longrightarrow> cid < length (sta w) \<and>
     sta_status (sta w ! cid) \<noteq> wil_sta_unused \<and> ether_addr_equal (sta_addr (sta w ! cid)) mac"
  by (simp add: wil_find_cid_def find_index_Some)

lemma wil_find_cid_None:
  "wil_find_cid w mac = None \<longleftrightarrow>
     (\<forall>s \<in> set (sta w). sta_status s = wil_sta_unused \<or> \<not> ether_addr_equal (sta_addr s) mac)"
  by (auto simp: wil_find_cid_def find_index_None)

end
