(* ===== verification/Wil_Wmi_Cmd.thy ===== *)
theory Wil_Wmi_Cmd
  imports Wil_Mbox Wil_Link
begin

text \<open>
  The commands of the driver to the firmware (\<^verbatim>\<open>wmi.c\<close>) with the byte layout of their
  structures (\<^verbatim>\<open>wmi.h\<close>, all packed and little-endian): a structure is the function from its
  fields to its bytes.
\<close>

subsection \<open>Readers\<close>

text \<open>Fields of a received structure; nothing is a read past the end of the buffer.\<close>

definition rd_bytes :: "nat \<Rightarrow> nat \<Rightarrow> u8 list \<Rightarrow> u8 list option" where
  "rd_bytes off n bs = (if off + n \<le> length bs then Some (take n (drop off bs)) else None)"

definition rd8 :: "nat \<Rightarrow> u8 list \<Rightarrow> u8 option" where
  "rd8 off bs = (if off < length bs then Some (bs ! off) else None)"

definition rd16 :: "nat \<Rightarrow> u8 list \<Rightarrow> u16 option" where
  "rd16 off bs = map_option le_word (rd_bytes off 2 bs)"

definition rd32 :: "nat \<Rightarrow> u8 list \<Rightarrow> u32 option" where
  "rd32 off bs = map_option le_word (rd_bytes off 4 bs)"

definition rd64 :: "nat \<Rightarrow> u8 list \<Rightarrow> u64 option" where
  "rd64 off bs = map_option le_word (rd_bytes off 8 bs)"

text \<open>A byte array of fixed size, filled up with zeros.\<close>

definition pad_to :: "nat \<Rightarrow> u8 list \<Rightarrow> u8 list" where
  "pad_to n bs = take n bs @ replicate (n - length bs) 0"

lemma length_pad_to [simp]: "length (pad_to n bs) = n"
  by (simp add: pad_to_def)

abbreviation le64 :: "u64 \<Rightarrow> u8 list" where "le64 x \<equiv> le_bytes 8 x"

subsection \<open>Structures of the commands\<close>

definition wmi_echo_cmd :: "u32 \<Rightarrow> u8 list" where
  "wmi_echo_cmd x = le32 x"

definition wmi_set_mac_address_cmd :: "mac_addr \<Rightarrow> u8 list" where
  "wmi_set_mac_address_cmd mac = pad_to 6 mac @ [0, 0]"

definition wmi_pcp_start_cmd :: "u16 \<Rightarrow> u8 \<Rightarrow> u8 \<Rightarrow> bool \<Rightarrow> bool \<Rightarrow> u8 list" where
  "wmi_pcp_start_cmd bi nettype channel disable_sec_offload disable_sec =
     le16 bi @ replicate 10 0 @
     [nettype, channel, of_bool disable_sec_offload, of_bool disable_sec]"

definition wmi_set_passphrase_cmd :: "u8 list \<Rightarrow> u8 list \<Rightarrow> u8 \<Rightarrow> u8 \<Rightarrow> u8 list" where
  "wmi_set_passphrase_cmd ssid pass ssid_len pass_len =
     pad_to 32 ssid @ pad_to 64 pass @ [ssid_len, pass_len]"

definition wmi_set_ssid_cmd :: "u32 \<Rightarrow> u8 list \<Rightarrow> u8 list" where
  "wmi_set_ssid_cmd ssid_len ssid = le32 ssid_len @ pad_to 32 ssid"

definition wmi_set_pcp_channel_cmd :: "u8 \<Rightarrow> u8 list" where
  "wmi_set_pcp_channel_cmd channel = [channel, 0, 0, 0]"

definition WMI_DISCOVERY_MODE_PEER2PEER :: u8 where "WMI_DISCOVERY_MODE_PEER2PEER = 2"

definition wmi_p2p_cfg_cmd :: "u8 \<Rightarrow> u8 \<Rightarrow> u16 \<Rightarrow> u8 list" where
  "wmi_p2p_cfg_cmd mode channel bi = [mode, channel] @ le16 bi"

definition wmi_eapol_tx_cmd :: "mac_addr \<Rightarrow> u16 \<Rightarrow> u8 list \<Rightarrow> u8 list" where
  "wmi_eapol_tx_cmd dst_mac eapol_len eapol = pad_to 6 dst_mac @ le16 eapol_len @ eapol"

definition wmi_delete_cipher_key_cmd :: "u8 \<Rightarrow> mac_addr \<Rightarrow> u8 list" where
  "wmi_delete_cipher_key_cmd key_index mac = [key_index] @ pad_to 6 mac"

definition WMI_KEY_USE_PAIRWISE :: u8 where "WMI_KEY_USE_PAIRWISE = 0"

definition wmi_add_cipher_key_cmd :: "u8 \<Rightarrow> u8 \<Rightarrow> u8 \<Rightarrow> u8 list \<Rightarrow> mac_addr \<Rightarrow> u8 list" where
  "wmi_add_cipher_key_cmd key_index key_usage key_len key mac =
     [key_index, 0, key_usage, key_len] @ replicate 8 0 @ pad_to 32 key @ [0] @ pad_to 6 mac"

definition wmi_set_appie_cmd :: "u8 \<Rightarrow> u16 \<Rightarrow> u8 list \<Rightarrow> u8 list" where
  "wmi_set_appie_cmd mgmt_frm_type ie_len ie = [mgmt_frm_type, 0] @ le16 ie_len @ ie"

definition wmi_sw_ring_cfg :: "u64 \<Rightarrow> u16 \<Rightarrow> u16 \<Rightarrow> u8 list" where
  "wmi_sw_ring_cfg ring_mem_base ring_size max_mpdu_size =
     le64 ring_mem_base @ le16 ring_size @ le16 max_mpdu_size"

definition wmi_sniffer_cfg :: "u32 \<Rightarrow> u32 \<Rightarrow> u32 \<Rightarrow> u8 \<Rightarrow> u8 list" where
  "wmi_sniffer_cfg mode phy_info_mode phy_support channel =
     le32 mode @ le32 phy_info_mode @ le32 phy_support @ [channel, 0, 0, 0]"

definition WMI_SNIFFER_ON :: u32 where "WMI_SNIFFER_ON = 1"
definition WMI_SNIFFER_CP :: u32 where "WMI_SNIFFER_CP = 0"
definition WMI_SNIFFER_DP :: u32 where "WMI_SNIFFER_DP = 1"
definition WMI_RX_CHAIN_ADD :: u32 where "WMI_RX_CHAIN_ADD = 0"
definition WMI_DECAP_TYPE_802_3 :: u8 where "WMI_DECAP_TYPE_802_3 = 0"
definition WMI_RX_SW_REORDER :: u8 where "WMI_RX_SW_REORDER = 1"
definition L3_L4_CTRL_IPV4_CHECKSUM_EN_POS :: nat where "L3_L4_CTRL_IPV4_CHECKSUM_EN_POS = 0"
definition L3_L4_CTRL_TCPIP_CHECKSUM_EN_POS :: nat where "L3_L4_CTRL_TCPIP_CHECKSUM_EN_POS = 1"

text \<open>
  The fields the driver leaves zero (identifiers of the offloads, the ring controls and the
  thresholds) are written as zeros.
\<close>

definition wmi_cfg_rx_chain_cmd ::
  "u32 \<Rightarrow> u8 list \<Rightarrow> u8 \<Rightarrow> u8 \<Rightarrow> u8 \<Rightarrow> u8 \<Rightarrow> u8 list \<Rightarrow> u8 list" where
  "wmi_cfg_rx_chain_cmd action rx_sw_ring mid decap_trans_type l3_l4_ctrl reorder_type sniffer_cfg =
     le32 action @ rx_sw_ring @
     [mid, decap_trans_type, 0, 0, 0, 0, l3_l4_ctrl, 0] @
     le16 0 @ le16 0 @ le32 0 @ le16 0 @ [reorder_type, 0] @ sniffer_cfg"

definition wmi_sw_tx_req_cmd :: "mac_addr \<Rightarrow> u16 \<Rightarrow> u8 list \<Rightarrow> u8 list" where
  "wmi_sw_tx_req_cmd dst_mac len payload = pad_to 6 dst_mac @ le16 len @ payload"

definition wmi_temp_sense_cmd :: "u32 \<Rightarrow> u32 \<Rightarrow> u8 list" where
  "wmi_temp_sense_cmd m_en r_en = le32 m_en @ le32 r_en"

definition wmi_disconnect_sta_cmd :: "mac_addr \<Rightarrow> u16 \<Rightarrow> u8 list" where
  "wmi_disconnect_sta_cmd dst_mac reason = pad_to 6 dst_mac @ le16 reason"

definition wmi_vring_ba_en_cmd :: "u8 \<Rightarrow> u8 \<Rightarrow> u16 \<Rightarrow> u8 list" where
  "wmi_vring_ba_en_cmd ringid agg_max_wsize ba_timeout = [ringid, agg_max_wsize] @ le16 ba_timeout"

definition wmi_vring_ba_dis_cmd :: "u8 \<Rightarrow> u16 \<Rightarrow> u8 list" where
  "wmi_vring_ba_dis_cmd ringid reason = [ringid, 0] @ le16 reason"

definition wmi_rcp_addba_resp_cmd :: "u8 \<Rightarrow> u8 \<Rightarrow> u16 \<Rightarrow> u16 \<Rightarrow> u16 \<Rightarrow> u8 list" where
  "wmi_rcp_addba_resp_cmd cidxtid dialog_token status_code ba_param_set ba_timeout =
     [cidxtid, dialog_token] @ le16 status_code @ le16 ba_param_set @ le16 ba_timeout"

text \<open>The Tx ring configuration; the direction and translation fields are left zero.\<close>

definition WMI_VRING_CMD_ADD :: u32 where "WMI_VRING_CMD_ADD = 0"
definition WMI_VRING_ENC_TYPE_802_3 :: u8 where "WMI_VRING_ENC_TYPE_802_3 = 0"

definition wmi_vring_cfg_schd :: "u16 \<Rightarrow> u16 \<Rightarrow> u8 list" where
  "wmi_vring_cfg_schd priority timeslot_us = le16 priority @ le16 timeslot_us"

definition wmi_vring_cfg :: "u8 list \<Rightarrow> u8 \<Rightarrow> u8 \<Rightarrow> u8 \<Rightarrow> u8 \<Rightarrow> u8 \<Rightarrow> u8 list \<Rightarrow> u8 list" where
  "wmi_vring_cfg tx_sw_ring ringid cidxtid encap_trans_type mac_ctrl to_resolution schd_params =
     tx_sw_ring @ [ringid, cidxtid, encap_trans_type, 0, 0, mac_ctrl, to_resolution, 0] @ schd_params"

definition wmi_vring_cfg_cmd :: "u32 \<Rightarrow> u8 list \<Rightarrow> u8 list" where
  "wmi_vring_cfg_cmd action cfg = le32 action @ cfg"

lemmas wmi_cmd_struct_defs =
  wmi_echo_cmd_def wmi_set_mac_address_cmd_def wmi_pcp_start_cmd_def wmi_set_passphrase_cmd_def
  wmi_set_ssid_cmd_def wmi_set_pcp_channel_cmd_def wmi_p2p_cfg_cmd_def wmi_eapol_tx_cmd_def
  wmi_delete_cipher_key_cmd_def wmi_add_cipher_key_cmd_def wmi_set_appie_cmd_def
  wmi_sw_ring_cfg_def wmi_sniffer_cfg_def wmi_cfg_rx_chain_cmd_def wmi_sw_tx_req_cmd_def
  wmi_temp_sense_cmd_def wmi_disconnect_sta_cmd_def wmi_vring_ba_en_cmd_def wmi_vring_ba_dis_cmd_def
  wmi_rcp_addba_resp_cmd_def wmi_vring_cfg_schd_def wmi_vring_cfg_def wmi_vring_cfg_cmd_def

subsection \<open>Calls\<close>

text \<open>
  A reply is a WMI header of eight bytes and the event, in a variable on the stack that is not
  initialised: \<open>stack\<close> is what it holds before. The module parameters \<open>passphrase\<close> and
  \<open>use_pcp_for_ap\<close> are arguments.
\<close>

definition reply_init :: "u8 list \<Rightarrow> nat \<Rightarrow> u8 list option" where
  "reply_init stack n = Some (pad_to (8 + n) stack)"

definition call_rc ::
  "(errno option \<times> u8 list option \<times> wil6210_priv) option \<Rightarrow> (errno option \<times> wil6210_priv) option" where
  "call_rc r = map_option (\<lambda>(rc, _, w). (rc, w)) r"

definition WMI_FW_STATUS_SUCCESS :: u8 where "WMI_FW_STATUS_SUCCESS = 0"

text \<open>A call whose reply starts with a status byte that has to be success.\<close>

definition call_status ::
  "(errno option \<times> u8 list option \<times> wil6210_priv) option \<Rightarrow> (errno option \<times> wil6210_priv) option" where
  "call_status r = do {
     (rc, reply, w) \<leftarrow> r;
     (if rc \<noteq> None then Some (rc, w)
      else do {
        bs \<leftarrow> reply;
        status \<leftarrow> rd8 8 bs;
        Some (if status \<noteq> WMI_FW_STATUS_SUCCESS then Some EINVAL else None, w)
      })
   }"

definition wmi_echo :: "call_env \<Rightarrow> wil6210_priv \<Rightarrow> (errno option \<times> wil6210_priv) option" where
  "wmi_echo env w =
     call_rc (wmi_call env WMI_ECHO_CMDID (wmi_echo_cmd 0x12345678) WMI_ECHO_RSP_EVENTID None w)"

definition wmi_set_mac_address ::
  "wmi_env \<Rightarrow> mac_addr \<Rightarrow> wil6210_priv \<Rightarrow> (errno option \<times> wil6210_priv) option" where
  "wmi_set_mac_address env addr w =
     wmi_send env WMI_SET_MAC_ADDRESS_CMDID (wmi_set_mac_address_cmd addr) w"

definition wmi_pcp_start ::
  "call_env \<Rightarrow> u8 list \<Rightarrow> bool \<Rightarrow> int \<Rightarrow> u8 \<Rightarrow> u8 \<Rightarrow> wil6210_priv
     \<Rightarrow> (errno option \<times> wil6210_priv) option" where
  "wmi_pcp_start env stack passphrase bi nettype chan w =
     call_status (wmi_call env WMI_PCP_START_CMDID
       (wmi_pcp_start_cmd (word_of_int bi) nettype (chan - 1) (\<not> passphrase) (\<not> secure_pcp w))
       WMI_PCP_STARTED_EVENTID (reply_init stack 4) w)"

definition wmi_pcp_stop :: "call_env \<Rightarrow> wil6210_priv \<Rightarrow> (errno option \<times> wil6210_priv) option" where
  "wmi_pcp_stop env w = call_rc (wmi_call env WMI_PCP_STOP_CMDID [] WMI_PCP_STOPPED_EVENTID None w)"

definition wmi_set_passphrase ::
  "wmi_env \<Rightarrow> u8 \<Rightarrow> u8 list \<Rightarrow> u8 \<Rightarrow> u8 list \<Rightarrow> wil6210_priv
     \<Rightarrow> (errno option \<times> wil6210_priv) option" where
  "wmi_set_passphrase env ssid_len ssid pass_len pass w =
     (if unat ssid_len > 32 then Some (Some EINVAL, w)
      else if unat pass_len > 64 then Some (Some EINVAL, w)
      else do {
        ssid \<leftarrow> rd_bytes 0 (unat ssid_len) ssid;
        pass \<leftarrow> rd_bytes 0 (unat pass_len) pass;
        wmi_send env WMI_SET_PASSPHRASE_CMDID (wmi_set_passphrase_cmd ssid pass ssid_len pass_len) w
      })"

definition wmi_set_ssid ::
  "wmi_env \<Rightarrow> u8 \<Rightarrow> u8 list \<Rightarrow> wil6210_priv \<Rightarrow> (errno option \<times> wil6210_priv) option" where
  "wmi_set_ssid env ssid_len ssid w =
     (if unat ssid_len > 32 then Some (Some EINVAL, w)
      else do {
        ssid \<leftarrow> rd_bytes 0 (unat ssid_len) ssid;
        wmi_send env WMI_SET_SSID_CMDID (wmi_set_ssid_cmd (ucast ssid_len) ssid) w
      })"

text \<open>The answer to the SSID question: the length is compared as an unsigned number.\<close>

definition get_ssid_reply :: "u8 list \<Rightarrow> (errno + u8 list) option" where
  "get_ssid_reply bs = do {
     len \<leftarrow> rd32 8 bs;
     (if unat len > 32 then Some (Inl EINVAL)
      else do { ssid \<leftarrow> rd_bytes 12 (unat len) bs; Some (Inr ssid) })
   }"

definition wmi_get_ssid ::
  "call_env \<Rightarrow> u8 list \<Rightarrow> wil6210_priv \<Rightarrow> ((errno + u8 list) \<times> wil6210_priv) option" where
  "wmi_get_ssid env stack w = do {
     (rc, reply, w) \<leftarrow>
       wmi_call env WMI_GET_SSID_CMDID [] WMI_GET_SSID_EVENTID (reply_init stack 36) w;
     (case rc of
        Some e \<Rightarrow> Some (Inl e, w)
      | None \<Rightarrow> do { bs \<leftarrow> reply; r \<leftarrow> get_ssid_reply bs; Some (r, w) })
   }"

definition wmi_set_channel ::
  "wmi_env \<Rightarrow> int \<Rightarrow> wil6210_priv \<Rightarrow> (errno option \<times> wil6210_priv) option" where
  "wmi_set_channel env channel w =
     wmi_send env WMI_SET_PCP_CHANNEL_CMDID (wmi_set_pcp_channel_cmd (word_of_int (channel - 1))) w"

definition wmi_get_channel ::
  "call_env \<Rightarrow> u8 list \<Rightarrow> wil6210_priv \<Rightarrow> ((errno + nat) \<times> wil6210_priv) option" where
  "wmi_get_channel env stack w = do {
     (rc, reply, w) \<leftarrow>
       wmi_call env WMI_GET_PCP_CHANNEL_CMDID [] WMI_GET_PCP_CHANNEL_EVENTID (reply_init stack 4) w;
     (case rc of
        Some e \<Rightarrow> Some (Inl e, w)
      | None \<Rightarrow> do {
          bs \<leftarrow> reply;
          ch \<leftarrow> rd8 8 bs;
          Some (if unat ch > 3 then Inl EINVAL else Inr (unat ch + 1), w)
        })
   }"

definition wmi_p2p_cfg ::
  "wmi_env \<Rightarrow> int \<Rightarrow> int \<Rightarrow> wil6210_priv \<Rightarrow> (errno option \<times> wil6210_priv) option" where
  "wmi_p2p_cfg env channel bi w =
     (if scan_request w \<noteq> None then Some (Some EAGAIN, w)
      else
        let w = w\<lparr>wstatus := set_bit wil_status_dontscan (wstatus w)\<rparr>
        in wmi_send env WMI_P2P_CFG_CMDID (wmi_p2p_cfg_cmd WMI_DISCOVERY_MODE_PEER2PEER
             (word_of_int (channel - 1)) (word_of_int bi)) w)"

definition wmi_start_listen ::
  "call_env \<Rightarrow> u8 list \<Rightarrow> wil6210_priv \<Rightarrow> (errno option \<times> wil6210_priv) option" where
  "wmi_start_listen env stack w =
     call_status (wmi_call env WMI_START_LISTEN_CMDID [] WMI_LISTEN_STARTED_EVENTID (reply_init stack 4) w)"

definition wmi_start_search ::
  "call_env \<Rightarrow> u8 list \<Rightarrow> wil6210_priv \<Rightarrow> (errno option \<times> wil6210_priv) option" where
  "wmi_start_search env stack w =
     call_status (wmi_call env WMI_START_SEARCH_CMDID [] WMI_SEARCH_STARTED_EVENTID (reply_init stack 4) w)"

definition wmi_stop_discovery :: "call_env \<Rightarrow> wil6210_priv \<Rightarrow> (errno option \<times> wil6210_priv) option" where
  "wmi_stop_discovery env w = do {
     (rc, w) \<leftarrow>
       call_rc (wmi_call env WMI_DISCOVERY_STOP_CMDID [] WMI_DISCOVERY_STOPPED_EVENTID None w);
     Some (rc, w\<lparr>wstatus := clear_bit wil_status_dontscan (wstatus w)\<rparr>)
   }"

definition wmi_start_discovery :: "call_env \<Rightarrow> wil6210_priv \<Rightarrow> (errno option \<times> wil6210_priv) option" where
  "wmi_start_discovery env w =
     call_rc (wmi_call env WMI_DISCOVERY_START_CMDID [] WMI_DISCOVERY_STARTED_EVENTID None w)"

definition wmi_rxon :: "call_env \<Rightarrow> u8 list \<Rightarrow> bool \<Rightarrow> wil6210_priv \<Rightarrow> (errno option \<times> wil6210_priv) option" where
  "wmi_rxon env stack on w = (if on then wmi_start_listen env stack w else wmi_stop_discovery env w)"

subsection \<open>Keys, information elements and frames\<close>

text \<open>
  \<open>wmi_tx_eapol\<close> hands an EAPOL frame to the firmware. The length is taken modulo 2^16 from the
  frame's; copying more than the linear part holds is a crash.
\<close>

definition wmi_tx_eapol ::
  "wmi_env \<Rightarrow> skb_ptr \<Rightarrow> wil6210_priv \<Rightarrow> (errno option \<times> wil6210_priv) option" where
  "wmi_tx_eapol env p w =
     (let s = skbs w p;
          eapol_len = of_nat (skb_len s) - of_nat ETH_HLEN :: u16
      in do {
        h_dest \<leftarrow> rd_bytes 0 6 (skb_data s);
        (if wil_find_cid w h_dest = None then Some (Some EINVAL, w)
         else
           let (ok, w) = kmalloc env w
           in if \<not> ok then Some (Some EINVAL, w)
              else do {
                eapol \<leftarrow> rd_bytes ETH_HLEN (unat eapol_len) (skb_data s);
                wmi_send env WMI_EAPOL_TX_CMDID (wmi_eapol_tx_cmd h_dest eapol_len eapol) w
              })
      })"

definition wmi_del_cipher_key ::
  "wmi_env \<Rightarrow> u8 \<Rightarrow> mac_addr option \<Rightarrow> wil6210_priv \<Rightarrow> (errno option \<times> wil6210_priv) option" where
  "wmi_del_cipher_key env key_index mac w =
     wmi_send env WMI_DELETE_CIPHER_KEY_CMDID
       (wmi_delete_cipher_key_cmd key_index (case mac of None \<Rightarrow> [] | Some m \<Rightarrow> m)) w"

definition wmi_add_cipher_key ::
  "wmi_env \<Rightarrow> u8 \<Rightarrow> mac_addr option \<Rightarrow> int \<Rightarrow> u8 list option \<Rightarrow> wil6210_priv
     \<Rightarrow> (errno option \<times> wil6210_priv) option" where
  "wmi_add_cipher_key env key_index mac key_len key w =
     (case key of
        None \<Rightarrow> Some (Some EINVAL, w)
      | Some k \<Rightarrow>
          if key_len < 0 \<or> key_len > 32 then Some (Some EINVAL, w)
          else do {
            k \<leftarrow> rd_bytes 0 (nat key_len) k;
            wmi_send env WMI_ADD_CIPHER_KEY_CMDID
              (wmi_add_cipher_key_cmd key_index WMI_KEY_USE_PAIRWISE (word_of_int key_len) k
                (case mac of None \<Rightarrow> [] | Some m \<Rightarrow> m)) w
          })"

text \<open>
  The allocation of \<open>wmi_set_ie\<close> has a 16-bit length: when the sum wraps, the copy runs past it (a
  crash).
\<close>

definition wmi_set_ie ::
  "wmi_env \<Rightarrow> u8 \<Rightarrow> u16 \<Rightarrow> u8 list \<Rightarrow> wil6210_priv \<Rightarrow> (errno option \<times> wil6210_priv) option" where
  "wmi_set_ie env type ie_len ie w =
     (let (ok, w) = kmalloc env w
      in if \<not> ok then Some (Some ENOMEM, w)
         else if unat (4 + ie_len) \<noteq> 4 + unat ie_len then None
         else do {
           ie \<leftarrow> rd_bytes 0 (unat ie_len) ie;
           wmi_send env WMI_SET_APPIE_CMDID (wmi_set_appie_cmd type ie_len ie) w
         })"

definition wmi_mgmt_tx ::
  "call_env \<Rightarrow> u8 list \<Rightarrow> u8 list \<Rightarrow> wil6210_priv \<Rightarrow> (errno option \<times> wil6210_priv) option" where
  "wmi_mgmt_tx env stack buf w =
     (let (ok, w) = kmalloc (cc_wmi env) w
      in if \<not> ok then Some (Some ENOMEM, w)
         else do {
           da \<leftarrow> rd_bytes 4 6 buf;
           call_status (wmi_call env WMI_SW_TX_REQ_CMDID
             (wmi_sw_tx_req_cmd da (of_nat (length buf)) buf) WMI_SW_TX_COMPLETE_EVENTID
             (reply_init stack 4) w)
         })"

text \<open>Both temperatures, of the baseband and of the radio; a NULL pointer is \<open>False\<close>.\<close>

definition wmi_get_temperature ::
  "call_env \<Rightarrow> u8 list \<Rightarrow> bool \<Rightarrow> bool \<Rightarrow> wil6210_priv
     \<Rightarrow> ((errno + u32 option \<times> u32 option) \<times> wil6210_priv) option" where
  "wmi_get_temperature env stack t_m t_r w = do {
     (rc, reply, w) \<leftarrow> wmi_call env WMI_TEMP_SENSE_CMDID
       (wmi_temp_sense_cmd (of_bool t_m) (of_bool t_r)) WMI_TEMP_SENSE_DONE_EVENTID
       (reply_init stack 8) w;
     (case rc of
        Some e \<Rightarrow> Some (Inl e, w)
      | None \<Rightarrow> do {
          bs \<leftarrow> reply;
          m \<leftarrow> rd32 8 bs;
          r \<leftarrow> rd32 12 bs;
          Some (Inr (if t_m then Some m else None, if t_r then Some r else None), w)
        })
   }"

subsection \<open>Connections and block acknowledgement\<close>

definition wmi_disconnect_sta ::
  "wmi_env \<Rightarrow> mac_addr \<Rightarrow> u16 \<Rightarrow> wil6210_priv \<Rightarrow> (errno option \<times> wil6210_priv) option" where
  "wmi_disconnect_sta env mac reason w =
     wmi_send env WMI_DISCONNECT_STA_CMDID (wmi_disconnect_sta_cmd mac reason) w"

definition wmi_addba ::
  "wmi_env \<Rightarrow> u8 \<Rightarrow> u8 \<Rightarrow> u16 \<Rightarrow> wil6210_priv \<Rightarrow> (errno option \<times> wil6210_priv) option" where
  "wmi_addba env ringid wsize timeout w =
     wmi_send env WMI_VRING_BA_EN_CMDID (wmi_vring_ba_en_cmd ringid wsize timeout) w"

definition wmi_delba ::
  "wmi_env \<Rightarrow> u8 \<Rightarrow> u16 \<Rightarrow> wil6210_priv \<Rightarrow> (errno option \<times> wil6210_priv) option" where
  "wmi_delba env ringid reason w =
     wmi_send env WMI_VRING_BA_DIS_CMDID (wmi_vring_ba_dis_cmd ringid reason) w"

text \<open>The parameter set of the answer: bit 1 (immediate) is always set.\<close>

definition addba_param_set :: "bool \<Rightarrow> u8 \<Rightarrow> u16 \<Rightarrow> u16" where
  "addba_param_set amsdu tid wsize =
     (if amsdu then 1 else 0) OR 2 OR push_bit 2 (ucast tid) OR push_bit 6 wsize"

definition wmi_rcp_addba_resp ::
  "call_env \<Rightarrow> u8 list \<Rightarrow> u8 \<Rightarrow> u8 \<Rightarrow> u8 \<Rightarrow> u16 \<Rightarrow> bool \<Rightarrow> u16 \<Rightarrow> u16 \<Rightarrow> wil6210_priv
     \<Rightarrow> (errno option \<times> wil6210_priv) option" where
  "wmi_rcp_addba_resp env stack cid tid token status amsdu wsize timeout w = do {
     (rc, reply, w) \<leftarrow> wmi_call env WMI_RCP_ADDBA_RESP_CMDID
       (wmi_rcp_addba_resp_cmd (mk_cidxtid cid tid) token status
         (addba_param_set amsdu tid wsize) timeout)
       WMI_ADDBA_RESP_SENT_EVENTID (reply_init stack 4) w;
     (if rc \<noteq> None then Some (rc, w)
      else do {
        bs \<leftarrow> reply;
        status \<leftarrow> rd16 10 bs;
        Some (if status \<noteq> 0 then Some EINVAL else None, w)
      })
   }"

subsection \<open>The receive chain\<close>

definition WMI_CFG_RX_CHAIN_SUCCESS :: u32 where "WMI_CFG_RX_CHAIN_SUCCESS = 1"
definition MONITOR_FLAG_CONTROL :: u32 where "MONITOR_FLAG_CONTROL = BIT 3"

text \<open>
  \<open>wmi_rx_chain_add\<close> gives the Rx ring to the firmware and learns the address of its tail register.
\<close>

definition wmi_rx_chain_add ::
  "call_env \<Rightarrow> u8 list \<Rightarrow> vring \<Rightarrow> wil6210_priv \<Rightarrow> (errno option \<times> vring \<times> wil6210_priv) option" where
  "wmi_rx_chain_add env stack v w =
     (let csum_enabled = of_bool (nd_rxcsum (ndev w)) :: u8;
          l3_l4_ctrl = push_bit L3_L4_CTRL_IPV4_CHECKSUM_EN_POS 0 OR
            push_bit L3_L4_CTRL_TCPIP_CHECKSUM_EN_POS csum_enabled;
          sniffer = (if wd_iftype (wdev w) = NL80211_IFTYPE_MONITOR
            then wmi_sniffer_cfg WMI_SNIFFER_ON
              (of_bool (nd_type (ndev w) = ARPHRD_IEEE80211_RADIOTAP))
              (if monitor_flags w AND MONITOR_FLAG_CONTROL \<noteq> 0 then WMI_SNIFFER_CP else WMI_SNIFFER_DP)
              (case wd_channel (wdev w) of None \<Rightarrow> 0 | Some ch \<Rightarrow> of_nat ch - 1)
            else wmi_sniffer_cfg 0 0 0 0);
          cmd = wmi_cfg_rx_chain_cmd WMI_RX_CHAIN_ADD
            (wmi_sw_ring_cfg (vr_pa v) (vr_size v) (of_nat RX_BUF_LEN)) 0 WMI_DECAP_TYPE_802_3
            l3_l4_ctrl WMI_RX_SW_REORDER sniffer
      in do {
        (rc, reply, w) \<leftarrow> wmi_call env WMI_CFG_RX_CHAIN_CMDID cmd WMI_CFG_RX_CHAIN_DONE_EVENTID
          (reply_init stack 8) w;
        (if rc \<noteq> None then Some (rc, v, w)
         else do {
           bs \<leftarrow> reply;
           tail \<leftarrow> rd32 8 bs;
           status \<leftarrow> rd32 12 bs;
           Some (if status \<noteq> WMI_CFG_RX_CHAIN_SUCCESS then Some EINVAL else None,
             v\<lparr>hwtail := tail\<rparr>, w)
         })
      })"

end
