(* ===== verification/Wil_Queue.thy ===== *)
theory Wil_Queue
  imports Wil_Prelude
begin

text \<open>
  The pending lists of the driver (events of the firmware, block acknowledgement requests) with the
  worker that empties them: the contract of such a list as a locale, and what a worker over it does.
\<close>

text \<open>\<open>while ((x = next()) != NULL) handle(x);\<close>\<close>

partial_function (option) work_loop ::
  "('s \<Rightarrow> 'a option \<times> 's) \<Rightarrow> ('a \<Rightarrow> 's \<Rightarrow> 's option) \<Rightarrow> 's \<Rightarrow> 's option" where
  "work_loop nxt handle s =
     (case nxt s of
        (None, s) \<Rightarrow> Some s
      | (Some a, s) \<Rightarrow> do { s \<leftarrow> handle a s; work_loop nxt handle s })"

declare work_loop.simps [code]

locale work_queue =
  fixes items :: "'s \<Rightarrow> 'a list" and enq :: "'a \<Rightarrow> 's \<Rightarrow> 's" and deq :: "'s \<Rightarrow> 'a option \<times> 's"
  assumes items_enq: "items (enq a s) = items s @ [a]"
    and deq_empty: "items s = [] \<Longrightarrow> deq s = (None, s)"
    and deq_first: "items s = a # as \<Longrightarrow> fst (deq s) = Some a \<and> items (snd (deq s)) = as"
begin

lemma deq_None_iff: "fst (deq s) = None \<longleftrightarrow> items s = []"
  using deq_empty [of s] deq_first [of s] by (cases "items s") auto

lemma fifo: "items s = [] \<Longrightarrow> fst (deq (enq a s)) = Some a"
  using deq_first [of "enq a s" a "[]"] items_enq [of a s] by simp

text \<open>A worker whose handler always returns, and adds nothing, handles the items in order and stops.\<close>

lemma drain:
  assumes handle: "\<And>a s. P s \<Longrightarrow> Q a \<Longrightarrow> \<exists>s'. handle a s = Some s' \<and> items s' = items s \<and> P s'"
    and pop: "\<And>s. P s \<Longrightarrow> P (snd (deq s))"
    and item: "\<And>s a. P s \<Longrightarrow> a \<in> set (items s) \<Longrightarrow> Q a"
  shows "P s \<Longrightarrow> \<exists>s'. work_loop deq handle s = Some s' \<and> items s' = [] \<and> P s' \<and>
    run_inputs (\<lambda>a s. handle a (snd (deq s))) (items s) s = Some s'"
proof (induction "items s" arbitrary: s)
  case Nil
  then show ?case using deq_empty [of s] by (subst work_loop.simps) simp
next
  case (Cons a as)
  obtain s1 where s1: "deq s = (Some a, s1)" "items s1 = as"
    using deq_first [OF Cons.hyps(2) [symmetric]] by (cases "deq s") auto
  have "Q a" by (rule item [OF Cons.prems]) (simp flip: Cons.hyps(2))
  have "P s1" using pop [OF Cons.prems] s1(1) by simp
  then obtain s2 where s2: "handle a s1 = Some s2" "items s2 = as" "P s2"
    using handle [OF _ \<open>Q a\<close>] s1(2) by metis
  then obtain s' where s': "work_loop deq handle s2 = Some s'" "items s' = []" "P s'"
    "run_inputs (\<lambda>a s. handle a (snd (deq s))) (items s2) s2 = Some s'"
    using Cons.hyps(1) by blast
  have "work_loop deq handle s = Some s'" by (subst work_loop.simps) (simp add: s1 s2 s')
  then show ?case
    using s'(2,3,4) s2(1,2) s1(1) unfolding Cons.hyps(2) [symmetric] by simp
qed

end

end
