(* ===== verification/Wil_Mbox_Correct.thy ===== *)
theory Wil_Mbox_Correct
  imports Wil_Mbox Wil_Queue Wil_Vring
begin

text \<open>
  Correctness of the mailbox: sending returns, writes the message before it hands it over, and fails
  with nothing written; receiving ends after at most one turn of the ring.
\<close>

subsection \<open>Addresses\<close>

text \<open>The function as a number: a case distinction on the five windows.\<close>

lemma wmi_addr_remap_unat:
  "unat (wmi_addr_remap x) =
     (let n = unat x in
      if n < 0x40000 then n + 0x8c0000
      else if 0x800000 \<le> n \<and> n < 0x808000 then n + 0x100000
      else if 0x840000 \<le> n \<and> n < 0x860000 then n + 0xc8000
      else if 0x880000 \<le> n \<and> n < 0x88a000 then n
      else if 0x8c0000 \<le> n \<and> n < 0x949000 then n
      else 0)"
proof -
  have p: "unat (x + k) = unat x + unat k" "unat (k + x) = unat x + unat k"
    if "unat x < 0x1000000" "unat k < 0x1000000" for k :: u32
    using that by (simp_all add: unat_word_ariths)
  show ?thesis
    by (auto simp: wmi_addr_remap_def fw_mapping_def word_le_nat_alt word_less_nat_alt Let_def p)
qed

text \<open>The images of the windows below the upper area do not overlap.\<close>

lemma wmi_addr_remap_idem:
  "wmi_addr_remap x \<noteq> 0 \<Longrightarrow> wmi_addr_remap (wmi_addr_remap x) = wmi_addr_remap x"
  by (simp only: word_unat_eq_iff) (simp add: wmi_addr_remap_unat Let_def split: if_splits)

lemma wmi_addr_remap_window:
  assumes "wmi_addr_remap x \<noteq> 0"
  obtains k where "unat (wmi_addr_remap x) = unat x + 4 * k" "0x880000 \<le> unat (wmi_addr_remap x)"
    "unat (wmi_addr_remap x) < 0x949000"
proof -
  have "unat (wmi_addr_remap x) \<noteq> 0" using assms by (simp add: word_unat_eq_iff)
  then have "(unat (wmi_addr_remap x) = unat x + 4 * 0x230000 \<or> unat (wmi_addr_remap x) = unat x + 4 * 0x40000 \<or>
      unat (wmi_addr_remap x) = unat x + 4 * 0x32000 \<or> unat (wmi_addr_remap x) = unat x + 4 * 0) \<and>
      0x880000 \<le> unat (wmi_addr_remap x) \<and> unat (wmi_addr_remap x) < 0x949000"
    unfolding wmi_addr_remap_unat Let_def by (simp split: if_splits)
  then show thesis using that by blast
qed

lemma wmi_addr_remap_inj:
  "wmi_addr_remap x = wmi_addr_remap y \<Longrightarrow> wmi_addr_remap x \<noteq> 0 \<Longrightarrow>
     unat x < 0x8c0000 \<Longrightarrow> unat y < 0x8c0000 \<Longrightarrow> x = y"
  by (simp only: word_unat_eq_iff) (simp add: wmi_addr_remap_unat Let_def split: if_splits)

lemma wmi_buffer_Some:
  "wmi_buffer p = Some off \<longleftrightarrow>
     p mod 4 = 0 \<and> wmi_addr_remap p \<noteq> 0 \<and> off = HOSTADDR (wmi_addr_remap p)"
proof -
  let ?q = "wmi_addr_remap p"
  have "unat ?q = 0 \<or> 0x880000 \<le> unat ?q \<and> unat ?q < 0x949000"
    unfolding wmi_addr_remap_unat Let_def by simp
  then have "?q = 0 \<or> WIL6210_FW_HOST_OFF \<le> ?q \<and> unat (HOSTADDR ?q) < 0xc9000"
    by (auto simp: unat_HOSTADDR word_le_nat_alt WIL6210_FW_HOST_OFF_def word_unat_eq_iff)
  moreover have "(0::u32) < WIL6210_FW_HOST_OFF" by (simp add: WIL6210_FW_HOST_OFF_def)
  ultimately show ?thesis
    by (auto simp: wmi_buffer_def Let_def word_less_nat_alt WIL6210_MEM_SIZE_def linorder_not_less
        word_le_nat_alt)
qed

lemma unat_mod_4: "p mod 4 = 0 \<longleftrightarrow> unat (p :: u32) mod 4 = 0"
  by (simp add: word_unat_eq_iff unat_mod)

lemma wmi_buffer_bound:
  assumes "wmi_buffer p = Some off"
  shows "unat off < 0xc9000" "unat off mod 4 = 0"
proof -
  let ?q = "wmi_addr_remap p"
  have 1: "unat p mod 4 = 0" "?q \<noteq> 0" "off = HOSTADDR ?q"
    using assms unfolding wmi_buffer_Some unat_mod_4 by auto
  obtain k where 2: "unat ?q = unat p + 4 * k" "0x880000 \<le> unat ?q" "unat ?q < 0x949000"
    using wmi_addr_remap_window [OF 1(2)] .
  have off: "unat off = unat ?q - 0x880000"
    using 1(3) 2(2) by (simp add: unat_HOSTADDR word_le_nat_alt WIL6210_FW_HOST_OFF_def)
  show "unat off < 0xc9000" using 2 off by simp
  show "unat off mod 4 = 0" using 1(1) 2(1,2) unfolding off by presburger
qed

lemma wmi_addr_bound:
  assumes "wmi_addr p = Some off"
  shows "unat off + 4 \<le> unat WIL6210_MEM_SIZE" "unat off mod 4 = 0" "off = HOSTADDR p"
proof -
  have 1: "unat p mod 4 = 0" "0x880000 \<le> unat p" "off = HOSTADDR p" "\<not> off > WIL6210_MEM_SIZE - 4"
    using assms by (auto simp: wmi_addr_def unat_mod_4 WIL6210_FW_HOST_OFF_def word_less_nat_alt
        split: if_splits)
  then have off: "unat off = unat p - 0x880000"
    by (simp add: unat_HOSTADDR word_le_nat_alt WIL6210_FW_HOST_OFF_def)
  show "unat off + 4 \<le> unat WIL6210_MEM_SIZE"
    using 1(4) by (simp add: WIL6210_MEM_SIZE_def word_less_nat_alt)
  show "unat off mod 4 = 0" using 1(1,2) unfolding off by presburger
  show "off = HOSTADDR p" by (rule 1)
qed

subsection \<open>Sending\<close>

text \<open>
  The command ring is set up, or is that of a driver whose firmware has not told it yet: then the
  entries are too small for any command.
\<close>

definition tx_mbox_ok :: "wil6210_mbox_ring \<Rightarrow> bool" where
  "tx_mbox_ok r \<longleftrightarrow> mb_size r \<noteq> 0 \<or> unat (mb_entry_size r) < 16"

lemma tx_mbox_ok_upd [simp]:
  "tx_mbox_ok (r\<lparr>mb_tail := t\<rparr>) = tx_mbox_ok r" "tx_mbox_ok (r\<lparr>mb_head := h\<rparr>) = tx_mbox_ok r"
  "tx_mbox_ok \<lparr>mb_base = b, mb_entry_size = e, mb_size = n, mb_tail = t, mb_head = h\<rparr> \<longleftrightarrow>
     n \<noteq> 0 \<or> unat e < 16"
  by (simp_all add: tx_mbox_ok_def)

definition send_frame :: "wil6210_priv \<Rightarrow> wil6210_priv \<Rightarrow> bool" where
  "send_frame w w' \<longleftrightarrow>
     w' = w\<lparr>mbox_tx := mbox_tx w', wmi_seq := wmi_seq w', klog := klog w', io_clock := io_clock w'\<rparr> \<and>
     tx_mbox_ok (mbox_tx w') = tx_mbox_ok (mbox_tx w)"

lemma send_frame_refl [simp, intro]: "send_frame w w"
  by (simp add: send_frame_def)

lemma send_frame_trans [trans]: "send_frame w w1 \<Longrightarrow> send_frame w1 w2 \<Longrightarrow> send_frame w w2"
  unfolding send_frame_def by (cases w, cases w1, cases w2) simp

lemma io_send_frame: "io_frame w w' \<Longrightarrow> send_frame w w'"
  unfolding io_frame_def send_frame_def by (cases w, cases w') simp

text \<open>Before a command is written only the shadow of the tail moves.\<close>

definition poll_frame :: "wil6210_priv \<Rightarrow> wil6210_priv \<Rightarrow> bool" where
  "poll_frame w w' \<longleftrightarrow> w' = w\<lparr>mbox_tx := mbox_tx w', io_clock := io_clock w'\<rparr> \<and>
     mb_head (mbox_tx w') = mb_head (mbox_tx w) \<and> mb_base (mbox_tx w') = mb_base (mbox_tx w) \<and>
     tx_mbox_ok (mbox_tx w') = tx_mbox_ok (mbox_tx w)"

lemma poll_frame_refl [simp, intro]: "poll_frame w w"
  by (simp add: poll_frame_def)

lemma poll_frame_trans [trans]: "poll_frame w w1 \<Longrightarrow> poll_frame w1 w2 \<Longrightarrow> poll_frame w w2"
  unfolding poll_frame_def by (cases w, cases w1, cases w2) simp

lemma poll_frameD:
  assumes "poll_frame w w'"
  shows "klog w' = klog w" "wmi_seq w' = wmi_seq w" "mb_head (mbox_tx w') = mb_head (mbox_tx w)"
    "send_frame w w'"
proof -
  have 1: "w' = w\<lparr>mbox_tx := mbox_tx w', io_clock := io_clock w'\<rparr>"
    using assms by (simp add: poll_frame_def)
  show "klog w' = klog w" "wmi_seq w' = wmi_seq w" by (subst 1, simp)+
  show "mb_head (mbox_tx w') = mb_head (mbox_tx w)" using assms by (simp add: poll_frame_def)
  show "send_frame w w'"
    using assms unfolding poll_frame_def send_frame_def by (cases w, cases w') simp
qed

lemma read_mbox_desc_ok:
  assumes "read_mbox_desc env off w = (d, w')"
  shows "poll_frame w w'" "io_clock w' = io_clock w + 2"
    "d = (we_io env (io_clock w) off, we_io env (io_clock w + 1) (off + 4))"
proof -
  obtain bs where bs: "wil_memcpy_fromio_32 env off 8 w = (bs, w')"
    using assms by (auto simp: read_mbox_desc_def split: prod.splits)
  note ok = wil_memcpy_fromio_ok [OF bs]
  have "w' = w\<lparr>io_clock := io_clock w'\<rparr>"
    using ok(1,2) by (cases w, cases w') (simp add: io_frame_def)
  then show "poll_frame w w'"
    unfolding poll_frame_def by (cases w, cases w') simp
  show "io_clock w' = io_clock w + 2" using ok(4) by simp
  have "[0..<(3 + 8) div 4] = [0, 1]" by (simp add: upt_rec)
  then have "bs = le32 (we_io env (io_clock w) off) @ le32 (we_io env (io_clock w + 1) (off + 4))"
    using ok(5) by simp
  moreover have "take 4 (le32 x @ ys) = le32 x" "drop 4 (le32 x @ ys) = ys" "take 4 (le32 x) = le32 x" for x ys
    by simp_all
  ultimately show "d = (we_io env (io_clock w) off, we_io env (io_clock w + 1) (off + 4))"
    using assms bs by (simp only: read_mbox_desc_def Let_def prod.case prod.inject le32_roundtrip)
qed

lemma poll_head_ok: "poll_frame w (snd (poll_head env off n d w))"
proof (induction n arbitrary: d w)
  case (Suc n)
  obtain d' w' where r: "read_mbox_desc env off w = (d', w')" by (rule prod.exhaust)
  show ?case using Suc [of w' d'] read_mbox_desc_ok(1) [OF r] by (auto simp: r intro: poll_frame_trans)
qed simp

lemma poll_tail_ok: "poll_frame w (poll_tail env nh n w)"
proof (induction n arbitrary: w)
  case (Suc n)
  let ?t = "we_io env (io_clock w) (HOST_MBOX + tx_tail_off)"
  have "poll_frame w ((tick w)\<lparr>mbox_tx := (mbox_tx (tick w))\<lparr>mb_tail := ?t\<rparr>\<rparr>)"
    by (simp add: poll_frame_def tick_def)
  then show ?case using Suc by (auto simp: ioread32_def Let_def intro: poll_frame_trans)
qed simp

text \<open>The writes of \<open>n\<close> bytes of \<open>bs\<close> to the device from offset \<open>dst\<close> on.\<close>

definition io_writes :: "u32 \<Rightarrow> u8 list \<Rightarrow> nat \<Rightarrow> kernel_call list" where
  "io_writes dst bs n =
     map (\<lambda>k. IoWrite32 (dst + 4 * of_nat k) (le_word (take 4 (drop (4 * k) bs)))) [0..<(3 + n) div 4]"

lemma toio_writes:
  "wil_memcpy_toio_32 env dst bs n w = w\<lparr>klog := klog w @ io_writes dst (bs @ we_over env) n\<rparr>"
  unfolding wil_memcpy_toio_klog io_writes_def by (simp only: add.commute)

definition send_writes ::
  "wmi_env \<Rightarrow> u32 \<Rightarrow> u32 \<Rightarrow> u32 \<Rightarrow> u16 \<Rightarrow> u16 \<Rightarrow> u8 list \<Rightarrow> u16 \<Rightarrow> kernel_call list" where
  "send_writes env dst head next_head seq cmdid buf len =
     io_writes dst (mbox_hdr_bytes \<lparr>hdr_seq = seq, hdr_len = 8 + len,
         hdr_type = WIL_MBOX_HDR_TYPE_WMI, hdr_flags = 0\<rparr> @ wil6210_mbox_hdr_wmi cmdid @ we_over env) 16 @
     io_writes (dst + 16) (buf @ we_over env) (unat len) @
     [IoWrite32 (HOSTADDR head) 1, IoWrite32 (HOST_MBOX + tx_head_off) next_head,
      IoWrite32 HOST_SW_INT SW_INT_MBOX]"

lemma do_wmi_send_ok:
  assumes "tx_mbox_ok (mbox_tx w)"
  shows "\<exists>rc w'. do_wmi_send env cmdid buf len w = Some (rc, w') \<and> send_frame w w' \<and>
     (rc \<noteq> None \<longrightarrow> poll_frame w w') \<and>
     (rc = None \<longrightarrow> (\<exists>dst next_head. mbox_next (mbox_tx w) (mb_head (mbox_tx w)) = Some next_head \<and>
        16 + unat len \<le> unat (mb_entry_size (mbox_tx w)) \<and> test_bit wil_status_fwready (wstatus w) \<and>
        unat dst < 0xc9000 \<and> mb_head (mbox_tx w') = next_head \<and> next_head \<noteq> mb_tail (mbox_tx w') \<and>
        wmi_seq w' = wmi_seq w + 1 \<and>
        klog w' = klog w @
          send_writes env dst (mb_head (mbox_tx w)) next_head (wmi_seq w + 1) cmdid buf len))"
proof -
  let ?r = "mbox_tx w"
  consider "16 + unat len > unat (mb_entry_size ?r) \<or> \<not> test_bit wil_status_fwready (wstatus w) \<or>
      wmi_addr (mb_head ?r) = None"
    | head where "16 + unat len \<le> unat (mb_entry_size ?r)" "test_bit wil_status_fwready (wstatus w)"
      "wmi_addr (mb_head ?r) = Some head"
    unfolding not_le [symmetric] by blast
  then show ?thesis
  proof cases
    case 1
    then show ?thesis by (auto simp: do_wmi_send_def Let_def)
  next
    case 2
    obtain d w1 where p: "poll_head env head 5 (0, 0) w = (d, w1)" by (rule prod.exhaust)
    have f1: "poll_frame w w1" using poll_head_ok [of w env head 5 "(0, 0)"] p by simp
    show ?thesis
    proof (cases "fst d = 0")
      case False
      then show ?thesis using 2 p f1 poll_frameD(4) [OF f1] by (simp add: do_wmi_send_def Let_def)
    next
      case True
      obtain nh where nh: "mbox_next ?r (mb_head ?r) = Some nh" 
        using assms 2(1) by (auto simp: mbox_next_def tx_mbox_ok_def)
      define w2 where "w2 = poll_tail env nh 5 w1"
      have f2: "poll_frame w w2" unfolding w2_def by (blast intro: poll_frame_trans f1 poll_tail_ok)
      note f = poll_frameD [OF f2]
      have step: "do_wmi_send env cmdid buf len w = (if nh = mb_tail (mbox_tx w2) then Some (Some EBUSY, w2)
          else (case wmi_buffer (snd d) of None \<Rightarrow> Some (Some EINVAL, w2)
            | Some dst \<Rightarrow> Some (None, w2\<lparr>wmi_seq := wmi_seq w2 + 1,
                mbox_tx := (mbox_tx w2)\<lparr>mb_head := nh\<rparr>,
                klog := klog w2 @ send_writes env dst (mb_head ?r) nh (wmi_seq w2 + 1) cmdid buf len\<rparr>)))"
        using 2 p True nh
        unfolding w2_def
        by (simp add: do_wmi_send_def Let_def toio_writes iowrite32_def klog_add_def
            send_writes_def split: option.split del: if_split)
      show ?thesis
      proof (cases "nh = mb_tail (mbox_tx w2) \<or> wmi_buffer (snd d) = None")
        case True
        then show ?thesis using step f2 f(4) by auto
      next
        case False
        then obtain dst where dst: "wmi_buffer (snd d) = Some dst" by blast
        have "send_frame w2 (w2\<lparr>wmi_seq := s, mbox_tx := (mbox_tx w2)\<lparr>mb_head := m\<rparr>, klog := l\<rparr>)"
          for s m l by (simp add: send_frame_def)
        then show ?thesis
          using step False dst nh 2 f wmi_buffer_bound(1) [OF dst] send_frame_trans [OF f(4)]
          by simp (rule exI [of _ dst], simp)
      qed
    qed
  qed
qed

subsection \<open>Slots of a mailbox ring\<close>

text \<open>\<open>mbox_slot r n p k\<close>: \<open>r\<close> has \<open>n\<close> slots of eight bytes and \<open>p\<close> is the address of slot \<open>k\<close>.\<close>

definition mbox_slot :: "wil6210_mbox_ring \<Rightarrow> nat \<Rightarrow> u32 \<Rightarrow> nat \<Rightarrow> bool" where
  "mbox_slot r n p k \<longleftrightarrow> unat (mb_size r) = 8 * n \<and> k < n \<and> p = mb_base r + of_nat (8 * k)"

lemma unat_of_nat_small: "m < 65536 \<Longrightarrow> unat (of_nat m :: u32) = m"
  by (simp add: unat_of_nat)

lemma mbox_slot_next:
  assumes "mbox_slot r n p k"
  shows "mbox_next r p = Some (mb_base r + of_nat (8 * ((k + 1) mod n)))"
    "mbox_slot r n (mb_base r + of_nat (8 * ((k + 1) mod n))) ((k + 1) mod n)"
proof -
  have n: "unat (mb_size r) = 8 * n" "k < n" "p = mb_base r + of_nat (8 * k)"
    using assms by (auto simp: mbox_slot_def)
  have "8 * k < 65536" using n(1,2) unat_u16_bound [of "mb_size r"] by linarith
  then have k: "unat (p - mb_base r) = 8 * k"
    unfolding n(3) add_diff_cancel_left' by (rule unat_of_nat_small)
  have "mb_size r \<noteq> 0" using n by (auto simp: word_unat_eq_iff)
  moreover have "(8 * k + 8) mod (8 * n) = 8 * ((k + 1) mod n)"
    using mult_mod_right [of 8 "k + 1" n] by (simp add: add.commute)
  ultimately show "mbox_next r p = Some (mb_base r + of_nat (8 * ((k + 1) mod n)))"
    by (simp only: mbox_next_def k n(1)) simp
  show "mbox_slot r n (mb_base r + of_nat (8 * ((k + 1) mod n))) ((k + 1) mod n)"
    using n by (simp add: mbox_slot_def)
qed

lemma mbox_slot_eq:
  assumes "mbox_slot r n p k" "mbox_slot r n q j"
  shows "p = q \<longleftrightarrow> k = j"
proof -
  have b: "8 * k < 65536" "8 * j < 65536"
    using assms unat_u16_bound [of "mb_size r"] unfolding mbox_slot_def by linarith+
  have "unat (of_nat (8 * k) :: u32) = 8 * k" "unat (of_nat (8 * j) :: u32) = 8 * j"
    by (rule unat_of_nat_small [OF b(1)], rule unat_of_nat_small [OF b(2)])
  then have "(of_nat (8 * k) :: u32) = of_nat (8 * j) \<longleftrightarrow> k = j"
    by (metis mult_cancel1 zero_neq_numeral)
  then show ?thesis using assms by (simp add: mbox_slot_def)
qed

subsection \<open>Receiving\<close>

definition recv_frame :: "wil6210_priv \<Rightarrow> wil6210_priv \<Rightarrow> bool" where
  "recv_frame w w' \<longleftrightarrow>
     w' = w\<lparr>mbox_rx := mbox_rx w', pending_wmi_ev := pending_wmi_ev w', klog := klog w',
       io_clock := io_clock w'\<rparr> \<and>
     mb_base (mbox_rx w') = mb_base (mbox_rx w) \<and> mb_size (mbox_rx w') = mb_size (mbox_rx w)"

lemma recv_frame_refl [simp, intro]: "recv_frame w w"
  by (simp add: recv_frame_def)

lemma recv_frame_trans [trans]: "recv_frame w w1 \<Longrightarrow> recv_frame w1 w2 \<Longrightarrow> recv_frame w w2"
  unfolding recv_frame_def by (cases w, cases w1, cases w2) simp

lemma io_recv_frame: "io_frame w w' \<Longrightarrow> recv_frame w w'"
  unfolding io_frame_def recv_frame_def by (cases w, cases w') simp

lemma recv_one_ok:
  assumes "mb_size (mbox_rx w) \<noteq> 0"
  shows "\<exists>more w'. recv_one env w = Some (more, w') \<and> recv_frame w w' \<and>
     mb_head (mbox_rx w') = we_io env (io_clock w) (HOST_MBOX + rx_head_off) \<and>
     (if more
      then mb_tail (mbox_rx w) \<noteq> mb_head (mbox_rx w') \<and>
        (\<exists>e. pending_wmi_ev w' = pending_wmi_ev w @ [e]) \<and>
        mbox_next (mbox_rx w) (mb_tail (mbox_rx w)) = Some (mb_tail (mbox_rx w'))
      else pending_wmi_ev w' = pending_wmi_ev w \<and> mb_tail (mbox_rx w') = mb_tail (mbox_rx w))"
proof -
  define h where "h = we_io env (io_clock w) (HOST_MBOX + rx_head_off)"
  define w1 where "w1 = (tick w)\<lparr>mbox_rx := (mbox_rx w)\<lparr>mb_head := h\<rparr>\<rparr>"
  let ?t = "mb_tail (mbox_rx w)"
  have w1: "recv_frame w w1" "mbox_rx w1 = (mbox_rx w)\<lparr>mb_head := h\<rparr>" "pending_wmi_ev w1 = pending_wmi_ev w"
    by (simp_all add: w1_def recv_frame_def tick_def)
  obtain sy ad w2 where r2: "read_mbox_desc env (HOSTADDR ?t) w1 = ((sy, ad), w2)"
    by (metis prod.exhaust)
  obtain hdr w3 where r3: "wmi_read_hdr env ad w2 = (hdr, w3)" by (rule prod.exhaust)
  obtain ok w4 where r4: "kmalloc env w3 = (ok, w4)" by (rule prod.exhaust)
  have f2: "io_frame w1 w2"
    using r2 wil_memcpy_fromio_ok(1) [of env "HOSTADDR ?t" 8 w1] by (auto simp: read_mbox_desc_def split: prod.splits)
  have f3: "io_frame w2 w3"
    using r3 wil_memcpy_fromio_ok(1) [of env _ 8 w2] by (auto simp: wmi_read_hdr_def split: option.splits prod.splits)
  have f4: "io_frame w3 w4" using r4 by (auto simp: kmalloc_def)
  note g3 = io_frame_trans [OF f2 f3] note g4 = io_frame_trans [OF g3 f4]
  have stop: "recv_frame w w' \<and> mb_head (mbox_rx w') = h \<and> pending_wmi_ev w' = pending_wmi_ev w \<and>
      mb_tail (mbox_rx w') = ?t" if "io_frame w1 w'" for w'
    using recv_frame_trans [OF w1(1) io_recv_frame [OF that]] io_frameD [OF that] w1 by simp
  have step: "recv_one env w =
     (if ?t = h then Some (False, w1) else if sy = 0 then Some (False, w2)
      else (case hdr of None \<Rightarrow> Some (False, w3) | Some hdr \<Rightarrow>
        if \<not> ok then Some (False, w4)
        else let (bs, w) = wil_memcpy_fromio_32 env (the (wmi_buffer ad) + 8) (unat (hdr_len hdr)) w4;
                 w = iowrite32 0 (HOSTADDR ?t) w
             in do {
               tail \<leftarrow> mbox_next (mbox_rx w1) ?t;
               let w = w\<lparr>mbox_rx := (mbox_rx w)\<lparr>mb_tail := tail\<rparr>\<rparr>;
               let w = iowrite32 tail (HOST_MBOX + rx_tail_off) w;
               let w = w\<lparr>pending_wmi_ev := pending_wmi_ev w @ [\<lparr>ev_hdr = hdr, ev_data = bs\<rparr>]\<rparr>;
               Some (True, klog_add (QueueWork wmi_event_work) w) }))"
    using r2 r3 r4 w1(2) io_frameD(3) [OF io_frame_step(1) [of w]]
    by (simp add: recv_one_def Let_def ioread32_def h_def [symmetric] w1_def [symmetric]
        split: option.split)
  consider "?t = h \<or> sy = 0 \<or> hdr = None \<or> \<not> ok" | hd where "?t \<noteq> h" "sy \<noteq> 0" "hdr = Some hd" "ok"
    by (cases hdr) auto
  then show ?thesis
  proof cases
    case 1
    then show ?thesis
      using step stop [OF io_frame_refl] stop [OF f2] stop [OF g3] stop [OF g4]
      by (auto simp: h_def [symmetric] split: option.split)
  next
    case 2
    obtain bs w5 where r5: "wil_memcpy_fromio_32 env (the (wmi_buffer ad) + 8) (unat (hdr_len hd)) w4 = (bs, w5)"
      by (rule prod.exhaust)
    obtain nt where nt: "mbox_next (mbox_rx w) ?t = Some nt" using assms by (simp add: mbox_next_def)
    have g5: "io_frame w1 (iowrite32 0 (HOSTADDR ?t) w5)"
      by (blast intro: io_frame_trans g4 wil_memcpy_fromio_ok(1) [OF r5])
    note s5 = stop [OF g5]
    let ?w = "iowrite32 0 (HOSTADDR ?t) w5"
    let ?w' = "klog_add (QueueWork wmi_event_work) ((iowrite32 nt (HOST_MBOX + rx_tail_off)
       (?w\<lparr>mbox_rx := (mbox_rx ?w)\<lparr>mb_tail := nt\<rparr>\<rparr>))\<lparr>pending_wmi_ev := pending_wmi_ev ?w @ [\<lparr>ev_hdr = hd, ev_data = bs\<rparr>]\<rparr>)"
    have "mbox_next (mbox_rx w1) ?t = mbox_next (mbox_rx w) ?t" by (simp add: mbox_next_def w1(2))
    with nt have "mbox_next (mbox_rx w1) ?t = Some nt" by simp
    then have "recv_one env w = Some (True, ?w')"
      using 2 step r5 by (simp add: Let_def iowrite32_def klog_add_def)
    moreover have "recv_frame ?w ?w'"
      by (simp add: recv_frame_def iowrite32_def klog_add_def)
    then have "recv_frame w ?w'" using s5 recv_frame_trans by blast
    moreover have "mbox_rx ?w' = (mbox_rx ?w)\<lparr>mb_tail := nt\<rparr>"
      "pending_wmi_ev ?w' = pending_wmi_ev ?w @ [\<lparr>ev_hdr = hd, ev_data = bs\<rparr>]"
      by (simp_all add: iowrite32_def klog_add_def)
    ultimately show ?thesis
      using 2(1) s5 nt unfolding h_def [symmetric] by (intro exI [of _ True] exI [of _ ?w']) simp
  qed
qed

text \<open>
  With the firmware's head standing still the loop stops, having taken at most the events there are.
\<close>

lemma recv_loop_ok:
  assumes h: "\<And>t. we_io env t (HOST_MBOX + rx_head_off) = h"
  shows "mbox_slot (mbox_rx w) n (mb_tail (mbox_rx w)) k \<Longrightarrow> mbox_slot (mbox_rx w) n h j \<Longrightarrow>
     \<exists>w' evs. recv_loop env w = Some w' \<and> recv_frame w w' \<and>
       pending_wmi_ev w' = pending_wmi_ev w @ evs \<and> length evs \<le> ring_span n k j \<and>
       mbox_slot (mbox_rx w') n (mb_tail (mbox_rx w')) ((k + length evs) mod n)"
proof (induction "ring_span n k j" arbitrary: w k rule: less_induct)
  case less
  note sl = less.prems
  have n: "unat (mb_size (mbox_rx w)) = 8 * n" "k < n" "j < n" using sl by (auto simp: mbox_slot_def)
  then have "mb_size (mbox_rx w) \<noteq> 0" by (auto simp: word_unat_eq_iff)
  from recv_one_ok [OF this, of env] obtain more w1 where r: "recv_one env w = Some (more, w1)"
    "recv_frame w w1" "mb_head (mbox_rx w1) = h"
    "if more then mb_tail (mbox_rx w) \<noteq> h \<and> (\<exists>e. pending_wmi_ev w1 = pending_wmi_ev w @ [e]) \<and>
        mbox_next (mbox_rx w) (mb_tail (mbox_rx w)) = Some (mb_tail (mbox_rx w1))
      else pending_wmi_ev w1 = pending_wmi_ev w \<and> mb_tail (mbox_rx w1) = mb_tail (mbox_rx w)"
    unfolding h by metis
  have same: "mbox_slot (mbox_rx w1) n p i = mbox_slot (mbox_rx w) n p i" for p i
    using r(2) by (simp add: recv_frame_def mbox_slot_def)
  show ?case
  proof (cases more)
    case False
    then have "recv_loop env w = Some w1" using r(1) by (subst recv_loop.simps) simp
    then show ?thesis
      using False r(2,4) sl(1) n(2) by (intro exI [of _ w1] exI [of _ "[]"]) (simp add: same)
  next
    case True
    then obtain e where e: "pending_wmi_ev w1 = pending_wmi_ev w @ [e]" "mb_tail (mbox_rx w) \<noteq> h"
      "mbox_next (mbox_rx w) (mb_tail (mbox_rx w)) = Some (mb_tail (mbox_rx w1))" using r(4) by auto
    have "k \<noteq> j" using mbox_slot_eq [OF sl] e(2) by simp
    then have pos: "0 < ring_span n k j" using ring_span_empty [of k n j] n by simp
    note adv = ring_span_advance [OF n(2,3) pos]
    have t1: "mbox_slot (mbox_rx w1) n (mb_tail (mbox_rx w1)) ((k + 1) mod n)"
      using mbox_slot_next [OF sl(1)] e(3) unfolding same by simp
    have "ring_span n ((k + 1) mod n) j < ring_span n k j" using adv pos by simp
    from less.hyps [OF this t1 sl(2) [folded same]] obtain w' evs where
      IH: "recv_loop env w1 = Some w'" "recv_frame w1 w'" "pending_wmi_ev w' = pending_wmi_ev w1 @ evs"
      "length evs \<le> ring_span n ((k + 1) mod n) j"
      "mbox_slot (mbox_rx w') n (mb_tail (mbox_rx w')) (((k + 1) mod n + length evs) mod n)" by blast
    have "recv_loop env w = Some w'" using True r(1) IH(1) by (subst recv_loop.simps) simp
    moreover have "((k + 1) mod n + length evs) mod n = (k + length (e # evs)) mod n"
      by (simp add: mod_add_left_eq)
    moreover have "length (e # evs) \<le> ring_span n k j" using IH(4) adv pos by simp
    ultimately show ?thesis
      using recv_frame_trans [OF r(2) IH(2)] IH(3,5) e(1)
      by (intro exI [of _ w'] exI [of _ "e # evs"]) simp
  qed
qed

subsection \<open>The queue of events\<close>

definition push_wmi_ev :: "pending_wmi_event \<Rightarrow> wil6210_priv \<Rightarrow> wil6210_priv" where
  "push_wmi_ev e w = w\<lparr>pending_wmi_ev := pending_wmi_ev w @ [e]\<rparr>"

interpretation ev_queue: work_queue pending_wmi_ev push_wmi_ev next_wmi_ev
  by unfold_locales (auto simp: push_wmi_ev_def next_wmi_ev_def)

end
