(* ===== verification/Wil_Back.thy ===== *)
theory Wil_Back
  imports Wil_Wmi_Cmd Wil_Mbox_Correct Wil_Reorder_Order
begin

text \<open>
  Block acknowledgement requests of the peers (\<^verbatim>\<open>rx_reorder.c\<close>): queued by the firmware's
  event, answered by a worker, which then starts the reorder session.
\<close>

definition wil_rcp_addba_request ::
  "wmi_env \<Rightarrow> u8 \<Rightarrow> u8 \<Rightarrow> u16 \<Rightarrow> u16 \<Rightarrow> u16 \<Rightarrow> wil6210_priv \<Rightarrow> errno option \<times> wil6210_priv" where
  "wil_rcp_addba_request env cidxtid dialog_token ba_param_set ba_timeout ba_seq_ctrl w =
     (let (ok, w) = kmalloc env w
      in if \<not> ok then (Some ENOMEM, w)
         else
           let req = \<lparr>pb_cidxtid = cidxtid, pb_dialog_token = dialog_token,
                 pb_ba_param_set = ba_param_set, pb_ba_timeout = ba_timeout,
                 pb_ba_seq_ctrl = ba_seq_ctrl, pb_agg_wsize = 0, pb_agg_timeout = 0,
                 pb_agg_policy = False, pb_agg_amsdu = False\<rparr>;
               w = w\<lparr>back_pending := back_pending w @ [req]\<rparr>
           in (None, klog_add (QueueWork back_work) w))"

text \<open>\<open>wil_tid_ampdu_rx_alloc\<close> with the verdicts of its allocations.\<close>

definition tid_alloc ::
  "wmi_env \<Rightarrow> nat \<Rightarrow> u16 \<Rightarrow> wil6210_priv \<Rightarrow> wil_tid_ampdu_rx option \<times> wil6210_priv" where
  "tid_alloc env sz ssn0 w =
     (let (r_mem, w) = kmalloc env w
      in if \<not> r_mem then (None, w)
         else
           let (buf_mem, w) = kmalloc env w;
               (time_mem, w) = kmalloc env w
           in (wil_tid_ampdu_rx_alloc r_mem buf_mem time_mem sz ssn0, w))"

text \<open>The policy: at most 16 frames, immediate acknowledgement, no A-MSDU.\<close>

definition back_policy :: "wil_pending_back \<Rightarrow> wil_pending_back" where
  "back_policy req =
     (let req_agg_wsize = ucast (WIL_GET_BITS (ucast (pb_ba_param_set req)) 6 15) :: u16
      in req\<lparr>pb_agg_timeout := pb_ba_timeout req, pb_agg_wsize := min 16 req_agg_wsize,
           pb_agg_policy := True, pb_agg_amsdu := False\<rparr>)"

definition wil_back_handle ::
  "(skb_ptr \<Rightarrow> bool) \<Rightarrow> call_env \<Rightarrow> u8 list \<Rightarrow> wil_pending_back \<Rightarrow> wil6210_priv \<Rightarrow> wil6210_priv option" where
  "wil_back_handle ok env stack req w =
     (case parse_cidxtid (pb_cidxtid req) of (cid, tid) \<Rightarrow>
        if unat cid \<ge> WIL6210_MAX_CID then Some w
        else if sta_status (sta w ! unat cid) \<noteq> wil_sta_connected then Some w
        else do {
          let req = back_policy req;
          (rc, w) \<leftarrow> wmi_rcp_addba_resp env stack cid tid (pb_dialog_token req) 0
            (pb_agg_amsdu req) (pb_agg_wsize req) (pb_agg_timeout req) w;
          (if rc \<noteq> None then Some w
           else do {
             w \<leftarrow> wil_tid_ampdu_rx_free ok (tid_rx (sta w ! unat cid) ! unat tid) w;
             let (r, w) = tid_alloc (cc_wmi env) (unat (pb_agg_wsize req))
               (drop_bit 4 (pb_ba_seq_ctrl req)) w;
             Some (set_tid_rx (unat cid) (unat tid) r w)
           })
        })"

definition wil_back_flush :: "wil6210_priv \<Rightarrow> wil6210_priv" where
  "wil_back_flush w = w\<lparr>back_pending := []\<rparr>"

definition next_back :: "wil6210_priv \<Rightarrow> wil_pending_back option \<times> wil6210_priv" where
  "next_back w =
     (case back_pending w of
        [] \<Rightarrow> (None, w)
      | r # rs \<Rightarrow> (Some r, w\<lparr>back_pending := rs\<rparr>))"

definition wil_back_worker ::
  "(skb_ptr \<Rightarrow> bool) \<Rightarrow> call_env \<Rightarrow> u8 list \<Rightarrow> wil6210_priv \<Rightarrow> wil6210_priv option" where
  "wil_back_worker ok env stack = work_loop next_back (wil_back_handle ok env stack)"

definition push_back_req :: "wil_pending_back \<Rightarrow> wil6210_priv \<Rightarrow> wil6210_priv" where
  "push_back_req r w = w\<lparr>back_pending := back_pending w @ [r]\<rparr>"

interpretation back_queue: work_queue back_pending push_back_req next_back
  by unfold_locales (auto simp: push_back_req_def next_back_def)

subsection \<open>Correctness\<close>

lemma wmi_send_ok:
  assumes "tx_mbox_ok (mbox_tx w)"
  shows "\<exists>rc w'. wmi_send env cmdid buf w = Some (rc, w') \<and> send_frame w w'"
  using do_wmi_send_ok [OF assms] unfolding wmi_send_def by metis

lemma back_wsize_le: "unat (pb_agg_wsize (back_policy req)) \<le> 16"
  by (simp add: back_policy_def Let_def min_def word_le_nat_alt)

lemma parse_cidxtid_bound: "parse_cidxtid b = (cid, tid) \<Longrightarrow> unat cid < 16 \<and> unat tid < 16"
  using and_0xf_less [of b] and_0xf_less [of "drop_bit 4 b"] by (auto simp: parse_cidxtid_def)

lemma tid_alloc_ok: "io_frame w (snd (tid_alloc env n s w))"
  "fst (tid_alloc env n s w) = Some r \<Longrightarrow>
     wil_tid_ampdu_rx_alloc True True True n s = Some r"
  by (auto simp: tid_alloc_def kmalloc_def Let_def wil_tid_ampdu_rx_alloc_def io_frame_def tick_def
      split: if_splits)

lemma tid_alloc_safe:
  assumes "fst (tid_alloc env n s w) = Some r" "0 < n" "n < 65536"
  shows "reorder_safe r" "buf_size r = of_nat n" "head_seq_num r = s" "somes (reorder_buf r) = []"
proof -
  have "r = \<lparr>reorder_buf = replicate n None, reorder_time = replicate n 0, head_seq_num = s,
      stored_mpdu_num = 0, ssn = s, buf_size = of_nat n, ssn_last_drop = 0\<rparr>"
    using tid_alloc_ok(2) [OF assms(1)] by (simp add: wil_tid_ampdu_rx_alloc_def)
  moreover have "unat (of_nat n :: u16) = n" using assms(3) by (simp add: unat_of_nat)
  moreover from this have "(of_nat n :: u16) \<noteq> 0" using assms(2) by (metis less_numeral_extra(3) unat_0)
  ultimately show "reorder_safe r" "buf_size r = of_nat n" "head_seq_num r = s"
    "somes (reorder_buf r) = []" by (simp_all add: reorder_safe_def)
qed

lemma tid_alloc_cases:
  assumes "tid_alloc env n s w = (x, w')" "n < 65536"
  shows "send_frame w w'"
    "case x of None \<Rightarrow> \<exists>t. \<not> we_alloc env t
     | Some r \<Rightarrow> buf_size r = of_nat n \<and> head_seq_num r = s \<and> somes (reorder_buf r) = [] \<and>
         (0 < n \<longrightarrow> reorder_safe r)"
proof -
  show "send_frame w w'" using tid_alloc_ok(1) [of w env n s] assms(1) by (simp add: io_send_frame)
  show "case x of None \<Rightarrow> \<exists>t. \<not> we_alloc env t
     | Some r \<Rightarrow> buf_size r = of_nat n \<and> head_seq_num r = s \<and> somes (reorder_buf r) = [] \<and>
         (0 < n \<longrightarrow> reorder_safe r)"
  proof (cases x)
    case None
    then show ?thesis
      using assms(1) by (auto simp: tid_alloc_def kmalloc_def Let_def wil_tid_ampdu_rx_alloc_def
          split: if_splits)
  next
    case (Some r)
    then have "wil_tid_ampdu_rx_alloc True True True n s = Some r"
      using tid_alloc_ok(2) [of env n s w] assms(1) by simp
    then have "buf_size r = of_nat n" "head_seq_num r = s" "somes (reorder_buf r) = []"
      by (auto simp: wil_tid_ampdu_rx_alloc_def)
    then show ?thesis using Some tid_alloc_safe(1) [of env n s w r] assms by simp
  qed
qed

text \<open>Ending a safe session returns and changes only what delivery changes.\<close>

lemma tid_ampdu_rx_free_total:
  assumes "\<And>r. x = Some r \<Longrightarrow> reorder_safe r"
  shows "\<exists>w'. wil_tid_ampdu_rx_free ok x w = Some w' \<and> rx_frame w w'"
proof (cases x)
  case (Some r)
  obtain w' r' where 1: "wil_release_reorder_frames ok (head_seq_num r + buf_size r) (w, r) = Some (w', r')"
    using release_frames_safe [of "(w, r)"] assms Some by fastforce
  then show ?thesis
    using Some release_frames_frame [OF 1] by (simp add: wil_tid_ampdu_rx_free_def)
qed (simp add: wil_tid_ampdu_rx_free_def)

end
