(* ===== verification/Wil_Disconnect.thy ===== *)
theory Wil_Disconnect
  imports Wil_Wmi_Cmd Wil_Mbox_Correct Wil_Back Wil_Tx Wil_Rx_Correct
begin

text \<open>
  Taking connections down (\<^verbatim>\<open>main.c\<close>): one peer with its sessions and rings, all peers,
  the state of the link and what cfg80211 is told. The answers of the network stack to delivered
  frames are the parameter \<open>ok\<close>.
\<close>

subsection \<open>Operations\<close>

definition WLAN_REASON_DEAUTH_LEAVING :: u16 where "WLAN_REASON_DEAUTH_LEAVING = 3"

definition disconnect_tid ::
  "(skb_ptr \<Rightarrow> bool) \<Rightarrow> nat \<Rightarrow> nat \<Rightarrow> wil6210_priv \<Rightarrow> wil6210_priv option" where
  "disconnect_tid ok cid i w =
     (let r = tid_rx (sta w ! cid) ! i
      in wil_tid_ampdu_rx_free ok r (set_tid_rx cid i None w))"

definition disconnect_ring :: "nat \<Rightarrow> nat \<Rightarrow> wil6210_priv \<Rightarrow> wil6210_priv option" where
  "disconnect_ring cid i w =
     (if unat (fst (vring2cid_tid w ! i)) = cid then wil_vring_fini_tx i w else Some w)"

definition wil_disconnect_cid ::
  "(skb_ptr \<Rightarrow> bool) \<Rightarrow> wmi_env \<Rightarrow> nat \<Rightarrow> wil6210_priv \<Rightarrow> wil6210_priv option" where
  "wil_disconnect_cid ok env cid w = do {
     w \<leftarrow> (if sta_status (sta w ! cid) \<noteq> wil_sta_unused
       then do {
         (_, w) \<leftarrow> wmi_disconnect_sta env (sta_addr (sta w ! cid)) WLAN_REASON_DEAUTH_LEAVING w;
         Some (upd_sta cid (\<lambda>s. s\<lparr>sta_status := wil_sta_unused\<rparr>) w)
       }
       else Some w);
     w \<leftarrow> run_inputs (disconnect_tid ok cid) [0..<WIL_STA_TID_NUM] w;
     w \<leftarrow> run_inputs (disconnect_ring cid) [0..<WIL6210_MAX_TX_RINGS] w;
     Some (upd_sta cid (\<lambda>s. s\<lparr>sta_stats := zero_net_stats\<rparr>) w)
   }"

text \<open>What follows the disconnection: the link state of a station, the peer of an access point.\<close>

definition disconnect_link :: "mac_addr option \<Rightarrow> wil6210_priv \<Rightarrow> wil6210_priv" where
  "disconnect_link bssid w =
     (if wd_iftype (wdev w) \<in> {NL80211_IFTYPE_STATION, NL80211_IFTYPE_P2P_CLIENT}
      then
        let w = wil_link_off w;
            w = w\<lparr>wstatus := clear_bit wil_status_fwconnected (wstatus w)\<rparr>;
            w = (case wd_sme_state (wdev w) of
                CFG80211_SME_CONNECTED \<Rightarrow> klog_add Cfg80211Disconnected w
              | CFG80211_SME_CONNECTING \<Rightarrow> klog_add (Cfg80211ConnectResult False bssid None None) w
              | CFG80211_SME_IDLE \<Rightarrow> w)
        in w\<lparr>wstatus := clear_bit wil_status_dontscan (wstatus w)\<rparr>
      else (case bssid of None \<Rightarrow> w | Some a \<Rightarrow> klog_add (Cfg80211DelSta a) w))"

definition do_wil6210_disconnect ::
  "(skb_ptr \<Rightarrow> bool) \<Rightarrow> wmi_env \<Rightarrow> mac_addr option \<Rightarrow> wil6210_priv \<Rightarrow> wil6210_priv option" where
  "do_wil6210_disconnect ok env bssid w = do {
     w \<leftarrow> (case Option.bind bssid (wil_find_cid w) of
         Some cid \<Rightarrow> wil_disconnect_cid ok env cid w
       | None \<Rightarrow>
           (case bssid of
              None \<Rightarrow> Some w
            | Some a \<Rightarrow>
                if ether_addr_equal (nd_addr (ndev w)) a
                then run_inputs (wil_disconnect_cid ok env) [0..<WIL6210_MAX_CID] w
                else Some w));
     Some (disconnect_link bssid w)
   }"

definition wil6210_disconnect ::
  "(skb_ptr \<Rightarrow> bool) \<Rightarrow> wmi_env \<Rightarrow> mac_addr option \<Rightarrow> wil6210_priv \<Rightarrow> wil6210_priv option" where
  "wil6210_disconnect ok env bssid w = do_wil6210_disconnect ok env bssid (w\<lparr>connect_timer := False\<rparr>)"

definition wil_disconnect_worker ::
  "(skb_ptr \<Rightarrow> bool) \<Rightarrow> wmi_env \<Rightarrow> wil6210_priv \<Rightarrow> wil6210_priv option" where
  "wil_disconnect_worker ok env w = do_wil6210_disconnect ok env None w"

definition wil_connect_timer_fn :: "wil6210_priv \<Rightarrow> wil6210_priv" where
  "wil_connect_timer_fn w = klog_add (QueueWork disconnect_worker) w"

subsection \<open>The invariant of the driver state\<close>

text \<open>A Tx ring is released, with nothing between its indices, or well formed.\<close>

definition ring_off_or_ok :: "vring \<Rightarrow> bool" where
  "ring_off_or_ok v \<longleftrightarrow> vr_va v = None \<and> wil_vring_is_empty v \<or> vring_ok v"

text \<open>The Rx ring is released, or well formed with a buffer in every slot in use.\<close>

definition rx_off_or_ok :: "vring \<Rightarrow> bool" where
  "rx_off_or_ok v \<longleftrightarrow> vr_va v = None \<or> rx_ring_ok v"

text \<open>The peer of every ring is a peer.\<close>

definition ring_cids_ok :: "wil6210_priv \<Rightarrow> bool" where
  "ring_cids_ok w \<longleftrightarrow> (\<forall>i < WIL6210_MAX_TX_RINGS. unat (fst (vring2cid_tid w ! i)) < WIL6210_MAX_CID)"

definition driver_ok :: "wil6210_priv \<Rightarrow> bool" where
  "driver_ok w \<longleftrightarrow> wil_arrays_ok w \<and> sessions_safe w \<and> tx_mbox_ok (mbox_tx w) \<and>
     (\<forall>v \<in> set (vring_tx w). ring_off_or_ok v) \<and> rx_off_or_ok (vring_rx w) \<and> ring_cids_ok w \<and>
     pending_connect_cid w < int WIL6210_MAX_CID"

lemmas driver_ok_defs = driver_ok_def wil_arrays_ok_def sessions_safe_def ring_cids_ok_def

lemma driver_okD:
  assumes "driver_ok w"
  shows "wil_arrays_ok w" "sessions_safe w" "tx_mbox_ok (mbox_tx w)"
    "i < WIL6210_MAX_TX_RINGS \<Longrightarrow> ring_off_or_ok (vring_tx w ! i)"
    "length (sta w) = WIL6210_MAX_CID" "length (vring_tx w) = WIL6210_MAX_TX_RINGS"
    "cid < WIL6210_MAX_CID \<Longrightarrow> length (tid_rx (sta w ! cid)) = WIL_STA_TID_NUM"
    "rx_off_or_ok (vring_rx w)" "ring_cids_ok w" "pending_connect_cid w < int WIL6210_MAX_CID"
  using assms by (auto simp: driver_ok_def wil_arrays_ok_def)

lemma driver_ok_rx_frame:
  assumes "rx_frame w w'" "driver_ok w"
  shows "driver_ok w'"
proof -
  have 1: "w' = w\<lparr>sta := sta w', ndev := ndev w', skbs := skbs w', klog := klog w'\<rparr>"
    using assms(1) by (simp add: rx_frame_def)
  have "vring_tx w' = vring_tx w" "mbox_tx w' = mbox_tx w" "vring_rx w' = vring_rx w"
    "vring2cid_tid w' = vring2cid_tid w" "pending_connect_cid w' = pending_connect_cid w" by (subst 1, simp)+
  then show ?thesis
    using assms rx_frame_arrays rx_frame_sessions by (simp add: driver_ok_def ring_cids_ok_def)
qed

lemma driver_ok_send_frame:
  assumes "send_frame w w'" "driver_ok w"
  shows "driver_ok w'"
proof -
  have 1: "w' = w\<lparr>mbox_tx := mbox_tx w', wmi_seq := wmi_seq w', klog := klog w', io_clock := io_clock w'\<rparr>"
    and 2: "tx_mbox_ok (mbox_tx w') = tx_mbox_ok (mbox_tx w)"
    using assms(1) by (simp_all add: send_frame_def)
  have 3: "sta w' = sta w" "vring_tx w' = vring_tx w" "vring_txdata w' = vring_txdata w"
    "vring2cid_tid w' = vring2cid_tid w" "vring_rx w' = vring_rx w"
    "pending_connect_cid w' = pending_connect_cid w" by (subst 1, simp)+
  then show ?thesis using assms(2) 2 by (simp add: driver_ok_defs)
qed

lemma driver_ok_buf_frame:
  assumes "buf_frame w w'" "driver_ok w"
  shows "driver_ok w'"
proof -
  have 1: "w' = w\<lparr>skbs := skbs w', klog := klog w'\<rparr>" using assms(1) by (simp add: buf_frame_def)
  have 3: "sta w' = sta w" "vring_tx w' = vring_tx w" "vring_txdata w' = vring_txdata w"
    "vring2cid_tid w' = vring2cid_tid w" "mbox_tx w' = mbox_tx w" "vring_rx w' = vring_rx w"
    "pending_connect_cid w' = pending_connect_cid w" by (subst 1, simp)+
  then show ?thesis using assms(2) by (simp add: driver_ok_defs)
qed

text \<open>Fields the invariant does not look at.\<close>

lemma driver_ok_fields [simp]:
  "driver_ok (w\<lparr>wstatus := a\<rparr>) = driver_ok w" "driver_ok (w\<lparr>connect_timer := b\<rparr>) = driver_ok w"
  "driver_ok (w\<lparr>ndev := d\<rparr>) = driver_ok w" "driver_ok (klog_add e w) = driver_ok w"
  "driver_ok (w\<lparr>reply_id := i, reply_buf := f, reply_size := n\<rparr>) = driver_ok w"
  "driver_ok (w\<lparr>wmi_ready := k\<rparr>) = driver_ok w" "driver_ok (w\<lparr>fw_version := v\<rparr>) = driver_ok w"
  "driver_ok (w\<lparr>n_mids := m\<rparr>) = driver_ok w" "driver_ok (w\<lparr>scan_request := s\<rparr>) = driver_ok w"
  "driver_ok (w\<lparr>sinfo_gen := g\<rparr>) = driver_ok w" "driver_ok (w\<lparr>wstats := t\<rparr>) = driver_ok w"
  "driver_ok (w\<lparr>skbs := h\<rparr>) = driver_ok w"
  "driver_ok (w\<lparr>pending_wmi_ev := es\<rparr>) = driver_ok w" "driver_ok (w\<lparr>back_pending := bs\<rparr>) = driver_ok w"
  "driver_ok (w\<lparr>connect_queued := q\<rparr>) = driver_ok w"
  "driver_ok (w\<lparr>isr_misc := j\<rparr>) = driver_ok w" "driver_ok (w\<lparr>mbox_rx := x\<rparr>) = driver_ok w"
  "driver_ok (tick w) = driver_ok w"
  by (simp_all add: driver_ok_defs klog_add_def tick_def)

lemma driver_ok_set_field:
  "driver_ok w \<Longrightarrow> rx_off_or_ok u \<Longrightarrow> driver_ok (w\<lparr>vring_rx := u\<rparr>)"
  "driver_ok w \<Longrightarrow> c < int WIL6210_MAX_CID \<Longrightarrow> driver_ok (w\<lparr>pending_connect_cid := c\<rparr>)"
  by (simp_all add: driver_ok_defs)

lemma driver_ok_upd_sta:
  assumes "driver_ok w" "\<And>s. tid_rx (f s) = tid_rx s" "\<And>s. length (sta_addr s) = 6 \<Longrightarrow> length (sta_addr (f s)) = 6"
  shows "driver_ok (upd_sta cid f w)"
proof (cases "cid < length (sta w)")
  case True
  let ?good = "\<lambda>s. length (tid_rx s) = WIL_STA_TID_NUM \<and> length (sta_addr s) = 6 \<and>
    (\<forall>r. Some r \<in> set (tid_rx s) \<longrightarrow> reorder_safe r)"
  have all: "\<forall>s \<in> set (sta w). ?good s"
    using assms(1) by (simp add: driver_ok_defs)
  then have "?good (sta w ! cid)" using True by (metis nth_mem)
  then have "?good (f (sta w ! cid))" using assms(3) by (simp add: assms(2))
  with all have "\<forall>s \<in> set ((sta w)[cid := f (sta w ! cid)]). ?good s"
    using set_update_subset_insert [of "sta w" cid "f (sta w ! cid)"] by blast
  then show ?thesis
    using assms(1) by (simp add: driver_ok_defs upd_sta_def)
qed (use assms(1) in \<open>simp add: upd_sta_def list_update_beyond not_less\<close>)

lemma driver_ok_set_tid_rx:
  assumes "driver_ok w" "\<And>x. r = Some x \<Longrightarrow> reorder_safe x"
  shows "driver_ok (set_tid_rx cid tid r w)"
  using assms set_tid_rx_arrays [of w cid tid r] set_tid_rx_safe [of w r cid tid]
  by (auto simp: driver_ok_def ring_cids_ok_def set_tid_rx_def upd_sta_def)

text \<open>What belongs to the contexts waiting for the firmware.\<close>

definition ctx_kept :: "wil6210_priv \<Rightarrow> wil6210_priv \<Rightarrow> bool" where
  "ctx_kept w w' \<longleftrightarrow> reply_buf w' = reply_buf w \<and> reply_size w' = reply_size w \<and>
     pending_wmi_ev w' = pending_wmi_ev w \<and> roc w' = roc w \<and> roc_counter w' = roc_counter w"

lemma ctx_kept_refl [simp]: "ctx_kept w w"
  by (simp add: ctx_kept_def)

lemma ctx_kept_trans: "ctx_kept w w1 \<Longrightarrow> ctx_kept w1 w2 \<Longrightarrow> ctx_kept w w2"
  by (simp add: ctx_kept_def)

subsection \<open>Taking one peer down\<close>

definition peer_view :: "wil_sta_info \<Rightarrow> mac_addr \<times> wil_sta_status \<times> wil_tid_ampdu_rx option list" where
  "peer_view s = (sta_addr s, sta_status s, tid_rx s)"

text \<open>Everything but the peer \<open>cid\<close> and its Tx rings is as before.\<close>

definition others_kept :: "nat \<Rightarrow> wil6210_priv \<Rightarrow> wil6210_priv \<Rightarrow> bool" where
  "others_kept cid w w' \<longleftrightarrow>
     length (sta w') = length (sta w) \<and> wdev w' = wdev w \<and> vring2cid_tid w' = vring2cid_tid w \<and>
     ctx_kept w w' \<and>
     (\<forall>c < length (sta w). c \<noteq> cid \<longrightarrow> peer_view (sta w' ! c) = peer_view (sta w ! c)) \<and>
     (\<forall>i. unat (fst (vring2cid_tid w ! i)) \<noteq> cid \<longrightarrow> vring_tx w' ! i = vring_tx w ! i)"

lemma others_kept_refl [simp]: "others_kept cid w w"
  by (simp add: others_kept_def)

lemma others_kept_trans: "others_kept cid w w1 \<Longrightarrow> others_kept cid w1 w2 \<Longrightarrow> others_kept cid w w2"
  using ctx_kept_trans by (auto simp: others_kept_def)

lemma rx_frame_peer:
  assumes "rx_frame w w'" "c < length (sta w)"
  shows "peer_view (sta w' ! c) = peer_view (sta w ! c)"
proof -
  have 1: "map tid_rx (sta w') = map tid_rx (sta w)" "map sta_addr (sta w') = map sta_addr (sta w)"
    "map sta_status (sta w') = map sta_status (sta w)"
    using assms(1) by (auto simp: rx_frame_def)
  moreover have "c < length (sta w')" using map_eq_imp_length_eq [OF 1(1)] assms(2) by simp
  ultimately show ?thesis using assms(2) unfolding peer_view_def by (metis nth_map)
qed

lemma rx_frame_rings:
  assumes "rx_frame w w'"
  shows "vring_tx w' = vring_tx w" "vring2cid_tid w' = vring2cid_tid w" "wdev w' = wdev w"
    "mbox_tx w' = mbox_tx w" "ctx_kept w w'"
proof -
  have 1: "w' = w\<lparr>sta := sta w', ndev := ndev w', skbs := skbs w', klog := klog w'\<rparr>"
    using assms by (simp add: rx_frame_def)
  show "vring_tx w' = vring_tx w" "vring2cid_tid w' = vring2cid_tid w" "wdev w' = wdev w"
    "mbox_tx w' = mbox_tx w" by (subst 1, simp)+
  show "ctx_kept w w'" unfolding ctx_kept_def by (intro conjI; subst 1, simp)
qed

lemma rx_frame_others: "rx_frame w w' \<Longrightarrow> others_kept cid w w'"
  using rx_frame_peer [of w w'] rx_frame_rings [of w w'] rx_frame_tid_rx(1) [of w w']
  by (simp add: others_kept_def)

lemma others_kept_sta [simp]: "others_kept cid w (upd_sta cid f w)"
  by (simp add: others_kept_def upd_sta_def ctx_kept_def)

lemma set_tid_rx_slot:
  assumes "cid < length (sta w)" "i < length (tid_rx (sta w ! cid))"
  shows "sta_status (sta (set_tid_rx cid i r w) ! cid) = sta_status (sta w ! cid)"
    "tid_rx (sta (set_tid_rx cid i r w) ! cid) = (tid_rx (sta w ! cid))[i := r]"
    "vring_tx (set_tid_rx cid i r w) = vring_tx w"
  using assms by (simp_all add: set_tid_rx_def upd_sta_def)

lemma disconnect_tid_ok:
  assumes "driver_ok w" "cid < WIL6210_MAX_CID" "i < WIL_STA_TID_NUM"
  shows "\<exists>w'. disconnect_tid ok cid i w = Some w' \<and> driver_ok w' \<and> others_kept cid w w' \<and>
    vring_tx w' = vring_tx w \<and> sta_status (sta w' ! cid) = sta_status (sta w ! cid) \<and>
    tid_rx (sta w' ! cid) = (tid_rx (sta w ! cid))[i := None]"
proof -
  let ?r = "tid_rx (sta w ! cid) ! i" and ?w = "set_tid_rx cid i None w"
  note len = driver_okD(5,7) [OF assms(1)]
  have slot: "sta_status (sta ?w ! cid) = sta_status (sta w ! cid)"
    "tid_rx (sta ?w ! cid) = (tid_rx (sta w ! cid))[i := None]" "vring_tx ?w = vring_tx w"
    using set_tid_rx_slot [of cid w i None] len assms(2,3) by simp_all
  have safe: "reorder_safe r" if "?r = Some r" for r
    using sessions_safe_slot [OF driver_okD(1,2) [OF assms(1)] assms(2,3) that] .
  have "driver_ok ?w" by (rule driver_ok_set_tid_rx [OF assms(1)]) simp
  moreover obtain w' where w': "wil_tid_ampdu_rx_free ok ?r ?w = Some w'" "rx_frame ?w w'"
    using tid_ampdu_rx_free_total [of ?r ok ?w] safe by auto
  moreover have "peer_view (sta w' ! cid) = peer_view (sta ?w ! cid)"
    using rx_frame_peer [OF w'(2)] len(1) assms(2) by (simp add: set_tid_rx_def upd_sta_def)
  moreover have "others_kept cid w w'"
    using others_kept_trans [OF _ rx_frame_others [OF w'(2)]] by (simp add: set_tid_rx_def)
  ultimately show ?thesis
    using slot driver_ok_rx_frame [OF w'(2)] rx_frame_rings(1) [OF w'(2)]
    by (simp add: disconnect_tid_def peer_view_def)
qed

lemma vring_free_tx_frame: "vring_free_tx_step w v = Some (w1, v1) \<Longrightarrow> buf_frame w w1"
  unfolding vring_free_tx_step_def
  by (auto simp: Option.bind_eq_Some_conv Let_def split: option.splits
      intro: buf_frame_trans [OF buf_frame_upd(2) buf_frame_upd(3)])

lemma vring_free_rx_frame: "vring_free_rx_step w v = Some (w1, v1) \<Longrightarrow> buf_frame w w1"
  unfolding vring_free_rx_step_def
  by (auto simp: Option.bind_eq_Some_conv Let_def split: option.splits
      intro: buf_frame_trans [OF buf_frame_upd(2) buf_frame_upd(3)])

lemma vring_free_buf_frame:
  assumes "vring_free_loop tx w v = Some r"
  shows "buf_frame w (fst r)"
proof (rule vring_free_loop.raw_induct [where P = "\<lambda>tx w v r. buf_frame w (fst r)", OF _ assms])
  fix f tx w v r
  assume IH: "\<And>tx w v r. f tx w v = Some r \<Longrightarrow> buf_frame w (fst r)"
    and step: "(if wil_vring_is_empty v then Some (w, v)
      else do {
        (w', v') \<leftarrow> (if tx then vring_free_tx_step w v else vring_free_rx_step w v);
        f tx w' v'
      }) = Some r"
  show "buf_frame w (fst r)"
  proof (cases "wil_vring_is_empty v")
    case False
    then obtain w1 v1 where "(if tx then vring_free_tx_step w v else vring_free_rx_step w v) = Some (w1, v1)"
      "f tx w1 v1 = Some r"
      using step by (auto simp: Option.bind_eq_Some_conv)
    then show ?thesis
      using IH vring_free_tx_frame vring_free_rx_frame buf_frame_trans by (metis (full_types))
  qed (use step in auto)
qed

lemma vring_fini_tx_ok:
  assumes "driver_ok w" "i < WIL6210_MAX_TX_RINGS"
  shows "\<exists>w' v. wil_vring_fini_tx i w = Some w' \<and> driver_ok w' \<and> vring_tx w' = (vring_tx w)[i := v] \<and>
    vr_va v = None \<and> sta w' = sta w \<and> wdev w' = wdev w \<and> vring2cid_tid w' = vring2cid_tid w \<and>
    ctx_kept w w'"
proof (cases "vr_va (vring_tx w ! i) = None")
  case True
  then show ?thesis
    using assms(1) by (intro exI [of _ w] exI [of _ "vring_tx w ! i"]) (simp add: wil_vring_fini_tx_def)
next
  case False
  then have v: "vring_ok (vring_tx w ! i)"
    using driver_okD(4) [OF assms] unfolding ring_off_or_ok_def by (simp del: not_None_eq)
  obtain w1 v1 where 1: "vring_free_loop True w (vring_tx w ! i) = Some (w1, v1)"
    and e: "wil_vring_is_empty v1"
    using vring_free_tx_loop [OF v refl, of w] by blast
  define v2 where "v2 = v1\<lparr>vr_pa := 0, vr_va := None, vr_ctx := []\<rparr>"
  have b: "buf_frame w w1" using vring_free_buf_frame [OF 1] by simp
  have eq: "w1 = w\<lparr>skbs := skbs w1, klog := klog w1\<rparr>" using b by (simp add: buf_frame_def)
  have same: "sta w1 = sta w" "vring_tx w1 = vring_tx w" "wdev w1 = wdev w"
    "vring2cid_tid w1 = vring2cid_tid w" "reply_buf w1 = reply_buf w"
    "reply_size w1 = reply_size w" "pending_wmi_ev w1 = pending_wmi_ev w" "roc w1 = roc w"
    "roc_counter w1 = roc_counter w" by (subst eq, simp)+
  have ok: "driver_ok w1" using driver_ok_buf_frame [OF b assms(1)] .
  have "driver_ok (set_vring_tx i v2 w1)"
    using ok set_update_subset_insert [of "vring_tx w1" i v2]
    by (auto simp: driver_ok_defs set_vring_tx_def
        ring_off_or_ok_def v2_def e [unfolded wil_vring_is_empty_def] wil_vring_is_empty_def)
  then show ?thesis
    using not_None_eq [THEN iffD1, OF False] 1 same
    by (elim exE, intro exI [of _ "set_vring_tx i v2 w1"] exI [of _ v2])
      (simp add: wil_vring_fini_tx_def wil_vring_free_def v2_def set_vring_tx_def ctx_kept_def)
qed

text \<open>The two loops of \<open>wil_disconnect_cid\<close>.\<close>

lemma disconnect_tids_ok:
  assumes "driver_ok w" "cid < WIL6210_MAX_CID"
  shows "\<exists>w'. run_inputs (disconnect_tid ok cid) [0..<WIL_STA_TID_NUM] w = Some w' \<and> driver_ok w' \<and>
    others_kept cid w w' \<and> vring_tx w' = vring_tx w \<and>
    sta_status (sta w' ! cid) = sta_status (sta w ! cid) \<and>
    (\<forall>i < WIL_STA_TID_NUM. tid_rx (sta w' ! cid) ! i = None)"
proof -
  let ?P = "\<lambda>k w'. driver_ok w' \<and> others_kept cid w w' \<and> vring_tx w' = vring_tx w \<and>
    sta_status (sta w' ! cid) = sta_status (sta w ! cid) \<and> (\<forall>i < k. tid_rx (sta w' ! cid) ! i = None)"
  have "\<exists>w'. run_inputs (disconnect_tid ok cid) [0..<WIL_STA_TID_NUM] w = Some w' \<and> ?P WIL_STA_TID_NUM w'"
  proof (rule run_inputs_upt [where P = ?P])
    show "?P 0 w" using assms(1) by simp
  next
    fix i w1 assume i: "i < WIL_STA_TID_NUM" and P: "?P i w1"
    from disconnect_tid_ok [of w1 cid i ok] P assms(2) i obtain w2 where
      2: "disconnect_tid ok cid i w1 = Some w2" "driver_ok w2" "others_kept cid w1 w2"
        "vring_tx w2 = vring_tx w1" "sta_status (sta w2 ! cid) = sta_status (sta w1 ! cid)"
        "tid_rx (sta w2 ! cid) = (tid_rx (sta w1 ! cid))[i := None]" by blast
    have "i < length (tid_rx (sta w1 ! cid))" using driver_okD(7) P assms(2) i by simp
    then have "\<forall>j < Suc i. tid_rx (sta w2 ! cid) ! j = None"
      using P unfolding 2(6) by (auto simp: less_Suc_eq nth_list_update)
    with 2 P show "\<exists>w2. disconnect_tid ok cid i w1 = Some w2 \<and> ?P (Suc i) w2"
      using others_kept_trans by (intro exI [of _ w2]) auto
  qed
  then show ?thesis by blast
qed

lemma disconnect_ring_ok:
  assumes "driver_ok w" "i < WIL6210_MAX_TX_RINGS"
  shows "\<exists>w' v. disconnect_ring cid i w = Some w' \<and> driver_ok w' \<and> others_kept cid w w' \<and>
    sta w' = sta w \<and> vring_tx w' = (vring_tx w)[i := v] \<and>
    (unat (fst (vring2cid_tid w ! i)) = cid \<longrightarrow> vr_va v = None)"
proof (cases "unat (fst (vring2cid_tid w ! i)) = cid")
  case True
  obtain w' v where 1: "wil_vring_fini_tx i w = Some w'" "driver_ok w'" "vring_tx w' = (vring_tx w)[i := v]"
    "vr_va v = None" "sta w' = sta w" "wdev w' = wdev w" "vring2cid_tid w' = vring2cid_tid w"
    "ctx_kept w w'"
    using vring_fini_tx_ok [OF assms] by blast
  have "others_kept cid w w'"
    unfolding others_kept_def 1(3,5,6,7)
    using True 1(8) by (metis nth_list_update_neq)
  then show ?thesis
    using 1 True by (intro exI [of _ w'] exI [of _ v]) (simp add: disconnect_ring_def)
next
  case False
  then show ?thesis
    using assms by (intro exI [of _ w] exI [of _ "vring_tx w ! i"]) (simp add: disconnect_ring_def)
qed

lemma disconnect_rings_ok:
  assumes "driver_ok w"
  shows "\<exists>w'. run_inputs (disconnect_ring cid) [0..<WIL6210_MAX_TX_RINGS] w = Some w' \<and> driver_ok w' \<and>
    others_kept cid w w' \<and> sta w' = sta w \<and>
    (\<forall>i < WIL6210_MAX_TX_RINGS. unat (fst (vring2cid_tid w ! i)) = cid \<longrightarrow> vr_va (vring_tx w' ! i) = None)"
proof -
  let ?P = "\<lambda>k w'. driver_ok w' \<and> others_kept cid w w' \<and> sta w' = sta w \<and>
    (\<forall>i < k. unat (fst (vring2cid_tid w ! i)) = cid \<longrightarrow> vr_va (vring_tx w' ! i) = None)"
  have "\<exists>w'. run_inputs (disconnect_ring cid) [0..<WIL6210_MAX_TX_RINGS] w = Some w' \<and> ?P WIL6210_MAX_TX_RINGS w'"
  proof (rule run_inputs_upt [where P = ?P])
    show "?P 0 w" using assms(1) by simp
  next
    fix i w1 assume i: "i < WIL6210_MAX_TX_RINGS" and P: "?P i w1"
    from disconnect_ring_ok [of w1 i cid] P i obtain w2 v where
      2: "disconnect_ring cid i w1 = Some w2" "driver_ok w2" "others_kept cid w1 w2" "sta w2 = sta w1"
        "vring_tx w2 = (vring_tx w1)[i := v]" "unat (fst (vring2cid_tid w1 ! i)) = cid \<longrightarrow> vr_va v = None"
      by blast
    have "vring2cid_tid w1 = vring2cid_tid w" using P by (simp add: others_kept_def)
    moreover have "i < length (vring_tx w1)" using P i driver_okD(6) by simp
    ultimately have "\<forall>j < Suc i. unat (fst (vring2cid_tid w ! j)) = cid \<longrightarrow> vr_va (vring_tx w2 ! j) = None"
      using P 2(6) unfolding 2(5) by (auto simp: less_Suc_eq nth_list_update)
    with 2 P show "\<exists>w2. disconnect_ring cid i w1 = Some w2 \<and> ?P (Suc i) w2"
      using others_kept_trans by (intro exI [of _ w2]) auto
  qed
  then show ?thesis by blast
qed

text \<open>A peer that is down: unused, no session, no ring.\<close>

definition peer_down :: "nat \<Rightarrow> wil6210_priv \<Rightarrow> bool" where
  "peer_down cid w \<longleftrightarrow> sta_status (sta w ! cid) = wil_sta_unused \<and>
     (\<forall>i < WIL_STA_TID_NUM. tid_rx (sta w ! cid) ! i = None) \<and>
     (\<forall>i < WIL6210_MAX_TX_RINGS. unat (fst (vring2cid_tid w ! i)) = cid \<longrightarrow> vr_va (vring_tx w ! i) = None)"

lemma send_frame_peers:
  assumes "send_frame w w'"
  shows "others_kept cid w w'" "sta w' = sta w" "vring_tx w' = vring_tx w"
proof -
  have 1: "w' = w\<lparr>mbox_tx := mbox_tx w', wmi_seq := wmi_seq w', klog := klog w', io_clock := io_clock w'\<rparr>"
    using assms by (simp add: send_frame_def)
  show s: "sta w' = sta w" "vring_tx w' = vring_tx w" by (subst 1, simp)+
  have "wdev w' = wdev w" "vring2cid_tid w' = vring2cid_tid w" "reply_buf w' = reply_buf w"
    "reply_size w' = reply_size w" "pending_wmi_ev w' = pending_wmi_ev w" "roc w' = roc w"
    "roc_counter w' = roc_counter w" by (subst 1, simp)+
  with s show "others_kept cid w w'" by (simp add: others_kept_def ctx_kept_def)
qed

lemma disconnect_notify_ok:
  assumes "driver_ok w" "cid < WIL6210_MAX_CID"
  shows "\<exists>w'. (if sta_status (sta w ! cid) \<noteq> wil_sta_unused
      then do {
        (_, w) \<leftarrow> wmi_disconnect_sta env (sta_addr (sta w ! cid)) WLAN_REASON_DEAUTH_LEAVING w;
        Some (upd_sta cid (\<lambda>s. s\<lparr>sta_status := wil_sta_unused\<rparr>) w)
      }
      else Some w) = Some w' \<and> driver_ok w' \<and> others_kept cid w w' \<and>
    sta_status (sta w' ! cid) = wil_sta_unused"
proof (cases "sta_status (sta w ! cid) = wil_sta_unused")
  case False
  obtain rc w1 where 1: "wmi_disconnect_sta env (sta_addr (sta w ! cid)) WLAN_REASON_DEAUTH_LEAVING w = Some (rc, w1)"
    "send_frame w w1"
    using wmi_send_ok [OF driver_okD(3) [OF assms(1)]] unfolding wmi_disconnect_sta_def by blast
  let ?w = "upd_sta cid (\<lambda>s. s\<lparr>sta_status := wil_sta_unused\<rparr>) w1"
  have "driver_ok w1" using driver_ok_send_frame [OF 1(2) assms(1)] .
  then have "driver_ok ?w" by (rule driver_ok_upd_sta) simp_all
  moreover have "cid < length (sta w1)"
    using driver_okD(5) [OF \<open>driver_ok w1\<close>] assms(2) by simp
  then have "sta_status (sta ?w ! cid) = wil_sta_unused" by (simp add: upd_sta_def)
  ultimately show ?thesis
    using 1 False others_kept_trans [OF send_frame_peers(1) [OF 1(2)] others_kept_sta]
    by (intro exI [of _ ?w]) simp
qed (use assms in simp)

lemma wil_disconnect_cid_total:
  assumes "driver_ok w" "cid < WIL6210_MAX_CID"
  shows "\<exists>w'. wil_disconnect_cid ok env cid w = Some w' \<and> driver_ok w' \<and> others_kept cid w w' \<and>
    peer_down cid w' \<and> sta_stats (sta w' ! cid) = zero_net_stats"
proof -
  obtain w1 where 1: "(if sta_status (sta w ! cid) \<noteq> wil_sta_unused
      then do {
        (_, w) \<leftarrow> wmi_disconnect_sta env (sta_addr (sta w ! cid)) WLAN_REASON_DEAUTH_LEAVING w;
        Some (upd_sta cid (\<lambda>s. s\<lparr>sta_status := wil_sta_unused\<rparr>) w)
      }
      else Some w) = Some w1" "driver_ok w1" "others_kept cid w w1" "sta_status (sta w1 ! cid) = wil_sta_unused"
    using disconnect_notify_ok [OF assms] by blast
  obtain w2 where 2: "run_inputs (disconnect_tid ok cid) [0..<WIL_STA_TID_NUM] w1 = Some w2" "driver_ok w2"
    "others_kept cid w1 w2" "sta_status (sta w2 ! cid) = sta_status (sta w1 ! cid)"
    "\<forall>i < WIL_STA_TID_NUM. tid_rx (sta w2 ! cid) ! i = None"
    using disconnect_tids_ok [OF 1(2) assms(2), of ok] by blast
  obtain w3 where 3: "run_inputs (disconnect_ring cid) [0..<WIL6210_MAX_TX_RINGS] w2 = Some w3" "driver_ok w3"
    "others_kept cid w2 w3" "sta w3 = sta w2"
    "\<forall>i < WIL6210_MAX_TX_RINGS. unat (fst (vring2cid_tid w2 ! i)) = cid \<longrightarrow> vr_va (vring_tx w3 ! i) = None"
    using disconnect_rings_ok [OF 2(2), of cid] by blast
  let ?w = "upd_sta cid (\<lambda>s. s\<lparr>sta_stats := zero_net_stats\<rparr>) w3"
  have len: "cid < length (sta w3)" using driver_okD(5) [OF 3(2)] assms(2) by simp
  have "driver_ok ?w" using 3(2) by (rule driver_ok_upd_sta) simp_all
  moreover have "others_kept cid w ?w"
    using others_kept_trans [OF others_kept_trans [OF 1(3) 2(3)] others_kept_trans [OF 3(3) others_kept_sta]] .
  moreover have "vring2cid_tid w3 = vring2cid_tid w2" using 3(3) by (simp add: others_kept_def)
  then have "peer_down cid ?w"
    using len 1(4) 2(4,5) 3(4,5) by (simp add: peer_down_def upd_sta_def)
  ultimately show ?thesis
    using 1(1) 2(1) 3(1) len by (intro exI [of _ ?w]) (simp add: wil_disconnect_cid_def upd_sta_def)
qed

subsection \<open>Disconnecting\<close>

lemma klog_add_fields [simp]:
  "vring_tx (klog_add e w) = vring_tx w" "vring2cid_tid (klog_add e w) = vring2cid_tid w"
  "reply_buf (klog_add e w) = reply_buf w" "wdev (klog_add e w) = wdev w" "ndev (klog_add e w) = ndev w"
  "wstatus (klog_add e w) = wstatus w" "pending_wmi_ev (klog_add e w) = pending_wmi_ev w"
  "sta (klog_add e w) = sta w" "wmi_ready (klog_add e w) = wmi_ready w" "reply_size (klog_add e w) = reply_size w" "reply_id (klog_add e w) = reply_id w"
  "roc (klog_add e w) = roc w" "roc_counter (klog_add e w) = roc_counter w"
  by (simp_all add: klog_add_def)

lemma disconnect_link_frame [simp]:
  "sta (disconnect_link b w) = sta w" "vring_tx (disconnect_link b w) = vring_tx w"
  "vring2cid_tid (disconnect_link b w) = vring2cid_tid w" "driver_ok (disconnect_link b w) = driver_ok w"
  "ctx_kept v (disconnect_link b w) = ctx_kept v w" "wdev (disconnect_link b w) = wdev w"
  by (simp_all add: disconnect_link_def wil_link_off_def Let_def ctx_kept_def
      split: option.split cfg80211_sme_state.split)

text \<open>A peer that is down stays down when another one is disconnected.\<close>

lemma peer_down_others:
  assumes "peer_down c w" "others_kept cid w w'" "c \<noteq> cid" "c < length (sta w)"
  shows "peer_down c w'"
proof -
  have "peer_view (sta w' ! c) = peer_view (sta w ! c)" using assms(2-4) by (simp add: others_kept_def)
  moreover have "vring_tx w' ! i = vring_tx w ! i" if "unat (fst (vring2cid_tid w ! i)) = c" for i
    using assms(2,3) that by (simp add: others_kept_def)
  moreover have "vring2cid_tid w' = vring2cid_tid w" using assms(2) by (simp add: others_kept_def)
  ultimately show ?thesis using assms(1) by (simp add: peer_down_def peer_view_def)
qed

lemma disconnect_all_ok:
  assumes "driver_ok w"
  shows "\<exists>w'. run_inputs (wil_disconnect_cid ok env) [0..<WIL6210_MAX_CID] w = Some w' \<and> driver_ok w' \<and>
    ctx_kept w w' \<and> (\<forall>c < WIL6210_MAX_CID. peer_down c w')"
proof -
  let ?P = "\<lambda>k w'. driver_ok w' \<and> ctx_kept w w' \<and> (\<forall>c < k. peer_down c w')"
  have "\<exists>w'. run_inputs (wil_disconnect_cid ok env) [0..<WIL6210_MAX_CID] w = Some w' \<and> ?P WIL6210_MAX_CID w'"
  proof (rule run_inputs_upt [where P = ?P])
    show "?P 0 w" using assms(1) by simp
  next
    fix i w1 assume i: "i < WIL6210_MAX_CID" and P: "?P i w1"
    from wil_disconnect_cid_total [of w1 i ok env] P i obtain w2 where
      2: "wil_disconnect_cid ok env i w1 = Some w2" "driver_ok w2" "others_kept i w1 w2" "peer_down i w2"
      by blast
    have "peer_down c w2" if "c < i" for c
      using peer_down_others [OF _ 2(3), of c] P that i driver_okD(5) [of w1] by simp
    with 2 P show "\<exists>w2. wil_disconnect_cid ok env i w1 = Some w2 \<and> ?P (Suc i) w2"
      by (intro exI [of _ w2]) (auto simp: less_Suc_eq others_kept_def intro: ctx_kept_trans)
  qed
  then show ?thesis by blast
qed

lemma wil_find_cid_bound:
  assumes "driver_ok w" "wil_find_cid w a = Some cid"
  shows "cid < WIL6210_MAX_CID"
  using wil_find_cid_Some [OF assms(2)] driver_okD(5) [OF assms(1)] by simp

lemma do_disconnect_total:
  assumes "driver_ok w"
  shows "\<exists>w'. do_wil6210_disconnect ok env bssid w = Some w' \<and> driver_ok w' \<and>
    ctx_kept w w'"
proof (cases "Option.bind bssid (wil_find_cid w)")
  case (Some cid)
  then obtain a where "wil_find_cid w a = Some cid" by (auto simp: Option.bind_eq_Some_conv)
  then have "cid < WIL6210_MAX_CID" using wil_find_cid_bound assms by blast
  then obtain w' where "wil_disconnect_cid ok env cid w = Some w'" "driver_ok w'" "others_kept cid w w'"
    using wil_disconnect_cid_total [OF assms] by blast
  then show ?thesis using Some by (simp add: do_wil6210_disconnect_def others_kept_def)
next
  case None
  then show ?thesis
    using assms disconnect_all_ok [OF assms, of ok env]
    by (auto simp: do_wil6210_disconnect_def split: option.split)
qed

lemma driver_ok_init: "tx_mbox_ok r \<Longrightarrow> driver_ok (wil_init_state\<lparr>mbox_tx := r\<rparr>)"
  using wil_arrays_ok_init sessions_safe_init
  by (simp add: driver_ok_defs wil_init_state_def ring_off_or_ok_def rx_off_or_ok_def
      zero_vring_def wil_vring_is_empty_def WIL6210_MAX_CID_def)

end
