(* ===== verification/Wil_Wmi_Event.thy ===== *)
theory Wil_Wmi_Event
  imports Wil_Disconnect
begin

text \<open>
  The firmware's events (\<^verbatim>\<open>wmi.c\<close>, layouts in \<^verbatim>\<open>wmi.h\<close>): one handler per
  event, the table of handlers, and the worker that takes the pending events one by one. A handler
  gets the bytes behind the WMI header and their number; \<open>None\<close> is a read past the event.
\<close>

subsection \<open>The environment\<close>

text \<open>
  \<open>ee_skb\<close> is \<open>alloc_skb\<close> at a time, \<open>ee_channel\<close> tells whether the wiphy has a channel,
  \<open>ee_rsn\<close> whether \<open>cfg80211_find_ie\<close> finds the RSN element, \<open>use_pcp_for_ap\<close> is the module
  parameter. \<open>ee_race\<close> and \<open>ee_arrive\<close> are the events the interrupt handler takes from the mailbox
  while a caller of the firmware, at that time, has not announced the reply it wants and while it
  waits for it.
\<close>

record evt_env =
  ee_wmi :: wmi_env
  ee_netif_ok :: "skb_ptr \<Rightarrow> bool"
  ee_eth_type_trans :: "sk_buff \<Rightarrow> sk_buff"
  ee_skb :: "nat \<Rightarrow> nat \<Rightarrow> (skb_ptr \<times> sk_buff) option"
  ee_channel :: "nat \<Rightarrow> bool"
  ee_rsn :: "u8 list \<Rightarrow> bool"
  use_pcp_for_ap :: bool
  ee_race :: "nat \<Rightarrow> pending_wmi_event list"
  ee_arrive :: "nat \<Rightarrow> pending_wmi_event list"

subsection \<open>Layouts\<close>

record wmi_ready_event =
  re_sw_version :: u32
  re_mac :: mac_addr
  re_numof_additional_mids :: u8

definition parse_ready :: "u8 list \<Rightarrow> wmi_ready_event option" where
  "parse_ready bs = do {
     v \<leftarrow> rd32 0 bs; mac \<leftarrow> rd_bytes 8 6 bs; mids \<leftarrow> rd8 15 bs;
     Some \<lparr>re_sw_version = v, re_mac = mac, re_numof_additional_mids = mids\<rparr>
   }"

record wmi_connect_event =
  ce_channel :: u8
  ce_bssid :: mac_addr
  ce_beacon_ie_len :: u8
  ce_assoc_req_len :: u8
  ce_assoc_resp_len :: u8
  ce_cid :: u8
  ce_assoc_info :: "u8 list"

definition wmi_connect_event_size :: nat where "wmi_connect_event_size = 23"

definition parse_connect :: "u8 list \<Rightarrow> wmi_connect_event option" where
  "parse_connect bs = do {
     ch \<leftarrow> rd8 0 bs; bssid \<leftarrow> rd_bytes 2 6 bs;
     b \<leftarrow> rd8 16 bs; q \<leftarrow> rd8 17 bs; p \<leftarrow> rd8 18 bs; cid \<leftarrow> rd8 19 bs;
     Some \<lparr>ce_channel = ch, ce_bssid = bssid, ce_beacon_ie_len = b, ce_assoc_req_len = q,
       ce_assoc_resp_len = p, ce_cid = cid, ce_assoc_info = drop wmi_connect_event_size bs\<rparr>
   }"

record wmi_rx_mgmt_info =
  mi_sqi :: u8
  mi_len :: u32
  mi_channel :: u8

definition parse_rx_mgmt :: "u8 list \<Rightarrow> (wmi_rx_mgmt_info \<times> u8 list) option" where
  "parse_rx_mgmt bs = do {
     sqi \<leftarrow> rd8 3 bs; len \<leftarrow> rd32 8 bs; ch \<leftarrow> rd8 15 bs;
     Some (\<lparr>mi_sqi = sqi, mi_len = len, mi_channel = ch\<rparr>, drop 16 bs)
   }"

definition wmi_notify_req_done_event_size :: nat where "wmi_notify_req_done_event_size = 44"

record wmi_vring_ba_status_event =
  ba_status :: u16
  ba_ringid :: u8
  ba_agg_wsize :: u8
  ba_timeout :: u16

definition parse_ba_status :: "u8 list \<Rightarrow> wmi_vring_ba_status_event option" where
  "parse_ba_status bs = do {
     s \<leftarrow> rd16 0 bs; r \<leftarrow> rd8 4 bs; a \<leftarrow> rd8 5 bs; t \<leftarrow> rd16 6 bs;
     Some \<lparr>ba_status = s, ba_ringid = r, ba_agg_wsize = a, ba_timeout = t\<rparr>
   }"

definition WMI_BA_AGREED :: u16 where "WMI_BA_AGREED = 0"

text \<open>The fields of an IEEE 802.11 management frame the driver reads.\<close>

definition mgmt_beacon_fixed :: nat where "mgmt_beacon_fixed = 36"
definition WLAN_CAPABILITY_ESS :: u16 where "WLAN_CAPABILITY_ESS = BIT 0"
definition WLAN_CAPABILITY_PRIVACY :: u16 where "WLAN_CAPABILITY_PRIVACY = BIT 4"

definition ieee80211_is_beacon :: "u16 \<Rightarrow> bool" where
  "ieee80211_is_beacon fc \<longleftrightarrow> fc AND 0x00fc = 0x0080"
definition ieee80211_is_probe_resp :: "u16 \<Rightarrow> bool" where
  "ieee80211_is_probe_resp fc \<longleftrightarrow> fc AND 0x00fc = 0x0050"

subsection \<open>Handlers\<close>

type_synonym evt_handler = "evt_env \<Rightarrow> u8 list \<Rightarrow> nat \<Rightarrow> wil6210_priv \<Rightarrow> wil6210_priv option"

definition is_valid_ether_addr :: "mac_addr \<Rightarrow> bool" where
  "is_valid_ether_addr a \<longleftrightarrow> \<not> bit (a ! 0) 0 \<and> take 6 a \<noteq> replicate 6 0"

definition wmi_evt_ready :: evt_handler where
  "wmi_evt_ready env d len w = do {
     evt \<leftarrow> parse_ready d;
     let w = w\<lparr>fw_version := re_sw_version evt, n_mids := re_numof_additional_mids evt\<rparr>;
     Some (if is_valid_ether_addr (nd_addr (ndev w)) then w
           else w\<lparr>ndev := (ndev w)\<lparr>nd_addr := re_mac evt\<rparr>\<rparr>)
   }"

definition complete_wmi_ready :: "wil6210_priv \<Rightarrow> wil6210_priv" where
  "complete_wmi_ready w = w\<lparr>wmi_ready := wmi_ready w + 1\<rparr>"

definition wmi_evt_fw_ready :: evt_handler where
  "wmi_evt_fw_ready env d len w =
     Some (complete_wmi_ready (w\<lparr>wstatus := set_bit wil_status_fwready (wstatus w)\<rparr>))"

definition wmi_evt_rx_mgmt :: evt_handler where
  "wmi_evt_rx_mgmt env d len w = do {
     (info, frame) \<leftarrow> parse_rx_mgmt d;
     let ch_no = unat (mi_channel info) + 1;
     fc \<leftarrow> rd16 0 frame;
     (if \<not> ee_channel env ch_no then Some w
      else if ieee80211_is_beacon fc \<or> ieee80211_is_probe_resp fc then do {
        bssid \<leftarrow> rd_bytes 16 6 frame;
        tsf \<leftarrow> rd64 24 frame;
        bi \<leftarrow> rd16 32 frame;
        cap \<leftarrow> rd16 34 frame;
        ies \<leftarrow> (if unat (mi_len info) < mgmt_beacon_fixed then None
          else rd_bytes mgmt_beacon_fixed (unat (mi_len info) - mgmt_beacon_fixed) frame);
        let cap = (if ee_rsn env ies then cap OR WLAN_CAPABILITY_PRIVACY else cap);
        let cap = (if use_pcp_for_ap env then cap OR WLAN_CAPABILITY_ESS else cap);
        Some (klog_add (Cfg80211InformBss ch_no bssid tsf cap bi ies (mi_sqi info)) w)
      }
      else do {
        bs \<leftarrow> rd_bytes 0 (unat (mi_len info)) frame;
        Some (klog_add (Cfg80211RxMgmt ch_no (mi_sqi info) bs) w)
      })
   }"

definition wmi_evt_scan_complete :: evt_handler where
  "wmi_evt_scan_complete env d len w =
     (if scan_request w \<noteq> None then do {
        status \<leftarrow> rd32 0 d;
        Some (klog_add (Cfg80211ScanDone (status \<noteq> 0)) w\<lparr>scan_request := None\<rparr>)
      }
      else Some w)"

text \<open>The information elements of the association frames: what follows their fixed fields.\<close>

definition assoc_ies :: "u8 list \<Rightarrow> nat \<Rightarrow> nat \<Rightarrow> nat \<Rightarrow> u8 list option" where
  "assoc_ies info start len off =
     (if len \<le> off then None else Some (take (len - off) (drop (start + off) info)))"

text \<open>What a connect event that is in order does: tell cfg80211, mark the peer, start the worker.\<close>

definition connect_peer :: "wmi_connect_event \<Rightarrow> wil6210_priv \<Rightarrow> wil6210_priv" where
  "connect_peer evt w =
     (let b = unat (ce_beacon_ie_len evt);
          q = unat (ce_assoc_req_len evt);
          req = assoc_ies (ce_assoc_info evt) b q 4;
          resp = assoc_ies (ce_assoc_info evt) (b + q) (unat (ce_assoc_resp_len evt)) 6;
          mode = wd_iftype (wdev w);
          station = mode \<in> {NL80211_IFTYPE_STATION, NL80211_IFTYPE_P2P_CLIENT};
          cid = unat (ce_cid evt)
      in if station \<and> wd_sme_state (wdev w) \<noteq> CFG80211_SME_CONNECTING then w
         else
           let w = (if station
                 then klog_add (Cfg80211ConnectResult True (Some (ce_bssid evt)) req resp)
                   (w\<lparr>connect_timer := False\<rparr>)
                 else if mode \<in> {NL80211_IFTYPE_AP, NL80211_IFTYPE_P2P_GO}
                 then klog_add (Cfg80211NewSta (ce_bssid evt) (sinfo_gen w) req)
                   (w\<lparr>sinfo_gen := sinfo_gen w + 1\<rparr>)
                 else w);
               w = w\<lparr>wstatus := set_bit wil_status_fwconnected (wstatus w)\<rparr>;
               w = upd_sta cid
                 (\<lambda>s. s\<lparr>sta_addr := ce_bssid evt, sta_status := wil_sta_conn_pending\<rparr>) w;
               w = w\<lparr>pending_connect_cid := int cid, connect_queued := True\<rparr>
           in klog_add (QueueWork connect_worker) w)"

definition wmi_evt_connect :: evt_handler where
  "wmi_evt_connect env d len w =
     (if len < wmi_connect_event_size then Some w
      else do {
        evt \<leftarrow> parse_connect d;
        (if len \<noteq> wmi_connect_event_size + unat (ce_beacon_ie_len evt) +
              unat (ce_assoc_req_len evt) + unat (ce_assoc_resp_len evt) then Some w
         else if unat (ce_cid evt) \<ge> WIL6210_MAX_CID then Some w
         else Some (connect_peer evt w))
      })"

definition wmi_evt_disconnect :: evt_handler where
  "wmi_evt_disconnect env d len w = do {
     bssid \<leftarrow> rd_bytes 2 6 d;
     wil6210_disconnect (ee_netif_ok env) (ee_wmi env) (Some bssid) (w\<lparr>sinfo_gen := sinfo_gen w + 1\<rparr>)
   }"

definition wmi_evt_notify :: evt_handler where
  "wmi_evt_notify env d len w =
     (if len < wmi_notify_req_done_event_size then Some w
      else do {
        tsf \<leftarrow> rd64 4 d; snr \<leftarrow> rd32 12 d; bf_mcs \<leftarrow> rd16 28 d;
        my_rx \<leftarrow> rd16 30 d; my_tx \<leftarrow> rd16 32 d; other_rx \<leftarrow> rd16 34 d; other_tx \<leftarrow> rd16 36 d;
        Some (w\<lparr>wstats := (wstats w)\<lparr>ws_tsf := tsf, ws_snr := snr, ws_bf_mcs := bf_mcs,
          ws_my_rx_sector := my_rx, ws_my_tx_sector := my_tx,
          ws_peer_rx_sector := other_rx, ws_peer_tx_sector := other_tx\<rparr>\<rparr>)
      })"

definition ETH_P_PAE_bytes :: "u8 list" where "ETH_P_PAE_bytes = [0x88, 0x8e]"

text \<open>Counting a frame for the device and, when it is known, for the peer.\<close>

definition count_stats ::
  "nat option \<Rightarrow> (wil_net_stats \<Rightarrow> wil_net_stats) \<Rightarrow> wil6210_priv \<Rightarrow> wil6210_priv" where
  "count_stats cid f w =
     (case cid of
        Some cid \<Rightarrow> upd_stats cid f w
      | None \<Rightarrow> w\<lparr>ndev := (ndev w)\<lparr>nd_stats := f (nd_stats (ndev w))\<rparr>\<rparr>)"

definition wmi_evt_eapol_rx :: evt_handler where
  "wmi_evt_eapol_rx env d len w = do {
     src_mac \<leftarrow> rd_bytes 0 6 d;
     eapol_len \<leftarrow> rd16 6 d;
     let sz = unat eapol_len + ETH_HLEN;
     let cid = wil_find_cid w src_mac;
     (if unat eapol_len > 196 then Some w
      else (case ee_skb env (io_clock w) sz of
          None \<Rightarrow> Some (tick w)
        | Some (p, b) \<Rightarrow> do {
            b \<leftarrow> skb_put ETH_HLEN b;
            let hdr = nd_addr (ndev w) @ src_mac @ ETH_P_PAE_bytes;
            b \<leftarrow> skb_put (unat eapol_len) b;
            eapol \<leftarrow> rd_bytes 8 (unat eapol_len) d;
            let w = upd_skb p (\<lambda>_. ee_eth_type_trans env (b\<lparr>skb_data := hdr @ eapol\<rparr>)) (tick w);
            let w = klog_add (NetifReceiveSkb p) w;
            Some (count_stats cid (if ee_netif_ok env p then count_rx (of_nat sz) else count_rx_drop) w)
          }))
   }"

definition wmi_evt_linkup :: evt_handler where
  "wmi_evt_linkup env d len w = Some (w\<lparr>ndev := (ndev w)\<lparr>nd_carrier := True\<rparr>\<rparr>)"

definition wmi_evt_linkdown :: evt_handler where
  "wmi_evt_linkdown env d len w = Some (w\<lparr>ndev := (ndev w)\<lparr>nd_carrier := False\<rparr>\<rparr>)"

definition ba_status_tid ::
  "evt_env \<Rightarrow> wmi_vring_ba_status_event \<Rightarrow> nat \<Rightarrow> nat \<Rightarrow> wil6210_priv \<Rightarrow> wil6210_priv option" where
  "ba_status_tid env evt cid i w = do {
     w \<leftarrow> disconnect_tid (ee_netif_ok env) cid i w;
     (if ba_status evt = WMI_BA_AGREED \<and> ba_agg_wsize evt \<noteq> 0
      then let (r, w) = tid_alloc (ee_wmi env) (unat (ba_agg_wsize evt)) 0 w
           in Some (set_tid_rx cid i r w)
      else Some w)
   }"

definition wmi_evt_ba_status :: evt_handler where
  "wmi_evt_ba_status env d len w = do {
     evt \<leftarrow> parse_ba_status d;
     let ring = unat (ba_ringid evt);
     (if ring \<ge> WIL6210_MAX_TX_RINGS then Some w
      else
        let cid = unat (fst (vring2cid_tid w ! ring))
        in if cid \<ge> WIL6210_MAX_CID then Some w
           else if sta_status (sta w ! cid) = wil_sta_unused then Some w
           else do {
             w \<leftarrow> run_inputs (ba_status_tid env evt cid) [0..<WIL_STA_TID_NUM] w;
             Some (w\<lparr>vring_txdata := (vring_txdata w)
               [ring := \<lparr>agg_wsize = ba_agg_wsize evt, agg_timeout = ba_timeout evt\<rparr>]\<rparr>)
           })
   }"

definition wmi_evt_rcp_addba_req :: evt_handler where
  "wmi_evt_rcp_addba_req env d len w = do {
     cidxtid \<leftarrow> rd8 0 d; token \<leftarrow> rd8 1 d;
     params \<leftarrow> rd16 2 d; timeout \<leftarrow> rd16 4 d; seq \<leftarrow> rd16 6 d;
     Some (snd (wil_rcp_addba_request (ee_wmi env) cidxtid token params timeout seq w))
   }"

subsection \<open>Dispatch\<close>

definition wmi_evt_handlers :: "(u16 \<times> evt_handler) list" where
  "wmi_evt_handlers = [
     (WMI_READY_EVENTID, wmi_evt_ready),
     (WMI_FW_READY_EVENTID, wmi_evt_fw_ready),
     (WMI_RX_MGMT_PACKET_EVENTID, wmi_evt_rx_mgmt),
     (WMI_SCAN_COMPLETE_EVENTID, wmi_evt_scan_complete),
     (WMI_CONNECT_EVENTID, wmi_evt_connect),
     (WMI_DISCONNECT_EVENTID, wmi_evt_disconnect),
     (WMI_NOTIFY_REQ_DONE_EVENTID, wmi_evt_notify),
     (WMI_EAPOL_RX_EVENTID, wmi_evt_eapol_rx),
     (WMI_DATA_PORT_OPEN_EVENTID, wmi_evt_linkup),
     (WMI_WBE_LINKDOWN_EVENTID, wmi_evt_linkdown),
     (WMI_BA_STATUS_EVENTID, wmi_evt_ba_status),
     (WMI_RCP_ADDBA_REQ_EVENTID, wmi_evt_rcp_addba_req)]"

text \<open>The first handler of the table for the event, and whether there is one.\<close>

definition wmi_evt_call_handler ::
  "evt_env \<Rightarrow> u16 \<Rightarrow> u8 list \<Rightarrow> nat \<Rightarrow> wil6210_priv \<Rightarrow> (bool \<times> wil6210_priv) option" where
  "wmi_evt_call_handler env evid d len w =
     (case map_of wmi_evt_handlers evid of
        None \<Rightarrow> Some (False, w)
      | Some handler \<Rightarrow> map_option (Pair True) (handler env d len w))"

definition wmi_event_handle ::
  "evt_env \<Rightarrow> pending_wmi_event \<Rightarrow> wil6210_priv \<Rightarrow> wil6210_priv option" where
  "wmi_event_handle env e w =
     (let len = hdr_len (ev_hdr e)
      in if hdr_type (ev_hdr e) = WIL_MBOX_HDR_TYPE_WMI \<and> 8 \<le> unat len then do {
           evid \<leftarrow> rd16 2 (ev_data e);
           let d = drop 8 (ev_data e);
           (if reply_id w \<noteq> 0 \<and> reply_id w = evid then do {
              w \<leftarrow> (case reply_buf w of
                  Some buf \<Rightarrow> do {
                    bs \<leftarrow> rd_bytes 0 (unat (min len (reply_size w))) (ev_data e);
                    Some (w\<lparr>reply_buf := Some (bs @ drop (length bs) buf)\<rparr>)
                  }
                | None \<Rightarrow> map_option snd (wmi_evt_call_handler env evid d (unat len - 8) w));
              Some (complete_wmi_ready w)
            }
            else map_option snd (wmi_evt_call_handler env evid d (unat len - 8) w))
         }
         else Some w)"

definition wmi_event_worker :: "evt_env \<Rightarrow> wil6210_priv \<Rightarrow> wil6210_priv option" where
  "wmi_event_worker env = work_loop next_wmi_ev (wmi_event_handle env)"

end
