(* ===== verification/Wil_Caller.thy ===== *)
theory Wil_Caller
  imports Wil_Wmi_Cmd Wil_Mbox_Correct
begin

text \<open>
  The contract between a caller of the firmware and the rest of the driver: an invariant \<open>I\<close> that
  the mailbox keeps and that the other contexts keep while the caller waits, without taking its
  reply buffer away. Every command then returns and keeps \<open>I\<close>.
\<close>

lemma io_send_frame_step [simp, intro]: "send_frame w (tick w)" "send_frame w (klog_add e w)"
  by (simp_all add: io_send_frame)

lemma kmalloc_frame: "kmalloc env w = (x, w') \<Longrightarrow> send_frame w w'"
  by (auto simp: kmalloc_def)

lemma wmi_send_total:
  assumes "tx_mbox_ok (mbox_tx w)"
  shows "\<exists>rc w'. wmi_send env cmdid buf w = Some (rc, w') \<and> send_frame w w'"
  using do_wmi_send_ok [OF assms] unfolding wmi_send_def by metis

locale wmi_caller =
  fixes I :: "wil6210_priv \<Rightarrow> bool" and env :: call_env
  assumes mailbox: "I w \<Longrightarrow> tx_mbox_ok (mbox_tx w)"
    and send: "I w \<Longrightarrow> send_frame w w' \<Longrightarrow> I w'"
    and reply: "I w \<Longrightarrow> I (w\<lparr>reply_id := i, reply_buf := b,
      reply_size := reply_len b\<rparr>)"
    and taken: "I w \<Longrightarrow> I (w\<lparr>wmi_ready := k\<rparr>)"
    and race: "I w \<Longrightarrow> \<exists>w'. cc_race env w = Some w' \<and> I w'"
    and wait: "I w \<Longrightarrow> \<exists>w'. cc_wait env w = Some w' \<and> I w' \<and>
      map_option length (reply_buf w') = map_option length (reply_buf w)"
begin

lemma send_total:
  assumes "I w"
  shows "\<exists>rc w'. wmi_send e cmdid buf w = Some (rc, w') \<and> I w'"
  using wmi_send_total [OF mailbox [OF assms]] send [OF assms] by metis

lemma call_total:
  assumes "I w"
  shows "\<exists>rc bs w'. wmi_call env cmdid buf rid b w = Some (rc, bs, w') \<and> I w' \<and>
     map_option length bs = map_option length b"
proof -
  obtain rc w1 where s: "wmi_send (cc_wmi env) cmdid buf w = Some (rc, w1)" "I w1"
    using send_total [OF assms] by blast
  show ?thesis
  proof (cases rc)
    case (Some e)
    then show ?thesis using s by (simp add: wmi_call_def)
  next
    case None
    obtain w2 where r: "cc_race env w1 = Some w2" "I w2" using race [OF s(2)] by blast
    define w3 where "w3 = w2\<lparr>reply_id := rid, reply_buf := b,
      reply_size := reply_len b\<rparr>"
    have "I w3" unfolding w3_def by (rule reply [OF r(2)])
    then obtain w4 where w: "cc_wait env w3 = Some w4" "I w4"
      "map_option length (reply_buf w4) = map_option length b"
      using wait [of w3] by (auto simp: w3_def)
    have "I (snd (wait_for_wmi_ready w4))" "reply_buf (snd (wait_for_wmi_ready w4)) = reply_buf w4"
      using w(2) taken [OF w(2)] by (simp_all add: wait_for_wmi_ready_def)
    then show ?thesis
      using s(1) None r(1) w(1,3) reply [where i = 0 and b = "None"]
      by (simp add: wmi_call_def Let_def w3_def [symmetric] split_def)
  qed
qed

lemma call_rc_total:
  assumes "I w"
  shows "\<exists>rc w'. call_rc (wmi_call env cmdid buf rid b w) = Some (rc, w') \<and> I w'"
  using call_total [OF assms, of cmdid buf rid b] by (auto simp: call_rc_def)

text \<open>Replies are long enough for the fields read from them.\<close>

lemma call_reply:
  assumes "I w"
  shows "\<exists>rc bs w'. wmi_call env cmdid buf rid (reply_init stack n) w = Some (rc, Some bs, w') \<and>
     I w' \<and> length bs = 8 + n"
  using call_total [OF assms, of cmdid buf rid "reply_init stack n"] by (auto simp: reply_init_def)

lemma call_status_total:
  assumes "I w" "0 < n"
  shows "\<exists>rc w'. call_status (wmi_call env cmdid buf rid (reply_init stack n) w) = Some (rc, w') \<and> I w'"
proof -
  obtain rc bs w' where "wmi_call env cmdid buf rid (reply_init stack n) w = Some (rc, Some bs, w')"
    "I w'" "length bs = 8 + n" using call_reply [OF assms(1)] by blast
  then show ?thesis using assms(2) by (cases rc) (simp_all add: call_status_def rd8_def)
qed

lemma addba_resp_total:
  assumes "I w"
  shows "\<exists>rc w'. wmi_rcp_addba_resp env stack cid tid token st amsdu sz tmo w = Some (rc, w') \<and> I w'"
proof -
  obtain rc bs w' where "wmi_call env WMI_RCP_ADDBA_RESP_CMDID
      (wmi_rcp_addba_resp_cmd (mk_cidxtid cid tid) token st (addba_param_set amsdu tid sz) tmo)
      WMI_ADDBA_RESP_SENT_EVENTID (reply_init stack 4) w = Some (rc, Some bs, w')" "I w'" "length bs = 12"
    using call_reply [OF assms, of WMI_RCP_ADDBA_RESP_CMDID _ WMI_ADDBA_RESP_SENT_EVENTID stack 4] by fastforce
  then show ?thesis
    by (cases rc) (simp_all add: wmi_rcp_addba_resp_def rd16_def rd_bytes_def)
qed

lemma rx_chain_add_total:
  assumes "I w"
  shows "\<exists>rc v' w'. wmi_rx_chain_add env stack v w = Some (rc, v', w') \<and> I w' \<and>
     (\<exists>t. v' = v\<lparr>hwtail := t\<rparr>)"
proof -
  let ?cmd = "wmi_call env WMI_CFG_RX_CHAIN_CMDID"
  have c: "\<exists>rc bs w'. ?cmd cmd WMI_CFG_RX_CHAIN_DONE_EVENTID (reply_init stack 8) w = Some (rc, Some bs, w') \<and>
      I w' \<and> length bs = 16" for cmd
    using call_reply [OF assms, of WMI_CFG_RX_CHAIN_CMDID cmd WMI_CFG_RX_CHAIN_DONE_EVENTID stack 8] by simp
  have r: "\<exists>rc v' w'. do {
        (rc, reply, w) \<leftarrow> ?cmd cmd WMI_CFG_RX_CHAIN_DONE_EVENTID (reply_init stack 8) w;
        (if rc \<noteq> None then Some (rc, v, w)
         else do {
           bs \<leftarrow> reply;
           tail \<leftarrow> rd32 8 bs;
           status \<leftarrow> rd32 12 bs;
           Some (if status \<noteq> WMI_CFG_RX_CHAIN_SUCCESS then Some EINVAL else None, v\<lparr>hwtail := tail\<rparr>, w)
         }) } = Some (rc, v', w') \<and> I w' \<and> (\<exists>t. v' = v\<lparr>hwtail := t\<rparr>)" for cmd
  proof -
    obtain rc bs w' where "?cmd cmd WMI_CFG_RX_CHAIN_DONE_EVENTID (reply_init stack 8) w =
        Some (rc, Some bs, w')" "I w'" "length bs = 16" using c by blast
    moreover have "\<exists>t. v = v\<lparr>hwtail := t\<rparr>" by (rule exI [of _ "hwtail v"]) simp
    ultimately show ?thesis
      by (cases rc) (auto simp: rd32_def rd_bytes_def)
  qed
  show ?thesis unfolding wmi_rx_chain_add_def Let_def by (rule r)
qed

end

end
