(* ===== verification/Wil_Wmi_Event_Correct.thy ===== *)
theory Wil_Wmi_Event_Correct
  imports Wil_Wmi_Event Wil_Caller
begin

text \<open>
  What the events do: every handler returns on a complete event and keeps the driver's invariant
  and the waiting caller's buffer; the worker empties the list; so the event worker is a partner a
  caller of the firmware can wait for (the interpretation of \<open>wmi_caller\<close>).
\<close>

subsection \<open>Complete events\<close>

text \<open>The bytes an event must have for its handler not to read past it.\<close>

definition evt_data_ok :: "u16 \<Rightarrow> u8 list \<Rightarrow> bool" where
  "evt_data_ok evid d \<longleftrightarrow>
     (if evid = WMI_READY_EVENTID then 16 \<le> length d
      else if evid = WMI_RX_MGMT_PACKET_EVENTID
      then 52 \<le> length d \<and> 36 \<le> unat (le_word (take 4 (drop 8 d)) :: u32) \<and>
        unat (le_word (take 4 (drop 8 d)) :: u32) + 16 \<le> length d
      else if evid = WMI_SCAN_COMPLETE_EVENTID then 4 \<le> length d
      else if evid \<in> {WMI_DISCONNECT_EVENTID, WMI_BA_STATUS_EVENTID, WMI_RCP_ADDBA_REQ_EVENTID}
      then 8 \<le> length d
      else if evid = WMI_EAPOL_RX_EVENTID
      then 8 + unat (le_word (take 2 (drop 6 d)) :: u16) \<le> length d
      else True)"

definition event_ok :: "pending_wmi_event \<Rightarrow> bool" where
  "event_ok e \<longleftrightarrow> unat (hdr_len (ev_hdr e)) \<le> length (ev_data e) \<and>
     (hdr_type (ev_hdr e) = WIL_MBOX_HDR_TYPE_WMI \<and> 8 \<le> unat (hdr_len (ev_hdr e)) \<longrightarrow>
        evt_data_ok (le_word (take 2 (drop 2 (ev_data e)))) (drop 8 (ev_data e)))"

text \<open>\<open>alloc_skb\<close> returns an empty buffer with the room asked for.\<close>

definition alloc_skb_ok :: "evt_env \<Rightarrow> bool" where
  "alloc_skb_ok env \<longleftrightarrow>
     (\<forall>n sz p b. ee_skb env n sz = Some (p, b) \<longrightarrow> sz \<le> length (skb_tail b))"

subsection \<open>Handlers\<close>

definition ev_kept :: "wil6210_priv \<Rightarrow> wil6210_priv \<Rightarrow> bool" where
  "ev_kept w w' \<longleftrightarrow> driver_ok w' \<and> reply_buf w' = reply_buf w \<and> reply_size w' = reply_size w \<and>
     pending_wmi_ev w' = pending_wmi_ev w \<and> roc w' = roc w \<and> roc_counter w' = roc_counter w"

lemma rd_total [simp]:
  "off < length bs \<Longrightarrow> rd8 off bs = Some (bs ! off)"
  "off + n \<le> length bs \<Longrightarrow> rd_bytes off n bs = Some (take n (drop off bs))"
  "off + 2 \<le> length bs \<Longrightarrow> rd16 off bs = Some (le_word (take 2 (drop off bs)))"
  "off + 4 \<le> length bs \<Longrightarrow> rd32 off bs = Some (le_word (take 4 (drop off bs)))"
  "off + 8 \<le> length bs \<Longrightarrow> rd64 off bs = Some (le_word (take 8 (drop off bs)))"
  by (simp_all add: rd8_def rd_bytes_def rd16_def rd32_def rd64_def)

lemma evt_ready_total:
  assumes "driver_ok w" "16 \<le> length d"
  shows "\<exists>w'. wmi_evt_ready env d len w = Some w' \<and> ev_kept w w'"
  using assms by (simp add: wmi_evt_ready_def parse_ready_def ev_kept_def Let_def)

lemma evt_fw_ready_total:
  assumes "driver_ok w"
  shows "\<exists>w'. wmi_evt_fw_ready env d len w = Some w' \<and> ev_kept w w'"
  using assms by (simp add: wmi_evt_fw_ready_def complete_wmi_ready_def ev_kept_def)

lemma klog_reply_size [simp]: "reply_size (klog_add e w) = reply_size w" "reply_size (tick w) = reply_size w"
  "reply_buf (tick w) = reply_buf w" "pending_wmi_ev (tick w) = pending_wmi_ev w"
  "roc (tick w) = roc w" "roc_counter (tick w) = roc_counter w"
  by (simp_all add: klog_add_def tick_def)

lemma evt_rx_mgmt_total:
  assumes "driver_ok w" "52 \<le> length d" "36 \<le> unat (le_word (take 4 (drop 8 d)) :: u32)"
    "unat (le_word (take 4 (drop 8 d)) :: u32) + 16 \<le> length d"
  shows "\<exists>w'. wmi_evt_rx_mgmt env d len w = Some w' \<and> ev_kept w w'"
  using assms
  by (simp add: wmi_evt_rx_mgmt_def parse_rx_mgmt_def ev_kept_def mgmt_beacon_fixed_def Let_def not_less)

lemma evt_scan_complete_total:
  assumes "driver_ok w" "4 \<le> length d"
  shows "\<exists>w'. wmi_evt_scan_complete env d len w = Some w' \<and> ev_kept w w'"
  using assms by (auto simp: wmi_evt_scan_complete_def ev_kept_def)

lemma upd_sta_fields [simp]:
  "reply_buf (upd_sta c f w) = reply_buf w" "reply_size (upd_sta c f w) = reply_size w"
  "pending_wmi_ev (upd_sta c f w) = pending_wmi_ev w" "klog (upd_sta c f w) = klog w"
  "wdev (upd_sta c f w) = wdev w" "wstatus (upd_sta c f w) = wstatus w"
  "roc (upd_sta c f w) = roc w" "roc_counter (upd_sta c f w) = roc_counter w"
  by (simp_all add: upd_sta_def)

lemma connect_peer_kept:
  assumes "driver_ok w" "length (ce_bssid evt) = 6" "unat (ce_cid evt) < WIL6210_MAX_CID"
  shows "ev_kept w (connect_peer evt w)"
proof -
  have c: "uint (ce_cid evt) < int WIL6210_MAX_CID" using assms(3) by (simp only: uint_nat of_nat_less_iff)
  have u: "driver_ok (upd_sta c (\<lambda>s. s\<lparr>sta_addr := ce_bssid evt, sta_status := st\<rparr>) v)"
    if "driver_ok v" for c st v
    using that by (rule driver_ok_upd_sta) (use assms(2) in simp_all)
  show ?thesis
    using assms(1) by (simp add: connect_peer_def Let_def ev_kept_def u driver_ok_set_field(2) c)
qed

lemma evt_connect_total:
  assumes "driver_ok w" "len \<le> length d"
  shows "\<exists>w'. wmi_evt_connect env d len w = Some w' \<and> ev_kept w w'"
proof (cases "len < wmi_connect_event_size")
  case True
  then show ?thesis using assms(1) by (simp add: wmi_evt_connect_def ev_kept_def)
next
  case False
  then have l: "23 \<le> length d" "d \<noteq> []" using assms(2) by (auto simp: wmi_connect_event_size_def)
  obtain evt where evt: "parse_connect d = Some evt" "length (ce_bssid evt) = 6"
    using l by (simp add: parse_connect_def)
  show ?thesis
    using False evt(1) connect_peer_kept [OF assms(1) evt(2)] assms(1)
    by (cases "unat (ce_cid evt) < WIL6210_MAX_CID") (simp_all add: wmi_evt_connect_def ev_kept_def)
qed

lemma evt_disconnect_total:
  assumes "driver_ok w" "8 \<le> length d"
  shows "\<exists>w'. wmi_evt_disconnect env d len w = Some w' \<and> ev_kept w w'"
proof -
  let ?w = "w\<lparr>sinfo_gen := sinfo_gen w + 1, connect_timer := False\<rparr>"
  obtain w' where "do_wil6210_disconnect (ee_netif_ok env) (ee_wmi env) (Some (take 6 (drop 2 d))) ?w = Some w'"
    "driver_ok w'" "ctx_kept ?w w'"
    using do_disconnect_total [of ?w "ee_netif_ok env" "ee_wmi env" "Some (take 6 (drop 2 d))"] assms(1)
    by auto
  then show ?thesis
    using assms(2) by (simp add: wmi_evt_disconnect_def wil6210_disconnect_def ev_kept_def ctx_kept_def)
qed

lemma evt_notify_total:
  assumes "driver_ok w" "len \<le> length d"
  shows "\<exists>w'. wmi_evt_notify env d len w = Some w' \<and> ev_kept w w'"
  using assms
  by (simp add: wmi_evt_notify_def wmi_notify_req_done_event_size_def ev_kept_def)

lemma count_stats_kept:
  assumes "driver_ok w"
  shows "driver_ok (count_stats cid f w)" "ctx_kept w (count_stats cid f w)"
proof -
  have "driver_ok (upd_sta c (\<lambda>s. s\<lparr>sta_stats := f (sta_stats s)\<rparr>) v)" if "driver_ok v" for c v
    using that by (rule driver_ok_upd_sta) simp_all
  then show "driver_ok (count_stats cid f w)"
    using assms by (simp add: count_stats_def upd_stats_def split: option.split)
  show "ctx_kept w (count_stats cid f w)"
    by (simp add: count_stats_def upd_stats_def ctx_kept_def split: option.split)
qed

lemma evt_eapol_rx_total:
  assumes "driver_ok w" "alloc_skb_ok env" "8 + unat (le_word (take 2 (drop 6 d)) :: u16) \<le> length d"
  shows "\<exists>w'. wmi_evt_eapol_rx env d len w = Some w' \<and> ev_kept w w'"
proof -
  let ?n = "unat (le_word (take 2 (drop 6 d)) :: u16)"
  show ?thesis
  proof (cases "?n > 196 \<or> ee_skb env (io_clock w) (?n + ETH_HLEN) = None")
    case True
    then show ?thesis
      using assms(1,3) by (auto simp: wmi_evt_eapol_rx_def ev_kept_def Let_def)
  next
    case False
    then obtain p b where b: "ee_skb env (io_clock w) (?n + ETH_HLEN) = Some (p, b)" by auto
    then have room: "?n + ETH_HLEN \<le> length (skb_tail b)" using assms(2) by (simp add: alloc_skb_ok_def)
    obtain b1 where b1: "skb_put ETH_HLEN b = Some b1" "length (skb_tail b1) = length (skb_tail b) - ETH_HLEN"
      using room by (simp add: skb_put_def)
    have "?n \<le> length (skb_tail b1)" using room b1(2) by linarith
    then obtain b2 where b2: "skb_put ?n b1 = Some b2" by (simp add: skb_put_def)
    define w1 where "w1 = klog_add (NetifReceiveSkb p) (upd_skb p
      (\<lambda>_. ee_eth_type_trans env (b2\<lparr>skb_data := (nd_addr (ndev w) @ take 6 d @ ETH_P_PAE_bytes) @
        take ?n (drop 8 d)\<rparr>)) (tick w))"
    let ?f = "if ee_netif_ok env p then count_rx (of_nat (?n + ETH_HLEN)) else count_rx_drop"
    have e: "wmi_evt_eapol_rx env d len w = Some (count_stats (wil_find_cid w (take 6 d)) ?f w1)"
      using False b b1(1) b2 assms(3)
      unfolding wmi_evt_eapol_rx_def w1_def by (simp add: Let_def del: of_nat_add)
    have "driver_ok w1" "ctx_kept w w1"
      using assms(1) by (simp_all add: w1_def upd_skb_def ctx_kept_def)
    then show ?thesis
      using count_stats_kept [of w1] unfolding e by (auto simp: ev_kept_def ctx_kept_def)
  qed
qed

lemma ba_status_tid_total:
  assumes "driver_ok w" "cid < WIL6210_MAX_CID" "i < WIL_STA_TID_NUM"
  shows "\<exists>w'. ba_status_tid env evt cid i w = Some w' \<and> driver_ok w' \<and> ctx_kept w w'"
proof -
  obtain w1 where 1: "disconnect_tid (ee_netif_ok env) cid i w = Some w1" "driver_ok w1" "ctx_kept w w1"
    using disconnect_tid_ok [OF assms, of "ee_netif_ok env"] by (auto simp: others_kept_def)
  let ?t = "tid_alloc (ee_wmi env) (unat (ba_agg_wsize evt)) 0 w1"
  show ?thesis
  proof (cases "ba_status evt = WMI_BA_AGREED \<and> ba_agg_wsize evt \<noteq> 0")
    case True
    have f: "send_frame w1 (snd ?t)" by (rule io_send_frame, rule tid_alloc_ok(1))
    then have "driver_ok (snd ?t)" using driver_ok_send_frame 1(2) by blast
    moreover have "reorder_safe r" if "fst ?t = Some r" for r
      using tid_alloc_safe(1) [OF that] True unat_bound [of "ba_agg_wsize evt"]
      by (simp add: unat_gt_0)
    ultimately have "driver_ok (set_tid_rx cid i (fst ?t) (snd ?t))"
      by (rule driver_ok_set_tid_rx)
    moreover have "ctx_kept w1 (snd ?t)"
      using send_frame_peers(1) [OF f] by (simp add: others_kept_def)
    then have "ctx_kept w (set_tid_rx cid i (fst ?t) (snd ?t))"
      using 1(3) ctx_kept_trans by (auto simp: set_tid_rx_def ctx_kept_def)
    ultimately show ?thesis using 1(1) True by (simp add: ba_status_tid_def split_def Let_def)
  next
    case False
    then show ?thesis using 1 by (intro exI [of _ w1]) (auto simp: ba_status_tid_def)
  qed
qed

lemma driver_ok_txdata:
  "driver_ok w \<Longrightarrow> driver_ok (w\<lparr>vring_txdata := (vring_txdata w)[i := x]\<rparr>)"
  by (simp add: driver_ok_defs)

lemma evt_ba_status_total:
  assumes "driver_ok w" "8 \<le> length d"
  shows "\<exists>w'. wmi_evt_ba_status env d len w = Some w' \<and> ev_kept w w'"
proof -
  obtain evt where evt: "parse_ba_status d = Some evt" using assms(2) by (simp add: parse_ba_status_def)
  let ?ring = "unat (ba_ringid evt)"
  let ?cid = "unat (fst (vring2cid_tid w ! ?ring))"
  show ?thesis
  proof (cases "?ring \<ge> WIL6210_MAX_TX_RINGS \<or> ?cid \<ge> WIL6210_MAX_CID \<or>
      sta_status (sta w ! ?cid) = wil_sta_unused")
    case True
    then show ?thesis
      using evt assms(1) by (auto simp: wmi_evt_ba_status_def ev_kept_def Let_def)
  next
    case False
    let ?P = "\<lambda>k w'. driver_ok w' \<and> ctx_kept w w'"
    have "\<exists>w'. run_inputs (ba_status_tid env evt ?cid) [0..<WIL_STA_TID_NUM] w = Some w' \<and> ?P WIL_STA_TID_NUM w'"
    proof (rule run_inputs_upt [where P = ?P])
      show "?P 0 w" using assms(1) by simp
    next
      fix i w1 assume "i < WIL_STA_TID_NUM" "?P i w1"
      then show "\<exists>w2. ba_status_tid env evt ?cid i w1 = Some w2 \<and> ?P (Suc i) w2"
        using ba_status_tid_total [of w1 ?cid i env evt] False ctx_kept_trans by (meson not_le)
    qed
    then obtain w' where "run_inputs (ba_status_tid env evt ?cid) [0..<WIL_STA_TID_NUM] w = Some w'"
      "driver_ok w'" "ctx_kept w w'" by blast
    then show ?thesis
      using False evt driver_ok_txdata
      by (simp add: wmi_evt_ba_status_def ev_kept_def ctx_kept_def Let_def)
  qed
qed

lemma evt_rcp_addba_req_total:
  assumes "driver_ok w" "8 \<le> length d"
  shows "\<exists>w'. wmi_evt_rcp_addba_req env d len w = Some w' \<and> ev_kept w w'"
proof -
  have "d \<noteq> []" "Suc 0 < length d" using assms(2) by auto
  then show ?thesis
    using assms
    by (simp add: wmi_evt_rcp_addba_req_def wil_rcp_addba_request_def kmalloc_def ev_kept_def Let_def)
qed

subsection \<open>Dispatch\<close>

lemmas handled_id_defs =
  WMI_READY_EVENTID_def WMI_FW_READY_EVENTID_def WMI_RX_MGMT_PACKET_EVENTID_def
  WMI_SCAN_COMPLETE_EVENTID_def WMI_CONNECT_EVENTID_def WMI_DISCONNECT_EVENTID_def
  WMI_NOTIFY_REQ_DONE_EVENTID_def WMI_EAPOL_RX_EVENTID_def WMI_DATA_PORT_OPEN_EVENTID_def
  WMI_WBE_LINKDOWN_EVENTID_def WMI_BA_STATUS_EVENTID_def WMI_RCP_ADDBA_REQ_EVENTID_def

lemma evt_needs:
  "evt_data_ok WMI_READY_EVENTID d = (16 \<le> length d)"
  "evt_data_ok WMI_RX_MGMT_PACKET_EVENTID d = (52 \<le> length d \<and>
     36 \<le> unat (le_word (take 4 (drop 8 d)) :: u32) \<and> unat (le_word (take 4 (drop 8 d)) :: u32) + 16 \<le> length d)"
  "evt_data_ok WMI_SCAN_COMPLETE_EVENTID d = (4 \<le> length d)"
  "evt_data_ok WMI_DISCONNECT_EVENTID d = (8 \<le> length d)"
  "evt_data_ok WMI_BA_STATUS_EVENTID d = (8 \<le> length d)"
  "evt_data_ok WMI_RCP_ADDBA_REQ_EVENTID d = (8 \<le> length d)"
  "evt_data_ok WMI_EAPOL_RX_EVENTID d = (8 + unat (le_word (take 2 (drop 6 d)) :: u16) \<le> length d)"
  by (simp_all only: evt_data_ok_def) (simp_all add: handled_id_defs)

lemma evt_link_total:
  assumes "driver_ok w"
  shows "\<exists>w'. wmi_evt_linkup env d len w = Some w' \<and> ev_kept w w'"
    "\<exists>w'. wmi_evt_linkdown env d len w = Some w' \<and> ev_kept w w'"
  using assms by (simp_all add: wmi_evt_linkup_def wmi_evt_linkdown_def ev_kept_def)

lemma evt_call_handler_total:
  assumes "driver_ok w" "alloc_skb_ok env" "len \<le> length d" "evt_data_ok evid d"
  shows "\<exists>b w'. wmi_evt_call_handler env evid d len w = Some (b, w') \<and> ev_kept w w'"
proof (cases "map_of wmi_evt_handlers evid")
  case None
  then show ?thesis
    using assms(1) by (intro exI [of _ False] exI [of _ w]) (simp add: wmi_evt_call_handler_def ev_kept_def)
next
  case (Some h)
  then have "(evid, h) \<in> set wmi_evt_handlers" by (rule map_of_SomeD)
  then have "\<exists>w'. h env d len w = Some w' \<and> ev_kept w w'"
    unfolding wmi_evt_handlers_def
    using assms evt_ready_total evt_fw_ready_total evt_rx_mgmt_total evt_scan_complete_total
      evt_connect_total evt_disconnect_total evt_notify_total evt_eapol_rx_total evt_link_total
      evt_ba_status_total evt_rcp_addba_req_total
    by (simp only: list.set insert_iff empty_iff prod.inject) (auto simp only: evt_needs)
  then show ?thesis using Some by (auto simp: wmi_evt_call_handler_def)
qed

text \<open>The buffer of the waiting caller holds at least the bytes that may be copied into it.\<close>

definition reply_ok :: "wil6210_priv \<Rightarrow> bool" where
  "reply_ok w \<longleftrightarrow> (\<forall>bs. reply_buf w = Some bs \<longrightarrow> unat (reply_size w) \<le> length bs)"

definition waiting_ok :: "wil6210_priv \<Rightarrow> bool" where
  "waiting_ok w \<longleftrightarrow> driver_ok w \<and> reply_ok w \<and> (\<forall>e \<in> set (pending_wmi_ev w). event_ok e)"

lemma waiting_ok_ev_kept: "waiting_ok w \<Longrightarrow> ev_kept w w' \<Longrightarrow> waiting_ok w'"
  by (simp add: waiting_ok_def reply_ok_def ev_kept_def)

lemma waiting_ok_complete [simp]: "waiting_ok (complete_wmi_ready w) = waiting_ok w"
  by (simp add: waiting_ok_def reply_ok_def complete_wmi_ready_def)

lemma complete_wmi_ready_fields [simp]:
  "roc (complete_wmi_ready w) = roc w" "roc_counter (complete_wmi_ready w) = roc_counter w"
  "reply_buf (complete_wmi_ready w) = reply_buf w" "pending_wmi_ev (complete_wmi_ready w) = pending_wmi_ev w"
  by (simp_all add: complete_wmi_ready_def)

lemma driver_ok_reply_buf [simp]: "driver_ok (w\<lparr>reply_buf := b\<rparr>) = driver_ok w"
  by (simp add: driver_ok_defs)

lemma wmi_event_handle_total:
  assumes "waiting_ok w" "alloc_skb_ok env" "event_ok e"
  shows "\<exists>w'. wmi_event_handle env e w = Some w' \<and> waiting_ok w' \<and>
    pending_wmi_ev w' = pending_wmi_ev w \<and> roc w' = roc w \<and> roc_counter w' = roc_counter w \<and>
    map_option length (reply_buf w') = map_option length (reply_buf w)"
proof (cases "hdr_type (ev_hdr e) = WIL_MBOX_HDR_TYPE_WMI \<and> 8 \<le> unat (hdr_len (ev_hdr e))")
  case False
  then show ?thesis using assms(1) by (auto simp: wmi_event_handle_def Let_def)
next
  case True
  let ?len = "hdr_len (ev_hdr e)"
  let ?d = "drop 8 (ev_data e)" and ?id = "le_word (take 2 (drop 2 (ev_data e))) :: u16"
  have len: "unat ?len \<le> length (ev_data e)" "evt_data_ok ?id ?d"
    using assms(3) True by (simp_all add: event_ok_def)
  then have rd: "rd16 2 (ev_data e) = Some ?id" using True by simp
  have "driver_ok w" using assms(1) by (simp add: waiting_ok_def)
  moreover have "unat ?len - 8 \<le> length ?d" using len(1) by simp
  ultimately obtain b w1 where h: "wmi_evt_call_handler env ?id ?d (unat ?len - 8) w = Some (b, w1)" "ev_kept w w1"
    using evt_call_handler_total assms(2) len(2) by blast
  then have w1: "waiting_ok w1" "pending_wmi_ev w1 = pending_wmi_ev w" "reply_buf w1 = reply_buf w"
    "roc w1 = roc w" "roc_counter w1 = roc_counter w"
    using waiting_ok_ev_kept [OF assms(1)] by (simp_all add: ev_kept_def)
  show ?thesis
  proof (cases "reply_id w \<noteq> 0 \<and> reply_id w = ?id")
    case False
    then show ?thesis using True rd h(1) w1 by (auto simp: wmi_event_handle_def Let_def)
  next
    case hit: True
    show ?thesis
    proof (cases "reply_buf w")
      case None
      then show ?thesis
        using True rd h(1) w1 hit by (auto simp: wmi_event_handle_def Let_def)
    next
      case (Some buf)
      let ?m = "unat (min ?len (reply_size w))"
      have m: "?m \<le> length (ev_data e)" "?m \<le> length buf"
        using len(1) assms(1) Some by (auto simp: waiting_ok_def reply_ok_def min_def word_le_nat_alt)
      let ?w = "w\<lparr>reply_buf := Some (take ?m (ev_data e) @ drop ?m buf)\<rparr>"
      have "wmi_event_handle env e w = Some (complete_wmi_ready ?w)"
        using True rd hit Some m by (auto simp: wmi_event_handle_def Let_def)
      moreover have "waiting_ok ?w"
        using assms(1) Some m by (simp add: waiting_ok_def reply_ok_def)
      ultimately show ?thesis using Some m by simp
    qed
  qed
qed

subsection \<open>The worker\<close>

lemma next_wmi_ev_waiting: "waiting_ok w \<Longrightarrow> waiting_ok (snd (next_wmi_ev w))"
  by (auto simp: next_wmi_ev_def waiting_ok_def reply_ok_def split: list.split)

lemma wmi_event_worker_total:
  assumes "waiting_ok w" "alloc_skb_ok env"
  shows "\<exists>w'. wmi_event_worker env w = Some w' \<and> pending_wmi_ev w' = [] \<and> waiting_ok w' \<and>
    roc w' = roc w \<and> roc_counter w' = roc_counter w \<and>
    map_option length (reply_buf w') = map_option length (reply_buf w) \<and>
    run_inputs (\<lambda>e w. wmi_event_handle env e (snd (next_wmi_ev w))) (pending_wmi_ev w) w = Some w'"
proof -
  let ?P = "\<lambda>w'. waiting_ok w' \<and> roc w' = roc w \<and> roc_counter w' = roc_counter w \<and> map_option length (reply_buf w') = map_option length (reply_buf w)"
  have "\<exists>w'. work_loop next_wmi_ev (wmi_event_handle env) w = Some w' \<and> pending_wmi_ev w' = [] \<and> ?P w' \<and>
      run_inputs (\<lambda>e w. wmi_event_handle env e (snd (next_wmi_ev w))) (pending_wmi_ev w) w = Some w'"
  proof (rule ev_queue.drain [where P = ?P and Q = event_ok])
    fix e w1 assume "?P w1" "event_ok e"
    then show "\<exists>w2. wmi_event_handle env e w1 = Some w2 \<and> pending_wmi_ev w2 = pending_wmi_ev w1 \<and> ?P w2"
      using wmi_event_handle_total [of w1 env e] assms(2) by auto
  next
    fix w1 assume "?P w1"
    then show "?P (snd (next_wmi_ev w1))"
      using next_wmi_ev_waiting [of w1] by (auto simp: next_wmi_ev_def split: list.split)
  next
    fix w1 e assume "?P w1" "e \<in> set (pending_wmi_ev w1)"
    then show "event_ok e" by (simp add: waiting_ok_def)
  qed (use assms(1) in simp)
  then show ?thesis by (simp add: wmi_event_worker_def)
qed

text \<open>
  A caller of the firmware with the event worker running beside it: events arrive, at any time,
  between the command and the announcement of its reply, where the worker may already handle them,
  and while the caller waits.
\<close>

definition wmi_arrive :: "pending_wmi_event list \<Rightarrow> wil6210_priv \<Rightarrow> wil6210_priv" where
  "wmi_arrive evs w = w\<lparr>pending_wmi_ev := pending_wmi_ev w @ evs\<rparr>"

definition worker_env :: "evt_env \<Rightarrow> call_env" where
  "worker_env env = \<lparr>cc_wmi = ee_wmi env,
     cc_race = (\<lambda>w. case ee_race env (io_clock w) of [] \<Rightarrow> Some w
       | e # evs \<Rightarrow> wmi_event_worker env (wmi_arrive (e # evs) w)),
     cc_wait = (\<lambda>w. wmi_event_worker env (wmi_arrive (ee_arrive env (io_clock w)) w))\<rparr>"

definition world_ok :: "evt_env \<Rightarrow> bool" where
  "world_ok env \<longleftrightarrow> alloc_skb_ok env \<and>
     (\<forall>t. \<forall>e \<in> set (ee_race env t) \<union> set (ee_arrive env t). event_ok e)"

definition evt_env_ok :: "evt_env \<Rightarrow> evt_env" where
  "evt_env_ok env = (if world_ok env then env
     else env\<lparr>ee_skb := (\<lambda>_ _. None), ee_race := (\<lambda>_. []), ee_arrive := (\<lambda>_. [])\<rparr>)"

lemma world_ok_env: "world_ok (evt_env_ok env)"
  by (simp add: evt_env_ok_def world_ok_def alloc_skb_ok_def)

lemma evt_env_ok_id: "world_ok env \<Longrightarrow> evt_env_ok env = env"
  by (simp add: evt_env_ok_def)

lemma wmi_arrive_waiting:
  "waiting_ok w \<Longrightarrow> \<forall>e \<in> set evs. event_ok e \<Longrightarrow> waiting_ok (wmi_arrive evs w)"
  by (auto simp: waiting_ok_def reply_ok_def wmi_arrive_def)

lemma wmi_arrive_reply [simp]: "reply_buf (wmi_arrive evs w) = reply_buf w"
  by (simp add: wmi_arrive_def)

lemma send_frame_waiting:
  assumes "send_frame w w'" "waiting_ok w"
  shows "waiting_ok w'"
  using assms driver_ok_send_frame send_frame_peers(1) [OF assms(1)]
  by (simp add: waiting_ok_def reply_ok_def others_kept_def ctx_kept_def)

text \<open>The caller's invariant: the state well formed, and the off-channel operation as it was.\<close>

definition roc_waiting :: "wil_roc \<Rightarrow> u64 \<Rightarrow> wil6210_priv \<Rightarrow> bool" where
  "roc_waiting r c w \<longleftrightarrow> waiting_ok w \<and> roc w = r \<and> roc_counter w = c"

lemma send_frame_roc: "send_frame w w' \<Longrightarrow> roc_waiting r c w \<Longrightarrow> roc_waiting r c w'"
  using send_frame_waiting send_frame_peers(1) by (simp add: roc_waiting_def others_kept_def ctx_kept_def)

lemma worker_env_roc:
  assumes "roc_waiting r c w"
  shows "\<exists>w'. cc_race (worker_env (evt_env_ok env)) w = Some w' \<and> roc_waiting r c w'"
    "\<exists>w'. cc_wait (worker_env (evt_env_ok env)) w = Some w' \<and> roc_waiting r c w' \<and>
      map_option length (reply_buf w') = map_option length (reply_buf w)"
proof -
  have ok: "alloc_skb_ok (evt_env_ok env)" "\<forall>e \<in> set (ee_arrive (evt_env_ok env) t). event_ok e"
    "\<forall>e \<in> set (ee_race (evt_env_ok env) t). event_ok e" for t
    using world_ok_env [of env] by (auto simp: world_ok_def)
  have w: "waiting_ok w" "roc w = r" "roc_counter w = c" using assms by (simp_all add: roc_waiting_def)
  have run: "\<exists>w'. wmi_event_worker (evt_env_ok env) (wmi_arrive evs w) = Some w' \<and> roc_waiting r c w' \<and>
      map_option length (reply_buf w') = map_option length (reply_buf w)" if "\<forall>e \<in> set evs. event_ok e" for evs
    using wmi_event_worker_total [OF wmi_arrive_waiting [OF w(1) that] ok(1)] w(2,3)
    by (auto simp: roc_waiting_def wmi_arrive_def)
  show "\<exists>w'. cc_race (worker_env (evt_env_ok env)) w = Some w' \<and> roc_waiting r c w'"
    using assms run [OF ok(3), of "io_clock w"] by (auto simp: worker_env_def split: list.split)
  show "\<exists>w'. cc_wait (worker_env (evt_env_ok env)) w = Some w' \<and> roc_waiting r c w' \<and>
      map_option length (reply_buf w') = map_option length (reply_buf w)"
    using run [OF ok(2), of "io_clock w"] by (simp add: worker_env_def)
qed

lemma roc_waiting_reply:
  "roc_waiting r c w \<Longrightarrow> roc_waiting r c (w\<lparr>reply_id := i, reply_buf := b, reply_size := reply_len b\<rparr>)"
  by (auto simp: roc_waiting_def waiting_ok_def reply_ok_def)

lemma roc_waiting_mbox: "roc_waiting r c w \<Longrightarrow> tx_mbox_ok (mbox_tx w)"
  by (simp add: roc_waiting_def waiting_ok_def driver_ok_def)

lemma roc_waiting_ready: "roc_waiting r c w \<Longrightarrow> roc_waiting r c (w\<lparr>wmi_ready := k\<rparr>)"
  by (simp add: roc_waiting_def waiting_ok_def reply_ok_def)

interpretation fw_roc: wmi_caller "roc_waiting r c" "worker_env (evt_env_ok env)" for r c env
  by unfold_locales
    (erule roc_waiting_mbox roc_waiting_reply roc_waiting_ready worker_env_roc |
      rule send_frame_roc, assumption+)+

lemma roc_waiting_self: "waiting_ok w \<longleftrightarrow> roc_waiting (roc w) (roc_counter w) w"
  by (simp add: roc_waiting_def)

interpretation fw: wmi_caller waiting_ok "worker_env (evt_env_ok env)" for env
proof unfold_locales
  fix w w' :: wil6210_priv
  show "waiting_ok w \<Longrightarrow> tx_mbox_ok (mbox_tx w)" by (simp add: waiting_ok_def driver_ok_def)
  show "waiting_ok w \<Longrightarrow> send_frame w w' \<Longrightarrow> waiting_ok w'" by (rule send_frame_waiting)
next
  fix w :: wil6210_priv and i and b :: "u8 list option"
  show "waiting_ok w \<Longrightarrow> waiting_ok (w\<lparr>reply_id := i, reply_buf := b,
      reply_size := reply_len b\<rparr>)"
    using roc_waiting_reply [of "roc w" "roc_counter w" w] by (simp add: roc_waiting_def)
next
  fix w :: wil6210_priv and k
  show "waiting_ok w \<Longrightarrow> waiting_ok (w\<lparr>wmi_ready := k\<rparr>)"
    by (simp add: waiting_ok_def reply_ok_def)
  show "waiting_ok w \<Longrightarrow> \<exists>w'. cc_race (worker_env (evt_env_ok env)) w = Some w' \<and> waiting_ok w'"
    using worker_env_roc(1) unfolding roc_waiting_self [of w] by (metis roc_waiting_def)
  show "waiting_ok w \<Longrightarrow> \<exists>w'. cc_wait (worker_env (evt_env_ok env)) w = Some w' \<and> waiting_ok w' \<and>
      map_option length (reply_buf w') = map_option length (reply_buf w)"
    using worker_env_roc(2) unfolding roc_waiting_self [of w] by (metis roc_waiting_def)
qed

end
