(* ===== verification/Wil_Ring_Init.thy ===== *)
theory Wil_Ring_Init
  imports Wil_Wmi_Event_Correct
begin

text \<open>
  Bringing rings up: the Rx ring (\<open>wil_rx_init\<close>), a Tx ring for a peer (\<open>wil_vring_init_tx\<close>,
  \<^verbatim>\<open>txrx.c\<close>) and the worker that completes a connection (\<^verbatim>\<open>main.c\<close>).
\<close>

subsection \<open>Operations\<close>

text \<open>The memory the allocators hand out for a ring.\<close>

record ring_mem =
  rm_ctx :: bool
  rm_va :: "(u64 \<times> vring_desc list) option"

definition rx_init_free :: "errno option \<Rightarrow> wil6210_priv \<Rightarrow> (errno option \<times> wil6210_priv) option" where
  "rx_init_free rc w = do {
     (w, v) \<leftarrow> wil_vring_free False w (vring_rx w);
     Some (rc, w\<lparr>vring_rx := v\<rparr>)
   }"

definition wil_rx_init ::
  "call_env \<Rightarrow> rx_env \<Rightarrow> u8 list \<Rightarrow> ring_mem \<Rightarrow> wil6210_priv \<Rightarrow> (errno option \<times> wil6210_priv) option" where
  "wil_rx_init env rxe stack mem w =
     (let (rc, v) = wil_vring_alloc (rm_ctx mem) (rm_va mem) ((vring_rx w)\<lparr>vr_size := WIL6210_RX_RING_SIZE\<rparr>);
          w = w\<lparr>vring_rx := v\<rparr>
      in if rc \<noteq> None then Some (rc, w)
         else do {
           (rc, v, w) \<leftarrow> wmi_rx_chain_add env stack v w;
           let w = w\<lparr>vring_rx := v\<rparr>;
           (if rc \<noteq> None then rx_init_free rc w
            else do {
              (rc, w) \<leftarrow> wil_rx_refill rxe (unat (vr_size v)) w;
              (if rc \<noteq> None then rx_init_free rc w else Some (None, w))
            })
         })"

definition tx_init_free :: "nat \<Rightarrow> errno option \<Rightarrow> wil6210_priv \<Rightarrow> (errno option \<times> wil6210_priv) option" where
  "tx_init_free i rc w = do {
     (w, v) \<leftarrow> wil_vring_free True w (vring_tx w ! i);
     Some (rc, set_vring_tx i v w)
   }"

text \<open>A ring index outside the array is an access outside it (\<open>None\<close>).\<close>

definition wil_vring_init_tx ::
  "call_env \<Rightarrow> u8 list \<Rightarrow> ring_mem \<Rightarrow> int \<Rightarrow> u16 \<Rightarrow> u8 \<Rightarrow> u8 \<Rightarrow> wil6210_priv
     \<Rightarrow> (errno option \<times> wil6210_priv) option" where
  "wil_vring_init_tx env stack mem ringid wsize cid tid w =
     (if ringid < 0 \<or> nat ringid \<ge> WIL6210_MAX_TX_RINGS then None
      else
        let i = nat ringid
        in if vr_va (vring_tx w ! i) \<noteq> None then Some (Some EINVAL, w)
           else
             let w = w\<lparr>vring_txdata := (vring_txdata w)[i := \<lparr>agg_wsize = 0, agg_timeout = 0\<rparr>]\<rparr>;
                 (rc, v) = wil_vring_alloc (rm_ctx mem) (rm_va mem) ((vring_tx w ! i)\<lparr>vr_size := wsize\<rparr>);
                 w = set_vring_tx i v w
             in if rc \<noteq> None then Some (rc, w)
                else
                  let w = w\<lparr>vring2cid_tid := (vring2cid_tid w)[i := (cid, tid)]\<rparr>;
                      cmd = wmi_vring_cfg_cmd WMI_VRING_CMD_ADD
                        (wmi_vring_cfg (wmi_sw_ring_cfg (vr_pa v) wsize (of_nat TX_BUF_LEN))
                          (of_nat i) (mk_cidxtid cid tid) WMI_VRING_ENC_TYPE_802_3 0 0
                          (wmi_vring_cfg_schd 0 0xfff))
                  in do {
                    (rc, reply, w) \<leftarrow> wmi_call env WMI_VRING_CFG_CMDID cmd WMI_VRING_CFG_DONE_EVENTID
                      (reply_init stack 8) w;
                    (if rc \<noteq> None then tx_init_free i rc w
                     else do {
                       bs \<leftarrow> reply;
                       status \<leftarrow> rd8 9 bs;
                       tail \<leftarrow> rd32 12 bs;
                       (if status \<noteq> WMI_FW_STATUS_SUCCESS then tx_init_free i (Some EINVAL) w
                        else Some (None, set_vring_tx i ((vring_tx w ! i)\<lparr>hwtail := tail\<rparr>) w))
                     })
                  })"

definition wil_connect_worker ::
  "call_env \<Rightarrow> u8 list \<Rightarrow> ring_mem \<Rightarrow> wil6210_priv \<Rightarrow> wil6210_priv option" where
  "wil_connect_worker env stack mem w =
     (let cid = pending_connect_cid w;
          tid = tid_to_use w AND 0xf;
          ringid = (case wil_find_free_vring w of Some i \<Rightarrow> int i | None \<Rightarrow> -22);
          w = w\<lparr>connect_queued := False\<rparr>
      in if cid < 0 then Some w
         else do {
           (rc, w) \<leftarrow> wil_vring_init_tx env stack mem ringid WIL6210_TX_RING_SIZE (word_of_int cid) tid w;
           let w = w\<lparr>pending_connect_cid := -1\<rparr>;
           Some (if rc = None
             then wil_link_on (upd_sta (nat cid) (\<lambda>s. s\<lparr>sta_status := wil_sta_connected\<rparr>) w)
             else upd_sta (nat cid) (\<lambda>s. s\<lparr>sta_status := wil_sta_unused\<rparr>) w)
         })"

subsection \<open>Tx rings\<close>

text \<open>The allocator returns as many descriptors as asked for.\<close>

definition ring_mem_ok :: "ring_mem \<Rightarrow> u16 \<Rightarrow> bool" where
  "ring_mem_ok mem n \<longleftrightarrow> 2 \<le> unat n \<and> (\<forall>pa ds. rm_va mem = Some (pa, ds) \<longrightarrow> length ds = unat n)"

lemma ring_alloc_cases:
  assumes "ring_mem_ok mem (vr_size v)" "wil_vring_alloc (rm_ctx mem) (rm_va mem) v = (rc, v')"
  shows "rc = None \<and> vring_ok v' \<and> vr_va v' \<noteq> None \<and> wil_vring_is_empty v' \<or>
    rc = Some ENOMEM \<and> vr_va v' = None \<and> wil_vring_is_empty v'"
    and "vr_size v' = vr_size v"
proof -
  show "vr_size v' = vr_size v"
    using assms(2) by (auto simp: wil_vring_alloc_def Let_def split: if_splits option.splits)
  show "rc = None \<and> vring_ok v' \<and> vr_va v' \<noteq> None \<and> wil_vring_is_empty v' \<or>
    rc = Some ENOMEM \<and> vr_va v' = None \<and> wil_vring_is_empty v'"
  proof (cases "rm_ctx mem \<and> rm_va mem \<noteq> None")
    case True
    then obtain pa ds where m: "rm_ctx mem" "rm_va mem = Some (pa, ds)" by auto
    then have "length ds = unat (vr_size v)" "2 \<le> unat (vr_size v)"
      using assms(1) by (auto simp: ring_mem_ok_def)
    note ok = vring_alloc_ok [OF this(2,1) assms(2) [unfolded m(2) eqTrueI [OF m(1)]]]
    have "vr_va v' \<noteq> None" using ok(2) by (auto simp: vring_ok_def)
    moreover have "wil_vring_is_empty v'" using ok(5,6) by (simp add: wil_vring_is_empty_def)
    ultimately show ?thesis using ok(1,2) by blast
  next
    case False
    then show ?thesis
      using assms(2) by (auto simp: wil_vring_alloc_def Let_def wil_vring_is_empty_def
          split: if_splits option.splits)
  qed
qed

lemma driver_ok_set_ring:
  assumes "driver_ok w" "ring_off_or_ok v"
  shows "driver_ok (set_vring_tx i v w)"
proof -
  have "\<forall>u \<in> set ((vring_tx w)[i := v]). ring_off_or_ok u"
    using assms set_update_subset_insert [of "vring_tx w" i v] by (auto simp: driver_ok_def)
  then show ?thesis
    using assms(1) by (simp add: driver_ok_defs set_vring_tx_def)
qed

lemma waiting_ok_set_ring:
  "waiting_ok w \<Longrightarrow> ring_off_or_ok v \<Longrightarrow> waiting_ok (set_vring_tx i v w)"
  using driver_ok_set_ring [of w v i] by (simp add: waiting_ok_def reply_ok_def set_vring_tx_def)

lemma cids_set_ring:
  assumes "\<forall>j < n. unat (fst (xs ! j :: u8 \<times> 'a)) < m" "unat (fst y) < m"
  shows "\<forall>j < n. unat (fst (xs[i := y] ! j)) < m"
  using assms by (cases "i < length xs") (auto simp: nth_list_update list_update_beyond)

lemma waiting_ok_fields [simp]:
  "waiting_ok w \<Longrightarrow> waiting_ok (w\<lparr>vring_txdata := (vring_txdata w)[i := x]\<rparr>)"
  "waiting_ok w \<Longrightarrow> unat (fst y) < WIL6210_MAX_CID \<Longrightarrow>
    waiting_ok (w\<lparr>vring2cid_tid := (vring2cid_tid w)[i := y]\<rparr>)"
  "waiting_ok w \<Longrightarrow> rx_off_or_ok v \<Longrightarrow> waiting_ok (w\<lparr>vring_rx := v\<rparr>)"
  "waiting_ok w \<Longrightarrow> c < int WIL6210_MAX_CID \<Longrightarrow> waiting_ok (w\<lparr>pending_connect_cid := c\<rparr>)"
  "waiting_ok (w\<lparr>connect_queued := q\<rparr>) = waiting_ok w"
  by (auto simp: waiting_ok_def reply_ok_def driver_ok_defs cids_set_ring)

lemma tx_init_free_ok:
  assumes "waiting_ok w" "i < WIL6210_MAX_TX_RINGS"
  shows "\<exists>w'. tx_init_free i rc w = Some (rc, w') \<and> waiting_ok w' \<and> vr_va (vring_tx w' ! i) = None"
proof -
  have d: "driver_ok w" using assms(1) by (simp add: waiting_ok_def)
  then have i: "i < length (vring_tx w)" using assms(2) driver_okD(6) by simp
  have "\<exists>w1 v1. vring_free_loop True w (vring_tx w ! i) = Some (w1, v1) \<and> wil_vring_is_empty v1"
  proof (cases "wil_vring_is_empty (vring_tx w ! i)")
    case True
    then show ?thesis by (subst vring_free_loop.simps) simp
  next
    case False
    then have "vring_ok (vring_tx w ! i)"
      using driver_okD(4) [OF d assms(2)] by (simp add: ring_off_or_ok_def)
    then show ?thesis using vring_free_tx_loop [OF _ refl] by blast
  qed
  then obtain w1 v1 where 1: "vring_free_loop True w (vring_tx w ! i) = Some (w1, v1)" "wil_vring_is_empty v1"
    by blast
  let ?v = "v1\<lparr>vr_pa := 0, vr_va := None, vr_ctx := []\<rparr>"
  have b: "buf_frame w w1" using vring_free_buf_frame [OF 1(1)] by simp
  have eq: "w1 = w\<lparr>skbs := skbs w1, klog := klog w1\<rparr>" using b by (simp add: buf_frame_def)
  have same: "reply_buf w1 = reply_buf w" "reply_size w1 = reply_size w" "pending_wmi_ev w1 = pending_wmi_ev w"
    "vring_tx w1 = vring_tx w"
    by (subst eq, simp)+
  have "waiting_ok w1"
    using driver_ok_buf_frame [OF b d] assms(1) same by (simp add: waiting_ok_def reply_ok_def)
  moreover have "ring_off_or_ok ?v" using 1(2) by (simp add: ring_off_or_ok_def wil_vring_is_empty_def)
  ultimately have "waiting_ok (set_vring_tx i ?v w1)" by (rule waiting_ok_set_ring)
  then show ?thesis
    using 1(1) i same(4)
    by (intro exI [of _ "set_vring_tx i ?v w1"])
      (simp add: tx_init_free_def wil_vring_free_def set_vring_tx_def)
qed

lemma set_hwtail_ok: "ring_off_or_ok v \<Longrightarrow> ring_off_or_ok (v\<lparr>hwtail := t\<rparr>)"
  by (auto simp: ring_off_or_ok_def vring_ok_def wil_vring_is_empty_def)

lemma wil_vring_init_tx_total:
  assumes "waiting_ok w" "world_ok env" "i < WIL6210_MAX_TX_RINGS" "ring_mem_ok mem wsize"
    and "vr_va (vring_tx w ! i) = None" "unat cid < WIL6210_MAX_CID"
  shows "\<exists>rc w'. wil_vring_init_tx (worker_env env) stack mem (int i) wsize cid tid w = Some (rc, w') \<and>
    waiting_ok w' \<and> (rc \<noteq> None \<longrightarrow> vr_va (vring_tx w' ! i) = None) \<and>
    (rc = None \<longrightarrow> rm_ctx mem \<and> rm_va mem \<noteq> None)"
proof -
  define w0 where "w0 = w\<lparr>vring_txdata := (vring_txdata w)[i := \<lparr>agg_wsize = 0, agg_timeout = 0\<rparr>]\<rparr>"
  obtain rc v where a: "wil_vring_alloc (rm_ctx mem) (rm_va mem) ((vring_tx w ! i)\<lparr>vr_size := wsize\<rparr>) = (rc, v)"
    by (rule prod.exhaust)
  define w1 where "w1 = set_vring_tx i v w0"
  have w0: "vring_tx w0 = vring_tx w" by (simp add: w0_def)
  have c: "rc = None \<and> vring_ok v \<and> vr_va v \<noteq> None \<and> wil_vring_is_empty v \<or>
      rc = Some ENOMEM \<and> vr_va v = None \<and> wil_vring_is_empty v"
    using ring_alloc_cases(1) [OF _ a] assms(4) by simp
  have m: "rc = None \<longrightarrow> rm_ctx mem \<and> rm_va mem \<noteq> None"
    using a by (auto simp: wil_vring_alloc_def Let_def split: if_splits option.splits)
  have "i < length (vring_tx w)"
    using assms(1,3) by (simp add: waiting_ok_def driver_ok_def wil_arrays_ok_def)
  then have v1: "vring_tx w1 ! i = v" by (simp add: w1_def w0_def set_vring_tx_def)
  have "ring_off_or_ok v" using c by (auto simp: ring_off_or_ok_def)
  then have w1: "waiting_ok w1" using assms(1) by (simp add: w1_def w0_def waiting_ok_set_ring)
  show ?thesis
  proof (cases rc)
    case (Some e)
    then show ?thesis
      using assms(3,5) a c w1 v1 by (simp add: wil_vring_init_tx_def w1_def w0_def)
  next
    case None
    define w2 where "w2 = w1\<lparr>vring2cid_tid := (vring2cid_tid w1)[i := (cid, tid)]\<rparr>"
    define cmd where "cmd = wmi_vring_cfg_cmd WMI_VRING_CMD_ADD
      (wmi_vring_cfg (wmi_sw_ring_cfg (vr_pa v) wsize (of_nat TX_BUF_LEN))
        (of_nat i) (mk_cidxtid cid tid) WMI_VRING_ENC_TYPE_802_3 0 0 (wmi_vring_cfg_schd 0 0xfff))"
    have "waiting_ok w2" using w1 assms(6) by (simp add: w2_def)
    then obtain rc' bs w3 where call: "wmi_call (worker_env env) WMI_VRING_CFG_CMDID cmd
        WMI_VRING_CFG_DONE_EVENTID (reply_init stack 8) w2 = Some (rc', Some bs, w3)"
      "waiting_ok w3" "length bs = 16"
      using fw.call_reply [of w2 env WMI_VRING_CFG_CMDID cmd WMI_VRING_CFG_DONE_EVENTID stack 8]
        evt_env_ok_id [OF assms(2)] by auto
    have step: "wil_vring_init_tx (worker_env env) stack mem (int i) wsize cid tid w =
        (if rc' \<noteq> None then tx_init_free i rc' w3
         else if bs ! 9 \<noteq> WMI_FW_STATUS_SUCCESS then tx_init_free i (Some EINVAL) w3
         else Some (None, set_vring_tx i ((vring_tx w3 ! i)\<lparr>hwtail := le_word (take 4 (drop 12 bs))\<rparr>) w3))"
      using assms(3,5) a None call(1,3) w0
      by (simp add: wil_vring_init_tx_def w0_def [symmetric] w1_def [symmetric] w2_def [symmetric]
          cmd_def [symmetric] Let_def)
    have r3: "ring_off_or_ok (vring_tx w3 ! i)"
      using call(2) driver_okD(4) assms(3) by (simp add: waiting_ok_def)
    obtain w4 where w4: "tx_init_free i (if rc' \<noteq> None then rc' else Some EINVAL) w3 =
        Some (if rc' \<noteq> None then rc' else Some EINVAL, w4)" "waiting_ok w4" "vr_va (vring_tx w4 ! i) = None"
      using tx_init_free_ok [OF call(2) assms(3)] by blast
    show ?thesis
    proof (cases "rc' = None \<and> bs ! 9 = WMI_FW_STATUS_SUCCESS")
      case True
      then show ?thesis
        using waiting_ok_set_ring [OF call(2) set_hwtail_ok [OF r3]] m None unfolding step by simp
    next
      case False
      then show ?thesis using w4 unfolding step by (cases rc') auto
    qed
  qed
qed

subsection \<open>The connect worker\<close>

lemma wil_find_free_vring_Some:
  assumes "wil_find_free_vring w = Some i" "driver_ok w"
  shows "i < WIL6210_MAX_TX_RINGS" "vr_va (vring_tx w ! i) = None"
  using assms driver_okD(6) by (auto simp: wil_find_free_vring_def find_index_Some)

lemma waiting_ok_upd_status:
  assumes "waiting_ok w"
  shows "waiting_ok (upd_sta cid (\<lambda>s. s\<lparr>sta_status := st\<rparr>) w)"
proof -
  have "driver_ok (upd_sta cid (\<lambda>s. s\<lparr>sta_status := st\<rparr>) w)"
    by (rule driver_ok_upd_sta) (use assms in \<open>simp_all add: waiting_ok_def\<close>)
  then show ?thesis using assms by (simp add: waiting_ok_def reply_ok_def)
qed

lemma wil_link_on_waiting [simp]: "waiting_ok (wil_link_on w) = waiting_ok w"
  "sta (wil_link_on w) = sta w" "pending_connect_cid (wil_link_on w) = pending_connect_cid w"
  by (simp_all add: waiting_ok_def reply_ok_def wil_link_on_def)

lemma connect_worker_total:
  assumes "waiting_ok w" "world_ok env" "ring_mem_ok mem WIL6210_TX_RING_SIZE"
    and "pending_connect_cid w = int cid" "cid < WIL6210_MAX_CID" "wil_find_free_vring w \<noteq> None"
  shows "\<exists>i rc w1 w'. wil_find_free_vring w = Some i \<and>
    wil_vring_init_tx (worker_env env) stack mem (int i) WIL6210_TX_RING_SIZE (of_nat cid)
      (tid_to_use w AND 0xf) (w\<lparr>connect_queued := False\<rparr>) = Some (rc, w1) \<and>
    wil_connect_worker (worker_env env) stack mem w = Some w' \<and> waiting_ok w' \<and>
    pending_connect_cid w' = -1 \<and> vring_tx w' = vring_tx w1 \<and>
    (if rc = None
     then sta_status (sta w' ! cid) = wil_sta_connected \<and> nd_carrier (ndev w') \<and>
       \<not> nd_queues_stopped (ndev w') \<and> rm_ctx mem \<and> rm_va mem \<noteq> None
     else sta_status (sta w' ! cid) = wil_sta_unused \<and> ndev w' = ndev w1 \<and>
       vr_va (vring_tx w' ! i) = None)"
proof -
  obtain i where i: "wil_find_free_vring w = Some i" using assms(6) by blast
  note free = wil_find_free_vring_Some [OF i]
  let ?w = "w\<lparr>connect_queued := False\<rparr>"
  have d: "driver_ok w" "waiting_ok ?w" using assms(1) by (simp_all add: waiting_ok_def reply_ok_def)
  obtain rc w1 where 1: "wil_vring_init_tx (worker_env env) stack mem (int i) WIL6210_TX_RING_SIZE
      (of_nat cid) (tid_to_use w AND 0xf) ?w = Some (rc, w1)" "waiting_ok w1"
    "rc \<noteq> None \<longrightarrow> vr_va (vring_tx w1 ! i) = None" "rc = None \<longrightarrow> rm_ctx mem \<and> rm_va mem \<noteq> None"
    using wil_vring_init_tx_total [OF d(2) assms(2) free(1) [OF d(1)] assms(3),
        of "of_nat cid" stack "tid_to_use w AND 0xf"] free(2) [OF d(1)] assms(5)
    by (auto simp: unat_of_nat WIL6210_MAX_CID_def)
  let ?u = "w1\<lparr>pending_connect_cid := -1\<rparr>"
  let ?f = "\<lambda>st. upd_sta cid (\<lambda>s. s\<lparr>sta_status := st\<rparr>) ?u"
  define w' where "w' = (if rc = None then wil_link_on (?f wil_sta_connected) else ?f wil_sta_unused)"
  have e: "wil_connect_worker (worker_env env) stack mem w = Some w'"
    using 1(1) i assms(4) by (simp add: wil_connect_worker_def Let_def w'_def)
  have "waiting_ok ?u" using 1(2) by (simp add: WIL6210_MAX_CID_def)
  then have "waiting_ok (?f st)" for st by (rule waiting_ok_upd_status)
  then have ok: "waiting_ok w'" by (simp add: w'_def)
  have "cid < length (sta w1)"
    using 1(2) driver_okD(5) assms(5) by (simp add: waiting_ok_def)
  then have s: "sta_status (sta (?f st) ! cid) = st" "pending_connect_cid (?f st) = -1"
    "vring_tx (?f st) = vring_tx w1" "ndev (?f st) = ndev w1" for st
    by (simp_all add: upd_sta_def)
  have l: "nd_carrier (ndev (wil_link_on v))" "\<not> nd_queues_stopped (ndev (wil_link_on v))"
    "vring_tx (wil_link_on v) = vring_tx v" for v
    by (simp_all add: wil_link_on_def)
  have "pending_connect_cid w' = -1 \<and> vring_tx w' = vring_tx w1 \<and>
    (if rc = None
     then sta_status (sta w' ! cid) = wil_sta_connected \<and> nd_carrier (ndev w') \<and>
       \<not> nd_queues_stopped (ndev w') \<and> rm_ctx mem \<and> rm_va mem \<noteq> None
     else sta_status (sta w' ! cid) = wil_sta_unused \<and> ndev w' = ndev w1 \<and>
       vr_va (vring_tx w' ! i) = None)"
    using 1(3,4) by (cases rc) (simp_all add: w'_def s l del: not_None_eq)
  then show ?thesis using i 1(1) e ok by blast
qed

lemma connect_worker_no_ring_crash:
  assumes "wil_find_free_vring w = None" "0 \<le> pending_connect_cid w"
  shows "wil_connect_worker env stack mem w = None"
  using assms by (simp add: wil_connect_worker_def wil_vring_init_tx_def Let_def)

subsection \<open>The Rx ring\<close>

lemma rx_env_ok_mono: "rx_env_ok n env \<Longrightarrow> m \<le> n \<Longrightarrow> rx_env_ok m env"
  by (fastforce simp: rx_env_ok_def)

lemma rx_headroom_le: "rx_headroom w \<le> WIL6210_RTAP_SIZE"
  by (simp add: rx_headroom_def)

lemma waiting_ok_buf_frame:
  assumes "buf_frame w w'" "waiting_ok w"
  shows "waiting_ok w'"
proof -
  have eq: "w' = w\<lparr>skbs := skbs w', klog := klog w'\<rparr>" using assms(1) by (simp add: buf_frame_def)
  have "reply_buf w' = reply_buf w" "reply_size w' = reply_size w" "pending_wmi_ev w' = pending_wmi_ev w"
    by (subst eq, simp)+
  then show ?thesis
    using driver_ok_buf_frame [OF assms(1)] assms(2) by (simp add: waiting_ok_def reply_ok_def)
qed

lemma rx_init_free_ok:
  assumes "vring_ok (vring_rx w)" "waiting_ok w"
  shows "\<exists>w'. rx_init_free rc w = Some (rc, w') \<and> vr_va (vring_rx w') = None \<and> waiting_ok w' \<and>
    skbs w' = fold kfree_skb (somes (rx_posted (vring_rx w))) (skbs w)"
proof -
  obtain d where d: "vring_d (vring_rx w) (swtail (vring_rx w)) = Some d"
    using vring_ok_d [OF assms(1)] vring_okD(2) [OF assms(1)] by blast
  obtain w1 v1 where 1: "vring_free_loop False w (vring_rx w) = Some (w1, v1)"
    "skbs w1 = fold kfree_skb (somes (rx_posted (vring_rx w))) (skbs w)"
    using vring_free_rx_loop [OF assms(1) refl d, of w] by blast
  have "waiting_ok w1" using waiting_ok_buf_frame assms(2) vring_free_buf_frame [OF 1(1)] by simp
  then show ?thesis using 1 by (simp add: rx_init_free_def wil_vring_free_def rx_off_or_ok_def)
qed

lemma rx_refill_frame:
  assumes "rx_ring_ok (vring_rx w)" "rx_env_ok (rx_headroom w) env" "wil_rx_refill env cnt w = Some (rc, w')"
  shows "buf_frame (w\<lparr>vring_rx := vring_rx w'\<rparr>) w'"
proof -
  obtain rc1 w1 v1 where 1: "rx_refill_loop env (rx_headroom w) cnt w (vring_rx w) = Some (rc1, w1, v1)"
    "buf_frame w w1"
    using refill_loop_ok [OF assms(1,2), of cnt w] by blast
  have "w' = klog_add (IoWrite32 (HOSTADDR (hwtail v1)) (swtail v1)) (w1\<lparr>vring_rx := v1\<rparr>)"
    using 1(1) assms(3) by (simp add: wil_rx_refill_def rx_headroom_def Let_def)
  moreover have "w1 = w\<lparr>skbs := skbs w1, klog := klog w1\<rparr>" using 1(2) by (simp add: buf_frame_def)
  ultimately show ?thesis unfolding buf_frame_def klog_add_def by (cases w, cases w1) simp
qed

lemma rx_ring_ok_empty: "vring_ok v \<Longrightarrow> wil_vring_is_empty v \<Longrightarrow> rx_ring_ok v"
  by (simp add: rx_ring_ok_def rx_posted_def vring_empty_used)

lemma wil_rx_init_ok:
  assumes "waiting_ok w" "world_ok env" "ring_mem_ok mem WIL6210_RX_RING_SIZE"
    and "rx_env_ok WIL6210_RTAP_SIZE rxe"
  shows "\<exists>rc w'. wil_rx_init (worker_env env) rxe stack mem w = Some (rc, w') \<and>
    waiting_ok w' \<and>
    (rc = None \<longrightarrow> rx_ring_ok (vring_rx w') \<and> length (rx_posted (vring_rx w')) = 127) \<and>
    (rc \<noteq> None \<longrightarrow> vr_va (vring_rx w') = None)"
proof -
  obtain rc v where a: "wil_vring_alloc (rm_ctx mem) (rm_va mem)
      ((vring_rx w)\<lparr>vr_size := WIL6210_RX_RING_SIZE\<rparr>) = (rc, v)" by (rule prod.exhaust)
  note c = ring_alloc_cases [OF _ a]
  have sz: "vr_size v = WIL6210_RX_RING_SIZE" and
    v: "rc = None \<and> vring_ok v \<and> vr_va v \<noteq> None \<and> wil_vring_is_empty v \<or>
      rc = Some ENOMEM \<and> vr_va v = None \<and> wil_vring_is_empty v"
    using c assms(3) by simp_all
  let ?w = "w\<lparr>vring_rx := v\<rparr>"
  show ?thesis
  proof (cases rc)
    case (Some e)
    then show ?thesis using a v assms(1) by (simp add: wil_rx_init_def rx_off_or_ok_def)
  next
    case None
    have "waiting_ok ?w" using assms(1) v None rx_ring_ok_empty by (simp add: rx_off_or_ok_def)
    then obtain rc1 v1 w1 t where 1: "wmi_rx_chain_add (worker_env env) stack v ?w = Some (rc1, v1, w1)"
      "v1 = v\<lparr>hwtail := t\<rparr>" "waiting_ok w1"
      using fw.rx_chain_add_total [of ?w env stack v] assms(1) evt_env_ok_id [OF assms(2)] by auto
    have v1: "vring_ok v1" "wil_vring_is_empty v1" "vr_size v1 = WIL6210_RX_RING_SIZE"
      using v None sz by (auto simp: 1(2) vring_ok_def wil_vring_is_empty_def)
    let ?w1 = "w1\<lparr>vring_rx := v1\<rparr>"
    have ok1: "waiting_ok ?w1" using 1(3) rx_ring_ok_empty [OF v1(1,2)] by (simp add: rx_off_or_ok_def)
    show ?thesis
    proof (cases rc1)
      case (Some e)
      then show ?thesis
        using a None 1(1) ok1 rx_init_free_ok [of ?w1 "Some e"] v1(1) by (auto simp: wil_rx_init_def)
    next
      case rc1: None
      have r: "rx_ring_ok (vring_rx ?w1)" using rx_ring_ok_empty v1 by simp
      have en: "rx_env_ok (rx_headroom ?w1) rxe" by (rule rx_env_ok_mono [OF assms(4) rx_headroom_le])
      obtain rc2 w2 ps where 2: "wil_rx_refill rxe 128 ?w1 = Some (rc2, w2)" "rx_ring_ok (vring_rx w2)"
        "vr_size (vring_rx w2) = WIL6210_RX_RING_SIZE" "rx_posted (vring_rx w2) = rx_posted v1 @ ps"
        "rc2 = None \<longrightarrow> wil_vring_is_full (vring_rx w2) \<or> length ps = 128"
        using wil_rx_refill_ok [OF r en, of 128] v1(3) by auto
      have step: "wil_rx_init (worker_env env) rxe stack mem w =
          (if rc2 \<noteq> None then rx_init_free rc2 w2 else Some (None, w2))"
        using a None 1(1) rc1 2(1) v1(3) by (simp add: wil_rx_init_def WIL6210_RX_RING_SIZE_def)
      have ok2: "vring_ok (vring_rx w2)" using 2(2) by (simp add: rx_ring_ok_def)
      have "length (rx_posted (vring_rx w2)) = 127" if "rc2 = None"
      proof -
        have len: "length (rx_posted u) = vring_used u" for u by (simp add: rx_posted_def)
        have "unat (vr_size (vring_rx w2)) = 128" using 2(3) by (simp add: WIL6210_RX_RING_SIZE_def)
        then have "vring_used (vring_rx w2) < 128" "wil_vring_is_full (vring_rx w2) \<longleftrightarrow> vring_used (vring_rx w2) = 127"
          using vring_used_lt(1) [OF ok2] vring_full_used [OF ok2] by simp_all
        moreover have "length ps \<le> vring_used (vring_rx w2)" using arg_cong [OF 2(4), of length] by (simp add: len)
        ultimately show ?thesis using 2(5) that len by auto
      qed
      moreover have "waiting_ok w2"
        using waiting_ok_buf_frame [OF rx_refill_frame [OF r en 2(1)]] 1(3) 2(2) by (simp add: rx_off_or_ok_def)
      ultimately show ?thesis
        unfolding step using 2(2) rx_init_free_ok [OF ok2, of rc2] by auto
    qed
  qed
qed

end
