(* ===== verification/Wil_Wmi_Props.thy ===== *)
theory Wil_Wmi_Props
  imports Wil_Ring_Init
begin

text \<open>
  The properties of the firmware interface: copying to and from the device, addresses, headers,
  sending, calling, receiving and handling events.
\<close>

subsection \<open>Inputs for the witnesses\<close>

definition ex_mbox :: wil6210_mbox_ring where
  "ex_mbox = \<lparr>mb_base = 0x880400, mb_entry_size = 256, mb_size = 32, mb_tail = 0x880400,
     mb_head = 0x880400\<rparr>"

definition ex_fw_state :: wil6210_priv where
  "ex_fw_state = wil_init_state\<lparr>mbox_tx := ex_mbox, mbox_rx := ex_mbox,
     wstatus := set_bit wil_status_fwready 0\<rparr>"

text \<open>A device that answers every read with 0, and the head of the receive ring with \<open>h\<close>.\<close>

definition ex_wmi_env :: "u32 \<Rightarrow> wmi_env" where
  "ex_wmi_env h = \<lparr>we_io = (\<lambda>t off. if off = HOST_MBOX + rx_head_off then h else 0),
     we_alloc = (\<lambda>_. True), we_over = [0, 0, 0]\<rparr>"

definition ex_evt_env :: evt_env where
  "ex_evt_env = \<lparr>ee_wmi = ex_wmi_env 0x880400, ee_netif_ok = (\<lambda>_. True), ee_eth_type_trans = (\<lambda>s. s),
     ee_skb = (\<lambda>_ _. None), ee_channel = (\<lambda>_. True), ee_rsn = (\<lambda>_. False), use_pcp_for_ap = False,
     ee_race = (\<lambda>_. []), ee_arrive = (\<lambda>_. [])\<rparr>"

lemma ex_alloc_skb_ok: "alloc_skb_ok ex_evt_env"
  by (simp add: alloc_skb_ok_def ex_evt_env_def)

lemma ex_world_ok: "world_ok ex_evt_env"
  using ex_alloc_skb_ok by (simp add: world_ok_def) (simp add: ex_evt_env_def)

lemma waiting_ok_ex: "waiting_ok ex_fw_state"
proof -
  have "driver_ok (wil_init_state\<lparr>mbox_tx := ex_mbox\<rparr>)"
    by (rule driver_ok_init) (simp add: ex_mbox_def)
  then have "driver_ok ex_fw_state"
    by (simp add: ex_fw_state_def driver_ok_defs)
  then show ?thesis
    by (simp add: waiting_ok_def reply_ok_def ex_fw_state_def wil_init_state_def)
qed

subsection \<open>Memory of the device\<close>

text \<open>
  Claim C20. The 32-bit copy loops do what a copy by whole dwords does: copying to the device writes,
  in order, the dwords of the source with what lies behind it, and copying from it reads them in
  order; a length that is no multiple of four is rounded up, so up to three bytes behind the
  buffer are read or written.
\<close>

theorem memcpy_32_whole_dwords:
  "wil_memcpy_toio_32 env dst src n w = w\<lparr>klog := klog w @ map (\<lambda>k. IoWrite32 (dst + 4 * of_nat k)
       (le_word (take 4 (drop (4 * k) (src @ we_over env))))) [0..<(n + 3) div 4]\<rparr> \<and>
   fst (wil_memcpy_fromio_32 env dst n w) = concat (map (\<lambda>k.
       le32 (we_io env (io_clock w + k) (dst + 4 * of_nat k))) [0..<(n + 3) div 4])"
proof -
  obtain bs w' where "wil_memcpy_fromio_32 env dst n w = (bs, w')" by (rule prod.exhaust)
  from wil_memcpy_fromio_ok(5) [OF this] this show ?thesis
    unfolding wil_memcpy_toio_klog by (simp add: add.commute)
qed

text \<open>
  Claim C21. The translation of firmware addresses is sound: an address of the firmware that
  \<open>wmi_buffer\<close> accepts becomes an aligned offset inside the mapped part of the BAR, translating an
  already translated address changes nothing, and two addresses below the AHB window that are
  translated to the same place are the same.
\<close>

theorem fw_addr_remap_sound:
  "(wmi_buffer p = Some off \<longrightarrow> unat off < 0xc9000 \<and> unat off mod 4 = 0 \<and>
      wmi_buffer (wmi_addr_remap p) = Some off) \<and>
   (wmi_addr_remap p \<noteq> 0 \<and> unat p < 0x8c0000 \<and> unat q < 0x8c0000 \<and>
      wmi_addr_remap p = wmi_addr_remap q \<longrightarrow> p = q)"
proof (intro conjI impI)
  assume b: "wmi_buffer p = Some off"
  note bound = wmi_buffer_bound [OF b]
  show "unat off < 0xc9000" "unat off mod 4 = 0" by (rule bound)+
  have r: "p mod 4 = 0" "wmi_addr_remap p \<noteq> 0" "off = HOSTADDR (wmi_addr_remap p)"
    using b wmi_buffer_Some by blast+
  have "0x880000 \<le> unat (wmi_addr_remap p)" using wmi_addr_remap_window [OF r(2)] by blast
  then have "unat (wmi_addr_remap p) = unat off + 0x880000"
    by (simp add: r(3) unat_HOSTADDR word_le_nat_alt WIL6210_FW_HOST_OFF_def)
  then have "unat (wmi_addr_remap p) mod 4 = 0" using bound(2) by presburger
  then have "wmi_addr_remap p mod 4 = 0" by (simp only: unat_mod_4)
  then show "wmi_buffer (wmi_addr_remap p) = Some off"
    unfolding wmi_buffer_Some wmi_addr_remap_idem [OF r(2)] using r by simp
next
  assume "wmi_addr_remap p \<noteq> 0 \<and> unat p < 0x8c0000 \<and> unat q < 0x8c0000 \<and>
    wmi_addr_remap p = wmi_addr_remap q"
  then show "p = q" by (elim conjE) (rule wmi_addr_remap_inj [of p q])
qed

theorem fw_addr_remap_sound_witness:
  "wmi_buffer 0x800010 = Some 0x80010 \<and> wmi_buffer (wmi_addr_remap 0x800010) = Some 0x80010"
proof -
  have "wmi_buffer 0x800010 = Some 0x80010" by code_simp
  then show ?thesis using fw_addr_remap_sound [of "0x800010" "0x80010" 0] by simp
qed

text \<open>
  What one side writes the other reads back: the mailbox header from its bytes, the
  connection and traffic identifiers from their byte, and from the parameter set of an ADDBA
  answer the traffic identifier and the buffer size.
\<close>

theorem wmi_fields_roundtrip:
  assumes "unat cid < 16" "unat tid < 16" "unat wsize < 1024"
  shows "mbox_hdr_parse (mbox_hdr_bytes h @ bs) = h \<and>
    parse_cidxtid (mk_cidxtid cid tid) = (cid, tid) \<and>
    WIL_GET_BITS (ucast (addba_param_set amsdu tid wsize)) 6 15 = ucast wsize \<and>
    WIL_GET_BITS (ucast (addba_param_set amsdu tid wsize)) 2 5 = ucast tid"
proof (intro conjI)
  show "mbox_hdr_parse (mbox_hdr_bytes h @ bs) = h" by (rule mbox_hdr_parse_bytes)
  show "parse_cidxtid (mk_cidxtid cid tid) = (cid, tid)"
    using assms(1,2) by (simp add: parse_mk_cidxtid and_0xf_ident)
  have w: "bit wsize n \<Longrightarrow> n < 10" and t: "bit tid n \<Longrightarrow> n < 4" for n
    using not_bit_of_small [of wsize 10 n] not_bit_of_small [of tid 4 n] assms(2,3) by fastforce+
  show "WIL_GET_BITS (ucast (addba_param_set amsdu tid wsize)) 6 15 = ucast wsize"
    unfolding WIL_GET_BITS_take_bit addba_param_set_def
    by (rule bit_word_eqI) (auto simp: bit_simps dest: w t)
  show "WIL_GET_BITS (ucast (addba_param_set amsdu tid wsize)) 2 5 = ucast tid"
    unfolding WIL_GET_BITS_take_bit addba_param_set_def
    by (rule bit_word_eqI) (auto simp: bit_simps dest: w t)
qed

theorem wmi_fields_roundtrip_witness:
  "parse_cidxtid (mk_cidxtid 5 7) = (5, 7) \<and>
   WIL_GET_BITS (ucast (addba_param_set True 7 16)) 6 15 = 16"
  using wmi_fields_roundtrip [of 5 7 16 undefined "[]" True] by simp

subsection \<open>Sending and receiving\<close>

text \<open>
  Claim C6. Sending a command returns whatever the device answers, and is all or nothing: a failure
  writes nothing to the device and takes no sequence number; a success writes header, command and
  payload into a buffer inside the mapped memory, then hands the descriptor over, moves the head
  and rings the doorbell last, and never moves the head onto the tail.
\<close>

theorem wmi_send_all_or_nothing:
  assumes "tx_mbox_ok (mbox_tx w)"
  shows "\<exists>rc w'. do_wmi_send env cmdid buf len w = Some (rc, w') \<and>
    (rc \<noteq> None \<longrightarrow> klog w' = klog w \<and> wmi_seq w' = wmi_seq w \<and>
       mb_head (mbox_tx w') = mb_head (mbox_tx w)) \<and>
    (rc = None \<longrightarrow> (\<exists>dst next_head. mbox_next (mbox_tx w) (mb_head (mbox_tx w)) = Some next_head \<and>
       16 + unat len \<le> unat (mb_entry_size (mbox_tx w)) \<and> test_bit wil_status_fwready (wstatus w) \<and>
       unat dst < 0xc9000 \<and> mb_head (mbox_tx w') = next_head \<and> next_head \<noteq> mb_tail (mbox_tx w') \<and>
       wmi_seq w' = wmi_seq w + 1 \<and>
       klog w' = klog w @ send_writes env dst (mb_head (mbox_tx w)) next_head (wmi_seq w + 1) cmdid buf len))"
proof -
  obtain rc w' where 1: "do_wmi_send env cmdid buf len w = Some (rc, w')"
    and 2: "rc \<noteq> None \<longrightarrow> poll_frame w w'"
    and 3: "rc = None \<longrightarrow> (\<exists>dst next_head. mbox_next (mbox_tx w) (mb_head (mbox_tx w)) = Some next_head \<and>
       16 + unat len \<le> unat (mb_entry_size (mbox_tx w)) \<and> test_bit wil_status_fwready (wstatus w) \<and>
       unat dst < 0xc9000 \<and> mb_head (mbox_tx w') = next_head \<and> next_head \<noteq> mb_tail (mbox_tx w') \<and>
       wmi_seq w' = wmi_seq w + 1 \<and>
       klog w' = klog w @ send_writes env dst (mb_head (mbox_tx w)) next_head (wmi_seq w + 1) cmdid buf len)"
    using do_wmi_send_ok [OF assms, of env cmdid buf len] by blast
  have "rc \<noteq> None \<longrightarrow> klog w' = klog w \<and> wmi_seq w' = wmi_seq w \<and>
      mb_head (mbox_tx w') = mb_head (mbox_tx w)"
    using 2 poll_frameD(1-3) by blast
  with 1 3 show ?thesis by blast
qed

theorem wmi_send_all_or_nothing_witness:
  "\<exists>rc w'. do_wmi_send (ex_wmi_env 0) WMI_ECHO_CMDID (wmi_echo_cmd 0x12345678) 4 ex_fw_state = Some (rc, w') \<and>
    (rc \<noteq> None \<longrightarrow> klog w' = [])"
proof -
  have "tx_mbox_ok (mbox_tx ex_fw_state)" "klog ex_fw_state = []"
    by (simp_all add: ex_fw_state_def ex_mbox_def wil_init_state_def)
  then show ?thesis
    using wmi_send_all_or_nothing [of ex_fw_state "ex_wmi_env 0" WMI_ECHO_CMDID
        "wmi_echo_cmd 0x12345678" 4] by auto
qed

text \<open>
  Claim C22. Emptying the receive mailbox ends: with the head of the ring where the firmware left it,
  the loop takes at most as many events as lie between tail and head, appends them to the pending
  list in order, and leaves the tail on a slot of the ring.
\<close>

theorem wmi_recv_cmd_ends:
  assumes "\<And>t. we_io env t (HOST_MBOX + rx_head_off) = h"
    and "mbox_slot (mbox_rx w) n (mb_tail (mbox_rx w)) k" "mbox_slot (mbox_rx w) n h j"
  shows "\<exists>w' evs. wmi_recv_cmd env w = Some w' \<and> pending_wmi_ev w' = pending_wmi_ev w @ evs \<and>
    length evs \<le> ring_span n k j \<and>
    mbox_slot (mbox_rx w') n (mb_tail (mbox_rx w')) ((k + length evs) mod n)"
proof (cases "test_bit wil_status_reset_done (wstatus w)")
  case True
  then show ?thesis
    using recv_loop_ok [OF assms] by (auto simp: wmi_recv_cmd_def)
next
  case False
  have "k mod n = k" using assms(2) by (simp add: mbox_slot_def)
  then show ?thesis
    using False assms(2) by (intro exI [of _ w] exI [of _ "[]"]) (simp add: wmi_recv_cmd_def)
qed

theorem wmi_recv_cmd_ends_witness:
  "\<exists>w' evs. wmi_recv_cmd (ex_wmi_env 0x880408) (ex_fw_state\<lparr>wstatus := set_bit wil_status_reset_done 0\<rparr>) = Some w' \<and>
    pending_wmi_ev w' = evs \<and> length evs \<le> 1"
proof -
  let ?w = "ex_fw_state\<lparr>wstatus := set_bit wil_status_reset_done 0\<rparr>"
  have h: "we_io (ex_wmi_env 0x880408) t (HOST_MBOX + rx_head_off) = 0x880408" for t
    by (simp add: ex_wmi_env_def)
  have s: "mbox_slot (mbox_rx ?w) 4 (mb_tail (mbox_rx ?w)) 0" "mbox_slot (mbox_rx ?w) 4 0x880408 1"
    by (simp_all add: mbox_slot_def ex_fw_state_def ex_mbox_def)
  have e: "pending_wmi_ev ?w = []" by (simp add: ex_fw_state_def wil_init_state_def)
  show ?thesis
    using wmi_recv_cmd_ends [OF h s] by (auto simp: e ring_span_def)
qed

subsection \<open>Events and calls\<close>

text \<open>
  Claim C23. The event worker comes to an end: from a list of complete events it handles each exactly
  once in the order of arrival, returns with the list empty, and keeps the driver's state well
  formed, whatever the events are.
\<close>

theorem event_worker_drains:
  assumes "waiting_ok w" "alloc_skb_ok env"
  shows "\<exists>w'. wmi_event_worker env w = Some w' \<and> pending_wmi_ev w' = [] \<and> driver_ok w' \<and>
    run_inputs (\<lambda>e w. wmi_event_handle env e (snd (next_wmi_ev w))) (pending_wmi_ev w) w = Some w'"
  using wmi_event_worker_total [OF assms] by (auto simp: waiting_ok_def)

definition ex_events :: "pending_wmi_event list" where
  "ex_events =
     [\<lparr>ev_hdr = \<lparr>hdr_seq = 1, hdr_len = 8, hdr_type = 0, hdr_flags = 0\<rparr>,
       ev_data = wil6210_mbox_hdr_wmi WMI_FW_READY_EVENTID\<rparr>,
      \<lparr>ev_hdr = \<lparr>hdr_seq = 2, hdr_len = 12, hdr_type = 0, hdr_flags = 0\<rparr>,
       ev_data = wil6210_mbox_hdr_wmi WMI_SCAN_COMPLETE_EVENTID @ [0, 0, 0, 0]\<rparr>]"

theorem event_worker_drains_witness:
  "\<exists>w'. wmi_event_worker ex_evt_env (ex_fw_state\<lparr>pending_wmi_ev := ex_events\<rparr>) = Some w' \<and>
    pending_wmi_ev w' = []"
proof -
  have "\<forall>e \<in> set ex_events. event_ok e" by code_simp
  then have "waiting_ok (ex_fw_state\<lparr>pending_wmi_ev := ex_events\<rparr>)"
    using waiting_ok_ex by (simp add: waiting_ok_def reply_ok_def)
  from event_worker_drains [OF this ex_alloc_skb_ok] show ?thesis by blast
qed

text \<open>
  Claim C24. A call to the firmware returns while the event worker runs: no event that arrives in the
  meantime crashes it, the reply buffer keeps its length, and the state stays well formed.
\<close>

theorem wmi_call_returns:
  assumes "waiting_ok w" "world_ok env"
  shows "\<exists>rc bs w'. wmi_call (worker_env env) cmdid buf rid reply w = Some (rc, bs, w') \<and>
    driver_ok w' \<and> map_option length bs = map_option length reply"
  using fw.call_total [OF assms(1), of env cmdid buf rid reply] evt_env_ok_id [OF assms(2)]
  by (auto simp: waiting_ok_def)

theorem wmi_call_returns_witness:
  "\<exists>rc bs w'. wmi_call (worker_env ex_evt_env) WMI_GET_SSID_CMDID [] WMI_GET_SSID_EVENTID
    (reply_init [] 36) ex_fw_state = Some (rc, bs, w') \<and> map_option length bs = Some 44"
  using wmi_call_returns [OF waiting_ok_ex ex_world_ok,
      of WMI_GET_SSID_CMDID "[]" WMI_GET_SSID_EVENTID "reply_init [] 36"]
  by (auto simp: reply_init_def)

text \<open>The event a caller waits for: a WMI message with the identifier it announced.\<close>

definition answers :: "u16 \<Rightarrow> pending_wmi_event \<Rightarrow> bool" where
  "answers rid e \<longleftrightarrow> rid \<noteq> 0 \<and> hdr_type (ev_hdr e) = WIL_MBOX_HDR_TYPE_WMI \<and>
     8 \<le> unat (hdr_len (ev_hdr e)) \<and> le_word (take 2 (drop 2 (ev_data e))) = rid"

lemma event_worker_answer:
  assumes "answers (reply_id w) e" "event_ok e" "reply_buf w = Some bs" "reply_size w = reply_len (Some bs)"
    and "pending_wmi_ev w = [e]"
  defines "m \<equiv> min (unat (hdr_len (ev_hdr e))) (length bs mod 256)"
  shows "wmi_event_worker env w = Some (complete_wmi_ready
    (w\<lparr>pending_wmi_ev := [], reply_buf := Some (take m (ev_data e) @ drop m bs)\<rparr>))"
proof -
  let ?w = "w\<lparr>pending_wmi_ev := []\<rparr>"
  have n: "next_wmi_ev w = (Some e, ?w)" using assms(5) by (simp add: next_wmi_ev_def)
  have m: "unat (min (hdr_len (ev_hdr e)) (reply_len (Some bs))) = m"
    by (simp add: m_def min_def word_le_nat_alt)
  have l: "m \<le> length (ev_data e)" "m \<le> length bs"
    using assms(2) mod_less_eq_dividend [of "length bs" 256] by (auto simp: event_ok_def m_def)
  have "8 \<le> length (ev_data e)" using assms(1,2) by (simp add: answers_def event_ok_def)
  then have rd: "rd16 2 (ev_data e) = Some (reply_id w)" using assms(1) by (simp add: answers_def)
  have h: "wmi_event_handle env e ?w = Some (complete_wmi_ready
      (?w\<lparr>reply_buf := Some (take m (ev_data e) @ drop m bs)\<rparr>))"
    using assms(1,3,4) rd m l by (simp add: wmi_event_handle_def answers_def Let_def)
  show ?thesis
    unfolding wmi_event_worker_def
    by (subst work_loop.simps, simp add: n h, subst work_loop.simps)
      (simp add: next_wmi_ev_def complete_wmi_ready_def)
qed

definition answer_len :: "u8 list \<Rightarrow> pending_wmi_event \<Rightarrow> nat" where
  "answer_len bs e = min (unat (hdr_len (ev_hdr e))) (length bs mod 256)"

lemma wmi_call_answer_cases:
  assumes "world_ok env" "pending_wmi_ev w = []" "wmi_ready w = 0"
    and "tx_mbox_ok (mbox_tx w)" "wmi_send (ee_wmi env) cmdid buf w = Some (None, w1)"
    and "ee_race env (io_clock w1) = []"
  shows "ee_arrive env (io_clock w1) = [e] \<and> answers rid e \<longrightarrow>
      (\<exists>w'. wmi_call (worker_env env) cmdid buf rid (Some bs) w =
         Some (None, Some (take (answer_len bs e) (ev_data e) @ drop (answer_len bs e) bs), w') \<and> wmi_ready w' = 0 \<and> pending_wmi_ev w' = [])"
    and "ee_arrive env (io_clock w1) = [] \<longrightarrow>
      (\<exists>w'. wmi_call (worker_env env) cmdid buf rid (Some bs) w = Some (Some ETIME, Some bs, w') \<and>
         wmi_ready w' = 0 \<and> pending_wmi_ev w' = [])"
proof -
  have "send_frame w w1" using wmi_send_total [OF assms(4), of "ee_wmi env" cmdid buf] assms(5) by auto
  then have eq: "w1 = w\<lparr>mbox_tx := mbox_tx w1, wmi_seq := wmi_seq w1, klog := klog w1, io_clock := io_clock w1\<rparr>"
    by (simp add: send_frame_def)
  have w1: "pending_wmi_ev w1 = []" "wmi_ready w1 = 0" by (subst eq, simp add: assms(2,3))+
  show "ee_arrive env (io_clock w1) = [] \<longrightarrow>
      (\<exists>w'. wmi_call (worker_env env) cmdid buf rid (Some bs) w = Some (Some ETIME, Some bs, w') \<and>
         wmi_ready w' = 0 \<and> pending_wmi_ev w' = [])"
    using assms(5,6) w1
    by (simp add: wmi_call_def worker_env_def wmi_arrive_def wmi_event_worker_def work_loop.simps
        next_wmi_ev_def wait_for_wmi_ready_def)
  show "ee_arrive env (io_clock w1) = [e] \<and> answers rid e \<longrightarrow>
      (\<exists>w'. wmi_call (worker_env env) cmdid buf rid (Some bs) w =
         Some (None, Some (take (answer_len bs e) (ev_data e) @ drop (answer_len bs e) bs), w') \<and> wmi_ready w' = 0 \<and> pending_wmi_ev w' = [])"
  proof (intro impI, elim conjE)
    assume e: "ee_arrive env (io_clock w1) = [e]" "answers rid e"
    let ?w = "w1\<lparr>reply_id := rid, reply_buf := Some bs, reply_size := reply_len (Some bs)\<rparr>"
    have "event_ok e" using assms(1) e(1) by (simp add: world_ok_def) (metis UnI2 list.set_intros(1))
    then have "wmi_event_worker env (wmi_arrive [e] ?w) = Some (complete_wmi_ready ((wmi_arrive [e] ?w)
        \<lparr>pending_wmi_ev := [], reply_buf := Some (take (answer_len bs e) (ev_data e) @ drop (answer_len bs e) bs)\<rparr>))"
      unfolding answer_len_def using e(2) w1 by (intro event_worker_answer) (simp_all add: wmi_arrive_def)
    then show "\<exists>w'. wmi_call (worker_env env) cmdid buf rid (Some bs) w =
         Some (None, Some (take (answer_len bs e) (ev_data e) @ drop (answer_len bs e) bs), w') \<and> wmi_ready w' = 0 \<and> pending_wmi_ev w' = []"
      using assms(5,6) e(1) w1
      by (simp add: wmi_call_def worker_env_def wait_for_wmi_ready_def complete_wmi_ready_def wmi_arrive_def)
  qed
qed

text \<open>
  Claim C30. A call gets the answer that comes: with nothing pending and no completion left over, a
  command whose answer arrives while the caller waits returns success with the bytes of the answer
  in the front of the reply buffer, cut to the size announced, which is the buffer's size modulo 256;
  the rest of the buffer, and without an answer, when the call times out, all of it, is as before.
  Either way no completion is left for the next call.
\<close>

theorem wmi_call_answered:
  assumes "world_ok env" "pending_wmi_ev w = []" "wmi_ready w = 0"
    and "tx_mbox_ok (mbox_tx w)" "wmi_send (ee_wmi env) cmdid buf w = Some (None, w1)"
    and "ee_race env (io_clock w1) = []"
  shows "(ee_arrive env (io_clock w1) = [e] \<and> answers rid e \<longrightarrow>
      (\<exists>w'. wmi_call (worker_env env) cmdid buf rid (Some bs) w =
         Some (None, Some (take (answer_len bs e) (ev_data e) @ drop (answer_len bs e) bs), w') \<and> wmi_ready w' = 0 \<and> pending_wmi_ev w' = [])) \<and>
    (ee_arrive env (io_clock w1) = [] \<longrightarrow>
      (\<exists>w'. wmi_call (worker_env env) cmdid buf rid (Some bs) w = Some (Some ETIME, Some bs, w') \<and>
         wmi_ready w' = 0 \<and> pending_wmi_ev w' = []))"
  using wmi_call_answer_cases [OF assms] by blast

definition ex_channel_event :: pending_wmi_event where
  "ex_channel_event = \<lparr>ev_hdr = \<lparr>hdr_seq = 1, hdr_len = 12, hdr_type = 0, hdr_flags = 0\<rparr>,
     ev_data = wil6210_mbox_hdr_wmi WMI_GET_PCP_CHANNEL_EVENTID @ [2, 0, 0, 0]\<rparr>"

theorem wmi_call_answered_witness:
  "\<exists>w'. wmi_call (worker_env (ex_evt_env\<lparr>ee_arrive := (\<lambda>_. [ex_channel_event])\<rparr>)) WMI_GET_PCP_CHANNEL_CMDID []
     WMI_GET_PCP_CHANNEL_EVENTID (Some (replicate 12 0)) ex_fw_state =
     Some (None, Some (ev_data ex_channel_event), w')"
proof -
  let ?env = "ex_evt_env\<lparr>ee_arrive := (\<lambda>_. [ex_channel_event])\<rparr>"
  have "event_ok ex_channel_event" by code_simp
  then have 1: "world_ok ?env" using ex_world_ok by (auto simp: world_ok_def alloc_skb_ok_def)
  have 2: "pending_wmi_ev ex_fw_state = []" "wmi_ready ex_fw_state = 0"
    "tx_mbox_ok (mbox_tx ex_fw_state)"
    by (simp_all add: ex_fw_state_def ex_mbox_def wil_init_state_def)
  have "map_option fst (wmi_send (ee_wmi ?env) WMI_GET_PCP_CHANNEL_CMDID [] ex_fw_state) = Some None" by code_simp
  then obtain w1 where 3: "wmi_send (ee_wmi ?env) WMI_GET_PCP_CHANNEL_CMDID [] ex_fw_state = Some (None, w1)" by auto
  have 4: "ee_race ?env (io_clock w1) = []" "ee_arrive ?env (io_clock w1) = [ex_channel_event]"
    by (simp_all add: ex_evt_env_def)
  have 5: "answers WMI_GET_PCP_CHANNEL_EVENTID ex_channel_event"
    "take (answer_len (replicate 12 0) ex_channel_event) (ev_data ex_channel_event) @
       drop (answer_len (replicate 12 0) ex_channel_event) (replicate 12 0) = ev_data ex_channel_event"
    by code_simp+
  show ?thesis
    using wmi_call_answered [OF 1 2 3 4(1), where bs = "replicate 12 0" and e = ex_channel_event
        and rid = WMI_GET_PCP_CHANNEL_EVENTID, THEN conjunct1, THEN mp] 4(2) 5(1)
    unfolding 5(2) by blast
qed

end
