(* ===== verification/Wil_Conn_Props.thy ===== *)
theory Wil_Conn_Props
  imports Wil_Wmi_Props Wil_Rx_Props Wil_Reorder_Correct
begin

text \<open>
  The properties of connections: block acknowledgement sessions asked for by a peer, peers that are
  taken down and brought up, the Rx ring, and a call that takes another one's completion.
\<close>

subsection \<open>Inputs for the witnesses\<close>

definition ex_call_env :: call_env where
  "ex_call_env = \<lparr>cc_wmi = ex_wmi_env 0x880400, cc_race = Some, cc_wait = Some\<rparr>"

subsection \<open>Stale completions\<close>

text \<open>
  Claim C25. A firmware-ready event that nobody waits for is taken for the answer of the next call:
  the call returns success although no answer came, and its reply buffer holds what was in it
  before.
\<close>

theorem wmi_call_stale_success:
  assumes "wmi_evt_fw_ready eenv d len w0 = Some w" "tx_mbox_ok (mbox_tx w)"
    and "wmi_send (cc_wmi env) cmdid buf w = Some (None, w1)"
    and "cc_race env = Some" "cc_wait env = Some"
  shows "\<exists>w'. wmi_call env cmdid buf rid (Some bs) w = Some (None, Some bs, w') \<and>
    wmi_ready w' = wmi_ready w0"
proof -
  have 1: "wmi_ready w = wmi_ready w0 + 1"
    using assms(1) by (auto simp: wmi_evt_fw_ready_def complete_wmi_ready_def)
  have "send_frame w w1" using wmi_send_ok [OF assms(2), of "cc_wmi env" cmdid buf] assms(3) by auto
  then have eq: "w1 = w\<lparr>mbox_tx := mbox_tx w1, wmi_seq := wmi_seq w1, klog := klog w1, io_clock := io_clock w1\<rparr>"
    by (simp add: send_frame_def)
  have "wmi_ready w1 = wmi_ready w0 + 1" by (subst eq) (simp add: 1)
  then show ?thesis
    using assms(3-5) by (simp add: wmi_call_def wait_for_wmi_ready_def Let_def)
qed

theorem wmi_call_stale_success_witness:
  "\<exists>w'. wmi_call ex_call_env WMI_GET_SSID_CMDID [] WMI_GET_SSID_EVENTID (Some [1, 2, 3])
     (complete_wmi_ready ex_fw_state) = Some (None, Some [1, 2, 3], w')"
proof -
  let ?w = "complete_wmi_ready ex_fw_state"
  have 1: "wmi_evt_fw_ready ex_evt_env [] 0 ex_fw_state = Some ?w"
    by (simp add: wmi_evt_fw_ready_def complete_wmi_ready_def ex_fw_state_def set_bit_def wil_init_state_def)
  have 2: "tx_mbox_ok (mbox_tx ?w)"
    by (simp add: complete_wmi_ready_def ex_fw_state_def ex_mbox_def)
  have "map_option fst (wmi_send (cc_wmi ex_call_env) WMI_GET_SSID_CMDID [] ?w) = Some None" by code_simp
  then obtain w1 where 3: "wmi_send (cc_wmi ex_call_env) WMI_GET_SSID_CMDID [] ?w = Some (None, w1)" by auto
  show ?thesis
    using wmi_call_stale_success [OF 1 2 3, of WMI_GET_SSID_EVENTID "[1, 2, 3]"] by (auto simp: ex_call_env_def)
qed

subsection \<open>Block acknowledgement\<close>

lemma back_handle_total:
  assumes "parse_cidxtid (pb_cidxtid req) = (cid, tid)" "unat cid < WIL6210_MAX_CID"
    and "sta_status (sta w ! unat cid) = wil_sta_connected"
    and "sz = min 16 (ucast (WIL_GET_BITS (ucast (pb_ba_param_set req)) 6 15))"
    and "wmi_rcp_addba_resp env stack cid tid (pb_dialog_token req) 0 False sz (pb_ba_timeout req) w
      = Some (None, w1)" "driver_ok w1"
  shows "\<exists>w'. wil_back_handle ok env stack req w = Some w' \<and> (sz \<noteq> 0 \<longrightarrow> driver_ok w') \<and>
    (case tid_rx (sta w' ! unat cid) ! unat tid of
       None \<Rightarrow> \<exists>t. \<not> we_alloc (cc_wmi env) t
     | Some r \<Rightarrow> buf_size r = sz \<and> head_seq_num r = drop_bit 4 (pb_ba_seq_ctrl req) \<and>
         somes (reorder_buf r) = [])"
proof -
  have t: "unat tid < WIL_STA_TID_NUM" using parse_cidxtid_bound [OF assms(1)] by (simp add: WIL_STA_TID_NUM_def)
  have p: "pb_agg_wsize (back_policy req) = sz" "pb_agg_amsdu (back_policy req) = False"
    "pb_agg_timeout (back_policy req) = pb_ba_timeout req" "pb_dialog_token (back_policy req) = pb_dialog_token req"
    "pb_ba_seq_ctrl (back_policy req) = pb_ba_seq_ctrl req"
    by (simp_all add: back_policy_def assms(4) Let_def)
  let ?old = "tid_rx (sta w1 ! unat cid) ! unat tid"
  have "reorder_safe r" if "?old = Some r" for r
    using sessions_safe_slot [OF driver_okD(1,2) [OF assms(6)] assms(2) t that] .
  then obtain w2 where 2: "wil_tid_ampdu_rx_free ok ?old w1 = Some w2" "rx_frame w1 w2"
    using tid_ampdu_rx_free_total [of ?old ok w1] by auto
  obtain x w3 where 3: "tid_alloc (cc_wmi env) (unat sz) (drop_bit 4 (pb_ba_seq_ctrl req)) w2 = (x, w3)"
    by (rule prod.exhaust)
  have step: "wil_back_handle ok env stack req w = Some (set_tid_rx (unat cid) (unat tid) x w3)"
    using assms(1-3,5) 2(1) 3 by (simp add: wil_back_handle_def p Let_def)
  have n: "unat sz < 65536" using unsigned_less [of sz] by simp
  note x = tid_alloc_cases [OF 3 n]
  have d2: "driver_ok w2" using driver_ok_rx_frame [OF 2(2) assms(6)] .
  then have d3: "driver_ok w3" using driver_ok_send_frame [OF x(1)] by blast
  have "driver_ok (set_tid_rx (unat cid) (unat tid) x w3)" if "sz \<noteq> 0"
    using d3 x(2) that by (intro driver_ok_set_tid_rx) (auto simp: unat_gt_0)
  moreover have "tid_rx (sta (set_tid_rx (unat cid) (unat tid) x w3) ! unat cid) ! unat tid = x"
    using set_tid_rx_slot(2) [of "unat cid" w3 "unat tid" x] driver_okD(5,7) [OF d3] assms(2) t by simp
  ultimately show ?thesis
    unfolding step using x(2) by (auto split: option.split_asm)
qed

text \<open>
  Claim C26. An ADDBA request of a connected peer whose answer the firmware sends ends the old
  session of its traffic identifier and starts one of at most 16 frames, empty, at the starting
  sequence number of the request; without memory there is no session afterwards. A size above 0
  keeps the driver's state well formed.
\<close>

theorem back_handle_starts_session:
  assumes "parse_cidxtid (pb_cidxtid req) = (cid, tid)" "unat cid < WIL6210_MAX_CID"
    and "sta_status (sta w ! unat cid) = wil_sta_connected"
    and "sz = min 16 (ucast (WIL_GET_BITS (ucast (pb_ba_param_set req)) 6 15))"
    and "wmi_rcp_addba_resp env stack cid tid (pb_dialog_token req) 0 False sz (pb_ba_timeout req) w
      = Some (None, w1)" "driver_ok w1"
  shows "\<exists>w'. wil_back_handle ok env stack req w = Some w' \<and> (sz \<noteq> 0 \<longrightarrow> driver_ok w') \<and>
    (case tid_rx (sta w' ! unat cid) ! unat tid of
       None \<Rightarrow> \<exists>t. \<not> we_alloc (cc_wmi env) t
     | Some r \<Rightarrow> buf_size r = sz \<and> head_seq_num r = drop_bit 4 (pb_ba_seq_ctrl req) \<and>
         somes (reorder_buf r) = [])"
  using back_handle_total [OF assms] .

definition ex_back_state :: wil6210_priv where
  "ex_back_state = (complete_wmi_ready ex_fw_state)
     \<lparr>sta := (sta ex_fw_state)[0 := zero_sta\<lparr>sta_status := wil_sta_connected\<rparr>]\<rparr>"

definition ex_back_req :: "u16 \<Rightarrow> wil_pending_back" where
  "ex_back_req param = \<lparr>pb_cidxtid = 0x10, pb_dialog_token = 1, pb_ba_param_set = param, pb_ba_timeout = 0,
     pb_ba_seq_ctrl = 0x640, pb_agg_wsize = 0, pb_agg_timeout = 0, pb_agg_policy = False, pb_agg_amsdu = False\<rparr>"

lemma ex_caller: "wmi_caller driver_ok ex_call_env"
  by unfold_locales
    (auto simp: driver_okD ex_call_env_def intro: driver_ok_send_frame)

lemma ex_back_state_ok: "driver_ok ex_back_state"
proof -
  have "driver_ok (complete_wmi_ready ex_fw_state)"
    using waiting_ok_ex by (simp add: waiting_ok_def complete_wmi_ready_def)
  then have "driver_ok (upd_sta 0 (\<lambda>s. s\<lparr>sta_status := wil_sta_connected\<rparr>) (complete_wmi_ready ex_fw_state))"
    by (rule driver_ok_upd_sta) simp_all
  then show ?thesis
    by (simp add: ex_back_state_def upd_sta_def complete_wmi_ready_def ex_fw_state_def wil_init_state_def WIL6210_MAX_CID_def)
qed

lemma ex_back_answer:
  assumes "map_option fst (wmi_rcp_addba_resp ex_call_env stack 0 1 1 0 False sz 0 ex_back_state) = Some None"
  shows "\<exists>w1. wmi_rcp_addba_resp ex_call_env stack 0 1 1 0 False sz 0 ex_back_state = Some (None, w1) \<and>
    driver_ok w1"
  using wmi_caller.addba_resp_total [OF ex_caller ex_back_state_ok, of stack 0 1 1 0 False sz 0] assms by auto

theorem back_handle_starts_session_witness:
  "\<exists>w'. wil_back_handle (\<lambda>_. True) ex_call_env (replicate 12 0) (ex_back_req 0x1002) ex_back_state = Some w' \<and>
    driver_ok w'"
proof -
  have 1: "parse_cidxtid (pb_cidxtid (ex_back_req 0x1002)) = (0, 1)"
    "unat (0 :: u8) < WIL6210_MAX_CID" "sta_status (sta ex_back_state ! unat (0 :: u8)) = wil_sta_connected"
    "(16 :: u16) = min 16 (ucast (WIL_GET_BITS (ucast (pb_ba_param_set (ex_back_req 0x1002))) 6 15))"
    by code_simp+
  have "map_option fst (wmi_rcp_addba_resp ex_call_env (replicate 12 0) 0 1 1 0 False 16 0 ex_back_state) = Some None"
    by code_simp
  then obtain w1 where 2: "wmi_rcp_addba_resp ex_call_env (replicate 12 0) 0 1
      (pb_dialog_token (ex_back_req 0x1002)) 0 False 16 (pb_ba_timeout (ex_back_req 0x1002)) ex_back_state = Some (None, w1)"
    "driver_ok w1" using ex_back_answer by (auto simp: ex_back_req_def)
  show ?thesis
    using back_handle_starts_session [OF 1 2, of "\<lambda>_. True"] by auto
qed

text \<open>
  Claim C27. A request of size 0 is not refused: it starts a session of size 0, after which every
  frame of that peer and traffic identifier that is not stale crashes the receive path, which
  divides by the size.
\<close>

theorem addba_size_zero_crash:
  assumes "parse_cidxtid (pb_cidxtid req) = (cid, tid)" "unat cid < WIL6210_MAX_CID"
    and "sta_status (sta w ! unat cid) = wil_sta_connected"
    and "WIL_GET_BITS (ucast (pb_ba_param_set req)) 6 15 = 0"
    and "wmi_rcp_addba_resp env stack cid tid (pb_dialog_token req) 0 False 0 (pb_ba_timeout req) w
      = Some (None, w1)" "driver_ok w1" "\<And>t. we_alloc (cc_wmi env) t"
  shows "\<exists>w'. wil_back_handle ok env stack req w = Some w' \<and>
    (\<forall>p jf. wil_rxdesc_cid (cb_rx (skbs w' p)) = unat cid \<and> wil_rxdesc_tid (cb_rx (skbs w' p)) = unat tid \<and>
       \<not> seq_less (of_nat (wil_rxdesc_seq (cb_rx (skbs w' p)))) (drop_bit 4 (pb_ba_seq_ctrl req)) \<longrightarrow>
       wil_rx_reorder ok jf p w' = None)"
proof -
  obtain w' where 1: "wil_back_handle ok env stack req w = Some w'"
    and 2: "case tid_rx (sta w' ! unat cid) ! unat tid of
       None \<Rightarrow> \<exists>t. \<not> we_alloc (cc_wmi env) t
     | Some r \<Rightarrow> buf_size r = 0 \<and> head_seq_num r = drop_bit 4 (pb_ba_seq_ctrl req) \<and> somes (reorder_buf r) = []"
    using back_handle_total [OF assms(1-3) _ assms(5,6), of ok] assms(4) by auto
  obtain r where r: "tid_rx (sta w' ! unat cid) ! unat tid = Some r" "buf_size r = 0"
      "head_seq_num r = drop_bit 4 (pb_ba_seq_ctrl req)"
    using 2 assms(7) by (auto split: option.splits)
  have "wil_rx_reorder ok jf p w' = None"
    if "wil_rxdesc_cid (cb_rx (skbs w' p)) = unat cid" "wil_rxdesc_tid (cb_rx (skbs w' p)) = unat tid"
      "\<not> seq_less (of_nat (wil_rxdesc_seq (cb_rx (skbs w' p)))) (drop_bit 4 (pb_ba_seq_ctrl req))" for p jf
    using rx_reorder_locked_size_zero [OF r(2)] that r
    by (simp add: wil_rx_reorder_def Let_def)
  then show ?thesis using 1 by blast
qed

theorem addba_size_zero_crash_witness:
  "\<exists>w'. wil_back_handle (\<lambda>_. True) ex_call_env (replicate 12 0) (ex_back_req 2) ex_back_state = Some w'"
proof -
  have 1: "parse_cidxtid (pb_cidxtid (ex_back_req 2)) = (0, 1)"
    "unat (0 :: u8) < WIL6210_MAX_CID" "sta_status (sta ex_back_state ! unat (0 :: u8)) = wil_sta_connected"
    "WIL_GET_BITS (ucast (pb_ba_param_set (ex_back_req 2))) 6 15 = 0"
    by code_simp+
  have "map_option fst (wmi_rcp_addba_resp ex_call_env (replicate 12 0) 0 1 1 0 False 0 0 ex_back_state) = Some None"
    by code_simp
  then obtain w1 where 2: "wmi_rcp_addba_resp ex_call_env (replicate 12 0) 0 1
      (pb_dialog_token (ex_back_req 2)) 0 False 0 (pb_ba_timeout (ex_back_req 2)) ex_back_state = Some (None, w1)"
    "driver_ok w1" using ex_back_answer by (auto simp: ex_back_req_def)
  have 3: "we_alloc (cc_wmi ex_call_env) t" for t by (simp add: ex_call_env_def ex_wmi_env_def)
  show ?thesis
    using addba_size_zero_crash [OF 1 2 3, of "\<lambda>_. True"] by blast
qed

subsection \<open>Connections\<close>

text \<open>
  Claim C7. Taking a peer down always succeeds: whatever the firmware answers, the peer is unused
  afterwards, has no session, no Tx ring and zero counters, and no other peer, session or ring is
  touched.
\<close>

theorem disconnect_cid_takes_peer_down:
  assumes "driver_ok w" "cid < WIL6210_MAX_CID"
  shows "\<exists>w'. wil_disconnect_cid ok env cid w = Some w' \<and> driver_ok w' \<and> others_kept cid w w' \<and>
    peer_down cid w' \<and> sta_stats (sta w' ! cid) = zero_net_stats"
  by (rule wil_disconnect_cid_total [OF assms])

theorem disconnect_cid_takes_peer_down_witness:
  "\<exists>w'. wil_disconnect_cid (\<lambda>_. True) (ex_wmi_env 0) 0 ex_back_state = Some w' \<and> peer_down 0 w'"
  using disconnect_cid_takes_peer_down [OF ex_back_state_ok, of 0]
  by (fastforce simp: WIL6210_MAX_CID_def)

text \<open>
  A disconnection without an address (the disconnect worker, run when a connection times
  out) takes no peer down: whatever the peers are, they, their sessions and rings stay, and only
  the link goes down.
\<close>

theorem disconnect_worker_keeps_peers:
  "\<exists>w'. wil_disconnect_worker ok env w = Some w' \<and>
    map peer_view (sta w') = map peer_view (sta w) \<and> vring_tx w' = vring_tx w \<and>
    (wd_iftype (wdev w) = NL80211_IFTYPE_STATION \<longrightarrow>
       \<not> nd_carrier (ndev w') \<and> \<not> test_bit wil_status_fwconnected (wstatus w') \<and>
       \<not> test_bit wil_status_dontscan (wstatus w'))"
proof -
  have "wil_disconnect_worker ok env w = Some (disconnect_link None w)"
    by (simp add: wil_disconnect_worker_def do_wil6210_disconnect_def)
  moreover have "\<not> nd_carrier (ndev (disconnect_link None w)) \<and>
      \<not> test_bit wil_status_fwconnected (wstatus (disconnect_link None w)) \<and>
      \<not> test_bit wil_status_dontscan (wstatus (disconnect_link None w))"
    if "wd_iftype (wdev w) = NL80211_IFTYPE_STATION"
    using that by (simp add: disconnect_link_def wil_link_off_def Let_def klog_add_def
        split: cfg80211_sme_state.split)
  ultimately show ?thesis by simp
qed

theorem disconnect_worker_keeps_peers_witness:
  "\<exists>w'. wil_disconnect_worker (\<lambda>_. True) (ex_wmi_env 0) ex_back_state = Some w' \<and>
    \<not> nd_carrier (ndev w') \<and> vring_tx w' = vring_tx ex_back_state"
proof -
  have "wd_iftype (wdev ex_back_state) = NL80211_IFTYPE_STATION" by code_simp
  then show ?thesis
    using disconnect_worker_keeps_peers [of "\<lambda>_. True" "ex_wmi_env 0" ex_back_state] by auto
qed

text \<open>
  Claim C28. Completing a connection ends, with a free ring, in one of two states, decided by the
  set-up of that ring: where it succeeds (which needs the ring's memory) the peer is connected, with
  the carrier on and the queues running; where it fails the peer is unused, the network device is as
  the set-up left it and the ring has no memory. Either way no connection is pending any more, the
  rings are those the set-up left and the driver's state is well formed, whatever the firmware answers.
\<close>

theorem connect_worker_settles:
  assumes "waiting_ok w" "world_ok env" "ring_mem_ok mem WIL6210_TX_RING_SIZE"
    and "pending_connect_cid w = int cid" "cid < WIL6210_MAX_CID" "wil_find_free_vring w \<noteq> None"
  shows "\<exists>i rc w1 w'. wil_find_free_vring w = Some i \<and>
    wil_vring_init_tx (worker_env env) stack mem (int i) WIL6210_TX_RING_SIZE (of_nat cid)
      (tid_to_use w AND 0xf) (w\<lparr>connect_queued := False\<rparr>) = Some (rc, w1) \<and>
    wil_connect_worker (worker_env env) stack mem w = Some w' \<and> waiting_ok w' \<and>
    pending_connect_cid w' = -1 \<and> vring_tx w' = vring_tx w1 \<and>
    (if rc = None
     then sta_status (sta w' ! cid) = wil_sta_connected \<and> nd_carrier (ndev w') \<and>
       \<not> nd_queues_stopped (ndev w') \<and> rm_ctx mem \<and> rm_va mem \<noteq> None
     else sta_status (sta w' ! cid) = wil_sta_unused \<and> ndev w' = ndev w1 \<and>
       vr_va (vring_tx w' ! i) = None)"
  by (rule connect_worker_total [OF assms])

definition ex_ring_mem :: "u16 \<Rightarrow> ring_mem" where
  "ex_ring_mem n = \<lparr>rm_ctx = True, rm_va = Some (0x100000, replicate (unat n) zero_desc)\<rparr>"

lemma ex_ring_mem_ok: "2 \<le> unat n \<Longrightarrow> ring_mem_ok (ex_ring_mem n) n"
  by (simp add: ring_mem_ok_def ex_ring_mem_def)

text \<open>A firmware that accepts the ring: the answer to the command that configures it.\<close>

definition ex_cfg_done_event :: pending_wmi_event where
  "ex_cfg_done_event = \<lparr>ev_hdr = \<lparr>hdr_seq = 1, hdr_len = 16, hdr_type = 0, hdr_flags = 0\<rparr>,
     ev_data = wil6210_mbox_hdr_wmi WMI_VRING_CFG_DONE_EVENTID @ [0, 0, 0, 0, 0, 0x10, 0x88, 0]\<rparr>"

theorem connect_worker_settles_witness:
  "\<exists>w'. wil_connect_worker (worker_env (ex_evt_env\<lparr>ee_arrive := (\<lambda>_. [ex_cfg_done_event])\<rparr>)) (replicate 16 0)
     (ex_ring_mem WIL6210_TX_RING_SIZE) (ex_fw_state\<lparr>pending_connect_cid := 3\<rparr>) = Some w' \<and>
     sta_status (sta w' ! 3) = wil_sta_connected \<and> nd_carrier (ndev w') \<and> pending_connect_cid w' = -1"
proof -
  let ?w = "ex_fw_state\<lparr>pending_connect_cid := 3\<rparr>"
  let ?env = "ex_evt_env\<lparr>ee_arrive := (\<lambda>_. [ex_cfg_done_event])\<rparr>"
  have "ring_mem_ok (ex_ring_mem WIL6210_TX_RING_SIZE) WIL6210_TX_RING_SIZE"
    by (rule ex_ring_mem_ok) (simp add: WIL6210_TX_RING_SIZE_def)
  moreover have "event_ok ex_cfg_done_event" by code_simp
  then have "world_ok ?env" using ex_world_ok by (auto simp: world_ok_def alloc_skb_ok_def)
  moreover have "waiting_ok ?w" using waiting_ok_ex by (simp add: WIL6210_MAX_CID_def)
  moreover have f: "wil_find_free_vring ?w = Some 0" by code_simp
  moreover have "map_option fst (wil_vring_init_tx (worker_env ?env) (replicate 16 0) (ex_ring_mem WIL6210_TX_RING_SIZE)
      (int 0) WIL6210_TX_RING_SIZE (of_nat 3) (tid_to_use ?w AND 0xf) (?w\<lparr>connect_queued := False\<rparr>)) = Some None"
    by code_simp
  ultimately show ?thesis
    using connect_worker_settles [of ?w ?env "ex_ring_mem WIL6210_TX_RING_SIZE" 3 "replicate 16 0"]
    by (auto simp: WIL6210_MAX_CID_def)
qed

text \<open>
  Claim C29. Setting up the Rx ring is all or nothing: success leaves a well formed ring with 127
  posted buffers (the ring full), failure, whatever the step that failed, leaves no ring; either way
  the rest of the state is well formed.
\<close>

theorem rx_init_all_or_nothing:
  assumes "waiting_ok w" "world_ok env" "ring_mem_ok mem WIL6210_RX_RING_SIZE"
    and "rx_env_ok WIL6210_RTAP_SIZE rxe"
  shows "\<exists>rc w'. wil_rx_init (worker_env env) rxe stack mem w = Some (rc, w') \<and> waiting_ok w' \<and>
    (rc = None \<longrightarrow> rx_ring_ok (vring_rx w') \<and> length (rx_posted (vring_rx w')) = 127) \<and>
    (rc \<noteq> None \<longrightarrow> vr_va (vring_rx w') = None)"
  by (rule wil_rx_init_ok [OF assms])

theorem rx_init_all_or_nothing_witness:
  "\<exists>rc w'. wil_rx_init (worker_env ex_evt_env) ex_env (replicate 16 0) (ex_ring_mem WIL6210_RX_RING_SIZE)
     ex_fw_state = Some (rc, w') \<and> (rc \<noteq> None \<longrightarrow> vr_va (vring_rx w') = None)"
proof -
  have 1: "ring_mem_ok (ex_ring_mem WIL6210_RX_RING_SIZE) WIL6210_RX_RING_SIZE"
    by (rule ex_ring_mem_ok) (simp add: WIL6210_RX_RING_SIZE_def)
  have 2: "rx_env_ok WIL6210_RTAP_SIZE ex_env" by (simp add: rx_env_ok_def ex_env_def)
  show ?thesis
    using rx_init_all_or_nothing [OF waiting_ok_ex ex_world_ok 1 2, of "replicate 16 0"] by blast
qed

end
