(* ===== verification/Wil_Irq.thy ===== *)
theory Wil_Irq
  imports Wil_Mbox_Correct Wil_Rx_Correct Wil_Tx
begin

text \<open>
  Interrupts (\<^verbatim>\<open>interrupt.c\<close>) and the NAPI polls that switch them on again
  (\<^verbatim>\<open>netdev.c\<close>). What is read from the device is the oracle of the register accesses;
  \<open>cor\<close> says whether the driver is built with \<open>CONFIG_WIL6210_ISR_COR\<close> (clear on read).
\<close>

subsection \<open>Masks\<close>

definition WIL6210_IRQ_DISABLE :: u32 where "WIL6210_IRQ_DISABLE = 0xFFFFFFFF"
definition WIL6210_IMC_RX :: u32 where "WIL6210_IMC_RX = BIT_DMA_EP_RX_ICR_RX_DONE"
definition WIL6210_IMC_TX :: u32 where
  "WIL6210_IMC_TX = BIT_DMA_EP_TX_ICR_TX_DONE OR BIT_DMA_EP_TX_ICR_TX_DONE_N 0"
definition WIL6210_IMC_MISC :: u32 where
  "WIL6210_IMC_MISC = ISR_MISC_FW_READY OR ISR_MISC_MBOX_EVT OR ISR_MISC_FW_ERROR"
definition WIL6210_IRQ_PSEUDO_MASK :: u32 where
  "WIL6210_IRQ_PSEUDO_MASK =
     NOT (BIT_DMA_PSEUDO_CAUSE_RX OR BIT_DMA_PSEUDO_CAUSE_TX OR BIT_DMA_PSEUDO_CAUSE_MISC)"

definition WIL_ICR_ICC_VALUE :: "bool \<Rightarrow> u32" where
  "WIL_ICR_ICC_VALUE cor = (if cor then 0xFFFFFFFF else 0)"

definition wil_icr_clear :: "bool \<Rightarrow> u32 \<Rightarrow> u32 \<Rightarrow> wil6210_priv \<Rightarrow> wil6210_priv" where
  "wil_icr_clear cor x addr w = (if cor then w else iowrite32 x addr w)"

definition wil_ioread32_and_clear ::
  "bool \<Rightarrow> wmi_env \<Rightarrow> u32 \<Rightarrow> wil6210_priv \<Rightarrow> u32 \<times> wil6210_priv" where
  "wil_ioread32_and_clear cor env addr w =
     (let (x, w) = ioread32 env addr w in (x, wil_icr_clear cor x addr w))"

definition wil6210_mask_irq_tx :: "wil6210_priv \<Rightarrow> wil6210_priv" where
  "wil6210_mask_irq_tx = iowrite32 WIL6210_IRQ_DISABLE (HOSTADDR RGF_DMA_EP_TX_ICR + ICR_IMS)"
definition wil6210_mask_irq_rx :: "wil6210_priv \<Rightarrow> wil6210_priv" where
  "wil6210_mask_irq_rx = iowrite32 WIL6210_IRQ_DISABLE (HOSTADDR RGF_DMA_EP_RX_ICR + ICR_IMS)"
definition wil6210_mask_irq_misc :: "wil6210_priv \<Rightarrow> wil6210_priv" where
  "wil6210_mask_irq_misc = iowrite32 WIL6210_IRQ_DISABLE (HOSTADDR RGF_DMA_EP_MISC_ICR + ICR_IMS)"

definition wil6210_mask_irq_pseudo :: "wil6210_priv \<Rightarrow> wil6210_priv" where
  "wil6210_mask_irq_pseudo w =
     (let w = iowrite32 WIL6210_IRQ_DISABLE (HOSTADDR RGF_DMA_PSEUDO_CAUSE_MASK_SW) w
      in w\<lparr>wstatus := clear_bit wil_status_irqen (wstatus w)\<rparr>)"

definition wil6210_unmask_irq_tx :: "wil6210_priv \<Rightarrow> wil6210_priv" where
  "wil6210_unmask_irq_tx = iowrite32 WIL6210_IMC_TX (HOSTADDR RGF_DMA_EP_TX_ICR + ICR_IMC)"
definition wil6210_unmask_irq_rx :: "wil6210_priv \<Rightarrow> wil6210_priv" where
  "wil6210_unmask_irq_rx = iowrite32 WIL6210_IMC_RX (HOSTADDR RGF_DMA_EP_RX_ICR + ICR_IMC)"
definition wil6210_unmask_irq_misc :: "wil6210_priv \<Rightarrow> wil6210_priv" where
  "wil6210_unmask_irq_misc = iowrite32 WIL6210_IMC_MISC (HOSTADDR RGF_DMA_EP_MISC_ICR + ICR_IMC)"

definition wil6210_unmask_irq_pseudo :: "wil6210_priv \<Rightarrow> wil6210_priv" where
  "wil6210_unmask_irq_pseudo w =
     (let w = w\<lparr>wstatus := set_bit wil_status_irqen (wstatus w)\<rparr>
      in iowrite32 WIL6210_IRQ_PSEUDO_MASK (HOSTADDR RGF_DMA_PSEUDO_CAUSE_MASK_SW) w)"

definition wil6210_disable_irq :: "wil6210_priv \<Rightarrow> wil6210_priv" where
  "wil6210_disable_irq w =
     wil6210_mask_irq_pseudo (wil6210_mask_irq_misc (wil6210_mask_irq_rx (wil6210_mask_irq_tx w)))"

definition wil6210_enable_irq :: "bool \<Rightarrow> wil6210_priv \<Rightarrow> wil6210_priv" where
  "wil6210_enable_irq cor w =
     (let w = iowrite32 (WIL_ICR_ICC_VALUE cor) (HOSTADDR RGF_DMA_EP_RX_ICR + ICR_ICC) w;
          w = iowrite32 (WIL_ICR_ICC_VALUE cor) (HOSTADDR RGF_DMA_EP_TX_ICR + ICR_ICC) w;
          w = iowrite32 (WIL_ICR_ICC_VALUE cor) (HOSTADDR RGF_DMA_EP_MISC_ICR + ICR_ICC) w;
          w = (if wd_iftype (wdev w) = NL80211_IFTYPE_MONITOR
            then iowrite32 0 (HOSTADDR RGF_DMA_ITR_CNT_CRL) w
            else iowrite32 BIT_DMA_ITR_CNT_CRL_EN (HOSTADDR RGF_DMA_ITR_CNT_CRL)
              (iowrite32 WIL6210_ITR_TRSH (HOSTADDR RGF_DMA_ITR_CNT_TRSH) w))
      in wil6210_unmask_irq_misc (wil6210_unmask_irq_rx (wil6210_unmask_irq_tx
           (wil6210_unmask_irq_pseudo w))))"

subsection \<open>Handlers\<close>

datatype irqreturn = IRQ_NONE | IRQ_HANDLED | IRQ_WAKE_THREAD

definition wil6210_irq_rx :: "bool \<Rightarrow> wmi_env \<Rightarrow> wil6210_priv \<Rightarrow> irqreturn \<times> wil6210_priv" where
  "wil6210_irq_rx cor env w =
     (let (isr, w) = wil_ioread32_and_clear cor env (HOSTADDR RGF_DMA_EP_RX_ICR + ICR_ICR) w
      in if isr = 0 then (IRQ_NONE, w)
         else
           let w = wil6210_mask_irq_rx w;
               w = (if isr AND BIT_DMA_EP_RX_ICR_RX_DONE \<noteq> 0 then klog_add NapiScheduleRx w else w)
           in (IRQ_HANDLED, w))"

definition wil6210_irq_tx :: "bool \<Rightarrow> wmi_env \<Rightarrow> wil6210_priv \<Rightarrow> irqreturn \<times> wil6210_priv" where
  "wil6210_irq_tx cor env w =
     (let (isr, w) = wil_ioread32_and_clear cor env (HOSTADDR RGF_DMA_EP_TX_ICR + ICR_ICR) w
      in if isr = 0 then (IRQ_NONE, w)
         else
           let w = wil6210_mask_irq_tx w;
               w = (if isr AND BIT_DMA_EP_TX_ICR_TX_DONE \<noteq> 0 then klog_add NapiScheduleTx w else w)
           in (IRQ_HANDLED, w))"

definition wil_notify_fw_error :: "wil6210_priv \<Rightarrow> wil6210_priv" where
  "wil_notify_fw_error = klog_add UeventFwError"

definition wil6210_irq_misc :: "bool \<Rightarrow> wmi_env \<Rightarrow> wil6210_priv \<Rightarrow> irqreturn \<times> wil6210_priv" where
  "wil6210_irq_misc cor env w =
     (let (isr, w) = wil_ioread32_and_clear cor env (HOSTADDR RGF_DMA_EP_MISC_ICR + ICR_ICR) w
      in if isr = 0 then (IRQ_NONE, w)
         else
           let w = wil6210_mask_irq_misc w;
               w = (if isr AND ISR_MISC_FW_ERROR \<noteq> 0
                 then w\<lparr>wstatus := clear_bit wil_status_fwready (wstatus w)\<rparr> else w);
               (isr, w) = (if isr AND ISR_MISC_FW_READY \<noteq> 0
                 then let w = wil_cache_mbox_regs env w
                      in (isr AND NOT ISR_MISC_FW_READY,
                        w\<lparr>wstatus := set_bit wil_status_reset_done (wstatus w)\<rparr>)
                 else (isr, w));
               w = w\<lparr>isr_misc := isr\<rparr>
           in if isr \<noteq> 0 then (IRQ_WAKE_THREAD, w) else (IRQ_HANDLED, wil6210_unmask_irq_misc w))"

definition wil6210_irq_misc_thread :: "wmi_env \<Rightarrow> wil6210_priv \<Rightarrow> (irqreturn \<times> wil6210_priv) option" where
  "wil6210_irq_misc_thread env w = do {
     let isr = isr_misc w;
     let w = (if isr AND ISR_MISC_FW_ERROR \<noteq> 0 then wil_notify_fw_error w else w);
     w \<leftarrow> (if isr AND ISR_MISC_MBOX_EVT \<noteq> 0 then wmi_recv_cmd env w else Some w);
     Some (IRQ_HANDLED, wil6210_unmask_irq_misc (w\<lparr>isr_misc := 0\<rparr>))
   }"

definition wil6210_thread_irq :: "wmi_env \<Rightarrow> wil6210_priv \<Rightarrow> (irqreturn \<times> wil6210_priv) option" where
  "wil6210_thread_irq env w = do {
     w \<leftarrow> (if isr_misc w \<noteq> 0 then map_option snd (wil6210_irq_misc_thread env w) else Some w);
     Some (IRQ_HANDLED, wil6210_unmask_irq_pseudo w)
   }"

text \<open>The nine registers read (and, but for the \<open>IMV\<close>, cleared) when an interrupt comes masked.\<close>

definition wil6210_debug_irq_mask :: "bool \<Rightarrow> wmi_env \<Rightarrow> wil6210_priv \<Rightarrow> bool \<times> wil6210_priv" where
  "wil6210_debug_irq_mask cor env w =
     (if test_bit wil_status_irqen (wstatus w) then (False, w)
      else
        let three = (\<lambda>icr w.
              let (_, w) = wil_ioread32_and_clear cor env (HOSTADDR icr + ICR_ICM) w;
                  (_, w) = wil_ioread32_and_clear cor env (HOSTADDR icr + ICR_ICR) w;
                  (_, w) = ioread32 env (HOSTADDR icr + ICR_IMV) w
              in w)
        in (True, three RGF_DMA_EP_MISC_ICR (three RGF_DMA_EP_TX_ICR (three RGF_DMA_EP_RX_ICR w))))"

text \<open>A handler called for its cause, with its vote for the thread.\<close>

definition irq_vote ::
  "bool \<Rightarrow> (wil6210_priv \<Rightarrow> irqreturn \<times> wil6210_priv) \<Rightarrow> irqreturn \<times> wil6210_priv
     \<Rightarrow> irqreturn \<times> wil6210_priv" where
  "irq_vote caused handler rw =
     (case rw of (rc, w) \<Rightarrow>
        if caused then (case handler w of (r, w) \<Rightarrow> (if r = IRQ_WAKE_THREAD then r else rc, w))
        else (rc, w))"

definition wil6210_hardirq :: "bool \<Rightarrow> wmi_env \<Rightarrow> wil6210_priv \<Rightarrow> irqreturn \<times> wil6210_priv" where
  "wil6210_hardirq cor env w =
     (let (cause, w) = ioread32 env (HOSTADDR RGF_DMA_PSEUDO_CAUSE) w
      in if cause = 0 \<or> cause AND 0xff = 0xff then (IRQ_NONE, w)
         else
           let (bad, w) = wil6210_debug_irq_mask cor env w
           in if bad then (IRQ_NONE, w)
              else
                let w = wil6210_mask_irq_pseudo w;
                    (rc, w) = irq_vote (cause AND BIT_DMA_PSEUDO_CAUSE_MISC \<noteq> 0) (wil6210_irq_misc cor env)
                      (irq_vote (cause AND BIT_DMA_PSEUDO_CAUSE_TX \<noteq> 0) (wil6210_irq_tx cor env)
                        (irq_vote (cause AND BIT_DMA_PSEUDO_CAUSE_RX \<noteq> 0) (wil6210_irq_rx cor env)
                          (IRQ_HANDLED, w)))
                in (rc, if rc \<noteq> IRQ_WAKE_THREAD then wil6210_unmask_irq_pseudo w else w))"

subsection \<open>Requesting and releasing the lines\<close>

text \<open>\<open>req n\<close> is the kernel's verdict on line \<open>n\<close>.\<close>

definition wil6210_request_3msi ::
  "(nat \<Rightarrow> errno option) \<Rightarrow> nat \<Rightarrow> wil6210_priv \<Rightarrow> errno option \<times> wil6210_priv" where
  "wil6210_request_3msi req irq w =
     (case req irq of
        Some e \<Rightarrow> (Some e, w)
      | None \<Rightarrow>
          let w = klog_add (RequestIrq irq) w
          in (case req (irq + 1) of
                Some e \<Rightarrow> (Some e, klog_add (FreeIrq irq) w)
              | None \<Rightarrow>
                  let w = klog_add (RequestIrq (irq + 1)) w
                  in (case req (irq + 2) of
                        Some e \<Rightarrow> (Some e, klog_add (FreeIrq irq) (klog_add (FreeIrq (irq + 1)) w))
                      | None \<Rightarrow> (None, klog_add (RequestIrq (irq + 2)) w))))"

definition wil6210_init_irq ::
  "bool \<Rightarrow> (nat \<Rightarrow> errno option) \<Rightarrow> nat \<Rightarrow> wil6210_priv \<Rightarrow> errno option \<times> wil6210_priv" where
  "wil6210_init_irq cor req irq w =
     (let (rc, w) = (if n_msi w = 3 then wil6210_request_3msi req irq w
            else (case req irq of Some e \<Rightarrow> (Some e, w) | None \<Rightarrow> (None, klog_add (RequestIrq irq) w)))
      in if rc \<noteq> None then (rc, w) else (None, wil6210_enable_irq cor w))"

definition wil6210_fini_irq :: "nat \<Rightarrow> wil6210_priv \<Rightarrow> wil6210_priv" where
  "wil6210_fini_irq irq w =
     (let w = klog_add (FreeIrq irq) (wil6210_disable_irq w)
      in if n_msi w = 3 then klog_add (FreeIrq (irq + 2)) (klog_add (FreeIrq (irq + 1)) w) else w)"

subsection \<open>The NAPI polls\<close>

text \<open>
  The receive poll: its work, and the actions that end a burst, in their order. An interrupt may come
  between any two of these actions, so they are a list; the poll itself performs them in a row.
\<close>

definition poll_rx_end :: "(wil6210_priv \<Rightarrow> wil6210_priv) list" where
  "poll_rx_end = [klog_add NapiCompleteRx, wil6210_unmask_irq_rx]"

definition poll_rx_work ::
  "rx_env \<Rightarrow> nat \<Rightarrow> wil6210_priv \<Rightarrow> (nat \<times> (wil6210_priv \<Rightarrow> wil6210_priv) list \<times> wil6210_priv) option" where
  "poll_rx_work env budget w = do {
     (quota, w) \<leftarrow> wil_rx_handle env budget w;
     let done = budget - quota;
     Some (done, if done \<le> 1 then poll_rx_end else [], w)
   }"

definition wil6210_netdev_poll_rx :: "rx_env \<Rightarrow> nat \<Rightarrow> wil6210_priv \<Rightarrow> (nat \<times> wil6210_priv) option" where
  "wil6210_netdev_poll_rx env budget w = do {
     (done, todo, w) \<leftarrow> poll_rx_work env budget w;
     Some (done, fold (\<lambda>action. action) todo w)
   }"

definition poll_tx_ring :: "nat \<Rightarrow> nat \<times> wil6210_priv \<Rightarrow> (nat \<times> wil6210_priv) option" where
  "poll_tx_ring i dw =
     (case dw of (tx_done, w) \<Rightarrow>
        if vr_va (vring_tx w ! i) = None then Some (tx_done, w)
        else do { (n, w) \<leftarrow> wil_tx_complete i w; Some (tx_done + n, w) })"

definition wil6210_netdev_poll_tx :: "nat \<Rightarrow> wil6210_priv \<Rightarrow> (nat \<times> wil6210_priv) option" where
  "wil6210_netdev_poll_tx budget w = do {
     (tx_done, w) \<leftarrow> run_inputs poll_tx_ring [0..<WIL6210_MAX_TX_RINGS] (0, w);
     Some (min tx_done budget,
       if tx_done \<le> 1 then wil6210_unmask_irq_tx (klog_add NapiCompleteTx w) else w)
   }"

end
