(* ===== verification/Wil_Irq_Correct.thy ===== *)
theory Wil_Irq_Correct
  imports Wil_Irq Wil_Tx_Correct
begin

text \<open>
  Interrupts and NAPI together: the mask registers as the log of writes leaves them, what the
  receive path may add to the log, and the state machine of the receive interrupt and its poll.
\<close>

subsection \<open>What the log tells of masks and polls\<close>

text \<open>A write to \<open>IMS\<close> sets mask bits, a write to \<open>IMC\<close> clears them.\<close>

fun icr_step :: "u32 \<Rightarrow> kernel_call \<Rightarrow> u32 \<Rightarrow> u32" where
  "icr_step base (IoWrite32 off x) m =
     (if off = HOSTADDR base + ICR_IMS then m OR x
      else if off = HOSTADDR base + ICR_IMC then m AND NOT x else m)"
| "icr_step base _ m = m"

definition icr_mask :: "u32 \<Rightarrow> kernel_call list \<Rightarrow> u32" where
  "icr_mask base log = fold (icr_step base) log 0xFFFFFFFF"

definition rx_masked :: "wil6210_priv \<Rightarrow> bool" where
  "rx_masked w \<longleftrightarrow> icr_mask RGF_DMA_EP_RX_ICR (klog w) AND BIT_DMA_EP_RX_ICR_RX_DONE \<noteq> 0"

text \<open>
  The software mask of the pseudo causes is the last value written to its register. The pseudo
  interrupt is open when neither of its three causes is masked and the driver's status says so.
\<close>

fun pseudo_step :: "kernel_call \<Rightarrow> u32 \<Rightarrow> u32" where
  "pseudo_step (IoWrite32 off x) m = (if off = HOSTADDR RGF_DMA_PSEUDO_CAUSE_MASK_SW then x else m)"
| "pseudo_step _ m = m"

definition pseudo_mask :: "kernel_call list \<Rightarrow> u32" where
  "pseudo_mask log = fold pseudo_step log 0xFFFFFFFF"

definition pseudo_open :: "wil6210_priv \<Rightarrow> bool" where
  "pseudo_open w \<longleftrightarrow> test_bit wil_status_irqen (wstatus w) \<and>
     pseudo_mask (klog w) AND
       (BIT_DMA_PSEUDO_CAUSE_RX OR BIT_DMA_PSEUDO_CAUSE_TX OR BIT_DMA_PSEUDO_CAUSE_MISC) = 0"

fun napi_rx_step :: "kernel_call \<Rightarrow> bool \<Rightarrow> bool" where
  "napi_rx_step NapiScheduleRx b = True"
| "napi_rx_step NapiCompleteRx b = False"
| "napi_rx_step _ b = b"

definition napi_rx_scheduled :: "wil6210_priv \<Rightarrow> bool" where
  "napi_rx_scheduled w \<longleftrightarrow> fold napi_rx_step (klog w) False"

text \<open>An entry that touches neither the receive interrupt's mask nor its poll.\<close>

definition quiet :: "kernel_call \<Rightarrow> bool" where
  "quiet e \<longleftrightarrow> e \<noteq> NapiScheduleRx \<and> e \<noteq> NapiCompleteRx \<and>
     (\<forall>off x. e = IoWrite32 off x \<longrightarrow>
        off \<noteq> HOSTADDR RGF_DMA_EP_RX_ICR + ICR_IMS \<and> off \<noteq> HOSTADDR RGF_DMA_EP_RX_ICR + ICR_IMC)"

lemma quiet_steps:
  "quiet e \<Longrightarrow> icr_step RGF_DMA_EP_RX_ICR e m = m" "quiet e \<Longrightarrow> napi_rx_step e b = b"
  by (cases e; simp add: quiet_def)+

definition log_quiet :: "wil6210_priv \<Rightarrow> wil6210_priv \<Rightarrow> bool" where
  "log_quiet w w' \<longleftrightarrow> (\<exists>es. klog w' = klog w @ es \<and> (\<forall>e \<in> set es. quiet e))"

lemma log_quiet_refl [simp, intro]: "log_quiet w w"
  by (simp add: log_quiet_def)

lemma log_quiet_same: "klog w' = klog w \<Longrightarrow> log_quiet w w'"
  by (simp add: log_quiet_def)

lemma log_quiet_trans: "log_quiet w w1 \<Longrightarrow> log_quiet w1 w2 \<Longrightarrow> log_quiet w w2"
  unfolding log_quiet_def by (metis Un_iff append_assoc set_append)

lemma log_quiet_add: "quiet e \<Longrightarrow> log_quiet w (klog_add e w)"
  by (simp add: log_quiet_def klog_add_def)

lemma log_quiet_fields [simp]:
  "log_quiet w (a\<lparr>sta := x\<rparr>) = log_quiet w a" "log_quiet w (a\<lparr>vring_rx := v\<rparr>) = log_quiet w a"
  "log_quiet w (a\<lparr>wstats := t\<rparr>) = log_quiet w a" "log_quiet (a\<lparr>vring_rx := v\<rparr>) w = log_quiet a w"
  "log_quiet w (upd_skb p f a) = log_quiet w a" "log_quiet (upd_skb p f a) w = log_quiet a w"
  "log_quiet w (upd_sta c g a) = log_quiet w a"
  by (simp_all add: log_quiet_def upd_skb_def upd_sta_def)

lemma log_quiet_step: "log_quiet w a \<Longrightarrow> quiet e \<Longrightarrow> log_quiet w (klog_add e a)"
  "log_quiet w a \<Longrightarrow> log_quiet w (dev_kfree_skb p a)"
  using log_quiet_trans log_quiet_add log_quiet_same [of "dev_kfree_skb p a" a] by auto

lemma log_quiet_masks:
  assumes "log_quiet w w'"
  shows "rx_masked w' = rx_masked w" "napi_rx_scheduled w' = napi_rx_scheduled w"
proof -
  obtain es where es: "klog w' = klog w @ es" "\<forall>e \<in> set es. quiet e"
    using assms by (auto simp: log_quiet_def)
  have "fold (icr_step RGF_DMA_EP_RX_ICR) es m = m" "fold napi_rx_step es b = b" for m b
    using es(2) by (induction es) (auto simp: quiet_steps)
  then show "rx_masked w' = rx_masked w" "napi_rx_scheduled w' = napi_rx_scheduled w"
    by (simp_all add: rx_masked_def icr_mask_def napi_rx_scheduled_def es(1))
qed

subsection \<open>The receive path is quiet\<close>

lemma netif_quiet [simp, intro]: "log_quiet w (wil_netif_rx_any ok p w)"
  by (simp add: log_quiet_def quiet_def)

lemma kfree_quiet [simp, intro]: "log_quiet w (dev_kfree_skb p w)"
  by (rule log_quiet_same) simp

lemma release_frame_quiet:
  "wil_release_reorder_frame ok wr i = Some wr' \<Longrightarrow> log_quiet (fst wr) (fst wr')"
  by (cases wr) (auto simp: wil_release_reorder_frame_def split: option.splits)

lemma release_frames_quiet:
  "wil_release_reorder_frames ok hseq wr = Some wr' \<Longrightarrow> log_quiet (fst wr) (fst wr')"
proof (induction ok hseq wr rule: wil_release_reorder_frames.induct)
  case (1 ok hseq wr)
  from "1.prems" show ?case
    by (subst (asm) wil_release_reorder_frames.simps)
      (auto split: if_splits option.splits intro: log_quiet_trans dest: release_frame_quiet "1.IH")
qed

lemma reorder_release_quiet:
  "wil_reorder_release ok wr = Some wr' \<Longrightarrow> log_quiet (fst wr) (fst wr')"
proof (induction ok wr rule: wil_reorder_release.induct)
  case (1 ok wr)
  from "1.prems" show ?case
    by (subst (asm) wil_reorder_release.simps)
      (auto split: if_splits option.splits intro: log_quiet_trans dest: release_frame_quiet "1.IH")
qed

lemma rx_reorder_locked_quiet:
  "wil_rx_reorder_locked ok jf skb seq (w, r) = Some (w', r') \<Longrightarrow> log_quiet w w'"
  by (auto simp: wil_rx_reorder_locked_def Option.bind_eq_Some_conv
      split: if_splits dest!: release_frames_quiet reorder_release_quiet intro: log_quiet_trans)

lemma wil_rx_reorder_quiet: "wil_rx_reorder ok jf skb w = Some w' \<Longrightarrow> log_quiet w w'"
  by (auto simp: wil_rx_reorder_def Let_def Option.bind_eq_Some_conv set_tid_rx_def
      split: option.splits dest!: rx_reorder_locked_quiet)

lemma rx_deliver_quiet:
  assumes "rx_deliver env p w = Some w'"
  shows "log_quiet w w'"
proof (cases "wd_iftype (wdev w) = NL80211_IFTYPE_MONITOR")
  case True
  then show ?thesis
    using assms netif_quiet [of "upd_skb p (\<lambda>s. s\<lparr>skb_ip_summed := CHECKSUM_UNNECESSARY,
        skb_protocol := ETH_P_802_2\<rparr>) w" "env_netif_ok env" p]
    by (simp add: rx_deliver_def)
next
  case False
  then show ?thesis
    using assms wil_rx_reorder_quiet [of "env_netif_ok env" "env_jiffies env" p
        "upd_skb p (env_eth_type_trans env) w" w']
    by (simp add: rx_deliver_def)
qed

lemma alloc_skb_quiet:
  "wil_vring_alloc_skb env i headroom w v = Some (rc, w', v') \<Longrightarrow> log_quiet w w' \<and> hwtail v' = hwtail v"
  by (auto simp: wil_vring_alloc_skb_def Option.bind_eq_Some_conv Let_def quiet_def
      split: option.splits prod.splits intro!: log_quiet_step)

lemma refill_loop_quiet:
  "rx_refill_loop env headroom cnt w v = Some (rc, w', v') \<Longrightarrow> log_quiet w w' \<and> hwtail v' = hwtail v"
proof (induction cnt arbitrary: w v)
  case (Suc cnt)
  show ?case
  proof (cases "wil_vring_next_tail v = swhead v")
    case True
    then show ?thesis using Suc.prems by simp
  next
    case False
    obtain rc1 w1 v1 where 1: "wil_vring_alloc_skb env (swtail v) headroom w v = Some (rc1, w1, v1)"
      using Suc.prems False by (auto simp: Let_def Option.bind_eq_Some_conv)
    note q = alloc_skb_quiet [OF 1]
    have "rc1 = None \<Longrightarrow>
        rx_refill_loop env headroom cnt w1 (v1\<lparr>swtail := wil_vring_next_tail v\<rparr>) = Some (rc, w', v')"
      "rc1 \<noteq> None \<Longrightarrow> w' = w1 \<and> v' = v1"
      using Suc.prems False 1 by (simp_all add: Let_def)
    then show ?thesis
      using q Suc.IH [of w1 "v1\<lparr>swtail := wil_vring_next_tail v\<rparr>"] log_quiet_trans [of w w1 w']
      by (cases rc1) simp_all
  qed
qed simp

definition tail_quiet :: "vring \<Rightarrow> bool" where
  "tail_quiet v \<longleftrightarrow> (\<forall>x. quiet (IoWrite32 (HOSTADDR (hwtail v)) x))"

lemma wil_rx_refill_quiet:
  assumes "wil_rx_refill env cnt w = Some (rc, w')" "tail_quiet (vring_rx w)"
  shows "log_quiet w w' \<and> hwtail (vring_rx w') = hwtail (vring_rx w)"
proof -
  obtain w1 v1 headroom where 1: "rx_refill_loop env headroom cnt w (vring_rx w) = Some (rc, w1, v1)"
    "w' = klog_add (IoWrite32 (HOSTADDR (hwtail v1)) (swtail v1)) (w1\<lparr>vring_rx := v1\<rparr>)"
    using assms(1) by (auto simp: wil_rx_refill_def Let_def Option.bind_eq_Some_conv)
  have 2: "log_quiet w w1" "hwtail v1 = hwtail (vring_rx w)" using refill_loop_quiet [OF 1(1)] by simp_all
  have "log_quiet w1 w'"
    unfolding 1(2) using assms(2) log_quiet_add [of _ "w1\<lparr>vring_rx := v1\<rparr>"]
    by (simp add: tail_quiet_def 2(2) log_quiet_def klog_add_def)
  then show ?thesis using log_quiet_trans [OF 2(1)] 2(2) by (simp add: 1(2) klog_add_def)
qed

lemma rx_classify_quiet: "rx_classify d p w = (x, w') \<Longrightarrow> log_quiet w w'"
  by (auto simp: rx_classify_def Let_def split: if_splits)

lemma radiotap_quiet: "wil_rx_add_radiotap_header env p w = Some w' \<Longrightarrow> log_quiet w w'"
  by (auto simp: wil_rx_add_radiotap_header_def Let_def Option.bind_eq_Some_conv
      split: option.splits)

lemma quiet_unmap [simp]: "quiet (DmaUnmapSingle a n)"
  by (simp add: quiet_def)

lemma reap_quiet:
  assumes "wil_vring_reap_rx env w v = Some (p, w', v')"
  shows "log_quiet w w' \<and> hwtail v' = hwtail v"
proof -
  consider "w' = w" "v' = v"
    | d q w1 w2 where "\<not> wil_vring_is_empty v" "log_quiet w w1" "log_quiet w1 w2" "rx_classify d q w2 = (p, w')"
      "hwtail v' = hwtail v"
  proof (cases "wil_vring_is_empty v \<or> (\<exists>d. vring_d v (swhead v) = Some d \<and> desc_status d AND RX_DMA_STATUS_DU = 0)")
    case True
    then show ?thesis using assms that(1) by (auto simp: wil_vring_reap_rx_def split: if_splits)
  next
    case False
    define w0 where "w0 d q = upd_sta (wil_rxdesc_cid d)
        (\<lambda>s. s\<lparr>sta_stats := (sta_stats s)\<lparr>last_mcs_rx := of_nat (wil_rxdesc_mcs d)\<rparr>\<rparr>)
        (upd_skb q (\<lambda>s. (skb_trim (unat (desc_length d)) s)\<lparr>cb_rx := d\<rparr>)
          (klog_add (DmaUnmapSingle (desc_pa d) RX_BUF_LEN) w))" for d q
    obtain d q w2 where
      2: "(if nd_type (ndev (w0 d q)) = ARPHRD_IEEE80211_RADIOTAP
          then wil_rx_add_radiotap_header env q
            ((w0 d q)\<lparr>wstats := (wstats (w0 d q))\<lparr>ws_last_mcs_rx := of_nat (wil_rxdesc_mcs d)\<rparr>\<rparr>)
          else Some ((w0 d q)\<lparr>wstats := (wstats (w0 d q))\<lparr>ws_last_mcs_rx := of_nat (wil_rxdesc_mcs d)\<rparr>\<rparr>)) = Some w2"
        "rx_classify d q w2 = (p, w')" "v' = wil_vring_advance_head (vring_set_ctx (swhead v) None v) 1"
      using assms False unfolding w0_def
      by (auto simp: wil_vring_reap_rx_def Let_def Option.bind_eq_Some_conv split_def prod_eq_iff)
    have "log_quiet w (w0 d q)" unfolding w0_def by (simp add: log_quiet_step)
    moreover have "log_quiet (w0 d q) w2"
      using 2(1) radiotap_quiet by (fastforce split: if_splits simp: log_quiet_def)
    moreover have "hwtail v' = hwtail v" by (simp add: 2(3) wil_vring_advance_head_def)
    ultimately show ?thesis using that(2) 2(2) False by blast
  qed
  then show ?thesis
  proof cases
    case 2
    then show ?thesis using log_quiet_trans rx_classify_quiet by blast
  qed simp
qed

lemma rx_reorder_ring: "wil_rx_reorder ok jf skb w = Some w' \<Longrightarrow> vring_rx w' = vring_rx w"
  by (auto simp: wil_rx_reorder_def Let_def Option.bind_eq_Some_conv set_tid_rx_def upd_sta_def
      split: option.splits dest!: rx_reorder_locked_frame rx_frame_vring_ndev)

lemma rx_deliver_ring: "rx_deliver env p w = Some w' \<Longrightarrow> vring_rx w' = vring_rx w"
  by (auto simp: rx_deliver_def upd_skb_def split: if_splits dest!: rx_reorder_ring)

lemma handle_loop_quiet:
  "rx_handle_loop env q w = Some (q', w') \<Longrightarrow> log_quiet w w' \<and> hwtail (vring_rx w') = hwtail (vring_rx w)"
proof (induction q arbitrary: w)
  case (Suc q)
  obtain skb w1 v1 where 1: "wil_vring_reap_rx env w (vring_rx w) = Some (skb, w1, v1)"
    using Suc.prems by (auto simp: Option.bind_eq_Some_conv)
  note r = reap_quiet [OF 1]
  show ?case
  proof (cases skb)
    case None
    then show ?thesis using Suc.prems 1 r by auto
  next
    case (Some p)
    then obtain w2 where 2: "rx_deliver env p (w1\<lparr>vring_rx := v1\<rparr>) = Some w2"
      "rx_handle_loop env q w2 = Some (q', w')"
      using Suc.prems 1 by (auto simp: Option.bind_eq_Some_conv)
    have "log_quiet w1 w2" "hwtail (vring_rx w2) = hwtail v1"
      using rx_deliver_quiet [OF 2(1)] rx_deliver_ring [OF 2(1)] by simp_all
    then show ?thesis
      using r Suc.IH [OF 2(2)] log_quiet_trans by (metis (no_types, lifting))
  qed
qed simp

lemma rx_handle_quiet:
  assumes "wil_rx_handle env q w = Some (q', w')" "tail_quiet (vring_rx w)"
  shows "log_quiet w w' \<and> hwtail (vring_rx w') = hwtail (vring_rx w)"
proof (cases "vr_va (vring_rx w) = None")
  case False
  then obtain w1 rc where 1: "rx_handle_loop env q w = Some (q', w1)"
    "wil_rx_refill env (unat (vr_size (vring_rx w1))) w1 = Some (rc, w')"
    using assms(1) by (auto simp: wil_rx_handle_def Option.bind_eq_Some_conv)
  have "log_quiet w w1" "hwtail (vring_rx w1) = hwtail (vring_rx w)" using handle_loop_quiet [OF 1(1)] by simp_all
  moreover from this have "tail_quiet (vring_rx w1)" using assms(2) by (simp add: tail_quiet_def)
  ultimately show ?thesis using wil_rx_refill_quiet [OF 1(2)] log_quiet_trans by metis
qed (use assms(1) in \<open>simp add: wil_rx_handle_def\<close>)

subsection \<open>The receive interrupt and its poll\<close>

lemmas rx_reg_defs =
  HOSTADDR_def WIL6210_FW_HOST_OFF_def RGF_DMA_EP_RX_ICR_def ICR_IMS_def ICR_IMC_def ICR_ICR_def

lemma rx_regs_differ:
  "HOSTADDR RGF_DMA_EP_RX_ICR + ICR_ICR \<noteq> HOSTADDR RGF_DMA_EP_RX_ICR + ICR_IMS"
  "HOSTADDR RGF_DMA_EP_RX_ICR + ICR_ICR \<noteq> HOSTADDR RGF_DMA_EP_RX_ICR + ICR_IMC"
  "HOSTADDR RGF_DMA_EP_RX_ICR + ICR_IMC \<noteq> HOSTADDR RGF_DMA_EP_RX_ICR + ICR_IMS"
  by (simp_all add: rx_reg_defs)

lemma klog_append_masks:
  "icr_mask base (log @ es) = fold (icr_step base) es (icr_mask base log)"
  by (simp add: icr_mask_def)

lemma RX_DONE_neq_0: "BIT_DMA_EP_RX_ICR_RX_DONE \<noteq> 0"
  by (simp add: BIT_DMA_EP_RX_ICR_RX_DONE_def BIT_def)

lemma all_ones_u32: "x OR 0xFFFFFFFF = (0xFFFFFFFF :: u32)" "0xFFFFFFFF AND x = (x :: u32)"
proof -
  have 1: "(0xFFFFFFFF :: u32) = mask 32" by (simp add: mask_eq_exp_minus_1)
  show "x OR 0xFFFFFFFF = (0xFFFFFFFF :: u32)" "0xFFFFFFFF AND x = (x :: u32)"
    unfolding 1 by (auto intro!: bit_word_eqI simp: bit_simps dest: bit_imp_le_length)
qed

lemma mask_irq_rx_masked:
  "rx_masked (wil6210_mask_irq_rx w)"
  "napi_rx_scheduled (wil6210_mask_irq_rx w) = napi_rx_scheduled w"
  using RX_DONE_neq_0
  by (simp_all add: rx_masked_def wil6210_mask_irq_rx_def iowrite32_def klog_add_def klog_append_masks
      WIL6210_IRQ_DISABLE_def napi_rx_scheduled_def all_ones_u32)

lemma unmask_irq_rx_masked:
  "\<not> rx_masked (wil6210_unmask_irq_rx w)"
  "napi_rx_scheduled (wil6210_unmask_irq_rx w) = napi_rx_scheduled w"
  using rx_regs_differ(3)
  by (simp_all add: rx_masked_def wil6210_unmask_irq_rx_def iowrite32_def klog_add_def klog_append_masks
      WIL6210_IMC_RX_def napi_rx_scheduled_def word_bw_assocs)

lemma napi_entries:
  "rx_masked (klog_add NapiScheduleRx w) = rx_masked w" "napi_rx_scheduled (klog_add NapiScheduleRx w)"
  "rx_masked (klog_add NapiCompleteRx w) = rx_masked w" "\<not> napi_rx_scheduled (klog_add NapiCompleteRx w)"
  by (simp_all add: rx_masked_def klog_add_def klog_append_masks napi_rx_scheduled_def)

definition rx_isr :: "wmi_env \<Rightarrow> wil6210_priv \<Rightarrow> u32" where
  "rx_isr env w = we_io env (io_clock w) (HOSTADDR RGF_DMA_EP_RX_ICR + ICR_ICR)"

lemma read_isr_quiet:
  "wil_ioread32_and_clear cor env (HOSTADDR RGF_DMA_EP_RX_ICR + ICR_ICR) w = (x, w') \<Longrightarrow>
     x = rx_isr env w \<and> log_quiet w w' \<and> vring_rx w' = vring_rx w"
  using rx_regs_differ
  by (auto simp: wil_ioread32_and_clear_def ioread32_def wil_icr_clear_def Let_def rx_isr_def
      iowrite32_def quiet_def tick_def log_quiet_def klog_add_def split: if_splits)

lemma irq_rx_cases:
  "\<exists>r w'. wil6210_irq_rx cor env w = (r, w') \<and> vring_rx w' = vring_rx w \<and>
     (if rx_isr env w = 0
      then r = IRQ_NONE \<and> rx_masked w' = rx_masked w \<and> napi_rx_scheduled w' = napi_rx_scheduled w
      else r = IRQ_HANDLED \<and> rx_masked w' \<and>
        napi_rx_scheduled w' = (napi_rx_scheduled w \<or> rx_isr env w AND BIT_DMA_EP_RX_ICR_RX_DONE \<noteq> 0))"
proof -
  obtain x w1 where 1: "wil_ioread32_and_clear cor env (HOSTADDR RGF_DMA_EP_RX_ICR + ICR_ICR) w = (x, w1)"
    by (rule prod.exhaust)
  note q = read_isr_quiet [OF 1]
  have m: "rx_masked w1 = rx_masked w" "napi_rx_scheduled w1 = napi_rx_scheduled w"
    using log_quiet_masks q by blast+
  have v: "vring_rx (wil6210_mask_irq_rx u) = vring_rx u" "vring_rx (klog_add e u) = vring_rx u" for u e
    by (simp_all add: wil6210_mask_irq_rx_def iowrite32_def klog_add_def)
  show ?thesis
    using 1 q m v mask_irq_rx_masked [of w1] napi_entries(1,2) [of "wil6210_mask_irq_rx w1"]
    by (simp add: wil6210_irq_rx_def Let_def)
qed

lemma poll_rx_work_quiet:
  assumes "poll_rx_work env budget w = Some (n, todo, w')" "tail_quiet (vring_rx w)"
  shows "tail_quiet (vring_rx w')" "rx_masked w' = rx_masked w" "napi_rx_scheduled w' = napi_rx_scheduled w"
    "todo = (if n \<le> 1 then poll_rx_end else [])"
proof -
  obtain q where 1: "wil_rx_handle env budget w = Some (q, w')" "todo = (if n \<le> 1 then poll_rx_end else [])"
    using assms(1) by (auto simp: poll_rx_work_def Let_def Option.bind_eq_Some_conv)
  note h = rx_handle_quiet [OF 1(1) assms(2)]
  then show "rx_masked w' = rx_masked w" "napi_rx_scheduled w' = napi_rx_scheduled w"
    using log_quiet_masks by blast+
  show "tail_quiet (vring_rx w')" using h assms(2) by (simp add: tail_quiet_def)
  show "todo = (if n \<le> 1 then poll_rx_end else [])" by (rule 1(2))
qed

text \<open>
  The receive interrupt as a machine. \<open>pm_todo\<close> are the actions a poll that ends its burst has still
  to perform. The interrupt may come between any two steps, with any cause; only a cause with the
  bit for finished descriptors needs the bit unmasked. \<open>pm_odd\<close> records that one came, unmasked,
  with a cause that lacks this bit.
\<close>

record poll_machine =
  pm_todo :: "(wil6210_priv \<Rightarrow> wil6210_priv) list"
  pm_odd :: bool
  pm_wil :: wil6210_priv

definition rx_done_irq :: "wmi_env \<Rightarrow> wil6210_priv \<Rightarrow> bool" where
  "rx_done_irq env w \<longleftrightarrow> rx_isr env w AND BIT_DMA_EP_RX_ICR_RX_DONE \<noteq> 0"

definition odd_irq :: "wmi_env \<Rightarrow> wil6210_priv \<Rightarrow> bool" where
  "odd_irq env w \<longleftrightarrow> rx_isr env w \<noteq> 0 \<and> \<not> rx_done_irq env w \<and> \<not> rx_masked w"

inductive rx_irq_step :: "bool \<Rightarrow> poll_machine \<Rightarrow> poll_machine \<Rightarrow> bool" for cor where
  irq: "rx_done_irq env w \<longrightarrow> \<not> rx_masked w \<Longrightarrow> wil6210_irq_rx cor env w = (r, w') \<Longrightarrow>
    rx_irq_step cor \<lparr>pm_todo = todo, pm_odd = od, pm_wil = w\<rparr>
      \<lparr>pm_todo = todo, pm_odd = od \<or> odd_irq env w, pm_wil = w'\<rparr>"
| poll: "napi_rx_scheduled w \<Longrightarrow> poll_rx_work renv budget w = Some (n, todo, w') \<Longrightarrow>
    rx_irq_step cor \<lparr>pm_todo = [], pm_odd = od, pm_wil = w\<rparr> \<lparr>pm_todo = todo, pm_odd = od, pm_wil = w'\<rparr>"
| finish: "rx_irq_step cor \<lparr>pm_todo = action # todo, pm_odd = od, pm_wil = w\<rparr>
    \<lparr>pm_todo = todo, pm_odd = od, pm_wil = action w\<rparr>"

definition rx_irq_reach :: "bool \<Rightarrow> poll_machine \<Rightarrow> poll_machine \<Rightarrow> bool" where
  "rx_irq_reach cor = (rx_irq_step cor)\<^sup>*\<^sup>*"

definition pm_start :: "wil6210_priv \<Rightarrow> poll_machine" where
  "pm_start w = \<lparr>pm_todo = [], pm_odd = False, pm_wil = w\<rparr>"

text \<open>
  The invariant: what is still to be done decides how mask and schedule stand; after the odd
  interrupt nothing moves any more.
\<close>

definition rx_irq_inv :: "poll_machine \<Rightarrow> bool" where
  "rx_irq_inv m \<longleftrightarrow> tail_quiet (vring_rx (pm_wil m)) \<and>
     (if pm_odd m then pm_todo m = [] \<and> rx_masked (pm_wil m) \<and> \<not> napi_rx_scheduled (pm_wil m)
      else pm_todo m = [] \<and> rx_masked (pm_wil m) = napi_rx_scheduled (pm_wil m) \<or>
        pm_todo m = poll_rx_end \<and> rx_masked (pm_wil m) \<and> napi_rx_scheduled (pm_wil m) \<or>
        pm_todo m = [wil6210_unmask_irq_rx] \<and> rx_masked (pm_wil m) \<and> \<not> napi_rx_scheduled (pm_wil m))"

lemma poll_rx_end_ring:
  "vring_rx (klog_add e w) = vring_rx w" "vring_rx (wil6210_unmask_irq_rx w) = vring_rx w"
  by (simp_all add: wil6210_unmask_irq_rx_def iowrite32_def klog_add_def)

lemma rx_irq_step_inv: "rx_irq_step cor m m' \<Longrightarrow> rx_irq_inv m \<Longrightarrow> rx_irq_inv m'"
proof (induction rule: rx_irq_step.induct)
  case (irq env w r w' todo od)
  have 1: "vring_rx w' = vring_rx w" "rx_masked w' = (if rx_isr env w = 0 then rx_masked w else True)"
    "napi_rx_scheduled w' = (napi_rx_scheduled w \<or> rx_done_irq env w)"
    using irq_rx_cases [of cor env w] irq.hyps(2) by (auto simp: rx_done_irq_def split: if_splits)
  show ?case
  proof (cases "rx_masked w")
    case True
    then have "\<not> rx_done_irq env w" "\<not> odd_irq env w" "rx_masked w' = rx_masked w"
      using irq.hyps(1) 1(2) by (auto simp: odd_irq_def)
    then show ?thesis using irq.prems 1 by (cases od) (simp_all add: rx_irq_inv_def)
  next
    case False
    then have "todo = []" "\<not> od" "\<not> napi_rx_scheduled w"
      using irq.prems by (auto simp: rx_irq_inv_def split: if_splits)
    then show ?thesis using irq.prems 1 False by (auto simp: rx_irq_inv_def odd_irq_def rx_done_irq_def)
  qed
next
  case (poll w renv budget n todo w' od)
  then have t: "tail_quiet (vring_rx w)" by (simp add: rx_irq_inv_def)
  show ?case
    using poll_rx_work_quiet [OF poll.hyps(2) t] poll.prems poll.hyps(1)
    by (auto simp: rx_irq_inv_def split: if_splits)
next
  case (finish action todo od w)
  then show ?case
    using unmask_irq_rx_masked [of w] napi_entries(3,4) [of w] poll_rx_end_ring
    by (auto simp: rx_irq_inv_def poll_rx_end_def split: if_splits)
qed

lemma rx_irq_reach_inv:
  assumes "rx_irq_reach cor m m'" "rx_irq_inv m"
  shows "rx_irq_inv m'"
  using assms unfolding rx_irq_reach_def
  by (induction rule: rtranclp_induct) (auto dest: rx_irq_step_inv)

lemma rx_irq_inv_finish:
  assumes "rx_irq_inv m" "pm_todo m \<noteq> []"
  shows "\<not> rx_masked (fold (\<lambda>action. action) (pm_todo m) (pm_wil m))"
  using assms unmask_irq_rx_masked by (auto simp: rx_irq_inv_def poll_rx_end_def split: if_splits)

end
