(* ===== verification/Wil_Irq_Props.thy ===== *)
theory Wil_Irq_Props
  imports Wil_Irq_Correct Wil_Wmi_Props
begin

text \<open>
  The properties of interrupts: the receive interrupt and its poll, and the pseudo interrupt that
  the hard handler masks and the thread unmasks.
\<close>

subsection \<open>The receive interrupt\<close>

text \<open>A device that reports a cause in the receive register, and one descriptor's event.\<close>

definition ex_irq_env :: "u32 \<Rightarrow> wmi_env" where
  "ex_irq_env x = \<lparr>we_io = (\<lambda>_ _. x), we_alloc = (\<lambda>_. True), we_over = []\<rparr>"

lemma ex_tail_quiet: "tail_quiet (vring_rx (wil6210_enable_irq cor wil_init_state))"
  by (simp add: tail_quiet_def wil6210_enable_irq_def Let_def wil6210_unmask_irq_misc_def
      wil6210_unmask_irq_rx_def wil6210_unmask_irq_tx_def wil6210_unmask_irq_pseudo_def iowrite32_def
      klog_add_def wil_init_state_def zero_vring_def rx_reg_defs quiet_def)

lemma ex_unmasked:
  "\<not> rx_masked (wil6210_enable_irq True wil_init_state)"
  "\<not> napi_rx_scheduled (wil6210_enable_irq True wil_init_state)"
  by code_simp+

text \<open>
  Claim C39. When a receive interrupt is lost, and when not. From a state in which the interrupt is
  masked exactly when a poll is scheduled (the one in which the driver enables interrupts is one), after
  any sequence of interrupts with any causes, polls and single actions of a poll that ends its burst, with an
  interrupt possible between any two of them: as long as no interrupt came, unmasked, with a cause that lacks
  the bit for finished descriptors, the interrupt is masked only while a poll is scheduled or about to
  end its burst, and the actions it still has to do unmask the interrupt. After one such interrupt it is
  masked for good with no poll scheduled.
\<close>

theorem rx_irq_never_lost:
  assumes "rx_irq_reach cor (pm_start w) m" "tail_quiet (vring_rx w)" "rx_masked w = napi_rx_scheduled w"
  shows "if pm_odd m
    then rx_masked (pm_wil m) \<and> \<not> napi_rx_scheduled (pm_wil m) \<and> pm_todo m = []
    else rx_masked (pm_wil m) = (napi_rx_scheduled (pm_wil m) \<or> pm_todo m \<noteq> []) \<and>
      (pm_todo m \<noteq> [] \<longrightarrow> \<not> rx_masked (fold (\<lambda>action. action) (pm_todo m) (pm_wil m)))"
proof -
  have "rx_irq_inv (pm_start w)" using assms(2,3) by (simp add: rx_irq_inv_def pm_start_def)
  then have i: "rx_irq_inv m" by (rule rx_irq_reach_inv [OF assms(1)])
  then show ?thesis
    using rx_irq_inv_finish [OF i] by (auto simp: rx_irq_inv_def poll_rx_end_def split: if_splits)
qed

theorem rx_irq_never_lost_witness:
  "\<exists>r w'. wil6210_irq_rx True (ex_irq_env 1) (wil6210_enable_irq True wil_init_state) = (r, w') \<and>
    rx_masked w' = napi_rx_scheduled w'"
proof -
  let ?w = "wil6210_enable_irq True wil_init_state"
  obtain r w' where 1: "wil6210_irq_rx True (ex_irq_env 1) ?w = (r, w')" by (rule prod.exhaust)
  have 2: "rx_done_irq (ex_irq_env 1) ?w" by code_simp
  then have "\<not> odd_irq (ex_irq_env 1) ?w" by (simp add: odd_irq_def)
  with rx_irq_step.irq [of "ex_irq_env 1" ?w True r w' "[]" False] ex_unmasked(1) 1
  have "rx_irq_reach True (pm_start ?w) \<lparr>pm_todo = [], pm_odd = False, pm_wil = w'\<rparr>"
    by (auto simp: rx_irq_reach_def pm_start_def)
  from rx_irq_never_lost [OF this ex_tail_quiet] show ?thesis using 1 ex_unmasked by auto
qed

text \<open>
  An interrupt whose cause has no finished-descriptor bit masks the receive interrupt and
  schedules nothing: no interrupt and no poll ever unmasks it again.
\<close>

theorem rx_irq_stuck:
  assumes "tail_quiet (vring_rx w)" "\<not> rx_masked w" "\<not> napi_rx_scheduled w"
    and "wil6210_irq_rx cor env w = (r, w1)" "odd_irq env w"
    and "rx_irq_reach cor (pm_start w\<lparr>pm_odd := True, pm_wil := w1\<rparr>) m"
  shows "rx_masked (pm_wil m) \<and> \<not> napi_rx_scheduled (pm_wil m)"
proof -
  let ?m1 = "pm_start w\<lparr>pm_odd := True, pm_wil := w1\<rparr>"
  have "rx_irq_step cor (pm_start w) ?m1"
    using rx_irq_step.irq [of env w cor r w1 "[]" False] assms(2,4,5) by (simp add: pm_start_def)
  then have i: "rx_irq_inv ?m1"
    by (rule rx_irq_step_inv) (use assms(1-3) in \<open>simp add: rx_irq_inv_def pm_start_def\<close>)
  have "pm_odd m"
    using assms(6) unfolding rx_irq_reach_def
    by (induction rule: rtranclp_induct) (auto elim: rx_irq_step.cases)
  then show ?thesis using rx_irq_reach_inv [OF assms(6) i] by (simp add: rx_irq_inv_def)
qed

theorem rx_irq_stuck_witness:
  "\<exists>r w'. wil6210_irq_rx True (ex_irq_env 2) (wil6210_enable_irq True wil_init_state) = (r, w') \<and>
    rx_masked w' \<and> \<not> napi_rx_scheduled w'"
proof -
  let ?w = "wil6210_enable_irq True wil_init_state"
  obtain r w' where 1: "wil6210_irq_rx True (ex_irq_env 2) ?w = (r, w')" by (rule prod.exhaust)
  have 2: "odd_irq (ex_irq_env 2) ?w" by code_simp
  from rx_irq_stuck [OF ex_tail_quiet ex_unmasked 1 2] show ?thesis
    using 1 by (fastforce simp: rx_irq_reach_def)
qed

subsection \<open>The pseudo interrupt\<close>

lemma irq_no_wake:
  "fst (wil6210_irq_rx cor env w) \<noteq> IRQ_WAKE_THREAD" "fst (wil6210_irq_tx cor env w) \<noteq> IRQ_WAKE_THREAD"
  by (simp_all add: wil6210_irq_rx_def wil6210_irq_tx_def Let_def split_def)

lemma irq_misc_wake:
  "wil6210_irq_misc cor env w = (IRQ_WAKE_THREAD, w') \<Longrightarrow> isr_misc w' \<noteq> 0"
  by (auto simp: wil6210_irq_misc_def Let_def split_def split: if_splits)

lemma irq_vote_no_wake:
  "fst (handler (snd rw)) \<noteq> IRQ_WAKE_THREAD \<Longrightarrow> fst rw \<noteq> IRQ_WAKE_THREAD \<Longrightarrow>
     fst (irq_vote c handler rw) \<noteq> IRQ_WAKE_THREAD"
  by (auto simp: irq_vote_def split: prod.splits)

lemma irq_vote_misc:
  assumes "irq_vote c (wil6210_irq_misc cor env) rw = (IRQ_WAKE_THREAD, w')" "fst rw \<noteq> IRQ_WAKE_THREAD"
  shows "isr_misc w' \<noteq> 0"
  using assms irq_misc_wake by (auto simp: irq_vote_def split: prod.splits if_splits)

lemma unmask_pseudo_irqen [simp]: "test_bit wil_status_irqen (wstatus (wil6210_unmask_irq_pseudo w))"
  "isr_misc (wil6210_unmask_irq_pseudo w) = isr_misc w" "isr_misc (wil6210_unmask_irq_misc w) = isr_misc w"
  by (simp_all add: wil6210_unmask_irq_pseudo_def wil6210_unmask_irq_misc_def iowrite32_def klog_add_def Let_def)

lemma pseudo_registers_differ:
  "HOSTADDR RGF_DMA_PSEUDO_CAUSE_MASK_SW \<noteq> HOSTADDR RGF_DMA_EP_MISC_ICR + ICR_IMS"
  "HOSTADDR RGF_DMA_PSEUDO_CAUSE_MASK_SW \<noteq> HOSTADDR RGF_DMA_EP_MISC_ICR + ICR_IMC"
  "HOSTADDR RGF_DMA_EP_MISC_ICR + ICR_IMC \<noteq> HOSTADDR RGF_DMA_EP_MISC_ICR + ICR_IMS"
  by code_simp+

lemma unmask_pseudo_open [simp]: "pseudo_open (wil6210_unmask_irq_pseudo w)"
proof -
  have "pseudo_mask (klog (wil6210_unmask_irq_pseudo w)) = WIL6210_IRQ_PSEUDO_MASK"
    by (simp add: wil6210_unmask_irq_pseudo_def iowrite32_def klog_add_def Let_def pseudo_mask_def)
  moreover have "WIL6210_IRQ_PSEUDO_MASK AND
      (BIT_DMA_PSEUDO_CAUSE_RX OR BIT_DMA_PSEUDO_CAUSE_TX OR BIT_DMA_PSEUDO_CAUSE_MISC) = 0" by code_simp
  ultimately show ?thesis by (simp only: pseudo_open_def unmask_pseudo_irqen)
qed

lemma unmask_both_misc:
  "icr_mask RGF_DMA_EP_MISC_ICR (klog (wil6210_unmask_irq_pseudo (wil6210_unmask_irq_misc w))) AND
     WIL6210_IMC_MISC = 0"
  using pseudo_registers_differ
  by (simp add: wil6210_unmask_irq_pseudo_def wil6210_unmask_irq_misc_def iowrite32_def klog_add_def Let_def
      klog_append_masks word_bw_assocs)

lemma hardirq_cases:
  assumes "pseudo_open w" "wil6210_hardirq cor env w = (r, w')"
  shows "r \<noteq> IRQ_WAKE_THREAD \<Longrightarrow> pseudo_open w'"
    "r = IRQ_WAKE_THREAD \<Longrightarrow> isr_misc w' \<noteq> 0"
proof -
  let ?cause = "we_io env (io_clock w) (HOSTADDR RGF_DMA_PSEUDO_CAUSE)"
  let ?m = "wil6210_mask_irq_pseudo (tick w)"
  let ?tx = "irq_vote (?cause AND BIT_DMA_PSEUDO_CAUSE_TX \<noteq> 0) (wil6210_irq_tx cor env)
     (irq_vote (?cause AND BIT_DMA_PSEUDO_CAUSE_RX \<noteq> 0) (wil6210_irq_rx cor env) (IRQ_HANDLED, ?m))"
  let ?all = "irq_vote (?cause AND BIT_DMA_PSEUDO_CAUSE_MISC \<noteq> 0) (wil6210_irq_misc cor env) ?tx"
  have irqen: "test_bit wil_status_irqen (wstatus (tick w))" using assms(1) by (simp add: tick_def pseudo_open_def)
  have dbg: "wil6210_debug_irq_mask cor env (tick w) = (False, tick w)"
    using irqen by (simp add: wil6210_debug_irq_mask_def)
  have rd: "ioread32 env (HOSTADDR RGF_DMA_PSEUDO_CAUSE) w = (?cause, tick w)"
    by (simp add: ioread32_def)
  have e: "wil6210_hardirq cor env w = (if ?cause = 0 \<or> ?cause AND 0xff = 0xff then (IRQ_NONE, tick w)
      else (fst ?all, if fst ?all \<noteq> IRQ_WAKE_THREAD then wil6210_unmask_irq_pseudo (snd ?all) else snd ?all))"
    unfolding wil6210_hardirq_def rd by (simp add: dbg Let_def split_def)
  have tx: "fst ?tx \<noteq> IRQ_WAKE_THREAD" by (intro irq_vote_no_wake irq_no_wake) simp
  have "pseudo_open (tick w)" using assms(1) by (simp add: pseudo_open_def tick_def)
  then show "pseudo_open w'" if "r \<noteq> IRQ_WAKE_THREAD"
    using e assms(2) that by (auto split: if_splits)
  show "isr_misc w' \<noteq> 0" if "r = IRQ_WAKE_THREAD"
  proof -
    have "?all = (IRQ_WAKE_THREAD, w')" using e assms(2) that by (simp add: prod_eq_iff split: if_splits)
    then show ?thesis by (rule irq_vote_misc [OF _ tx])
  qed
qed

text \<open>
  Claim C40. The pseudo interrupt comes back: where it was open (the mask last written to its register
  lets the three causes through and the status bit is set), it is open again after the hard handler,
  or the thread is woken with a cause to handle, and the thread, with a sound mailbox, comes to an
  end with the interrupt open, the causes of the miscellaneous interrupt unmasked and the cause cleared.
\<close>

theorem irq_reenabled:
  assumes "pseudo_open w" "wil6210_hardirq cor env w = (r, w')"
    and "\<And>t. we_io tenv t (HOST_MBOX + rx_head_off) = h"
    and "mbox_slot (mbox_rx w') n (mb_tail (mbox_rx w')) k" "mbox_slot (mbox_rx w') n h j"
  shows "if r = IRQ_WAKE_THREAD
    then isr_misc w' \<noteq> 0 \<and> (\<exists>w''. wil6210_thread_irq tenv w' = Some (IRQ_HANDLED, w'') \<and>
      pseudo_open w'' \<and> icr_mask RGF_DMA_EP_MISC_ICR (klog w'') AND WIL6210_IMC_MISC = 0 \<and> isr_misc w'' = 0)
    else pseudo_open w'"
proof (cases "r = IRQ_WAKE_THREAD")
  case True
  note m = hardirq_cases(2) [OF assms(1,2) True]
  let ?w = "if isr_misc w' AND ISR_MISC_FW_ERROR \<noteq> 0 then wil_notify_fw_error w' else w'"
  have "mbox_rx ?w = mbox_rx w'" by (simp add: wil_notify_fw_error_def klog_add_def)
  then have s: "mbox_slot (mbox_rx ?w) n (mb_tail (mbox_rx ?w)) k" "mbox_slot (mbox_rx ?w) n h j"
    using assms(4,5) by simp_all
  obtain v where "wmi_recv_cmd tenv ?w = Some v"
    using recv_loop_ok [OF assms(3) s]
    by (cases "test_bit wil_status_reset_done (wstatus ?w)") (simp_all add: wmi_recv_cmd_def, blast)
  then show ?thesis
    using True m by (simp add: wil6210_thread_irq_def wil6210_irq_misc_thread_def Let_def unmask_both_misc)
next
  case False
  then show ?thesis using hardirq_cases(1) [OF assms(1,2)] by simp
qed

definition ex_irq_state :: wil6210_priv where
  "ex_irq_state = wil6210_unmask_irq_pseudo (ex_fw_state\<lparr>wstatus := set_bit wil_status_reset_done 0\<rparr>)"

text \<open>The pseudo cause and the miscellaneous cause of a mailbox event.\<close>

definition ex_mbox_irq_env :: wmi_env where
  "ex_mbox_irq_env = \<lparr>we_io = (\<lambda>_ off. if off = HOSTADDR RGF_DMA_PSEUDO_CAUSE then BIT_DMA_PSEUDO_CAUSE_MISC
     else ISR_MISC_MBOX_EVT), we_alloc = (\<lambda>_. True), we_over = []\<rparr>"

theorem irq_reenabled_witness:
  "\<exists>w' w''. wil6210_hardirq True ex_mbox_irq_env ex_irq_state = (IRQ_WAKE_THREAD, w') \<and>
    wil6210_thread_irq (ex_wmi_env 0x880400) w' = Some (IRQ_HANDLED, w'') \<and>
    pseudo_open w''"
proof -
  obtain r w' where 1: "wil6210_hardirq True ex_mbox_irq_env ex_irq_state = (r, w')" by (rule prod.exhaust)
  have "fst (wil6210_hardirq True ex_mbox_irq_env ex_irq_state) = IRQ_WAKE_THREAD" by code_simp
  then have r: "r = IRQ_WAKE_THREAD" by (simp add: 1)
  have "mbox_rx (snd (wil6210_hardirq True ex_mbox_irq_env ex_irq_state)) = ex_mbox" by code_simp
  then have m: "mbox_slot (mbox_rx w') 4 (mb_tail (mbox_rx w')) 0" "mbox_slot (mbox_rx w') 4 0x880400 0"
    by (simp_all add: 1 mbox_slot_def ex_mbox_def)
  have irqen: "pseudo_open ex_irq_state" by (simp add: ex_irq_state_def)
  have h: "we_io (ex_wmi_env 0x880400) t (HOST_MBOX + rx_head_off) = 0x880400" for t
    by (simp add: ex_wmi_env_def)
  from irq_reenabled [OF irqen 1 h m] show ?thesis using 1 r by auto
qed

end
