(* ===== verification/Wil_Xmit.thy ===== *)
theory Wil_Xmit
  imports Wil_Tso Wil_Wmi_Cmd Wil_Disconnect
begin

text \<open>
  The transmit entry point (\<^verbatim>\<open>txrx.c\<close>): the ring of a destination, copies of a broadcast
  frame for every ring, and \<open>wil_start_xmit\<close>, which the network stack calls with a buffer it hands
  over unless the answer is busy.
\<close>

subsection \<open>Operations\<close>

text \<open>
  \<open>xe_dma r i\<close> is the outcome of the DMA mapping made for slot \<open>i\<close> of ring \<open>r\<close>, \<open>xe_copy r s\<close> what
  \<open>skb_copy\<close> makes of a buffer for ring \<open>r\<close>: a buffer of its own, or nothing.
\<close>

record xmit_env =
  xe_wmi :: wmi_env
  xe_dma :: "nat \<Rightarrow> u32 \<Rightarrow> u64 option"
  xe_copy :: "nat \<Rightarrow> sk_buff \<Rightarrow> (skb_ptr \<times> sk_buff) option"

datatype netdev_tx = NETDEV_TX_OK | NETDEV_TX_BUSY | NET_XMIT_DROP

definition wil_find_first_tx_vring :: "wil6210_priv \<Rightarrow> nat option" where
  "wil_find_first_tx_vring w = find_index (\<lambda>v. vr_va v \<noteq> None) (vring_tx w)"

definition wil_find_tx_vring :: "wil6210_priv \<Rightarrow> mac_addr \<Rightarrow> nat option" where
  "wil_find_tx_vring w h_dest = do {
     cid \<leftarrow> wil_find_cid w h_dest;
     i \<leftarrow> find_index (\<lambda>ct. unat (fst ct) = cid) (vring2cid_tid w);
     (if vr_va (vring_tx w ! i) \<noteq> None then Some i else None)
   }"

text \<open>The destination of the frame becomes the address of the ring's peer.\<close>

definition wil_set_da_for_vring :: "skb_ptr \<Rightarrow> nat \<Rightarrow> wil6210_priv \<Rightarrow> wil6210_priv option" where
  "wil_set_da_for_vring p i w =
     (let cid = unat (fst (vring2cid_tid w ! i));
          data = skb_data (skbs w p)
      in if cid \<ge> WIL6210_MAX_CID \<or> length data < 6 then None
         else Some (upd_skb p (\<lambda>s. s\<lparr>skb_data := take 6 (sta_addr (sta w ! cid)) @ drop 6 data\<rparr>) w))"

definition bcast_copy ::
  "xmit_env \<Rightarrow> bool \<Rightarrow> skb_ptr \<Rightarrow> nat \<Rightarrow> wil6210_priv \<Rightarrow> wil6210_priv option" where
  "bcast_copy env bcast_to_ucast p i w =
     (if vr_va (vring_tx w ! i) = None then Some w
      else (case xe_copy env i (skbs w p) of
          None \<Rightarrow> Some w
        | Some (q, s) \<Rightarrow> do {
            let w = upd_skb q (\<lambda>_. s) w;
            w \<leftarrow> (if bcast_to_ucast then wil_set_da_for_vring q i w else Some w);
            map_option snd (wil_tx_vring (xe_dma env i) i q w)
          }))"

definition wil_tx_bcast ::
  "xmit_env \<Rightarrow> skb_ptr \<Rightarrow> wil6210_priv \<Rightarrow> (nat option \<times> wil6210_priv) option" where
  "wil_tx_bcast env p w =
     (let bcast_to_ucast = (wd_iftype (wdev w) \<notin> {NL80211_IFTYPE_STATION, NL80211_IFTYPE_P2P_CLIENT})
      in case wil_find_first_tx_vring w of
           None \<Rightarrow> Some (None, w)
         | Some i \<Rightarrow> do {
             w \<leftarrow> (if bcast_to_ucast then wil_set_da_for_vring p i w else Some w);
             w \<leftarrow> run_inputs (bcast_copy env bcast_to_ucast p) [i + 1..<WIL6210_MAX_TX_RINGS] w;
             Some (Some i, w)
           })"

definition is_unicast_ether_addr :: "mac_addr \<Rightarrow> bool" where
  "is_unicast_ether_addr a \<longleftrightarrow> \<not> bit (a ! 0) 0"

definition xmit_drop :: "skb_ptr \<Rightarrow> wil6210_priv \<Rightarrow> netdev_tx \<times> wil6210_priv" where
  "xmit_drop p w =
     (NET_XMIT_DROP, dev_kfree_skb p (w\<lparr>ndev := (ndev w)\<lparr>nd_tx_dropped := nd_tx_dropped (ndev w) + 1\<rparr>\<rparr>))"

definition xmit_drop_err :: "skb_ptr \<Rightarrow> wil6210_priv \<Rightarrow> netdev_tx \<times> wil6210_priv" where
  "xmit_drop_err p w = xmit_drop p (w\<lparr>ndev := (ndev w)\<lparr>nd_queues_stopped := True\<rparr>\<rparr>)"

definition xmit_result :: "errno option \<Rightarrow> skb_ptr \<Rightarrow> wil6210_priv \<Rightarrow> netdev_tx \<times> wil6210_priv" where
  "xmit_result rc p w =
     (if rc = None then (NETDEV_TX_OK, dev_kfree_skb p w)
      else if rc = Some ENOMEM then (NETDEV_TX_BUSY, w)
      else xmit_drop_err p w)"

definition wil_start_xmit ::
  "xmit_env \<Rightarrow> skb_ptr \<Rightarrow> wil6210_priv \<Rightarrow> (netdev_tx \<times> wil6210_priv) option" where
  "wil_start_xmit env p w =
     (if \<not> test_bit wil_status_fwready (wstatus w) then Some (xmit_drop p w)
      else if \<not> test_bit wil_status_fwconnected (wstatus w) then Some (xmit_drop p w)
      else if wd_iftype (wdev w) = NL80211_IFTYPE_MONITOR then Some (xmit_drop p w)
      else if skb_protocol (skbs w p) = ETH_P_PAE
      then map_option (\<lambda>(rc, w). xmit_result rc p w) (wmi_tx_eapol (xe_wmi env) p w)
      else do {
        h_dest \<leftarrow> rd_bytes 0 6 (skb_data (skbs w p));
        (ring, bcast, w) \<leftarrow>
          (if is_unicast_ether_addr h_dest then Some (wil_find_tx_vring w h_dest, False, w)
           else do { (ring, w) \<leftarrow> wil_tx_bcast env p w; Some (ring, True, w) });
        (case ring of
           None \<Rightarrow> Some (if bcast then xmit_drop_err p w else xmit_drop p w)
         | Some i \<Rightarrow> do {
             (rc, w) \<leftarrow> (if skb_gso_size (skbs w p) \<noteq> 0
               then wil_tx_vring_tso (xe_dma env i) i p w else wil_tx_vring (xe_dma env i) i p w);
             Some (xmit_result rc p w)
           })
      })"

end
