(* ===== verification/Wil_Xmit_Correct.thy ===== *)
theory Wil_Xmit_Correct
  imports Wil_Xmit
begin

text \<open>
  What the transmit entry point may change: one ring, the buffers, the state of the queues and the
  log; and who owns the buffer afterwards.
\<close>

subsection \<open>Frames of the two senders\<close>

text \<open>A step on behalf of the buffer \<open>p\<close> leaves every other buffer alone.\<close>

definition own_frame :: "skb_ptr \<Rightarrow> wil6210_priv \<Rightarrow> wil6210_priv \<Rightarrow> bool" where
  "own_frame p w w' \<longleftrightarrow> buf_frame w w' \<and> (\<forall>q. q \<noteq> p \<longrightarrow> skbs w' q = skbs w q)"

lemma own_frame_refl [simp, intro]: "own_frame p w w"
  by (simp add: own_frame_def)

lemma own_frame_trans: "own_frame p w w1 \<Longrightarrow> own_frame p w1 w2 \<Longrightarrow> own_frame p w w2"
  unfolding own_frame_def using buf_frame_trans by auto

lemma own_frame_step [simp, intro]:
  "own_frame p w (klog_add e w)" "own_frame p w (upd_skb p f w)" "own_frame p w (dev_kfree_skb p w)"
  "own_frame p w (w\<lparr>skbs := skb_get p (skbs w)\<rparr>)"
  by (auto simp: own_frame_def buf_frame_def klog_add_def upd_skb_def dev_kfree_skb_def kfree_skb_def skb_get_def)

lemma tx_put_own: "tx_put p idx i pa len cnt (w, v) = Some (w', v') \<Longrightarrow> own_frame p w w'"
  by (auto simp: tx_put_def Option.bind_eq_Some_conv)

lemma tx_map_frags_own:
  "tx_map_frags dma p idx cnt f fs (w, v) = Some (res, w', v') \<Longrightarrow> own_frame p w w'"
proof (induction fs arbitrary: f w v)
  case (Cons len fs)
  let ?i = "(swhead v + of_nat f + 1) mod ucast (vr_size v)"
  show ?case
  proof (cases "dma ?i")
    case (Some pa)
    obtain w1 v1 where 1: "tx_put p idx ?i pa (of_nat len) cnt (klog_add (DmaMapPage pa len) w, v) = Some (w1, v1)"
      "tx_map_frags dma p idx cnt (f + 1) fs (w1, v1) = Some (res, w', v')"
      using Cons.prems Some by (auto simp: Let_def Option.bind_eq_Some_conv)
    show ?thesis
      using own_frame_trans [OF own_frame_trans [OF own_frame_step(1) tx_put_own [OF 1(1)]] Cons.IH [OF 1(2)]] .
  qed (use Cons.prems in \<open>simp add: Let_def\<close>)
qed simp

lemma undo_step_own: "own_frame p (dev_kfree_skb p (klog_add e w)) w' \<Longrightarrow> own_frame p w w'"
  using own_frame_trans [OF own_frame_trans [OF own_frame_step(1) own_frame_step(3)]] .

lemma tx_undo_own: "tx_undo p n (w, v) = Some (w', v') \<Longrightarrow> own_frame p w w'"
proof (induction n arbitrary: w v)
  case (Suc n)
  from Suc.prems obtain e v1 where "tx_undo p n (dev_kfree_skb p (klog_add e w), v1) = Some (w', v')"
    by (auto simp: Let_def Option.bind_eq_Some_conv)
  then show ?case by (rule undo_step_own [OF Suc.IH])
qed simp

text \<open>What one sender changes: its ring, the buffer, the queue state and the log.\<close>

definition xmit_frame :: "skb_ptr \<Rightarrow> nat \<Rightarrow> wil6210_priv \<Rightarrow> wil6210_priv \<Rightarrow> bool" where
  "xmit_frame p i w w' \<longleftrightarrow> (\<exists>v b h l.
     w' = w\<lparr>vring_tx := (vring_tx w)[i := v], ndev := (ndev w)\<lparr>nd_queues_stopped := b\<rparr>, skbs := h, klog := l\<rparr> \<and>
     (\<forall>q. q \<noteq> p \<longrightarrow> h q = skbs w q))"

lemma xmit_frame_own:
  assumes "own_frame p (tx_stop_if_low v w) w1"
  shows "xmit_frame p i w w1" "xmit_frame p i w (set_vring_tx i u w1)"
    "xmit_frame p i w (klog_add e (set_vring_tx i u w1))"
proof -
  let ?w = "tx_stop_if_low v w"
  have 1: "w1 = ?w\<lparr>skbs := skbs w1, klog := klog w1\<rparr>" "\<forall>q. q \<noteq> p \<longrightarrow> skbs w1 q = skbs w q"
    using assms by (simp_all add: own_frame_def buf_frame_def tx_stop_frame)
  have 2: "?w = w\<lparr>vring_tx := (vring_tx w)[i := vring_tx w ! i],
      ndev := (ndev w)\<lparr>nd_queues_stopped := nd_queues_stopped (ndev ?w)\<rparr>\<rparr>"
    by (simp add: tx_stop_if_low_def)
  have 3: "w1 = w\<lparr>vring_tx := (vring_tx w)[i := vring_tx w ! i],
      ndev := (ndev w)\<lparr>nd_queues_stopped := nd_queues_stopped (ndev ?w)\<rparr>, skbs := skbs w1, klog := klog w1\<rparr>"
    by (subst 1(1), subst 2) simp
  show "xmit_frame p i w w1" unfolding xmit_frame_def using 3 1(2) by blast
  have 4: "set_vring_tx i u w1 = w\<lparr>vring_tx := (vring_tx w)[i := u],
      ndev := (ndev w)\<lparr>nd_queues_stopped := nd_queues_stopped (ndev ?w)\<rparr>, skbs := skbs w1, klog := klog w1\<rparr>"
    unfolding set_vring_tx_def by (subst 3, subst 3) simp
  show "xmit_frame p i w (set_vring_tx i u w1)" unfolding xmit_frame_def using 4 1(2) by blast
  have "klog_add e (set_vring_tx i u w1) = w\<lparr>vring_tx := (vring_tx w)[i := u],
      ndev := (ndev w)\<lparr>nd_queues_stopped := nd_queues_stopped (ndev ?w)\<rparr>, skbs := skbs w1, klog := klog w1 @ [e]\<rparr>"
    unfolding 4 klog_add_def by simp
  then show "xmit_frame p i w (klog_add e (set_vring_tx i u w1))"
    unfolding xmit_frame_def using 1(2) by blast
qed

lemma wil_tx_vring_frame:
  assumes "wil_tx_vring dma i p w = Some (rc, w')"
  shows "xmit_frame p i w w'"
proof -
  let ?v = "vring_tx w ! i"
  define w0 where "w0 = upd_skb p (\<lambda>s. s\<lparr>sngl_mapped := sint (swhead ?v), nodma_desc := -1\<rparr>) (tx_stop_if_low ?v w)"
  have o0: "own_frame p (tx_stop_if_low ?v w) w0" by (simp add: w0_def)
  show ?thesis
  proof (cases "wil_vring_avail_tx ?v < 1 + int (length (skb_frags (skbs w p))) \<or> dma (swhead ?v) = None")
    case True
    then have "w' = tx_stop_if_low ?v w \<or> w' = w0"
      using assms by (auto simp: wil_tx_vring_def Let_def w0_def split: if_splits)
    then show ?thesis using xmit_frame_own(1) o0 own_frame_refl by blast
  next
    case False
    then obtain pa where pa: "dma (swhead ?v) = Some pa" by auto
    from assms False pa obtain w1 v1 f w2 v2 where
      1: "tx_put p i (swhead ?v) pa (of_nat (skb_headlen (skbs w p)))
          (length (skb_frags (skbs w p)) + 1) (klog_add (DmaMapSingle pa (skb_headlen (skbs w p))) w0, ?v) = Some (w1, v1)"
      "tx_map_frags dma p i (length (skb_frags (skbs w p)) + 1) 0 (skb_frags (skbs w p)) (w1, v1) = Some (f, w2, v2)"
      and r: "\<And>g. f = Some g \<Longrightarrow> \<exists>w3 v3. tx_undo p (g + 1) (w2, v2) = Some (w3, v3) \<and> w' = set_vring_tx i v3 w3"
        "f = None \<Longrightarrow> \<exists>e u. w' = klog_add e (set_vring_tx i u w2)"
      unfolding wil_tx_vring_def Let_def w0_def
      by (auto simp: Option.bind_eq_Some_conv tx_stop_frame split: option.splits) blast+
    have o: "own_frame p (tx_stop_if_low ?v w) w2"
      using own_frame_trans [OF own_frame_trans [OF own_frame_trans [OF o0 own_frame_step(1)] tx_put_own [OF 1(1)]]
        tx_map_frags_own [OF 1(2)]] .
    show ?thesis
    proof (cases f)
      case None
      then obtain e u where "w' = klog_add e (set_vring_tx i u w2)" using r by auto
      then show ?thesis using xmit_frame_own(3) [OF o] by blast
    next
      case (Some g)
      then obtain w3 v3 where "tx_undo p (g + 1) (w2, v2) = Some (w3, v3)" "w' = set_vring_tx i v3 w3"
        using r by auto
      then show ?thesis using xmit_frame_own(2) [OF own_frame_trans [OF o tx_undo_own]] by blast
    qed
  qed
qed

lemma tso_put_own: "tso_put p idx t i pa len (w, v) = Some (w', v') \<Longrightarrow> own_frame p w w'"
  by (auto simp: tso_put_def Option.bind_eq_Some_conv)

lemma tso_frag_own:
  assumes "tso_frag dma p idx avail mss len st wv = Some r"
  shows "own_frame p (fst wv) (fst (snd (snd r)))"
proof (rule tso_frag.raw_induct [where
    P = "\<lambda>dma p idx avail mss len st wv r. own_frame p (fst wv) (fst (snd (snd r)))", OF _ assms])
  fix f dma p idx avail mss len st wv r
  assume IH: "\<And>dma p idx avail mss len st wv r. f dma p idx avail mss len st wv = Some r \<Longrightarrow>
      own_frame p (fst wv) (fst (snd (snd r)))"
    and step: "(if len \<le> 0 then Some (True, st, wv)
      else if ts_rem st = 0 then do {
        v \<leftarrow> tso_close idx st (snd wv);
        f dma p idx avail mss len
          (st\<lparr>ts_rem := mss, ts_sg := None, ts_sg_cnt := 0, ts_end_first := 0\<rparr>) (fst wv, v)
      }
      else if int (ts_used st) = avail then Some (False, st, wv)
      else
        let lenmss = (if len > ts_rem st then ts_rem st else len);
            i = (swhead (snd wv) + of_nat (ts_used st)) mod ucast (vr_size (snd wv))
        in (case dma i of
              None \<Rightarrow> Some (False, st, wv)
            | Some pa \<Rightarrow> do {
                wv \<leftarrow> tso_put p idx (if ts_first st then 2 else 1) i pa lenmss
                  (klog_add (DmaMapPage pa (nat lenmss)) (fst wv), snd wv);
                f dma p idx avail mss (len - lenmss)
                  (st\<lparr>ts_d := i, ts_first := True,
                     ts_sg := (case ts_sg st of None \<Rightarrow> Some i | Some g \<Rightarrow> Some g),
                     ts_used := ts_used st + 1, ts_sg_cnt := ts_sg_cnt st + 1,
                     ts_rem := ts_rem st - lenmss\<rparr>) wv
              })) = Some r"
  consider "fst (snd (snd r)) = fst wv"
    | v st' len' where "f dma p idx avail mss len' st' (fst wv, v) = Some r"
    | e t i pa l w1 v1 st' len' where "tso_put p idx t i pa l (klog_add e (fst wv), snd wv) = Some (w1, v1)"
      "f dma p idx avail mss len' st' (w1, v1) = Some r"
    using step by (auto simp: Let_def Option.bind_eq_Some_conv split: if_splits option.splits)
  then show "own_frame p (fst wv) (fst (snd (snd r)))"
  proof cases
    case 2
    then show ?thesis using IH by fastforce
  next
    case 3
    then show ?thesis
      using own_frame_trans [OF own_frame_trans [OF own_frame_step(1) tso_put_own [OF 3(1)]]] IH [OF 3(2)] by simp
  qed simp
qed

lemma tso_frags_own:
  "tso_frags dma p idx avail mss fs st wv = Some r \<Longrightarrow> own_frame p (fst wv) (fst (snd (snd r)))"
proof (induction fs arbitrary: st wv)
  case (Cons f fs)
  obtain b st1 wv1 where 1: "tso_frag dma p idx avail mss (int f) st wv = Some (b, st1, wv1)"
    "(if b then tso_frags dma p idx avail mss fs st1 wv1 else Some (False, st1, wv1)) = Some r"
    using Cons.prems by (auto simp: Option.bind_eq_Some_conv)
  have "own_frame p (fst wv) (fst wv1)" using tso_frag_own [OF 1(1)] by simp
  moreover have "own_frame p (fst wv1) (fst (snd (snd r)))"
    using 1(2) Cons.IH by (auto split: if_splits)
  ultimately show ?case by (rule own_frame_trans)
qed auto

lemma tso_undo_own: "tso_undo p n (w, v) = Some (w', v') \<Longrightarrow> own_frame p w w'"
proof (induction n arbitrary: w v)
  case (Suc n)
  from Suc.prems obtain e v1 where "tso_undo p n (dev_kfree_skb p (klog_add e w), v1) = Some (w', v')"
    by (auto simp: Let_def Option.bind_eq_Some_conv)
  then show ?case by (rule undo_step_own [OF Suc.IH])
qed simp

lemma tso_body_own:
  assumes "tso_body dma p idx avail mss len fs h (w, v) = Some (b, st, w', v')"
  shows "own_frame p w w'"
proof -
  consider "w' = w" | st0 where "tso_frags dma p idx avail mss fs st0 (w, v) = Some (b, st, w', v')"
    | e i pa w1 v1 g st0 where "tso_put p idx 1 i pa len (klog_add e w, v) = Some (w1, v1)"
      "tso_frags dma p idx avail mss fs st0 (upd_skb p g w1, v1) = Some (b, st, w', v')"
    using assms by (auto simp: tso_body_def Let_def Option.bind_eq_Some_conv split: if_splits option.splits)
  then show ?thesis
  proof cases
    case 2
    then show ?thesis using tso_frags_own by fastforce
  next
    case 3
    have "own_frame p (upd_skb p g w1) w'" using tso_frags_own [OF 3(2)] by simp
    then show ?thesis
      using own_frame_trans [OF own_frame_trans [OF own_frame_trans [OF own_frame_step(1)
        tso_put_own [OF 3(1)]] own_frame_step(2)]] by blast
  qed simp
qed

lemma wil_tx_vring_tso_frame:
  assumes "wil_tx_vring_tso dma i p w = Some (rc, w')"
  shows "xmit_frame p i w w'"
proof -
  let ?v = "vring_tx w ! i"
  let ?tcp = "snd (wil_tx_desc_offload_setup None (skbs w p) 0)"
  define w1 where "w1 = upd_skb p (tso_zero_lengths ?tcp) (tx_stop_if_low ?v w)"
  have o1: "own_frame p (tx_stop_if_low ?v w) w1" by (simp add: w1_def)
  consider "w' = tx_stop_if_low ?v w" | "w' = w1"
    | e h pa l w2 v2 v3 g avail mss len fs b st w4 v4 where
      "tso_put p i 0 h pa l (klog_add e w1, ?v) = Some (w2, v2)"
      "tso_body dma p i avail mss len fs h (upd_skb p g w2, v3) = Some (b, st, w4, v4)"
      "tso_finish p i h (b, st, w4, v4) = Some (rc, w')"
    using assms unfolding wil_tx_vring_tso_def Let_def w1_def
    by (auto simp: Option.bind_eq_Some_conv tx_stop_frame split: if_splits option.splits)
  then show ?thesis
  proof cases
    case 1
    then show ?thesis using xmit_frame_own(1) [OF own_frame_refl] by simp
  next
    case 2
    then show ?thesis using xmit_frame_own(1) [OF o1] by simp
  next
    case 3
    have o: "own_frame p (tx_stop_if_low ?v w) w4"
      using own_frame_trans [OF own_frame_trans [OF own_frame_trans [OF own_frame_trans [OF o1 own_frame_step(1)]
        tso_put_own [OF 3(1)]] own_frame_step(2)] tso_body_own [OF 3(2)]] .
    consider ee u where "w' = klog_add ee (set_vring_tx i u w4)"
      | w5 v5 where "tso_undo p (ts_used st) (w4, v4) = Some (w5, v5)" "w' = set_vring_tx i v5 w5"
      using 3(3) by (auto simp: tso_finish_def Let_def Option.bind_eq_Some_conv split: if_splits)
    then show ?thesis
    proof cases
      case 1
      then show ?thesis using xmit_frame_own(3) [OF o] by blast
    next
      case 2
      then show ?thesis using xmit_frame_own(2) [OF own_frame_trans [OF o tso_undo_own]] by blast
    qed
  qed
qed

subsection \<open>Ownership\<close>

text \<open>
  A sender that succeeds has put the buffer into slots of its ring and taken a reference for each of
  them; one that fails has put back what it took.
\<close>

definition refs_taken :: "nat \<Rightarrow> errno option \<Rightarrow> skb_ptr \<Rightarrow> wil6210_priv \<Rightarrow> wil6210_priv \<Rightarrow> bool" where
  "refs_taken i rc p w w' \<longleftrightarrow>
     (if rc = None then \<exists>k > 0. tx_posted (tx_ring i w') = tx_posted (tx_ring i w) @ replicate k (Some p) \<and>
        skb_users (skbs w' p) = skb_users (skbs w p) + k
      else skb_users (skbs w' p) = skb_users (skbs w p))"

lemma driver_ok_xmit:
  assumes "xmit_frame p i w w'" "driver_ok w" "vring_ok (tx_ring i w')" "i < WIL6210_MAX_TX_RINGS"
  shows "driver_ok w'"
proof -
  obtain v b h l where e: "w' = w\<lparr>vring_tx := (vring_tx w)[i := v], ndev := (ndev w)\<lparr>nd_queues_stopped := b\<rparr>,
      skbs := h, klog := l\<rparr>"
    using assms(1) by (auto simp: xmit_frame_def)
  have "vring_ok v" using assms(3,4) driver_okD(6) [OF assms(2)] by (simp add: e tx_ring_def)
  then have "\<forall>u \<in> set ((vring_tx w)[i := v]). ring_off_or_ok u"
    using assms(2) set_update_subset_insert [of "vring_tx w" i v] by (auto simp: driver_ok_def ring_off_or_ok_def)
  then show ?thesis
    using assms(2) by (simp add: e driver_ok_defs)
qed

lemma active_ring_ok:
  assumes "driver_ok w" "i < WIL6210_MAX_TX_RINGS" "vr_va (vring_tx w ! i) \<noteq> None"
  shows "i < length (vring_tx w)" "vring_ok (tx_ring i w)"
  using driver_okD(4) [OF assms(1,2)] driver_okD(6) [OF assms(1)] assms(2,3)
  by (simp_all add: ring_off_or_ok_def tx_ring_def del: not_None_eq)

lemma tx_vring_sends:
  assumes "driver_ok w" "i < WIL6210_MAX_TX_RINGS" "vr_va (vring_tx w ! i) \<noteq> None"
  shows "\<exists>rc w'. wil_tx_vring dma i p w = Some (rc, w') \<and> driver_ok w' \<and> xmit_frame p i w w' \<and>
    refs_taken i rc p w w'"
proof -
  obtain rc w' where 1: "wil_tx_vring dma i p w = Some (rc, w')" "vring_ok (tx_ring i w')"
    "refs_taken i rc p w w'"
  proof -
    obtain rc w' where t: "wil_tx_vring dma i p w = Some (rc, w')" "vring_ok (tx_ring i w')"
      "rc = None \<longrightarrow> tx_posted (tx_ring i w') = tx_posted (tx_ring i w) @ replicate (length (skb_frags (skbs w p)) + 1) (Some p) \<and>
        skb_users (skbs w' p) = skb_users (skbs w p) + length (skb_frags (skbs w p)) + 1"
      "rc \<noteq> None \<longrightarrow> (\<forall>q. skb_users (skbs w' q) = skb_users (skbs w q))"
      using wil_tx_vring_ok [OF active_ring_ok [OF assms], of dma p] by blast
    have "refs_taken i rc p w w'"
    proof (cases rc)
      case None
      let ?k = "length (skb_frags (skbs w p)) + 1"
      have "0 < ?k \<and> tx_posted (tx_ring i w') = tx_posted (tx_ring i w) @ replicate ?k (Some p) \<and>
          skb_users (skbs w' p) = skb_users (skbs w p) + ?k" using t(3) None by simp
      then show ?thesis unfolding refs_taken_def if_P [OF None] by (rule exI)
    qed (use t(4) in \<open>simp add: refs_taken_def\<close>)
    then show thesis using that t(1,2) by blast
  qed
  then show ?thesis using wil_tx_vring_frame [OF 1(1)] driver_ok_xmit assms(1,2) by blast
qed

text \<open>
  Segmentation works for buffers with a fragment whose linear data behind the headers is at most one
  segment.
\<close>

definition gso_fits :: "sk_buff \<Rightarrow> bool" where
  "gso_fits s \<longleftrightarrow> skb_gso_size s \<noteq> 0 \<longrightarrow>
     skb_frags s \<noteq> [] \<and> int (skb_headlen s) - int (tso_hdrlen s) \<le> int (unat (skb_gso_size s))"

lemma tx_tso_sends:
  assumes "driver_ok w" "i < WIL6210_MAX_TX_RINGS" "vr_va (vring_tx w ! i) \<noteq> None"
    and "gso_fits (skbs w p)" "skb_gso_size (skbs w p) \<noteq> 0"
  shows "\<exists>rc w'. wil_tx_vring_tso dma i p w = Some (rc, w') \<and> driver_ok w' \<and> xmit_frame p i w w' \<and>
    refs_taken i rc p w w'"
proof -
  note r = active_ring_ok [OF assms(1-3)]
  let ?avail = "wil_vring_avail_tx (tx_ring i w)" and ?n = "length (skb_frags (skbs w p))"
  have n: "1 \<le> ?n" using assms(4,5) by (cases "skb_frags (skbs w p)") (simp_all add: gso_fits_def)
  have "\<exists>rc w'. wil_tx_vring_tso dma i p w = Some (rc, w') \<and> vring_ok (tx_ring i w') \<and> refs_taken i rc p w w'"
  proof (cases "?avail < int (?n * 3 + 1)")
    case True
    then have "wil_tx_vring_tso dma i p w = Some (Some ENOMEM, tx_stop_if_low (tx_ring i w) w)"
      by (simp add: wil_tx_vring_tso_def Let_def tx_ring_def)
    then show ?thesis using r(2) by (simp add: refs_taken_def tx_stop_frame tx_ring_def)
  next
    case False
    have g: "0 < skb_gso_size (skbs w p)" using assms(5) by (simp add: word_gt_0)
    have "2 \<le> ?avail" using False n by simp
    then obtain x where "wil_tx_vring_tso dma i p w = Some x" "tx_outcome i p w x"
      using wil_tx_vring_tso_ok [OF r g, of dma] assms(4,5) by (auto simp: gso_fits_def)
    then show ?thesis
      by (cases x) (fastforce simp: tx_outcome_def users_grow_def refs_taken_def split: if_splits)
  qed
  then obtain rc w' where 1: "wil_tx_vring_tso dma i p w = Some (rc, w')" "vring_ok (tx_ring i w')"
    "refs_taken i rc p w w'" by blast
  then show ?thesis using wil_tx_vring_tso_frame [OF 1(1)] driver_ok_xmit assms(1,2) by blast
qed

subsection \<open>Broadcast\<close>

lemma set_da_ok:
  assumes "driver_ok w" "ring_cids_ok w" "i < WIL6210_MAX_TX_RINGS" "6 \<le> length (skb_data (skbs w q))"
  shows "\<exists>data. wil_set_da_for_vring q i w = Some (upd_skb q (\<lambda>s. s\<lparr>skb_data := data\<rparr>) w) \<and>
    length data = length (skb_data (skbs w q))"
proof -
  let ?cid = "unat (fst (vring2cid_tid w ! i))"
  have c: "?cid < WIL6210_MAX_CID" using assms(2,3) by (simp add: ring_cids_ok_def)
  then have "length (sta_addr (sta w ! ?cid)) = 6"
    using driver_okD(1,5) [OF assms(1)] by (simp add: wil_arrays_ok_def)
  then show ?thesis
    using c assms(4)
    by (intro exI [of _ "sta_addr (sta w ! ?cid) @ drop 6 (skb_data (skbs w q))"])
      (simp add: wil_set_da_for_vring_def Let_def)
qed

text \<open>What the copies for the rings behind \<open>k\<close> leave alone.\<close>

definition bcast_kept :: "skb_ptr \<Rightarrow> nat \<Rightarrow> wil6210_priv \<Rightarrow> wil6210_priv \<Rightarrow> bool" where
  "bcast_kept p k w w' \<longleftrightarrow> driver_ok w' \<and> skbs w' p = skbs w p \<and> vring2cid_tid w' = vring2cid_tid w \<and>
     nd_tx_dropped (ndev w') = nd_tx_dropped (ndev w) \<and> (\<forall>j \<le> k. vring_tx w' ! j = vring_tx w ! j)"

lemma bcast_kept_trans: "bcast_kept p k w w1 \<Longrightarrow> bcast_kept p k w1 w2 \<Longrightarrow> bcast_kept p k w w2"
  by (simp add: bcast_kept_def)

lemma bcast_kept_skb:
  "driver_ok w \<Longrightarrow> q \<noteq> p \<Longrightarrow> bcast_kept p k w (upd_skb q f w)"
  by (simp add: bcast_kept_def upd_skb_def)

lemma xmit_frame_kept:
  assumes "xmit_frame q i w w'" "driver_ok w'" "q \<noteq> p" "k < i"
  shows "bcast_kept p k w w'"
  using assms by (auto simp: bcast_kept_def xmit_frame_def)

definition copies_ok :: "xmit_env \<Rightarrow> skb_ptr \<Rightarrow> bool" where
  "copies_ok env p \<longleftrightarrow> (\<forall>i s q s'. xe_copy env i s = Some (q, s') \<longrightarrow> q \<noteq> p \<and> length (skb_data s) \<le> length (skb_data s'))"

lemma bcast_copy_ok:
  assumes "driver_ok w" "ring_cids_ok w" "copies_ok env p" "k < i" "i < WIL6210_MAX_TX_RINGS"
    and "6 \<le> length (skb_data (skbs w p))"
  shows "\<exists>w'. bcast_copy env u p i w = Some w' \<and> bcast_kept p k w w'"
proof (cases "vr_va (vring_tx w ! i) = None \<or> xe_copy env i (skbs w p) = None")
  case True
  then show ?thesis using assms(1) by (auto simp: bcast_copy_def bcast_kept_def)
next
  case False
  then obtain q s where c: "xe_copy env i (skbs w p) = Some (q, s)" by auto
  then have q: "q \<noteq> p" "6 \<le> length (skb_data s)"
    using assms(3,6) by (fastforce simp: copies_ok_def)+
  let ?w = "upd_skb q (\<lambda>_. s) w"
  have 1: "bcast_kept p k w ?w" "driver_ok ?w" "ring_cids_ok ?w" "6 \<le> length (skb_data (skbs ?w q))"
    using bcast_kept_skb [OF assms(1) q(1)] assms(1,2) q(2)
    by (simp_all add: ring_cids_ok_def upd_skb_def)
  obtain w1 where w1: "(if u then wil_set_da_for_vring q i ?w else Some ?w) = Some w1" "bcast_kept p k ?w w1"
    "vring_tx w1 = vring_tx w"
  proof (cases u)
    case True
    then show thesis
      using that set_da_ok [OF 1(2,3) assms(5) 1(4)] bcast_kept_skb [OF 1(2) q(1)]
      by (auto simp: upd_skb_def)
  qed (use that 1 in \<open>simp add: bcast_kept_def upd_skb_def\<close>)
  have "driver_ok w1" using w1(2) by (simp add: bcast_kept_def)
  moreover have "vr_va (vring_tx w1 ! i) \<noteq> None" using False w1(3) by simp
  ultimately obtain rc w2 where w2: "wil_tx_vring (xe_dma env i) i q w1 = Some (rc, w2)" "driver_ok w2"
    "xmit_frame q i w1 w2"
    using tx_vring_sends [of w1 i "xe_dma env i" q] assms(5) by blast
  have "bcast_kept p k w w2"
    using bcast_kept_trans [OF bcast_kept_trans [OF 1(1) w1(2)] xmit_frame_kept [OF w2(3,2) q(1) assms(4)]] .
  moreover have "bcast_copy env u p i w = Some w2"
    using False c w1(1) w2(1) by (simp add: bcast_copy_def Let_def del: not_None_eq)
  ultimately show ?thesis by blast
qed

lemma tx_bcast_ok:
  assumes "driver_ok w" "ring_cids_ok w" "copies_ok env p" "6 \<le> length (skb_data (skbs w p))"
  obtains i data w' where "wil_tx_bcast env p w = Some (Some i, w')" "i < WIL6210_MAX_TX_RINGS"
      "wil_find_first_tx_vring w = Some i" "tx_ring i w' = tx_ring i w"
      "vr_va (vring_tx w' ! i) \<noteq> None" "driver_ok w'" "nd_tx_dropped (ndev w') = nd_tx_dropped (ndev w)"
      "skbs w' p = (skbs w p)\<lparr>skb_data := data\<rparr>" "length data = length (skb_data (skbs w p))"
  | "wil_tx_bcast env p w = Some (None, w)"
proof (cases "wil_find_first_tx_vring w")
  case None
  then show thesis using that(2) by (simp add: wil_tx_bcast_def)
next
  case (Some i)
  then have i: "i < WIL6210_MAX_TX_RINGS" "vr_va (vring_tx w ! i) \<noteq> None"
    using driver_okD(6) [OF assms(1)] by (auto simp: wil_find_first_tx_vring_def find_index_Some)
  define u where "u = (wd_iftype (wdev w) \<notin> {NL80211_IFTYPE_STATION, NL80211_IFTYPE_P2P_CLIENT})"
  obtain data w1 where w1: "(if u then wil_set_da_for_vring p i w else Some w) = Some w1"
    "w1 = upd_skb p (\<lambda>s. s\<lparr>skb_data := data\<rparr>) w" "length data = length (skb_data (skbs w p))"
  proof (cases u)
    case True
    then show thesis using that set_da_ok [OF assms(1,2) i(1) assms(4)] by auto
  next
    case False
    have "w = upd_skb p (\<lambda>s. s\<lparr>skb_data := skb_data (skbs w p)\<rparr>) w" by (simp add: upd_skb_def)
    then show thesis using that [of w "skb_data (skbs w p)"] False by simp
  qed
  let ?P = "\<lambda>w'. bcast_kept p i w1 w'"
  have "bcast_kept p i w1 w1" "ring_cids_ok w1"
    using assms(1,2) by (simp_all add: w1(2) upd_skb_def bcast_kept_def ring_cids_ok_def)
  moreover have "\<exists>w3. bcast_copy env u p j w2 = Some w3 \<and> ?P w3" if "j \<in> set [i + 1..<WIL6210_MAX_TX_RINGS]" "?P w2" for j w2
  proof -
    have "driver_ok w2" "ring_cids_ok w2"
      using that(2) \<open>ring_cids_ok w1\<close> by (simp_all add: bcast_kept_def ring_cids_ok_def)
    moreover have "i < j" "j < WIL6210_MAX_TX_RINGS" using that(1) by simp_all
    moreover have "6 \<le> length (skb_data (skbs w2 p))"
      using that(2) assms(4) w1(3) by (simp add: bcast_kept_def w1(2) upd_skb_def)
    ultimately obtain w3 where "bcast_copy env u p j w2 = Some w3" "bcast_kept p i w2 w3"
      using bcast_copy_ok [of w2 env p i j u] assms(3) by blast
    then show ?thesis using bcast_kept_trans [OF that(2)] by blast
  qed
  ultimately obtain w' where w': "run_inputs (bcast_copy env u p) [i + 1..<WIL6210_MAX_TX_RINGS] w1 = Some w'" "?P w'"
    using run_inputs_keep [where P = ?P and step = "bcast_copy env u p"] by metis
  have "wil_tx_bcast env p w = Some (Some i, w')"
    unfolding wil_tx_bcast_def Let_def u_def [symmetric] using Some w1(1) w'(1) by simp
  then show thesis
    using that(1) [of i w' data] i w'(2) w1(2,3) Some by (simp add: bcast_kept_def upd_skb_def tx_ring_def)
qed

subsection \<open>The entry point\<close>

text \<open>
  What the network stack gives: a buffer with an Ethernet header; one for the firmware (EAPOL) has
  all its data in front.
\<close>

definition xmit_skb_ok :: "sk_buff \<Rightarrow> bool" where
  "xmit_skb_ok s \<longleftrightarrow> ETH_HLEN \<le> length (skb_data s) \<and> gso_fits s \<and>
     (skb_protocol s = ETH_P_PAE \<longrightarrow> skb_frags s = [] \<and> length (skb_data s) < 65536)"

text \<open>
  The ring of a frame: that of the peer the frame is for, the first one in use when the frame goes to
  a group.
\<close>

definition dest_ring :: "wil6210_priv \<Rightarrow> sk_buff \<Rightarrow> nat option" where
  "dest_ring w s =
     (let a = take 6 (skb_data s)
      in if is_unicast_ether_addr a then wil_find_tx_vring w a else wil_find_first_tx_vring w)"

text \<open>
  What is left of a sent frame: the firmware has a copy of an EAPOL frame, and the caller's reference
  is gone; any other frame fills slots of its ring, and each slot has a reference, the caller's one
  being among them.
\<close>

definition frame_sent :: "skb_ptr \<Rightarrow> wil6210_priv \<Rightarrow> wil6210_priv \<Rightarrow> bool" where
  "frame_sent p w w' \<longleftrightarrow>
     (if skb_protocol (skbs w p) = ETH_P_PAE
      then vring_tx w' = vring_tx w \<and> skb_users (skbs w' p) = skb_users (skbs w p) - 1
      else \<exists>i k. dest_ring w (skbs w p) = Some i \<and> 0 < k \<and>
        tx_posted (tx_ring i w') = tx_posted (tx_ring i w) @ replicate k (Some p) \<and>
        skb_users (skbs w' p) + 1 = skb_users (skbs w p) + k)"

definition xmit_outcome :: "skb_ptr \<Rightarrow> wil6210_priv \<Rightarrow> netdev_tx \<times> wil6210_priv \<Rightarrow> bool" where
  "xmit_outcome p w rw \<longleftrightarrow> driver_ok (snd rw) \<and>
     (case fst rw of
        NETDEV_TX_OK \<Rightarrow> frame_sent p w (snd rw) \<and>
          nd_tx_dropped (ndev (snd rw)) = nd_tx_dropped (ndev w)
      | NETDEV_TX_BUSY \<Rightarrow> skb_users (skbs (snd rw) p) = skb_users (skbs w p) \<and>
          nd_tx_dropped (ndev (snd rw)) = nd_tx_dropped (ndev w)
      | NET_XMIT_DROP \<Rightarrow> skb_users (skbs (snd rw) p) = skb_users (skbs w p) - 1 \<and>
          nd_tx_dropped (ndev (snd rw)) = nd_tx_dropped (ndev w) + 1)"

lemma xmit_drop_outcome:
  assumes "driver_ok w1" "skb_users (skbs w1 p) = skb_users (skbs w p)"
    "nd_tx_dropped (ndev w1) = nd_tx_dropped (ndev w)"
  shows "xmit_outcome p w (xmit_drop p w1)" "xmit_outcome p w (xmit_drop_err p w1)"
  using assms by (simp_all add: xmit_outcome_def xmit_drop_def xmit_drop_err_def dev_kfree_skb_def kfree_skb_def)

lemma xmit_result_outcome:
  assumes "driver_ok w1" "nd_tx_dropped (ndev w1) = nd_tx_dropped (ndev w)"
    and "if rc = None then frame_sent p w (dev_kfree_skb p w1)
      else skb_users (skbs w1 p) = skb_users (skbs w p)"
  shows "xmit_outcome p w (xmit_result rc p w1)"
proof -
  have "driver_ok (dev_kfree_skb p w1)" "ndev (dev_kfree_skb p w1) = ndev w1"
    using assms(1) by (simp_all add: dev_kfree_skb_def)
  then show ?thesis
    using assms xmit_drop_outcome(2) [of w1 p w]
    by (auto simp: xmit_result_def xmit_outcome_def split: if_splits)
qed

lemma tx_eapol_ok:
  assumes "driver_ok w" "xmit_skb_ok (skbs w p)" "skb_protocol (skbs w p) = ETH_P_PAE"
  shows "\<exists>rc w'. wmi_tx_eapol env p w = Some (rc, w') \<and> send_frame w w'"
proof -
  let ?s = "skbs w p"
  let ?data = "skb_data ?s"
  have l: "ETH_HLEN \<le> length ?data" "skb_len ?s = length ?data" "length ?data < 65536"
    using assms(2,3) by (auto simp: xmit_skb_ok_def skb_len_def)
  have h: "rd_bytes 0 6 ?data = Some (take 6 ?data)" using l(1) by (simp add: rd_bytes_def ETH_HLEN_def)
  have "of_nat (skb_len ?s) - of_nat ETH_HLEN = (of_nat (length ?data - ETH_HLEN) :: u16)"
    using l(1,2) by (simp add: of_nat_diff)
  then have e: "unat (of_nat (skb_len ?s) - of_nat ETH_HLEN :: u16) = length ?data - ETH_HLEN"
    using l(3) by (simp add: unat_of_nat)
  have r: "rd_bytes ETH_HLEN (unat (of_nat (skb_len ?s) - of_nat ETH_HLEN :: u16)) ?data =
      Some (drop ETH_HLEN ?data)"
    using l(1) unfolding e by (simp add: rd_bytes_def)
  have t: "tx_mbox_ok (mbox_tx (tick w))" using driver_okD(3) [OF assms(1)] by (simp add: tick_def)
  show ?thesis
    using wmi_send_ok [OF t] h r send_frame_trans [of w "tick w"]
    by (simp add: wmi_tx_eapol_def kmalloc_def Let_def) (metis io_frame_step(1) io_send_frame send_frame_refl)
qed

lemma send_frame_skbs:
  assumes "send_frame w w'"
  shows "skbs w' = skbs w" "ndev w' = ndev w" "vring_tx w' = vring_tx w"
proof -
  have 1: "w' = w\<lparr>mbox_tx := mbox_tx w', wmi_seq := wmi_seq w', klog := klog w', io_clock := io_clock w'\<rparr>"
    using assms by (simp add: send_frame_def)
  show "skbs w' = skbs w" "ndev w' = ndev w" "vring_tx w' = vring_tx w" by (subst 1, simp)+
qed

lemma find_tx_vring_active:
  assumes "wil_find_tx_vring w a = Some i" "driver_ok w"
  shows "i < WIL6210_MAX_TX_RINGS" "vr_va (vring_tx w ! i) \<noteq> None"
  using assms driver_okD(1) [OF assms(2)]
  by (auto simp: wil_find_tx_vring_def find_index_Some wil_arrays_ok_def Option.bind_eq_Some_conv
      split: if_splits)

text \<open>The chosen sender on a chosen ring.\<close>

lemma xmit_ring_outcome:
  assumes "driver_ok w1" "i < WIL6210_MAX_TX_RINGS" "vr_va (vring_tx w1 ! i) \<noteq> None" "gso_fits (skbs w1 p)"
    and "nd_tx_dropped (ndev w1) = nd_tx_dropped (ndev w)" "skb_users (skbs w1 p) = skb_users (skbs w p)"
    and "skb_protocol (skbs w p) \<noteq> ETH_P_PAE" "dest_ring w (skbs w p) = Some i" "tx_ring i w1 = tx_ring i w"
  shows "\<exists>rw. do {
      (rc, w) \<leftarrow> (if skb_gso_size (skbs w1 p) \<noteq> 0
        then wil_tx_vring_tso dma i p w1 else wil_tx_vring dma i p w1);
      Some (xmit_result rc p w) } = Some rw \<and> xmit_outcome p w rw"
proof -
  obtain rc w2 where 1: "(if skb_gso_size (skbs w1 p) \<noteq> 0
      then wil_tx_vring_tso dma i p w1 else wil_tx_vring dma i p w1) = Some (rc, w2)"
    "driver_ok w2" "xmit_frame p i w1 w2" "refs_taken i rc p w1 w2"
  proof (cases "skb_gso_size (skbs w1 p) = 0")
    case True
    then show thesis using that tx_vring_sends [OF assms(1-3), of dma p] by auto
  next
    case False
    then show thesis using that tx_tso_sends [OF assms(1-4) False, of dma] by auto
  qed
  have "nd_tx_dropped (ndev w2) = nd_tx_dropped (ndev w)"
    using 1(3) assms(5) by (auto simp: xmit_frame_def)
  moreover have "if rc = None then frame_sent p w (dev_kfree_skb p w2)
      else skb_users (skbs w2 p) = skb_users (skbs w p)"
  proof (cases rc)
    case None
    then obtain k where "k > 0" "tx_posted (tx_ring i w2) = tx_posted (tx_ring i w) @ replicate k (Some p)"
      "skb_users (skbs w2 p) = skb_users (skbs w p) + k"
      using 1(4) assms(6,9) by (auto simp: refs_taken_def)
    then have "frame_sent p w (dev_kfree_skb p w2)"
      unfolding frame_sent_def using assms(7,8)
      by (auto simp: tx_ring_def dev_kfree_skb_def kfree_skb_def)
    then show ?thesis using None by simp
  qed (use 1(4) assms(6) in \<open>simp add: refs_taken_def\<close>)
  ultimately have "xmit_outcome p w (xmit_result rc p w2)" using xmit_result_outcome [OF 1(2)] by blast
  then show ?thesis using 1(1) by (simp split: if_splits)
qed

lemma wil_start_xmit_ok:
  assumes "driver_ok w" "ring_cids_ok w" "copies_ok env p" "xmit_skb_ok (skbs w p)"
  shows "\<exists>rw. wil_start_xmit env p w = Some rw \<and> xmit_outcome p w rw"
proof -
  let ?s = "skbs w p"
  have h: "rd_bytes 0 6 (skb_data ?s) = Some (take 6 (skb_data ?s))" "6 \<le> length (skb_data ?s)"
    using assms(4) by (simp_all add: xmit_skb_ok_def rd_bytes_def ETH_HLEN_def)
  have gso: "gso_fits ?s" using assms(4) by (simp add: xmit_skb_ok_def)
  consider "\<not> test_bit wil_status_fwready (wstatus w) \<or> \<not> test_bit wil_status_fwconnected (wstatus w) \<or>
      wd_iftype (wdev w) = NL80211_IFTYPE_MONITOR"
    | (go) "test_bit wil_status_fwready (wstatus w)" "test_bit wil_status_fwconnected (wstatus w)"
      "wd_iftype (wdev w) \<noteq> NL80211_IFTYPE_MONITOR" by blast
  then show ?thesis
  proof cases
    case 1
    then have "wil_start_xmit env p w = Some (xmit_drop p w)" by (auto simp: wil_start_xmit_def)
    then show ?thesis using xmit_drop_outcome(1) [OF assms(1) refl refl] by blast
  next
    case go
    show ?thesis
    proof (cases "skb_protocol ?s = ETH_P_PAE")
      case True
      obtain rc w1 where e: "wmi_tx_eapol (xe_wmi env) p w = Some (rc, w1)" "send_frame w w1"
        using tx_eapol_ok [OF assms(1,4) True] by blast
      have "xmit_outcome p w (xmit_result rc p w1)"
        by (rule xmit_result_outcome) (use driver_ok_send_frame [OF e(2) assms(1)] send_frame_skbs [OF e(2)] True in
          \<open>auto simp: frame_sent_def dev_kfree_skb_def kfree_skb_def\<close>)
      then show ?thesis using go True e(1) by (simp add: wil_start_xmit_def)
    next
      case False
      show ?thesis
      proof (cases "is_unicast_ether_addr (take 6 (skb_data ?s))")
        case True
        show ?thesis
        proof (cases "wil_find_tx_vring w (take 6 (skb_data ?s))")
          case None
          then show ?thesis
            using go False True h(1) xmit_drop_outcome(1) [OF assms(1) refl refl]
            by (simp add: wil_start_xmit_def)
        next
          case (Some i)
          then show ?thesis
            using go False True h(1)
              xmit_ring_outcome [OF assms(1) find_tx_vring_active [OF Some assms(1)] gso refl refl False _ refl, of "xe_dma env i"]
            by (simp add: wil_start_xmit_def dest_ring_def)
        qed
      next
        case bcast: False
        show ?thesis
        proof (rule tx_bcast_ok [OF assms(1-3) h(2)])
          fix i data w1
          assume 1: "wil_tx_bcast env p w = Some (Some i, w1)" "i < WIL6210_MAX_TX_RINGS"
            "vr_va (vring_tx w1 ! i) \<noteq> None" "driver_ok w1" "nd_tx_dropped (ndev w1) = nd_tx_dropped (ndev w)"
            "skbs w1 p = ?s\<lparr>skb_data := data\<rparr>" "length data = length (skb_data ?s)"
            and f: "wil_find_first_tx_vring w = Some i" "tx_ring i w1 = tx_ring i w"
          have "gso_fits (skbs w1 p)"
            using gso 1(6,7) by (simp add: gso_fits_def skb_headlen_def tso_hdrlen_def)
          moreover have "skb_users (skbs w1 p) = skb_users ?s" by (simp add: 1(6))
          ultimately show ?thesis
            using go False bcast h(1) 1(1) xmit_ring_outcome [OF 1(4,2,3) _ 1(5) _ False _ f(2), of "xe_dma env i"] f(1)
            by (simp add: wil_start_xmit_def dest_ring_def)
        next
          assume "wil_tx_bcast env p w = Some (None, w)"
          then show ?thesis
            using go False bcast h(1) xmit_drop_outcome(2) [OF assms(1) refl refl]
            by (simp add: wil_start_xmit_def)
        qed
      qed
    qed
  qed
qed

end
