(* ===== verification/Wil_Xmit_Props.thy ===== *)
theory Wil_Xmit_Props
  imports Wil_Xmit_Correct Wil_Tso_Props Wil_Ring_Init
begin






end
