(* ===== verification/Wil_Main.thy ===== *)
theory Wil_Main
  imports Wil_Ring_Init Wil_Irq
begin

text \<open>
  The life cycle of the driver (\<^verbatim>\<open>main.c\<close>): its private state and work queues, the reset
  of the device, and the interface going up and down.
\<close>

subsection \<open>The environment\<close>

text \<open>
  \<open>mn_evt\<close> is the world of the event worker, which runs while a caller of the firmware waits;
  \<open>mn_boot\<close> is what interrupts and workers do while the driver waits for a firmware that starts;
  \<open>mn_rx\<close> and \<open>mn_rx_mem\<close> are the buffers and the memory of an Rx ring, \<open>mn_tx_mem\<close> the memory of
  the Tx ring a pending connection asks for, \<open>mn_stack\<close> what uninitialised replies hold.
\<close>

record main_env =
  mn_cor :: bool
  mn_evt :: evt_env
  mn_boot :: "wil6210_priv \<Rightarrow> wil6210_priv option"
  mn_rx :: rx_env
  mn_rx_mem :: ring_mem
  mn_tx_mem :: ring_mem
  mn_stack :: "u8 list"

definition mn_call :: "main_env \<Rightarrow> call_env" where
  "mn_call env = worker_env (mn_evt env)"

definition mn_wmi :: "main_env \<Rightarrow> wmi_env" where
  "mn_wmi env = ee_wmi (mn_evt env)"

definition mn_netif_ok :: "main_env \<Rightarrow> skb_ptr \<Rightarrow> bool" where
  "mn_netif_ok env = ee_netif_ok (mn_evt env)"

subsection \<open>The private state\<close>

definition create_singlethread_workqueue ::
  "wmi_env \<Rightarrow> workqueue \<Rightarrow> wil6210_priv \<Rightarrow> bool \<times> wil6210_priv" where
  "create_singlethread_workqueue env q w =
     (let (ok, w) = kmalloc env w in (ok, if ok then klog_add (WqCreate q) w else w))"

definition destroy_workqueue :: "workqueue \<Rightarrow> wil6210_priv \<Rightarrow> wil6210_priv" where
  "destroy_workqueue q w = klog_add (WqDestroy q) w"

definition priv_fields_init :: "wil6210_priv \<Rightarrow> wil6210_priv" where
  "priv_fields_init w =
     w\<lparr>sta := replicate WIL6210_MAX_CID zero_sta, wmi_ready := 0, pending_connect_cid := -1,
       connect_timer := False, connect_queued := False, pending_wmi_ev := [], back_pending := []\<rparr>"

definition wil_priv_init :: "wmi_env \<Rightarrow> wil6210_priv \<Rightarrow> errno option \<times> wil6210_priv" where
  "wil_priv_init env w =
     (let w = priv_fields_init w;
          (ok, w) = create_singlethread_workqueue env wmi_wq w
      in if \<not> ok then (Some EAGAIN, w)
         else
           let (ok, w) = create_singlethread_workqueue env wmi_wq_conn w
           in if \<not> ok then (Some EAGAIN, destroy_workqueue wmi_wq w)
              else
                let (ok, w) = create_singlethread_workqueue env back_wq w
                in if \<not> ok then (Some EAGAIN, destroy_workqueue wmi_wq (destroy_workqueue wmi_wq_conn w))
                   else
                     let (ok, w) = create_singlethread_workqueue env roc_wq w
                     in if \<not> ok
                        then (Some EAGAIN, destroy_workqueue wmi_wq (destroy_workqueue wmi_wq_conn w))
                        else (None, w))"

definition cancel_work_sync :: "work_struct \<Rightarrow> wil6210_priv \<Rightarrow> wil6210_priv" where
  "cancel_work_sync work w = klog_add (CancelWork work) w"

definition wil_priv_deinit ::
  "(skb_ptr \<Rightarrow> bool) \<Rightarrow> wmi_env \<Rightarrow> wil6210_priv \<Rightarrow> wil6210_priv option" where
  "wil_priv_deinit ok env w = do {
     w \<leftarrow> wil6210_disconnect ok env None (cancel_work_sync disconnect_worker w);
     let w = wil_back_flush (wmi_event_flush w);
     Some (destroy_workqueue back_wq (destroy_workqueue wmi_wq
       (destroy_workqueue wmi_wq_conn (destroy_workqueue roc_wq w))))
   }"

subsection \<open>Reset\<close>

definition RGF_USER_CLKS_CTL_SW_RST_MASK_0 :: u32 where "RGF_USER_CLKS_CTL_SW_RST_MASK_0 = 0x880b14"
definition RGF_USER_MAC_CPU_0 :: u32 where "RGF_USER_MAC_CPU_0 = 0x8801fc"
definition RGF_USER_USER_CPU_0 :: u32 where "RGF_USER_USER_CPU_0 = 0x8801e0"
definition RGF_USER_CLKS_CTL_SW_RST_VEC_0 :: u32 where "RGF_USER_CLKS_CTL_SW_RST_VEC_0 = 0x880b04"
definition RGF_USER_CLKS_CTL_SW_RST_VEC_1 :: u32 where "RGF_USER_CLKS_CTL_SW_RST_VEC_1 = 0x880b08"
definition RGF_USER_CLKS_CTL_SW_RST_VEC_2 :: u32 where "RGF_USER_CLKS_CTL_SW_RST_VEC_2 = 0x880b0c"
definition RGF_USER_CLKS_CTL_SW_RST_VEC_3 :: u32 where "RGF_USER_CLKS_CTL_SW_RST_VEC_3 = 0x880b10"

text \<open>The macros \<open>W\<close> (write) and \<open>S\<close> (read, or, write) of the reset.\<close>

definition reg_W :: "u32 \<times> u32 \<Rightarrow> wil6210_priv \<Rightarrow> wil6210_priv" where
  "reg_W av w = (case av of (a, v) \<Rightarrow> iowrite32 v (HOSTADDR a) w)"

definition reg_S :: "wmi_env \<Rightarrow> u32 \<Rightarrow> u32 \<Rightarrow> wil6210_priv \<Rightarrow> wil6210_priv" where
  "reg_S env a v w = (let (x, w) = ioread32 env (HOSTADDR a) w in iowrite32 (x OR v) (HOSTADDR a) w)"

definition wil_target_reset :: "wmi_env \<Rightarrow> wil6210_priv \<Rightarrow> wil6210_priv" where
  "wil_target_reset env w =
     (let w = reg_S env RGF_USER_CLKS_CTL_SW_RST_MASK_0 (BIT 6) w;
          w = reg_S env RGF_USER_CLKS_CTL_SW_RST_MASK_0 (BIT 7) w
      in fold reg_W
          [(RGF_USER_MAC_CPU_0, BIT 1), (RGF_USER_USER_CPU_0, BIT 1),
           (RGF_USER_CLKS_CTL_SW_RST_VEC_2, 0xFE000000), (RGF_USER_CLKS_CTL_SW_RST_VEC_1, 0x0000003F),
           (RGF_USER_CLKS_CTL_SW_RST_VEC_3, 0x00000170), (RGF_USER_CLKS_CTL_SW_RST_VEC_0, 0xFFE7FC00),
           (RGF_USER_CLKS_CTL_SW_RST_VEC_3, 0), (RGF_USER_CLKS_CTL_SW_RST_VEC_2, 0),
           (RGF_USER_CLKS_CTL_SW_RST_VEC_1, 0), (RGF_USER_CLKS_CTL_SW_RST_VEC_0, 0),
           (RGF_USER_CLKS_CTL_SW_RST_VEC_3, 0x00000003), (RGF_USER_CLKS_CTL_SW_RST_VEC_2, 0x00008080),
           (RGF_USER_CLKS_CTL_SW_RST_VEC_0, 0)] w)"

definition wil_wait_for_fw_ready :: "main_env \<Rightarrow> wil6210_priv \<Rightarrow> (errno option \<times> wil6210_priv) option" where
  "wil_wait_for_fw_ready env w = do {
     w \<leftarrow> mn_boot env w;
     Some (wait_for_wmi_ready w)
   }"

text \<open>Waiting for the work queues runs what is queued on them.\<close>

definition flush_workqueue :: "main_env \<Rightarrow> workqueue \<Rightarrow> wil6210_priv \<Rightarrow> wil6210_priv option" where
  "flush_workqueue env q w =
     (case q of
        wmi_wq_conn \<Rightarrow>
          if connect_queued w then wil_connect_worker (mn_call env) (mn_stack env) (mn_tx_mem env) w
          else Some w
      | wmi_wq \<Rightarrow> wmi_event_worker (mn_evt env) w
      | back_wq \<Rightarrow> wil_back_worker (mn_netif_ok env) (mn_call env) (mn_stack env) w
      | roc_wq \<Rightarrow> Some w)"

definition wil_reset :: "main_env \<Rightarrow> wil6210_priv \<Rightarrow> (errno option \<times> wil6210_priv) option" where
  "wil_reset env w = do {
     w \<leftarrow> wil6210_disconnect (mn_netif_ok env) (mn_wmi env) None (cancel_work_sync disconnect_worker w);
     let w = (wil6210_disable_irq w)\<lparr>wstatus := 0\<rparr>;
     let w = wmi_event_flush w;
     w \<leftarrow> flush_workqueue env wmi_wq_conn w;
     w \<leftarrow> flush_workqueue env wmi_wq w;
     w \<leftarrow> flush_workqueue env back_wq w;
     let w = wil_target_reset (mn_wmi env) w;
     let w = w\<lparr>pending_connect_cid := -1, wmi_ready := 0\<rparr>;
     wil_wait_for_fw_ready env (wil6210_enable_irq (mn_cor env) w)
   }"

subsection \<open>Up and down\<close>

definition IEEE80211_MAX_SSID_LEN :: nat where "IEEE80211_MAX_SSID_LEN = 32"

definition set_nd_type :: "u16 \<Rightarrow> wil6210_priv \<Rightarrow> wil6210_priv" where
  "set_nd_type t w = w\<lparr>ndev := (ndev w)\<lparr>nd_type := t\<rparr>\<rparr>"

text \<open>The link type the network stack sees.\<close>

definition up_type :: "nl80211_iftype \<Rightarrow> u16" where
  "up_type t = (if t = NL80211_IFTYPE_MONITOR then ARPHRD_IEEE80211_RADIOTAP else ARPHRD_ETHER)"

definition up_supported :: "nl80211_iftype \<Rightarrow> bool" where
  "up_supported t \<longleftrightarrow> t \<in> {NL80211_IFTYPE_STATION, NL80211_IFTYPE_AP, NL80211_IFTYPE_P2P_CLIENT,
     NL80211_IFTYPE_P2P_GO, NL80211_IFTYPE_MONITOR}"

definition up_ssid :: "main_env \<Rightarrow> wil6210_priv \<Rightarrow> (errno option \<times> wil6210_priv) option" where
  "up_ssid env w =
     (let ssid = wd_ssid (wdev w)
      in if wd_iftype (wdev w) \<in> {NL80211_IFTYPE_AP, NL80211_IFTYPE_P2P_GO} \<and>
           0 < length ssid \<and> length ssid \<le> IEEE80211_MAX_SSID_LEN
         then wmi_set_ssid (mn_wmi env) (of_nat (length ssid)) ssid w else Some (None, w))"

definition do_wil_up :: "main_env \<Rightarrow> wil6210_priv \<Rightarrow> (errno option \<times> wil6210_priv) option" where
  "do_wil_up env w = do {
     (rc, w) \<leftarrow> wil_reset env w;
     (if rc \<noteq> None then Some (rc, w)
      else do {
        (rc, w) \<leftarrow> wil_rx_init (mn_call env) (mn_rx env) (mn_stack env) (mn_rx_mem env) w;
        (if rc \<noteq> None then Some (rc, w)
         else if \<not> up_supported (wd_iftype (wdev w)) then Some (Some EOPNOTSUPP, w)
         else do {
           let w = set_nd_type (up_type (wd_iftype (wdev w))) w;
           (rc, w) \<leftarrow> up_ssid env w;
           (if rc \<noteq> None then Some (rc, w)
            else do {
              (_, w) \<leftarrow> wmi_set_mac_address (mn_wmi env) (nd_addr (ndev w)) w;
              Some (None, klog_add NapiEnable (klog_add NapiEnable w))
            })
         })
      })
   }"

definition wil_up :: "main_env \<Rightarrow> wil6210_priv \<Rightarrow> (errno option \<times> wil6210_priv) option" where
  "wil_up env w = do_wil_up env w"

definition do_wil_down ::
  "(skb_ptr \<Rightarrow> bool) \<Rightarrow> wmi_env \<Rightarrow> wil6210_priv \<Rightarrow> (errno option \<times> wil6210_priv) option" where
  "do_wil_down ok env w = do {
     let w = klog_add NapiDisable (klog_add NapiDisable w);
     let w = (if scan_request w \<noteq> None
       then (klog_add (Cfg80211ScanDone True) w)\<lparr>scan_request := None\<rparr> else w);
     w \<leftarrow> wil6210_disconnect ok env None w;
     w \<leftarrow> wil_rx_fini w;
     Some (None, w)
   }"

definition wil_down ::
  "(skb_ptr \<Rightarrow> bool) \<Rightarrow> wmi_env \<Rightarrow> wil6210_priv \<Rightarrow> (errno option \<times> wil6210_priv) option" where
  "wil_down ok env w = do_wil_down ok env w"

end
