(* ===== verification/Wil_Main_Correct.thy ===== *)
theory Wil_Main_Correct
  imports Wil_Main
begin

text \<open>
  What the life cycle does: a driver whose firmware is not ready refuses every command, so that the
  queued work that a reset waits for ends at once; a reset leaves nothing pending; the interface
  comes up or the error is returned, and goes down.
\<close>

subsection \<open>Commands to a firmware that is not ready\<close>

lemma wmi_send_down:
  assumes "tx_mbox_ok (mbox_tx w)" "\<not> test_bit wil_status_fwready (wstatus w)"
  shows "\<exists>e w'. wmi_send env cmdid buf w = Some (Some e, w') \<and> send_frame w w'"
proof -
  obtain rc w' where 1: "wmi_send env cmdid buf w = Some (rc, w')" "send_frame w w'"
    "rc = None \<longrightarrow> test_bit wil_status_fwready (wstatus w)"
    using do_wmi_send_ok [OF assms(1), of env cmdid buf "of_nat (length buf)"] unfolding wmi_send_def by blast
  then show ?thesis using assms(2) by (cases rc) auto
qed

lemma wmi_call_down:
  assumes "tx_mbox_ok (mbox_tx w)" "\<not> test_bit wil_status_fwready (wstatus w)"
  shows "\<exists>e w'. wmi_call env cmdid buf rid reply w = Some (Some e, reply, w') \<and> send_frame w w'"
  using wmi_send_down [OF assms, of "cc_wmi env" cmdid buf] by (auto simp: wmi_call_def)

lemma send_frame_fields:
  assumes "send_frame w w'"
  shows "wstatus w' = wstatus w" "tx_mbox_ok (mbox_tx w') = tx_mbox_ok (mbox_tx w)" "sta w' = sta w"
    "vring_tx w' = vring_tx w" "vring_rx w' = vring_rx w" "pending_wmi_ev w' = pending_wmi_ev w"
    "back_pending w' = back_pending w" "connect_queued w' = connect_queued w" "wdev w' = wdev w"
    "connect_timer w' = connect_timer w" "wmi_ready w' = wmi_ready w" "ndev w' = ndev w"
    "scan_request w' = scan_request w" "roc w' = roc w" "roc_counter w' = roc_counter w"
    "skbs w' = skbs w"
proof -
  have eq: "w' = w\<lparr>mbox_tx := mbox_tx w', wmi_seq := wmi_seq w', klog := klog w', io_clock := io_clock w'\<rparr>"
    and sz: "tx_mbox_ok (mbox_tx w') = tx_mbox_ok (mbox_tx w)" using assms by (simp_all add: send_frame_def)
  show "tx_mbox_ok (mbox_tx w') = tx_mbox_ok (mbox_tx w)" by (rule sz)
  show "wstatus w' = wstatus w" "sta w' = sta w"
    "vring_tx w' = vring_tx w" "vring_rx w' = vring_rx w" "pending_wmi_ev w' = pending_wmi_ev w"
    "back_pending w' = back_pending w" "connect_queued w' = connect_queued w" "wdev w' = wdev w"
    "connect_timer w' = connect_timer w" "wmi_ready w' = wmi_ready w" "ndev w' = ndev w"
    "scan_request w' = scan_request w" "roc w' = roc w" "roc_counter w' = roc_counter w"
    "skbs w' = skbs w"
    by (subst eq, simp)+
qed

lemma addba_resp_down:
  assumes "tx_mbox_ok (mbox_tx w)" "\<not> test_bit wil_status_fwready (wstatus w)"
  shows "\<exists>e w'. wmi_rcp_addba_resp env stack cid tid token st amsdu sz tmo w = Some (Some e, w') \<and> send_frame w w'"
proof -
  let ?cmd = "wmi_rcp_addba_resp_cmd (mk_cidxtid cid tid) token st (addba_param_set amsdu tid sz) tmo"
  obtain e w' where "wmi_call env WMI_RCP_ADDBA_RESP_CMDID ?cmd WMI_ADDBA_RESP_SENT_EVENTID
      (reply_init stack 4) w = Some (Some e, reply_init stack 4, w')" "send_frame w w'"
    using wmi_call_down [OF assms] by blast
  then show ?thesis by (simp add: wmi_rcp_addba_resp_def reply_init_def)
qed

subsection \<open>Queued work of a driver without firmware\<close>

lemma back_handle_down:
  assumes "tx_mbox_ok (mbox_tx w)" "\<not> test_bit wil_status_fwready (wstatus w)"
  shows "\<exists>w'. wil_back_handle ok env stack req w = Some w' \<and> send_frame w w'"
proof (cases "parse_cidxtid (pb_cidxtid req)")
  case (Pair cid tid)
  show ?thesis
  proof (cases "unat cid \<ge> WIL6210_MAX_CID \<or> sta_status (sta w ! unat cid) \<noteq> wil_sta_connected")
    case True
    then show ?thesis using Pair by (auto simp: wil_back_handle_def)
  next
    case False
    let ?req = "back_policy req"
    obtain e w' where "wmi_rcp_addba_resp env stack cid tid (pb_dialog_token ?req) 0 (pb_agg_amsdu ?req)
        (pb_agg_wsize ?req) (pb_agg_timeout ?req) w = Some (Some e, w')" "send_frame w w'"
      using addba_resp_down [OF assms] by blast
    then show ?thesis using Pair False by (simp add: wil_back_handle_def Let_def)
  qed
qed

lemma back_pending_send_frame:
  assumes "send_frame (w\<lparr>back_pending := bs\<rparr>) w'"
  shows "send_frame (w\<lparr>back_pending := cs\<rparr>) (w'\<lparr>back_pending := cs\<rparr>)"
  using assms unfolding send_frame_def by (cases w, cases w') simp

lemma back_worker_down:
  assumes "tx_mbox_ok (mbox_tx w)" "\<not> test_bit wil_status_fwready (wstatus w)"
  shows "\<exists>w'. wil_back_worker ok env stack w = Some w' \<and> send_frame (w\<lparr>back_pending := []\<rparr>) w'"
proof -
  let ?P = "\<lambda>s. send_frame (w\<lparr>back_pending := back_pending s\<rparr>) s"
  have down: "tx_mbox_ok (mbox_tx s) \<and> \<not> test_bit wil_status_fwready (wstatus s)" if "?P s" for s
    using send_frame_fields(1,2) [OF that] assms by simp
  have "\<exists>w'. work_loop next_back (wil_back_handle ok env stack) w = Some w' \<and> back_pending w' = [] \<and> ?P w' \<and>
      run_inputs (\<lambda>a s. wil_back_handle ok env stack a (snd (next_back s))) (back_pending w) w = Some w'"
  proof (rule back_queue.drain [where P = ?P and Q = "\<lambda>_. True"])
    fix a s assume P: "?P s"
    obtain s' where s': "wil_back_handle ok env stack a s = Some s'" "send_frame s s'"
      using back_handle_down [of s] down [OF P] by blast
    have "back_pending s' = back_pending s" using send_frame_fields(7) [OF s'(2)] .
    with s' P send_frame_trans [OF P s'(2)] show "\<exists>s'. wil_back_handle ok env stack a s = Some s' \<and>
        back_pending s' = back_pending s \<and> ?P s'" by auto
  next
    fix s assume P: "?P s"
    show "?P (snd (next_back s))"
      using P back_pending_send_frame [OF P] by (auto simp: next_back_def split: list.split)
  qed simp_all
  then show ?thesis by (auto simp: wil_back_worker_def)
qed

subsection \<open>A pending connection without firmware\<close>

text \<open>What a failed connection leaves as it was, but for the ring \<open>i\<close> it took.\<close>

definition kept_but :: "nat \<Rightarrow> wil6210_priv \<Rightarrow> wil6210_priv \<Rightarrow> bool" where
  "kept_but i w w' \<longleftrightarrow> wstatus w' = wstatus w \<and> pending_wmi_ev w' = pending_wmi_ev w \<and>
     connect_queued w' = connect_queued w \<and> vring_rx w' = vring_rx w \<and>
     map tid_rx (sta w') = map tid_rx (sta w) \<and> wdev w' = wdev w \<and> connect_timer w' = connect_timer w \<and>
     nd_carrier (ndev w') = nd_carrier (ndev w) \<and> (\<forall>j. j \<noteq> i \<longrightarrow> vring_tx w' ! j = vring_tx w ! j)"

lemma kept_but_trans: "kept_but i w w1 \<Longrightarrow> kept_but i w1 w2 \<Longrightarrow> kept_but i w w2"
  by (simp add: kept_but_def)

lemma send_frame_kept: "send_frame w w' \<Longrightarrow> kept_but i w w'"
  using send_frame_fields by (simp add: kept_but_def)

lemma tx_init_free_kept:
  assumes "tx_init_free i rc w = Some (rc', w')"
  shows "kept_but i w w'" "rc' = rc"
proof -
  obtain w1 v1 where 1: "vring_free_loop True w (vring_tx w ! i) = Some (w1, v1)"
    "w' = set_vring_tx i (v1\<lparr>vr_pa := 0, vr_va := None, vr_ctx := []\<rparr>) w1" "rc' = rc"
    using assms(1) by (auto simp: tx_init_free_def wil_vring_free_def Option.bind_eq_Some_conv)
  have eq: "w1 = w\<lparr>skbs := skbs w1, klog := klog w1\<rparr>"
    using vring_free_buf_frame [OF 1(1)] by (simp add: buf_frame_def)
  have f: "wstatus w1 = wstatus w" "pending_wmi_ev w1 = pending_wmi_ev w" "vring_rx w1 = vring_rx w"
    "sta w1 = sta w" "vring_tx w1 = vring_tx w" "wdev w1 = wdev w" "connect_timer w1 = connect_timer w"
    "ndev w1 = ndev w" "connect_queued w1 = connect_queued w" by (subst eq, simp)+
  show "kept_but i w w'" unfolding 1(2) by (simp add: kept_but_def set_vring_tx_def f)
  show "rc' = rc" by (rule 1(3))
qed

lemma vring_init_tx_down:
  assumes "tx_mbox_ok (mbox_tx w)" "\<not> test_bit wil_status_fwready (wstatus w)"
    and "wil_vring_init_tx env stack mem (int i) wsize cid tid w = Some (rc, w')"
  shows "kept_but i w w'" "rc \<noteq> None"
proof -
  have r: "i < WIL6210_MAX_TX_RINGS"
    using assms(3) by (auto simp: wil_vring_init_tx_def split: if_splits)
  obtain rc0 v where a: "wil_vring_alloc (rm_ctx mem) (rm_va mem) ((vring_tx w ! i)\<lparr>vr_size := wsize\<rparr>) = (rc0, v)"
    by (rule prod.exhaust)
  define w1 where "w1 = set_vring_tx i v
    (w\<lparr>vring_txdata := (vring_txdata w)[i := \<lparr>agg_wsize = 0, agg_timeout = 0\<rparr>]\<rparr>)"
  define w2 where "w2 = w1\<lparr>vring2cid_tid := (vring2cid_tid w1)[i := (cid, tid)]\<rparr>"
  have k: "kept_but i w w1" "kept_but i w w2" by (simp_all add: kept_but_def w1_def w2_def set_vring_tx_def)
  have d: "tx_mbox_ok (mbox_tx w2)" "\<not> test_bit wil_status_fwready (wstatus w2)"
    using assms(1,2) by (simp_all add: w1_def w2_def set_vring_tx_def)
  define cmd where "cmd = wmi_vring_cfg_cmd WMI_VRING_CMD_ADD
    (wmi_vring_cfg (wmi_sw_ring_cfg (vr_pa v) wsize (of_nat TX_BUF_LEN))
      (of_nat i) (mk_cidxtid cid tid) WMI_VRING_ENC_TYPE_802_3 0 0 (wmi_vring_cfg_schd 0 0xfff))"
  obtain e w3 where c: "wmi_call env WMI_VRING_CFG_CMDID cmd WMI_VRING_CFG_DONE_EVENTID (reply_init stack 8) w2 =
      Some (Some e, reply_init stack 8, w3)" "send_frame w2 w3"
    using wmi_call_down [OF d, of env WMI_VRING_CFG_CMDID cmd WMI_VRING_CFG_DONE_EVENTID "reply_init stack 8"] by blast
  have step: "wil_vring_init_tx env stack mem (int i) wsize cid tid w =
      (if vr_va (vring_tx w ! i) \<noteq> None then Some (Some EINVAL, w)
       else if rc0 \<noteq> None then Some (rc0, w1) else tx_init_free i (Some e) w3)"
    using r a c(1) by (simp add: wil_vring_init_tx_def w1_def [symmetric] w2_def [symmetric]
        cmd_def [symmetric] Let_def)
  have "kept_but i w w3" using kept_but_trans [OF k(2) send_frame_kept [OF c(2)]] .
  then have f: "kept_but i w w'" "rc = Some e" if "tx_init_free i (Some e) w3 = Some (rc, w')"
    using tx_init_free_kept [OF that] kept_but_trans by blast+
  have "kept_but i w w" by (simp add: kept_but_def)
  then show "kept_but i w w'" "rc \<noteq> None"
    using assms(3) k(1) f unfolding step by (auto split: if_splits)
qed

text \<open>A connection that is pending when the firmware is gone ends with the peer unused.\<close>

definition connect_ok :: "wil6210_priv \<Rightarrow> bool" where
  "connect_ok w \<longleftrightarrow> connect_queued w \<longrightarrow> pending_connect_cid w < 0 \<or>
     pending_connect_cid w < int WIL6210_MAX_CID \<and> wil_find_free_vring w \<noteq> None"

definition conn_kept :: "wil6210_priv \<Rightarrow> wil6210_priv \<Rightarrow> bool" where
  "conn_kept w w' \<longleftrightarrow> wstatus w' = wstatus w \<and> pending_wmi_ev w' = pending_wmi_ev w \<and>
     \<not> connect_queued w' \<and> vring_rx w' = vring_rx w \<and> map tid_rx (sta w') = map tid_rx (sta w) \<and>
     wdev w' = wdev w \<and> connect_timer w' = connect_timer w \<and> nd_carrier (ndev w') = nd_carrier (ndev w) \<and>
     (\<forall>j. vr_va (vring_tx w ! j) \<noteq> None \<longrightarrow> vring_tx w' ! j = vring_tx w ! j)"

lemma map_tid_rx_upd: "map tid_rx (sta (upd_sta c (\<lambda>s. s\<lparr>sta_status := st\<rparr>) w)) = map tid_rx (sta w)"
  by (simp add: upd_sta_def) (metis (no_types, lifting) list_update_id map_update wil_sta_info.select_convs(4)
      wil_sta_info.surjective wil_sta_info.update_convs(2))

lemma connect_worker_down:
  assumes "waiting_ok w" "\<not> test_bit wil_status_fwready (wstatus w)" "world_ok env"
    and "ring_mem_ok mem WIL6210_TX_RING_SIZE" "connect_ok w" "connect_queued w"
  shows "\<exists>w'. wil_connect_worker (worker_env env) stack mem w = Some w' \<and> waiting_ok w' \<and> conn_kept w w'"
proof (cases "pending_connect_cid w < 0")
  case True
  then show ?thesis
    using assms(1) by (simp add: wil_connect_worker_def Let_def conn_kept_def)
next
  case False
  then obtain cid where cid: "pending_connect_cid w = int cid" by (metis nonneg_int_cases not_less)
  then have c: "cid < WIL6210_MAX_CID" "wil_find_free_vring w \<noteq> None"
    using assms(5,6) by (simp_all add: connect_ok_def)
  then obtain i where i: "wil_find_free_vring w = Some i" by blast
  obtain w' where w': "wil_connect_worker (worker_env env) stack mem w = Some w'" "waiting_ok w'"
    using connect_worker_total [OF assms(1,3,4) cid c, of stack] by blast
  let ?w = "w\<lparr>connect_queued := False\<rparr>"
  obtain rc w1 where 1: "wil_vring_init_tx (worker_env env) stack mem (int i) WIL6210_TX_RING_SIZE
      (word_of_int (int cid)) (tid_to_use w AND 0xf) ?w = Some (rc, w1)"
    "w' = (if rc = None
        then wil_link_on (upd_sta cid (\<lambda>s. s\<lparr>sta_status := wil_sta_connected\<rparr>) (w1\<lparr>pending_connect_cid := -1\<rparr>))
        else upd_sta cid (\<lambda>s. s\<lparr>sta_status := wil_sta_unused\<rparr>) (w1\<lparr>pending_connect_cid := -1\<rparr>))"
    using w'(1) i cid by (auto simp: wil_connect_worker_def Let_def Option.bind_eq_Some_conv)
  have "tx_mbox_ok (mbox_tx ?w)" "\<not> test_bit wil_status_fwready (wstatus ?w)"
    using assms(1,2) driver_okD(3) by (simp_all add: waiting_ok_def)
  from vring_init_tx_down [OF this 1(1)] have k: "kept_but i ?w w1" "rc \<noteq> None" by simp_all
  have free: "vr_va (vring_tx w ! i) = None"
    using wil_find_free_vring_Some(2) [OF i] assms(1) by (simp add: waiting_ok_def)
  have w'_eq: "w' = upd_sta cid (\<lambda>s. s\<lparr>sta_status := wil_sta_unused\<rparr>) (w1\<lparr>pending_connect_cid := -1\<rparr>)"
    using 1(2) k(2) by simp
  have "j \<noteq> i" if "vr_va (vring_tx w ! j) \<noteq> None" for j using that free by blast
  then have "conn_kept w w'"
    using k map_tid_rx_upd [of cid wil_sta_unused "w1\<lparr>pending_connect_cid := -1\<rparr>"] unfolding w'_eq
    by (simp add: conn_kept_def kept_but_def upd_sta_def)
  then show ?thesis using w' by blast
qed

subsection \<open>Reset\<close>

lemma disconnect_none: "do_wil6210_disconnect ok env None w = Some (disconnect_link None w)"
  by (simp add: do_wil6210_disconnect_def)

lemma disconnect_link_fields [simp]:
  "vring_rx (disconnect_link b w) = vring_rx w" "connect_queued (disconnect_link b w) = connect_queued w"
  "pending_connect_cid (disconnect_link b w) = pending_connect_cid w"
  "back_pending (disconnect_link b w) = back_pending w" "connect_timer (disconnect_link b w) = connect_timer w"
  "reply_buf (disconnect_link b w) = reply_buf w" "reply_size (disconnect_link b w) = reply_size w"
  "pending_wmi_ev (disconnect_link b w) = pending_wmi_ev w" "scan_request (disconnect_link b w) = scan_request w"
  "skbs (disconnect_link b w) = skbs w"
  by (simp_all add: disconnect_link_def wil_link_off_def Let_def klog_add_def
      split: option.split cfg80211_sme_state.split)

lemma iowrite32_fields [simp]:
  "vring_rx (iowrite32 x a w) = vring_rx w" "connect_queued (iowrite32 x a w) = connect_queued w"
  "pending_connect_cid (iowrite32 x a w) = pending_connect_cid w" "back_pending (iowrite32 x a w) = back_pending w"
  "connect_timer (iowrite32 x a w) = connect_timer w" "reply_buf (iowrite32 x a w) = reply_buf w"
  "reply_size (iowrite32 x a w) = reply_size w" "pending_wmi_ev (iowrite32 x a w) = pending_wmi_ev w"
  "sta (iowrite32 x a w) = sta w" "vring_tx (iowrite32 x a w) = vring_tx w" "wstatus (iowrite32 x a w) = wstatus w"
  "wdev (iowrite32 x a w) = wdev w" "driver_ok (iowrite32 x a w) = driver_ok w" "wmi_ready (iowrite32 x a w) = wmi_ready w"
  by (simp_all add: iowrite32_def) (simp_all add: klog_add_def)

lemma target_reset_frame: "send_frame w (wil_target_reset env w)"
proof -
  have "send_frame w (fold reg_W avs w)" for avs w
  proof (induction avs arbitrary: w)
    case (Cons av avs)
    have "send_frame w (reg_W av w)" by (cases av) (simp add: reg_W_def iowrite32_def)
    then show ?case using Cons send_frame_trans by simp
  qed simp
  moreover have "send_frame w (reg_S env a v w)" for a v w
    unfolding reg_S_def ioread32_def iowrite32_def by (simp add: send_frame_trans [OF io_send_frame_step(1)])
  ultimately show ?thesis unfolding wil_target_reset_def Let_def using send_frame_trans by blast
qed

lemma enable_irq_fields:
  "wil6210_enable_irq cor w = w\<lparr>wstatus := set_bit wil_status_irqen (wstatus w),
     klog := klog (wil6210_enable_irq cor w)\<rparr>"
  by (simp add: wil6210_enable_irq_def Let_def wil6210_unmask_irq_pseudo_def wil6210_unmask_irq_tx_def
      wil6210_unmask_irq_rx_def wil6210_unmask_irq_misc_def iowrite32_def klog_add_def)

lemma waiting_ok_back [simp]: "waiting_ok (w\<lparr>back_pending := b\<rparr>) = waiting_ok w"
  by (simp add: waiting_ok_def reply_ok_def)

lemma wil_reset_quiesces:
  assumes "waiting_ok w" "world_ok (mn_evt env)" "ring_mem_ok (mn_tx_mem env) WIL6210_TX_RING_SIZE" "connect_ok w"
  shows "\<exists>w1. wil_reset env w = wil_wait_for_fw_ready env w1 \<and> waiting_ok w1 \<and>
    wstatus w1 = set_bit wil_status_irqen 0 \<and> wmi_ready w1 = 0 \<and> pending_wmi_ev w1 = [] \<and>
    back_pending w1 = [] \<and> \<not> connect_queued w1 \<and> pending_connect_cid w1 = -1 \<and> \<not> connect_timer w1 \<and>
    vring_rx w1 = vring_rx w \<and> map tid_rx (sta w1) = map tid_rx (sta w) \<and>
    (\<forall>j. vr_va (vring_tx w ! j) \<noteq> None \<longrightarrow> vring_tx w1 ! j = vring_tx w ! j)"
proof -
  define a where "a = wmi_event_flush ((wil6210_disable_irq (disconnect_link None
    ((cancel_work_sync disconnect_worker w)\<lparr>connect_timer := False\<rparr>)))\<lparr>wstatus := 0\<rparr>)"
  have a: "vring_rx a = vring_rx w" "sta a = sta w" "vring_tx a = vring_tx w" "connect_queued a = connect_queued w"
    "pending_connect_cid a = pending_connect_cid w" "wstatus a = 0" "pending_wmi_ev a = []" "\<not> connect_timer a"
    by (simp_all add: a_def wmi_event_flush_def wil6210_disable_irq_def wil6210_mask_irq_pseudo_def
        wil6210_mask_irq_tx_def wil6210_mask_irq_rx_def wil6210_mask_irq_misc_def cancel_work_sync_def Let_def)
      (simp_all add: klog_add_def)
  have wa: "waiting_ok a"
    using assms(1) by (simp add: a_def wmi_event_flush_def wil6210_disable_irq_def wil6210_mask_irq_pseudo_def
        wil6210_mask_irq_tx_def wil6210_mask_irq_rx_def wil6210_mask_irq_misc_def cancel_work_sync_def Let_def
        waiting_ok_def reply_ok_def)
  have da: "\<not> test_bit wil_status_fwready (wstatus a)" by (simp add: a(6))
  have ca: "connect_ok a" using assms(4) a by (simp add: connect_ok_def wil_find_free_vring_def)
  obtain b where b: "flush_workqueue env wmi_wq_conn a = Some b" "waiting_ok b" "conn_kept a b"
  proof (cases "connect_queued a")
    case True
    then show ?thesis
      using connect_worker_down [OF wa da assms(2,3) ca True, of "mn_stack env"] that
      by (auto simp: flush_workqueue_def mn_call_def)
  next
    case False
    then show ?thesis using that [of a] wa by (simp add: flush_workqueue_def conn_kept_def)
  qed
  have pb: "pending_wmi_ev b = []" "wstatus b = 0" using b(3) a by (simp_all add: conn_kept_def)
  have e: "flush_workqueue env wmi_wq b = Some b"
    using pb(1) by (simp add: flush_workqueue_def wmi_event_worker_def work_loop.simps next_wmi_ev_def)
  have mb: "tx_mbox_ok (mbox_tx b)" "\<not> test_bit wil_status_fwready (wstatus b)"
    using b(2) pb(2) driver_okD(3) by (simp_all add: waiting_ok_def)
  obtain c where c: "flush_workqueue env back_wq b = Some c" "send_frame (b\<lparr>back_pending := []\<rparr>) c"
    using back_worker_down [OF mb, of "mn_netif_ok env" "mn_call env" "mn_stack env"]
    by (auto simp: flush_workqueue_def)
  define d where "d = (wil_target_reset (mn_wmi env) c)\<lparr>pending_connect_cid := -1, wmi_ready := 0\<rparr>"
  have fd: "send_frame (b\<lparr>back_pending := []\<rparr>) (wil_target_reset (mn_wmi env) c)"
    using send_frame_trans [OF c(2) target_reset_frame] .
  note f = send_frame_fields [OF fd]
  have wd: "waiting_ok d" using send_frame_waiting [OF fd] b(2)
    by (simp add: d_def waiting_ok_def reply_ok_def driver_ok_set_field(2) WIL6210_MAX_CID_def)
  let ?w1 = "wil6210_enable_irq (mn_cor env) d"
  have eq: "?w1 = d\<lparr>wstatus := set_bit wil_status_irqen (wstatus d), klog := klog ?w1\<rparr>"
    by (rule enable_irq_fields)
  have "waiting_ok ?w1" using wd waiting_ok_buf_frame
    by (subst eq) (simp add: waiting_ok_def reply_ok_def driver_ok_defs)
  moreover have "wstatus ?w1 = set_bit wil_status_irqen 0" "wmi_ready ?w1 = 0" "pending_wmi_ev ?w1 = []"
    "back_pending ?w1 = []" "\<not> connect_queued ?w1" "pending_connect_cid ?w1 = -1" "\<not> connect_timer ?w1"
    "vring_rx ?w1 = vring_rx w" "map tid_rx (sta ?w1) = map tid_rx (sta w)"
    "\<forall>j. vr_va (vring_tx w ! j) \<noteq> None \<longrightarrow> vring_tx ?w1 ! j = vring_tx w ! j"
    using b(3) a pb f by (subst eq, simp add: d_def conn_kept_def)+
  moreover have "wil_reset env w = wil_wait_for_fw_ready env ?w1"
    using b(1) e c(1) by (simp add: wil_reset_def wil6210_disconnect_def disconnect_none a_def [symmetric]
        d_def [symmetric] Let_def)
  ultimately show ?thesis by (intro exI [of _ ?w1] conjI)
qed

subsection \<open>Up\<close>

definition boot_ok :: "main_env \<Rightarrow> bool" where
  "boot_ok env \<longleftrightarrow> (\<forall>w. waiting_ok w \<longrightarrow> (\<exists>w'. mn_boot env w = Some w' \<and> waiting_ok w'))"

definition up_env_ok :: "main_env \<Rightarrow> bool" where
  "up_env_ok env \<longleftrightarrow> world_ok (mn_evt env) \<and> ring_mem_ok (mn_tx_mem env) WIL6210_TX_RING_SIZE \<and>
     ring_mem_ok (mn_rx_mem env) WIL6210_RX_RING_SIZE \<and> rx_env_ok WIL6210_RTAP_SIZE (mn_rx env) \<and> boot_ok env"

lemma wil_reset_ok:
  assumes "waiting_ok w" "up_env_ok env" "connect_ok w"
  shows "\<exists>rc w'. wil_reset env w = Some (rc, w') \<and> waiting_ok w'"
proof -
  obtain w1 where w1: "wil_reset env w = wil_wait_for_fw_ready env w1" "waiting_ok w1"
    using wil_reset_quiesces [OF assms(1) _ _ assms(3), of env] assms(2) by (auto simp: up_env_ok_def)
  then obtain w2 where "mn_boot env w1 = Some w2" "waiting_ok w2"
    using assms(2) by (auto simp: up_env_ok_def boot_ok_def)
  then show ?thesis
    using w1(1) by (auto simp: wil_wait_for_fw_ready_def wait_for_wmi_ready_def waiting_ok_def reply_ok_def)
qed

lemma set_nd_type_ok [simp]:
  "waiting_ok (set_nd_type t w) = waiting_ok w" "vring_rx (set_nd_type t w) = vring_rx w"
  "wdev (set_nd_type t w) = wdev w" "nd_type (ndev (set_nd_type t w)) = t"
  by (simp_all add: set_nd_type_def waiting_ok_def reply_ok_def)

lemma set_ssid_ok:
  assumes "tx_mbox_ok (mbox_tx w)" "unat n \<le> length ssid"
  shows "\<exists>rc w'. wmi_set_ssid env n ssid w = Some (rc, w') \<and> send_frame w w'"
proof (cases "unat n > 32")
  case False
  obtain rc w' where "wmi_send env WMI_SET_SSID_CMDID (wmi_set_ssid_cmd (ucast n) (take (unat n) ssid)) w =
      Some (rc, w')" "send_frame w w'"
    using wmi_send_total [OF assms(1)] by blast
  then show ?thesis using False assms(2) by (simp add: wmi_set_ssid_def rd_bytes_def)
qed (simp add: wmi_set_ssid_def)

lemma up_ssid_ok:
  assumes "tx_mbox_ok (mbox_tx w)"
  shows "\<exists>rc w'. up_ssid env w = Some (rc, w') \<and> send_frame w w'"
proof -
  let ?ssid = "wd_ssid (wdev w)"
  show ?thesis
  proof (cases "length ?ssid \<le> IEEE80211_MAX_SSID_LEN")
    case True
    then have "unat (of_nat (length ?ssid) :: u8) = length ?ssid"
      by (simp add: unat_of_nat IEEE80211_MAX_SSID_LEN_def)
    then show ?thesis
      using set_ssid_ok [OF assms, of "of_nat (length ?ssid)" ?ssid "mn_wmi env"] by (simp add: up_ssid_def Let_def)
  qed (simp add: up_ssid_def Let_def)
qed

lemma wil_up_ok:
  assumes "waiting_ok w" "up_env_ok env" "connect_ok w"
  shows "\<exists>rc w'. wil_up env w = Some (rc, w') \<and> waiting_ok w' \<and>
    (rc = None \<longrightarrow> rx_ring_ok (vring_rx w') \<and> length (rx_posted (vring_rx w')) = 127 \<and>
       nd_type (ndev w') = up_type (wd_iftype (wdev w')) \<and>
       (\<exists>l. klog w' = l @ [NapiEnable, NapiEnable]))"
proof -
  have en: "world_ok (mn_evt env)" "ring_mem_ok (mn_rx_mem env) WIL6210_RX_RING_SIZE"
    "rx_env_ok WIL6210_RTAP_SIZE (mn_rx env)" using assms(2) by (simp_all add: up_env_ok_def)
  obtain rc1 w1 where 1: "wil_reset env w = Some (rc1, w1)" "waiting_ok w1"
    using wil_reset_ok [OF assms] by blast
  obtain rc2 w2 where 2: "wil_rx_init (mn_call env) (mn_rx env) (mn_stack env) (mn_rx_mem env) w1 = Some (rc2, w2)"
    "waiting_ok w2" "rc2 = None \<longrightarrow> rx_ring_ok (vring_rx w2) \<and> length (rx_posted (vring_rx w2)) = 127"
    using wil_rx_init_ok [OF 1(2) en, of "mn_stack env"] unfolding mn_call_def by blast
  let ?w3 = "set_nd_type (up_type (wd_iftype (wdev w2))) w2"
  have mb: "tx_mbox_ok (mbox_tx u)" if "waiting_ok u" for u using that driver_okD(3) by (simp add: waiting_ok_def)
  obtain rc4 w4 where 4: "up_ssid env ?w3 = Some (rc4, w4)" "send_frame ?w3 w4"
    using up_ssid_ok [OF mb, of ?w3 env] 2(2) by auto
  have w4: "waiting_ok w4" using send_frame_waiting [OF 4(2)] 2(2) by simp
  obtain rc5 w5 where 5: "wmi_set_mac_address (mn_wmi env) (nd_addr (ndev w4)) w4 = Some (rc5, w5)" "send_frame w4 w5"
    using wmi_send_total [OF mb [OF w4]] unfolding wmi_set_mac_address_def by blast
  have w5: "waiting_ok w5" using send_frame_waiting [OF 5(2) w4] .
  note f = send_frame_fields [OF 4(2)] send_frame_fields [OF 5(2)]
  let ?w6 = "klog_add NapiEnable (klog_add NapiEnable w5)"
  have step: "wil_up env w =
      (if rc1 \<noteq> None then Some (rc1, w1) else if rc2 \<noteq> None then Some (rc2, w2)
       else if \<not> up_supported (wd_iftype (wdev w2)) then Some (Some EOPNOTSUPP, w2)
       else if rc4 \<noteq> None then Some (rc4, w4) else Some (None, ?w6))"
    unfolding wil_up_def do_wil_up_def
    using 1(1) 2(1) 4(1) 5(1) by (simp add: Let_def)
  have "waiting_ok ?w6" using w5 by (simp add: waiting_ok_def reply_ok_def)
  moreover have "rx_ring_ok (vring_rx ?w6) \<and> length (rx_posted (vring_rx ?w6)) = 127 \<and>
      nd_type (ndev ?w6) = up_type (wd_iftype (wdev ?w6)) \<and> (\<exists>l. klog ?w6 = l @ [NapiEnable, NapiEnable])"
    if "rc2 = None" using 2(3) that f by (simp add: klog_add_def)
  ultimately show ?thesis
    unfolding step using 1(2) 2(2) w4
    by (cases rc1; cases rc2; cases "up_supported (wd_iftype (wdev w2))"; cases rc4) simp_all
qed

subsection \<open>Down\<close>

lemma rx_fini_ok:
  assumes "driver_ok w"
  shows "\<exists>w' es. wil_rx_fini w = Some w' \<and> driver_ok w' \<and> vr_va (vring_rx w') = None \<and>
    buf_frame (w\<lparr>vring_rx := vring_rx w'\<rparr>) w' \<and> klog w' = klog w @ es \<and>
    skbs w' = (if vr_va (vring_rx w) = None then skbs w
      else fold kfree_skb (somes (rx_posted (vring_rx w))) (skbs w))"
proof (cases "vr_va (vring_rx w)")
  case None
  then show ?thesis
    using assms by (intro exI [of _ w] exI [of _ "[]"]) (simp add: wil_rx_fini_def buf_frame_def)
next
  case (Some ds)
  then have v: "vring_ok (vring_rx w)"
    using driver_okD(8) [OF assms] by (simp add: rx_off_or_ok_def rx_ring_ok_def)
  obtain d where d: "vring_d (vring_rx w) (swtail (vring_rx w)) = Some d"
    using vring_ok_d [OF v] vring_okD(2) [OF v] by blast
  obtain w1 v1 es where 1: "vring_free_loop False w (vring_rx w) = Some (w1, v1)"
    "skbs w1 = fold kfree_skb (somes (rx_posted (vring_rx w))) (skbs w)" "klog w1 = klog w @ es"
    using vring_free_rx_loop [OF v refl d, of w] by blast
  have b: "buf_frame w w1" using vring_free_buf_frame [OF 1(1)] by simp
  let ?v = "v1\<lparr>vr_pa := 0, vr_va := None, vr_ctx := []\<rparr>"
  have "buf_frame (w\<lparr>vring_rx := ?v\<rparr>) (w1\<lparr>vring_rx := ?v\<rparr>)"
    using b unfolding buf_frame_def by (cases w, cases w1) simp
  then show ?thesis
    using 1 Some driver_ok_set_field(1) [OF driver_ok_buf_frame [OF b assms], of ?v]
    by (intro exI [of _ "w1\<lparr>vring_rx := ?v\<rparr>"] exI [of _ es])
      (simp add: wil_rx_fini_def wil_vring_free_def rx_off_or_ok_def)
qed

lemma wil_down_ok:
  assumes "driver_ok w"
  shows "\<exists>w'. wil_down ok env w = Some (None, w') \<and> driver_ok w' \<and> vr_va (vring_rx w') = None \<and>
    scan_request w' = None \<and> \<not> connect_timer w' \<and> sta w' = sta w \<and> vring_tx w' = vring_tx w \<and>
    skbs w' = (if vr_va (vring_rx w) = None then skbs w
      else fold kfree_skb (somes (rx_posted (vring_rx w))) (skbs w)) \<and>
    (\<exists>es. klog w' = klog w @ [NapiDisable, NapiDisable] @
      (if scan_request w = None then [] else [Cfg80211ScanDone True]) @ es)"
proof -
  define a where "a = klog_add NapiDisable (klog_add NapiDisable w)"
  define b0 where "b0 = (if scan_request a \<noteq> None
    then (klog_add (Cfg80211ScanDone True) a)\<lparr>scan_request := None\<rparr> else a)"
  define b where "b = b0\<lparr>connect_timer := False\<rparr>"
  let ?c = "disconnect_link None b"
  have b: "sta b = sta w" "vring_tx b = vring_tx w" "vring_rx b = vring_rx w" "skbs b = skbs w"
    "scan_request b = None" "\<not> connect_timer b" "driver_ok b"
    "klog b = klog w @ [NapiDisable, NapiDisable] @ (if scan_request w = None then [] else [Cfg80211ScanDone True])"
    using assms by (simp_all add: a_def b_def b0_def) (simp_all add: klog_add_def)
  have l: "\<exists>es. klog ?c = klog b @ es"
    by (simp add: disconnect_link_def wil_link_off_def Let_def klog_add_def split: cfg80211_sme_state.split)
  obtain w' es where w': "wil_rx_fini ?c = Some w'" "driver_ok w'" "vr_va (vring_rx w') = None"
    "buf_frame (?c\<lparr>vring_rx := vring_rx w'\<rparr>) w'" "klog w' = klog ?c @ es"
    "skbs w' = (if vr_va (vring_rx w) = None then skbs w
      else fold kfree_skb (somes (rx_posted (vring_rx w))) (skbs w))"
    using rx_fini_ok [of ?c] b by auto
  have eq: "w' = ?c\<lparr>vring_rx := vring_rx w', skbs := skbs w', klog := klog w'\<rparr>"
    using w'(4) by (simp add: buf_frame_def)
  have f: "sta w' = sta w" "vring_tx w' = vring_tx w" "scan_request w' = None" "\<not> connect_timer w'"
    by (subst eq, simp add: b)+
  have "wil_down ok env w = Some (None, w')"
    unfolding wil_down_def do_wil_down_def wil6210_disconnect_def disconnect_none Let_def
      a_def [symmetric] b0_def [symmetric] b_def [symmetric] using w'(1) by simp
  then show ?thesis using w'(2,3,5,6) f l b(8) by (intro exI [of _ w']) auto
qed

subsection \<open>The work queues\<close>

fun wq_step :: "kernel_call \<Rightarrow> workqueue set \<Rightarrow> workqueue set" where
  "wq_step (WqCreate q) s = insert q s"
| "wq_step (WqDestroy q) s = s - {q}"
| "wq_step _ s = s"

text \<open>The queues that exist, by the log of their creation and destruction.\<close>

definition live_wqs :: "wil6210_priv \<Rightarrow> workqueue set" where
  "live_wqs w = fold wq_step (klog w) {}"

lemma live_wqs_add: "live_wqs (klog_add e w) = wq_step e (live_wqs w)"
  by (simp add: live_wqs_def klog_add_def)

lemma live_wqs_fields [simp]: "live_wqs (tick w) = live_wqs w" "live_wqs (priv_fields_init w) = live_wqs w"
  "io_clock (priv_fields_init w) = io_clock w" "io_clock (klog_add e w) = io_clock w" "io_clock (tick w) = io_clock w + 1"
  by (simp_all add: live_wqs_def tick_def priv_fields_init_def klog_add_def)

lemma priv_init_wqs:
  assumes "live_wqs w = {}" "wil_priv_init env w = (rc, w')"
  defines "a \<equiv> \<lambda>k. we_alloc env (io_clock w + k)"
  shows "rc = (if a 0 \<and> a 1 \<and> a 2 \<and> a 3 then None else Some EAGAIN)"
    "live_wqs w' = (if rc = None then {wmi_wq, wmi_wq_conn, back_wq, roc_wq}
       else if a 0 \<and> a 1 \<and> a 2 then {back_wq} else {})"
  using assms(2)
  by (auto simp: wil_priv_init_def create_singlethread_workqueue_def destroy_workqueue_def kmalloc_def
      live_wqs_add assms(1) a_def Let_def numeral_2_eq_2 numeral_3_eq_3 split: if_splits)

end
