(* ===== verification/Wil_Main_Props.thy ===== *)
theory Wil_Main_Props
  imports Wil_Main_Correct Wil_Conn_Props
begin

text \<open>The properties of the life cycle: work queues, reset, the interface up and down.\<close>

subsection \<open>Inputs for the witnesses\<close>

text \<open>A firmware that reports itself ready after the reset.\<close>

definition ex_main_env :: main_env where
  "ex_main_env = \<lparr>mn_cor = False, mn_evt = ex_evt_env,
     mn_boot = (\<lambda>w. wmi_event_worker ex_evt_env (wmi_arrive [ex_events ! 0] w)),
     mn_rx = ex_env, mn_rx_mem = ex_ring_mem WIL6210_RX_RING_SIZE,
     mn_tx_mem = ex_ring_mem WIL6210_TX_RING_SIZE, mn_stack = replicate 16 0\<rparr>"

lemma ex_main_env_ok: "up_env_ok ex_main_env"
proof -
  have e: "event_ok (ex_events ! 0)" by code_simp
  have "boot_ok ex_main_env"
    unfolding boot_ok_def
  proof (intro allI impI)
    fix w assume "waiting_ok w"
    then have "waiting_ok (wmi_arrive [ex_events ! 0] w)" using e by (intro wmi_arrive_waiting) simp_all
    from wmi_event_worker_total [OF this ex_alloc_skb_ok]
    show "\<exists>w'. mn_boot ex_main_env w = Some w' \<and> waiting_ok w'" by (auto simp: ex_main_env_def)
  qed
  moreover have "ring_mem_ok (ex_ring_mem WIL6210_RX_RING_SIZE) WIL6210_RX_RING_SIZE"
    "ring_mem_ok (ex_ring_mem WIL6210_TX_RING_SIZE) WIL6210_TX_RING_SIZE"
    by (rule ex_ring_mem_ok, simp add: WIL6210_RX_RING_SIZE_def WIL6210_TX_RING_SIZE_def)+
  moreover have "rx_env_ok WIL6210_RTAP_SIZE ex_env" by (simp add: rx_env_ok_def ex_env_def)
  ultimately show ?thesis using ex_world_ok by (simp add: up_env_ok_def ex_main_env_def)
qed

lemma ex_fw_connect_ok: "connect_ok ex_fw_state"
  by (simp add: connect_ok_def ex_fw_state_def wil_init_state_def)

subsection \<open>Work queues\<close>

text \<open>
  The initialisation of the private state creates the four work queues or fails with
  \<open>-EAGAIN\<close>; a failure takes the queues it created down again, but when the last creation fails the
  queue of the block acknowledgement is left behind.
\<close>

theorem priv_init_workqueues:
  assumes "live_wqs w = {}" "wil_priv_init env w = (rc, w')"
  shows "(rc = None \<longrightarrow> live_wqs w' = {wmi_wq, wmi_wq_conn, back_wq, roc_wq}) \<and>
    (rc \<noteq> None \<longrightarrow> rc = Some EAGAIN \<and>
       live_wqs w' = (if we_alloc env (io_clock w) \<and> we_alloc env (io_clock w + 1) \<and> we_alloc env (io_clock w + 2)
         then {back_wq} else {}))"
  using priv_init_wqs [OF assms] by (simp split: if_splits)

theorem priv_init_workqueues_witness:
  "\<exists>w'. wil_priv_init ((ex_wmi_env 0)\<lparr>we_alloc := (\<lambda>t. t \<noteq> 3)\<rparr>) wil_init_state = (Some EAGAIN, w') \<and>
    live_wqs w' = {back_wq}"
proof -
  let ?env = "(ex_wmi_env 0)\<lparr>we_alloc := (\<lambda>t. t \<noteq> 3)\<rparr>"
  have c: "io_clock wil_init_state = 0" "live_wqs wil_init_state = {}" by (simp_all add: wil_init_state_def live_wqs_def)
  obtain rc w' where i: "wil_priv_init ?env wil_init_state = (rc, w')" by (rule prod.exhaust)
  have "fst (wil_priv_init ?env wil_init_state) = Some EAGAIN" by code_simp
  then have "rc = Some EAGAIN" by (simp add: i)
  then show ?thesis using priv_init_workqueues [OF c(2) i] i c(1) by simp
qed

subsection \<open>Reset\<close>

text \<open>
  Claim C31. A reset comes to the point where it waits for the firmware, whatever is queued: by then
  no event, no request, no connection and no completion of an earlier call is pending, and of the
  status only the interrupts are on. What it does not reset are the rings and the peers' sessions:
  they are the ones of before.
\<close>

theorem reset_quiesces:
  assumes "waiting_ok w" "world_ok (mn_evt env)" "ring_mem_ok (mn_tx_mem env) WIL6210_TX_RING_SIZE" "connect_ok w"
  shows "\<exists>w1. wil_reset env w = wil_wait_for_fw_ready env w1 \<and> waiting_ok w1 \<and>
    wstatus w1 = set_bit wil_status_irqen 0 \<and> wmi_ready w1 = 0 \<and> pending_wmi_ev w1 = [] \<and>
    back_pending w1 = [] \<and> \<not> connect_queued w1 \<and> pending_connect_cid w1 = -1 \<and> \<not> connect_timer w1 \<and>
    vring_rx w1 = vring_rx w \<and> map tid_rx (sta w1) = map tid_rx (sta w) \<and>
    (\<forall>j. vr_va (vring_tx w ! j) \<noteq> None \<longrightarrow> vring_tx w1 ! j = vring_tx w ! j)"
  by (rule wil_reset_quiesces [OF assms])

theorem reset_quiesces_witness:
  "\<exists>w1. wil_reset ex_main_env (ex_fw_state\<lparr>pending_wmi_ev := ex_events\<rparr>) = wil_wait_for_fw_ready ex_main_env w1 \<and>
    pending_wmi_ev w1 = [] \<and> wmi_ready w1 = 0"
proof -
  let ?w = "ex_fw_state\<lparr>pending_wmi_ev := ex_events\<rparr>"
  have "\<forall>e \<in> set ex_events. event_ok e" by code_simp
  then have w: "waiting_ok ?w" using waiting_ok_ex by (simp add: waiting_ok_def reply_ok_def)
  have c: "connect_ok ?w" using ex_fw_connect_ok by (simp add: connect_ok_def wil_find_free_vring_def)
  have e: "world_ok (mn_evt ex_main_env)" "ring_mem_ok (mn_tx_mem ex_main_env) WIL6210_TX_RING_SIZE"
    using ex_main_env_ok by (simp_all add: up_env_ok_def)
  show ?thesis using reset_quiesces [OF w e c] by blast
qed

subsection \<open>Up and down\<close>

text \<open>
  Claim C32. Bringing the interface up returns, and keeps the driver's state well formed whatever the
  firmware does; success leaves a full Rx ring (127 buffers), the link type of the interface's mode,
  and both polls enabled as the last step.
\<close>

theorem wil_up_ready:
  assumes "waiting_ok w" "up_env_ok env" "connect_ok w"
  shows "\<exists>rc w'. wil_up env w = Some (rc, w') \<and> waiting_ok w' \<and>
    (rc = None \<longrightarrow> rx_ring_ok (vring_rx w') \<and> length (rx_posted (vring_rx w')) = 127 \<and>
       nd_type (ndev w') = up_type (wd_iftype (wdev w')) \<and>
       (\<exists>l. klog w' = l @ [NapiEnable, NapiEnable]))"
  by (rule wil_up_ok [OF assms])

theorem wil_up_ready_witness: "\<exists>rc w'. wil_up ex_main_env ex_fw_state = Some (rc, w') \<and> waiting_ok w'"
  using wil_up_ready [OF waiting_ok_ex ex_main_env_ok ex_fw_connect_ok] by blast

text \<open>
  Claim C33. Taking the interface down succeeds: the polls are disabled first, a scan in progress is
  reported as aborted, the Rx ring is gone and each of its buffers released once, and the timer of a
  connection is off. The peers stay as they were, with their rings.
\<close>

theorem wil_down_releases:
  assumes "driver_ok w"
  shows "\<exists>w'. wil_down ok env w = Some (None, w') \<and> driver_ok w' \<and> vr_va (vring_rx w') = None \<and>
    scan_request w' = None \<and> \<not> connect_timer w' \<and> sta w' = sta w \<and> vring_tx w' = vring_tx w \<and>
    skbs w' = (if vr_va (vring_rx w) = None then skbs w
      else fold kfree_skb (somes (rx_posted (vring_rx w))) (skbs w)) \<and>
    (\<exists>es. klog w' = klog w @ [NapiDisable, NapiDisable] @
      (if scan_request w = None then [] else [Cfg80211ScanDone True]) @ es)"
  by (rule wil_down_ok [OF assms])

theorem wil_down_releases_witness:
  "\<exists>w' es. wil_down (\<lambda>_. True) (ex_wmi_env 0) (ex_fw_state\<lparr>scan_request := Some 1\<rparr>) = Some (None, w') \<and>
    klog w' = [NapiDisable, NapiDisable, Cfg80211ScanDone True] @ es"
proof -
  let ?w = "ex_fw_state\<lparr>scan_request := Some 1\<rparr>"
  have 1: "driver_ok ?w" using waiting_ok_ex by (simp add: waiting_ok_def)
  have 2: "klog ?w = []" by (simp add: ex_fw_state_def wil_init_state_def)
  show ?thesis using wil_down_releases [OF 1, of "\<lambda>_. True" "ex_wmi_env 0"] 2 by auto
qed

end
