(* ===== verification/Wil_Roc.thy ===== *)
theory Wil_Roc
  imports Wil_Wmi_Event_Correct
begin

text \<open>
  Operations off the channel (\<^verbatim>\<open>offchannel.c\<close>): one at a time, started for the stack or for
  a frame to be sent, and ended by delayed work on its own queue. A channel is its number; the
  frame is given with the address of its buffer, which serves as its cookie.
\<close>

subsection \<open>Operations\<close>

definition upd_roc :: "(wil_roc \<Rightarrow> wil_roc) \<Rightarrow> wil6210_priv \<Rightarrow> wil6210_priv" where
  "upd_roc f w = w\<lparr>roc := f (roc w)\<rparr>"

definition roc_idle :: "wil6210_priv \<Rightarrow> wil6210_priv" where
  "roc_idle = upd_roc (\<lambda>r. r\<lparr>roc_cookie := 0, roc_mgmt_tx_cookie := 0\<rparr>)"

text \<open>The channel is read for a message before anything else: without one this is a crash.\<close>

definition wil_roc_cancel_work :: "call_env \<Rightarrow> wil6210_priv \<Rightarrow> wil6210_priv option" where
  "wil_roc_cancel_work env w = do {
     let w = upd_roc (\<lambda>r. r\<lparr>roc_work_queued := False\<rparr>) w;
     _ \<leftarrow> roc_chan (roc w);
     (_, w) \<leftarrow> wmi_stop_discovery env w;
     let w = (if roc_mgmt_tx_cookie (roc w) = 0 then klog_add (Cfg80211RocExpired (roc_cookie (roc w))) w else w);
     Some (roc_idle w)
   }"

text \<open>\<open>flush_delayed_work\<close> runs the work at once when it is queued.\<close>

definition wil_cancel_roc :: "call_env \<Rightarrow> wil6210_priv \<Rightarrow> wil6210_priv option" where
  "wil_cancel_roc env w = (if roc_work_queued (roc w) then wil_roc_cancel_work env w else Some w)"

definition p2p_ssid :: "u8 list" where
  "p2p_ssid = [68, 73, 82, 69, 67, 84, 45]"

definition roc_stop ::
  "call_env \<Rightarrow> errno option \<Rightarrow> wil6210_priv \<Rightarrow> (errno option \<times> wil6210_priv) option" where
  "roc_stop env rc w = do { (_, w) \<leftarrow> wmi_stop_discovery env w; Some (rc, w) }"

definition wil_start_roc ::
  "call_env \<Rightarrow> u8 list \<Rightarrow> wil6210_priv \<Rightarrow> (errno option \<times> wil6210_priv) option" where
  "wil_start_roc env stack w = do {
     _ \<leftarrow> roc_chan (roc w);
     (rc, w) \<leftarrow> wmi_p2p_cfg (cc_wmi env) 2 100 w;
     (if rc \<noteq> None then Some (rc, w)
      else do {
        (rc, w) \<leftarrow> wmi_set_ssid (cc_wmi env) 7 p2p_ssid w;
        (if rc \<noteq> None then roc_stop env rc w
         else do {
           (rc, w) \<leftarrow> wmi_start_listen env stack w;
           (if rc \<noteq> None then roc_stop env rc w
            else Some (None, klog_add (QueueWork roc_work)
              (upd_roc (\<lambda>r. r\<lparr>roc_started := True, roc_work_queued := True\<rparr>) w)))
         })
      })
   }"

text \<open>The cookie of a new operation: the next of a counter that is never 0.\<close>

definition roc_take_cookie :: "wil6210_priv \<Rightarrow> wil6210_priv" where
  "roc_take_cookie w =
     (let w = w\<lparr>roc_counter := roc_counter w + 1\<rparr>;
          w = upd_roc (\<lambda>r. r\<lparr>roc_cookie := roc_counter w\<rparr>) w
      in if roc_cookie (roc w) = 0
         then (upd_roc (\<lambda>r. r\<lparr>roc_cookie := 1\<rparr>) w)\<lparr>roc_counter := roc_counter w + 1\<rparr> else w)"

definition roc_fill ::
  "nat \<Rightarrow> (u64 \<times> u8 list) option \<Rightarrow> nat \<Rightarrow> wil6210_priv \<Rightarrow> wil6210_priv" where
  "roc_fill chan buf duration =
     upd_roc (\<lambda>r. (case buf of
         Some (p, bs) \<Rightarrow> r\<lparr>roc_chan := Some chan, roc_duration := duration, roc_buf := Some bs,
           roc_mgmt_tx_cookie := p\<rparr>
       | None \<Rightarrow> r\<lparr>roc_chan := Some chan, roc_duration := duration, roc_mgmt_tx_cookie := 0\<rparr>))"

text \<open>
  \<open>want\<close> tells whether the caller gives a place for the cookie; the result is the error, what is
  written there, and the state.
\<close>

definition wil_prepare_roc ::
  "call_env \<Rightarrow> u8 list \<Rightarrow> nat option \<Rightarrow> (u64 \<times> u8 list) option \<Rightarrow> nat \<Rightarrow> bool \<Rightarrow> wil6210_priv
     \<Rightarrow> (errno option \<times> u64 option \<times> wil6210_priv) option" where
  "wil_prepare_roc env stack chan buf duration want w = do {
     ch \<leftarrow> chan;
     (if \<not> want then Some (Some EINVAL, None, w)
      else if roc_cookie (roc w) \<noteq> 0 then Some (Some EBUSY, None, w)
      else do {
        let duration = (if duration = 0 \<and> buf = None then 10 else duration);
        let w = roc_fill ch buf duration (roc_take_cookie w);
        (rc, w) \<leftarrow> wil_start_roc env stack w;
        let mgmt = roc_mgmt_tx_cookie (roc w);
        let w = (if mgmt \<noteq> 0 then klog_add (Cfg80211MgmtTxStatus mgmt (rc = None)) w else w);
        Some (if rc = None
          then (if mgmt \<noteq> 0 then (None, Some mgmt, w)
                else (None, Some (roc_cookie (roc w)), klog_add (Cfg80211RocReady (roc_cookie (roc w))) w))
          else (rc, if mgmt \<noteq> 0 then Some mgmt else None, roc_idle w))
      })
   }"

subsection \<open>Correctness\<close>

text \<open>An operation is active exactly while its end is queued.\<close>

definition roc_inv :: "wil6210_priv \<Rightarrow> bool" where
  "roc_inv w \<longleftrightarrow> (roc_cookie (roc w) \<noteq> 0 \<longleftrightarrow> roc_work_queued (roc w)) \<and>
     (roc_work_queued (roc w) \<longrightarrow> roc_chan (roc w) \<noteq> None)"

lemma roc_of_upd [simp]: "roc (upd_roc f w) = f (roc w)" "roc_counter (upd_roc f w) = roc_counter w"
  "waiting_ok (upd_roc f w) = waiting_ok w" "wstatus (upd_roc f w) = wstatus w"
  by (simp_all add: upd_roc_def waiting_ok_def reply_ok_def driver_ok_defs)

lemma waiting_ok_status [simp]: "waiting_ok (w\<lparr>wstatus := s\<rparr>) = waiting_ok w"
  "waiting_ok (w\<lparr>roc_counter := c\<rparr>) = waiting_ok w" "waiting_ok (klog_add e w) = waiting_ok w"
  by (simp_all add: waiting_ok_def reply_ok_def driver_ok_defs klog_add_def)

context wmi_caller
begin

lemma stop_discovery_total:
  assumes "I w" "\<And>w s. I w \<Longrightarrow> I (w\<lparr>wstatus := s\<rparr>)"
  shows "\<exists>rc w'. wmi_stop_discovery env w = Some (rc, w') \<and> I w' \<and>
    \<not> test_bit wil_status_dontscan (wstatus w')"
  using call_rc_total [OF assms(1), of WMI_DISCOVERY_STOP_CMDID "[]" WMI_DISCOVERY_STOPPED_EVENTID None] assms(2)
  by (auto simp: wmi_stop_discovery_def)

lemma p2p_cfg_total:
  assumes "I w" "\<And>w s. I w \<Longrightarrow> I (w\<lparr>wstatus := s\<rparr>)"
  shows "\<exists>rc w'. wmi_p2p_cfg e ch bi w = Some (rc, w') \<and> I w'"
  using assms send_total [OF assms(2) [OF assms(1)]] by (simp add: wmi_p2p_cfg_def Let_def)

lemma set_ssid_total:
  assumes "I w" "unat n \<le> length ssid"
  shows "\<exists>rc w'. wmi_set_ssid e n ssid w = Some (rc, w') \<and> I w'"
  using assms send_total [OF assms(1)] by (simp add: wmi_set_ssid_def rd_bytes_def)

end

lemma roc_waiting_status: "roc_waiting r c w \<Longrightarrow> roc_waiting r c (w\<lparr>wstatus := s\<rparr>)"
  by (simp add: roc_waiting_def)

lemma roc_cancel_work_ok:
  assumes "waiting_ok w" "world_ok env" "roc_chan (roc w) \<noteq> None"
  shows "\<exists>w'. wil_roc_cancel_work (worker_env env) w = Some w' \<and> waiting_ok w' \<and> roc_inv w' \<and>
    roc_cookie (roc w') = 0 \<and> roc_counter w' = roc_counter w \<and> \<not> test_bit wil_status_dontscan (wstatus w') \<and>
    (roc_mgmt_tx_cookie (roc w) = 0 \<longrightarrow> (\<exists>l. klog w' = l @ [Cfg80211RocExpired (roc_cookie (roc w))]))"
proof -
  obtain ch where ch: "roc_chan (roc w) = Some ch" using assms(3) by blast
  let ?w = "upd_roc (\<lambda>r. r\<lparr>roc_work_queued := False\<rparr>) w"
  have "roc_waiting (roc ?w) (roc_counter w) ?w" using assms(1) by (simp add: roc_waiting_def)
  from fw_roc.stop_discovery_total [OF this roc_waiting_status, of env] obtain rc w1 where
    1: "wmi_stop_discovery (worker_env env) ?w = Some (rc, w1)" "roc_waiting (roc ?w) (roc_counter w) w1"
      "\<not> test_bit wil_status_dontscan (wstatus w1)"
    using evt_env_ok_id [OF assms(2)] by auto
  then show ?thesis
    using ch by (simp add: wil_roc_cancel_work_def roc_idle_def roc_waiting_def roc_inv_def Let_def)
      (simp add: klog_add_def upd_roc_def)
qed

lemma roc_stop_ok:
  assumes "roc_waiting r c w" "world_ok env"
  shows "\<exists>w'. roc_stop (worker_env env) rc w = Some (rc, w') \<and> roc_waiting r c w'"
  using fw_roc.stop_discovery_total [OF assms(1) roc_waiting_status, of env] evt_env_ok_id [OF assms(2)]
  by (auto simp: roc_stop_def)

lemma start_roc_ok:
  assumes "roc_waiting r c w" "world_ok env" "roc_chan r \<noteq> None"
  shows "\<exists>rc w'. wil_start_roc (worker_env env) stack w = Some (rc, w') \<and>
    roc_waiting (if rc = None then r\<lparr>roc_started := True, roc_work_queued := True\<rparr> else r) c w' \<and>
    (rc = None \<longrightarrow> (\<exists>l. klog w' = l @ [QueueWork roc_work]))"
proof -
  let ?I = "roc_waiting r c" and ?env = "worker_env env"
  obtain ch where ch: "roc_chan (roc w) = Some ch" using assms(1,3) by (auto simp: roc_waiting_def)
  have id: "evt_env_ok env = env" by (rule evt_env_ok_id [OF assms(2)])
  obtain rc1 w1 where 1: "wmi_p2p_cfg (cc_wmi ?env) 2 100 w = Some (rc1, w1)" "?I w1"
    using fw_roc.p2p_cfg_total [OF assms(1) roc_waiting_status, of "cc_wmi ?env" 2 100] by auto
  have n: "unat (7 :: u8) \<le> length p2p_ssid" by (simp add: p2p_ssid_def)
  obtain rc2 w2 where 2: "wmi_set_ssid (cc_wmi ?env) 7 p2p_ssid w1 = Some (rc2, w2)" "?I w2"
    using fw_roc.set_ssid_total [OF 1(2) n, of "cc_wmi ?env"] by auto
  obtain rc3 w3 where 3: "wmi_start_listen ?env stack w2 = Some (rc3, w3)" "?I w3"
    using fw_roc.call_status_total [OF 2(2), of 4 env WMI_START_LISTEN_CMDID "[]" WMI_LISTEN_STARTED_EVENTID stack]
    unfolding wmi_start_listen_def id by auto
  obtain w4 w5 where 45: "roc_stop ?env rc2 w2 = Some (rc2, w4)" "?I w4" "roc_stop ?env rc3 w3 = Some (rc3, w5)" "?I w5"
    using roc_stop_ok [OF 2(2) assms(2)] roc_stop_ok [OF 3(2) assms(2)] by blast
  let ?w6 = "klog_add (QueueWork roc_work) (upd_roc (\<lambda>r. r\<lparr>roc_started := True, roc_work_queued := True\<rparr>) w3)"
  have step: "wil_start_roc ?env stack w =
      (if rc1 \<noteq> None then Some (rc1, w1) else if rc2 \<noteq> None then Some (rc2, w4)
       else if rc3 \<noteq> None then Some (rc3, w5) else Some (None, ?w6))"
    using ch 1(1) 2(1) 3(1) 45(1,3) by (simp add: wil_start_roc_def)
  have "roc_waiting (r\<lparr>roc_started := True, roc_work_queued := True\<rparr>) c ?w6" "\<exists>l. klog ?w6 = l @ [QueueWork roc_work]"
    using 3(2) by (simp_all add: roc_waiting_def)
  then show ?thesis
    unfolding step using 1(2) 45(2,4) by (cases rc1; cases rc2; cases rc3) simp_all
qed

lemma take_cookie_ok:
  "roc_cookie (roc (roc_take_cookie w)) \<noteq> 0" "waiting_ok (roc_take_cookie w) = waiting_ok w"
  "roc_work_queued (roc (roc_take_cookie w)) = roc_work_queued (roc w)"
proof -
  have u: "roc (w\<lparr>roc_counter := c\<rparr>) = roc w" "roc_counter (w\<lparr>roc_counter := c\<rparr>) = c" for c w by simp_all
  show "roc_cookie (roc (roc_take_cookie w)) \<noteq> 0" "waiting_ok (roc_take_cookie w) = waiting_ok w"
    "roc_work_queued (roc (roc_take_cookie w)) = roc_work_queued (roc w)"
    by (simp_all add: roc_take_cookie_def Let_def)
qed

lemma roc_fill_ok:
  "waiting_ok (roc_fill ch buf dur w) = waiting_ok w" "roc_counter (roc_fill ch buf dur w) = roc_counter w"
  "roc_cookie (roc (roc_fill ch buf dur w)) = roc_cookie (roc w)" "roc_chan (roc (roc_fill ch buf dur w)) = Some ch"
  "roc_work_queued (roc (roc_fill ch buf dur w)) = roc_work_queued (roc w)"
  "roc_mgmt_tx_cookie (roc (roc_fill ch buf dur w)) = (case buf of None \<Rightarrow> 0 | Some (p, bs) \<Rightarrow> p)"
  by (simp_all add: roc_fill_def split: option.split)

text \<open>
  An operation is started only when none is active; started, its end is queued and its cookie is
  the caller's; an error leaves none active.
\<close>

lemma prepare_roc_ok:
  assumes "waiting_ok w" "world_ok env" "roc_inv w"
  shows "\<exists>rc ck w'. wil_prepare_roc (worker_env env) stack (Some ch) buf dur want w = Some (rc, ck, w') \<and>
    waiting_ok w' \<and> roc_inv w' \<and> (\<not> want \<longrightarrow> rc = Some EINVAL \<and> w' = w) \<and>
    (want \<and> roc_cookie (roc w) \<noteq> 0 \<longrightarrow> rc = Some EBUSY \<and> w' = w) \<and>
    (want \<and> roc_cookie (roc w) = 0 \<and> rc = None \<longrightarrow> roc_cookie (roc w') \<noteq> 0 \<and> roc_chan (roc w') = Some ch \<and>
       ck = Some (case buf of Some (p, _) \<Rightarrow> if p \<noteq> 0 then p else roc_cookie (roc w') | None \<Rightarrow> roc_cookie (roc w'))) \<and>
    (want \<and> roc_cookie (roc w) = 0 \<and> rc \<noteq> None \<longrightarrow> roc_cookie (roc w') = 0)"
proof (cases "want \<and> roc_cookie (roc w) = 0")
  case False
  then show ?thesis using assms(1,3) by (auto simp: wil_prepare_roc_def)
next
  case True
  let ?dur = "if dur = 0 \<and> buf = None then 10 else dur"
  let ?w = "roc_fill ch buf ?dur (roc_take_cookie w)"
  let ?r = "roc ?w"
  have idle: "\<not> roc_work_queued (roc w)" using assms(3) True by (simp add: roc_inv_def)
  have "roc_waiting ?r (roc_counter ?w) ?w" using assms(1) by (simp add: roc_waiting_def roc_fill_ok take_cookie_ok)
  from start_roc_ok [OF this assms(2), of stack] obtain rc w1 where
    1: "wil_start_roc (worker_env env) stack ?w = Some (rc, w1)" "waiting_ok w1"
      "roc w1 = (if rc = None then ?r\<lparr>roc_started := True, roc_work_queued := True\<rparr> else ?r)"
    by (auto simp: roc_waiting_def roc_fill_ok)
  let ?mgmt = "case buf of None \<Rightarrow> 0 | Some (p, bs) \<Rightarrow> p"
  have mgmt: "roc_mgmt_tx_cookie (roc w1) = ?mgmt" by (simp add: 1(3) roc_fill_ok)
  let ?w2 = "if ?mgmt \<noteq> 0 then klog_add (Cfg80211MgmtTxStatus ?mgmt (rc = None)) w1 else w1"
  have w2: "waiting_ok ?w2" "roc ?w2 = roc w1" using 1(2) by simp_all
  have step: "wil_prepare_roc (worker_env env) stack (Some ch) buf dur want w =
      Some (if rc = None
        then (if ?mgmt \<noteq> 0 then (None, Some ?mgmt, ?w2)
              else (None, Some (roc_cookie (roc ?w2)), klog_add (Cfg80211RocReady (roc_cookie (roc ?w2))) ?w2))
        else (rc, if ?mgmt \<noteq> 0 then Some ?mgmt else None, roc_idle ?w2))"
    unfolding wil_prepare_roc_def Let_def using True 1(1) mgmt by simp
  have ck: "roc_cookie (roc w1) \<noteq> 0" "roc_chan (roc w1) = Some ch"
    "roc_work_queued (roc w1) = (rc = None)"
    using idle by (simp_all add: 1(3) roc_fill_ok take_cookie_ok)
  have idle2: "waiting_ok (roc_idle ?w2)" "roc_cookie (roc (roc_idle ?w2)) = 0" "rc \<noteq> None \<longrightarrow> roc_inv (roc_idle ?w2)"
    using w2 ck by (simp_all add: roc_idle_def roc_inv_def)
  have up: "rc = None \<longrightarrow> roc_inv ?w2" using w2 ck by (simp add: roc_inv_def)
  show ?thesis
    unfolding step using True w2 ck idle2 up
    by (cases rc; cases "?mgmt = 0") (auto simp: roc_inv_def split: option.splits)
qed

end
