(* ===== verification/Wil_Cfg80211.thy ===== *)
theory Wil_Cfg80211
  imports Wil_Main Wil_Roc
begin

text \<open>
  The operations cfg80211 calls (\<^verbatim>\<open>cfg80211.c\<close>): stations, scans, connections, frames and
  operations off the channel, keys, and the access point. What cfg80211 itself looks up (a BSS and
  its information elements) is part of the requests; the module parameters \<open>use_pcp_for_ap\<close> (in
  the environment of the events) and \<open>passphrase\<close> are arguments.
\<close>

subsection \<open>Interface types\<close>

definition WMI_NETTYPE_INFRA :: int where "WMI_NETTYPE_INFRA = 0x01"
definition WMI_NETTYPE_ADHOC :: int where "WMI_NETTYPE_ADHOC = 0x02"
definition WMI_NETTYPE_AP :: int where "WMI_NETTYPE_AP = 0x10"
definition WMI_NETTYPE_P2P :: int where "WMI_NETTYPE_P2P = 0x20"

definition nl2wmi :: "(nl80211_iftype \<times> int) list" where
  "nl2wmi = [(NL80211_IFTYPE_ADHOC, WMI_NETTYPE_ADHOC), (NL80211_IFTYPE_STATION, WMI_NETTYPE_INFRA),
     (NL80211_IFTYPE_AP, WMI_NETTYPE_AP), (NL80211_IFTYPE_P2P_CLIENT, WMI_NETTYPE_P2P),
     (NL80211_IFTYPE_P2P_GO, WMI_NETTYPE_P2P), (NL80211_IFTYPE_MONITOR, WMI_NETTYPE_ADHOC)]"

text \<open>A type without an entry gives \<open>-EOPNOTSUPP\<close>, -95.\<close>

definition wil_iftype_nl2wmi :: "nl80211_iftype \<Rightarrow> int" where
  "wil_iftype_nl2wmi t = (case map_of nl2wmi t of Some n \<Rightarrow> n | None \<Rightarrow> -95)"

definition wil_cfg80211_change_iface ::
  "nl80211_iftype \<Rightarrow> u32 option \<Rightarrow> wil6210_priv \<Rightarrow> errno option \<times> wil6210_priv" where
  "wil_cfg80211_change_iface type flags w =
     (let set_type = (\<lambda>w. w\<lparr>wdev := (wdev w)\<lparr>wd_iftype := type\<rparr>\<rparr>)
      in case type of
           NL80211_IFTYPE_STATION \<Rightarrow> (None, set_type w)
         | NL80211_IFTYPE_AP \<Rightarrow> (None, set_type w)
         | NL80211_IFTYPE_P2P_CLIENT \<Rightarrow> (None, set_type w)
         | NL80211_IFTYPE_P2P_GO \<Rightarrow> (None, set_type w)
         | NL80211_IFTYPE_MONITOR \<Rightarrow>
             (None, set_type (w\<lparr>monitor_flags := (case flags of Some f \<Rightarrow> f | None \<Rightarrow> 0)\<rparr>))
         | _ \<Rightarrow> (Some EOPNOTSUPP, w))"

definition wil_cfg80211_set_channel :: "nat \<Rightarrow> wil6210_priv \<Rightarrow> errno option \<times> wil6210_priv" where
  "wil_cfg80211_set_channel ch w = (None, w\<lparr>wdev := (wdev w)\<lparr>wd_channel := Some ch\<rparr>\<rparr>)"

subsection \<open>Stations\<close>

datatype sinfo_bit =
    STATION_INFO_RX_BYTES | STATION_INFO_TX_BYTES | STATION_INFO_RX_PACKETS
  | STATION_INFO_TX_PACKETS | STATION_INFO_RX_BITRATE | STATION_INFO_TX_BITRATE
  | STATION_INFO_RX_DROP_MISC | STATION_INFO_TX_FAILED | STATION_INFO_SIGNAL

record station_info =
  si_generation :: int
  si_filled :: "sinfo_bit list"
  si_txrate_mcs :: u16
  si_rxrate_mcs :: u16
  si_rx_bytes :: u64
  si_rx_packets :: u64
  si_rx_dropped_misc :: u64
  si_tx_bytes :: u64
  si_tx_packets :: u64
  si_tx_failed :: u64
  si_signal :: "u8 option"

definition wmi_notify_req_cmd :: "u8 \<Rightarrow> u32 \<Rightarrow> u8 list" where
  "wmi_notify_req_cmd cid interval_usec = [cid, 0, 0, 0] @ le32 interval_usec @ [0, 0, 0, 0]"

definition wil_cid_fill_sinfo ::
  "call_env \<Rightarrow> u8 list \<Rightarrow> nat \<Rightarrow> wil6210_priv \<Rightarrow> ((errno + station_info) \<times> wil6210_priv) option" where
  "wil_cid_fill_sinfo env stack cid w = do {
     (rc, reply, w) \<leftarrow> wmi_call env WMI_NOTIFY_REQ_CMDID (wmi_notify_req_cmd (of_nat cid) 0)
       WMI_NOTIFY_REQ_DONE_EVENTID (reply_init stack 44) w;
     (case rc of
        Some e \<Rightarrow> Some (Inl e, w)
      | None \<Rightarrow> do {
          bs \<leftarrow> reply;
          bf_mcs \<leftarrow> rd16 (8 + 28) bs;
          sqi \<leftarrow> rd8 (8 + 40) bs;
          let stats = sta_stats (sta w ! cid);
          let conn = test_bit wil_status_fwconnected (wstatus w);
          Some (Inr \<lparr>si_generation = sinfo_gen w,
            si_filled = [STATION_INFO_RX_BYTES, STATION_INFO_TX_BYTES, STATION_INFO_RX_PACKETS,
              STATION_INFO_TX_PACKETS, STATION_INFO_RX_BITRATE, STATION_INFO_TX_BITRATE,
              STATION_INFO_RX_DROP_MISC, STATION_INFO_TX_FAILED] @ (if conn then [STATION_INFO_SIGNAL] else []),
            si_txrate_mcs = bf_mcs, si_rxrate_mcs = last_mcs_rx stats, si_rx_bytes = rx_bytes stats,
            si_rx_packets = rx_packets stats, si_rx_dropped_misc = rx_dropped stats,
            si_tx_bytes = tx_bytes stats, si_tx_packets = tx_packets stats, si_tx_failed = tx_errors stats,
            si_signal = (if conn then Some sqi else None)\<rparr>, w)
        })
   }"

definition wil_cfg80211_get_station ::
  "call_env \<Rightarrow> u8 list \<Rightarrow> mac_addr \<Rightarrow> wil6210_priv \<Rightarrow> ((errno + station_info) \<times> wil6210_priv) option" where
  "wil_cfg80211_get_station env stack mac w =
     (case wil_find_cid w mac of
        None \<Rightarrow> Some (Inl ENOENT, w)
      | Some cid \<Rightarrow> wil_cid_fill_sinfo env stack cid w)"

text \<open>The loop over the peers: \<open>i\<close> is the peer, \<open>idx\<close> the active peers still to be skipped.\<close>

fun cid_by_idx :: "wil_sta_info list \<Rightarrow> nat \<Rightarrow> nat \<Rightarrow> nat option" where
  "cid_by_idx [] i idx = None"
| "cid_by_idx (s # ss) i idx =
     (if sta_status s = wil_sta_unused then cid_by_idx ss (i + 1) idx
      else if idx = 0 then Some i
      else cid_by_idx ss (i + 1) (idx - 1))"

definition wil_find_cid_by_idx :: "wil6210_priv \<Rightarrow> nat \<Rightarrow> nat option" where
  "wil_find_cid_by_idx w idx = cid_by_idx (sta w) 0 idx"

definition wil_cfg80211_dump_station ::
  "call_env \<Rightarrow> u8 list \<Rightarrow> nat \<Rightarrow> wil6210_priv
     \<Rightarrow> ((errno + mac_addr \<times> (errno + station_info)) \<times> wil6210_priv) option" where
  "wil_cfg80211_dump_station env stack idx w =
     (case wil_find_cid_by_idx w idx of
        None \<Rightarrow> Some (Inl ENOENT, w)
      | Some cid \<Rightarrow> do {
          let mac = sta_addr (sta w ! cid);
          (r, w) \<leftarrow> wil_cid_fill_sinfo env stack cid w;
          Some (Inr (mac, r), w)
        })"

definition wil_cfg80211_del_station ::
  "(skb_ptr \<Rightarrow> bool) \<Rightarrow> wmi_env \<Rightarrow> mac_addr option \<Rightarrow> wil6210_priv \<Rightarrow> (errno option \<times> wil6210_priv) option" where
  "wil_cfg80211_del_station ok env mac w = map_option (\<lambda>w. (None, w)) (wil6210_disconnect ok env mac w)"

subsection \<open>Scans\<close>

text \<open>A request: its identity, the networks, the channels with number and frequency, the elements.\<close>

record scan_req =
  rq_id :: nat
  rq_ssids :: "u8 list list"
  rq_channels :: "(nat \<times> nat) list"
  rq_ie :: "u8 list option"

definition wil_scan_is_p2p_search :: "scan_req \<Rightarrow> bool" where
  "wil_scan_is_p2p_search rq \<longleftrightarrow> length (rq_ssids rq) = 1 \<and> length (rq_channels rq) = 1 \<and>
     snd (rq_channels rq ! 0) = 60480 \<and> length (rq_ssids rq ! 0) = length p2p_ssid \<and>
     rq_ssids rq ! 0 = p2p_ssid"

definition WMI_FRAME_BEACON :: u8 where "WMI_FRAME_BEACON = 0"
definition WMI_FRAME_PROBE_REQ :: u8 where "WMI_FRAME_PROBE_REQ = 1"
definition WMI_FRAME_PROBE_RESP :: u8 where "WMI_FRAME_PROBE_RESP = 2"
definition WMI_FRAME_ASSOC_REQ :: u8 where "WMI_FRAME_ASSOC_REQ = 3"
definition WMI_FRAME_ASSOC_RESP :: u8 where "WMI_FRAME_ASSOC_RESP = 4"

text \<open>What follows the configuration of the search: the step that fails decides the result.\<close>

definition p2p_search ::
  "call_env \<Rightarrow> u8 list \<Rightarrow> scan_req \<Rightarrow> wil6210_priv \<Rightarrow> (errno option \<times> wil6210_priv) option" where
  "p2p_search env stack rq w = do {
     (rc, w) \<leftarrow> wmi_set_ssid (cc_wmi env) (of_nat (length p2p_ssid)) p2p_ssid w;
     (if rc \<noteq> None then Some (rc, w)
      else do {
        (rc, w) \<leftarrow> (case rq_ie rq of
            Some ie \<Rightarrow>
              if 0 < length ie then wmi_set_ie (cc_wmi env) WMI_FRAME_PROBE_REQ (of_nat (length ie)) ie w
              else Some (None, w)
          | None \<Rightarrow> Some (None, w));
        (if rc \<noteq> None then Some (rc, w)
         else do {
           (rc, w) \<leftarrow> wmi_start_search env stack w;
           (if rc \<noteq> None then Some (rc, w)
            else do { w \<leftarrow> cc_wait env w; Some (None, w) })
         })
      })
   }"

definition wil_p2p_scan ::
  "call_env \<Rightarrow> u8 list \<Rightarrow> scan_req \<Rightarrow> wil6210_priv \<Rightarrow> (errno option \<times> wil6210_priv) option" where
  "wil_p2p_scan env stack rq w = do {
     (rc, w) \<leftarrow> wmi_p2p_cfg (cc_wmi env) 2 100 w;
     (rc, w) \<leftarrow> (if rc \<noteq> None then Some (rc, w)
       else do {
         (rc, w) \<leftarrow> p2p_search env stack rq w;
         (_, w) \<leftarrow> wmi_stop_discovery env w;
         Some (rc, w)
       });
     Some (rc, klog_add (Cfg80211ScanDone (rc = None)) w)
   }"

definition wmi_start_scan_cmd :: "u8 list \<Rightarrow> u8 list" where
  "wmi_start_scan_cmd chs =
     replicate 8 0 @ le32 0 @ le32 0 @ [0, of_nat (length chs)] @ concat (map (\<lambda>c. [c, 0]) chs)"

text \<open>The channels asked for, at most four of them, without the unknown ones, counted from 0.\<close>

definition scan_channels :: "scan_req \<Rightarrow> u8 list" where
  "scan_channels rq = map (\<lambda>c. of_nat c - 1) (filter (\<lambda>c. c \<noteq> 0) (map fst (take 4 (rq_channels rq))))"

definition wil_cfg80211_scan ::
  "call_env \<Rightarrow> u8 list \<Rightarrow> scan_req \<Rightarrow> wil6210_priv \<Rightarrow> (errno option \<times> wil6210_priv) option" where
  "wil_cfg80211_scan env stack rq w =
     (if scan_request w \<noteq> None then Some (Some EAGAIN, w)
      else if wd_iftype (wdev w) \<notin> {NL80211_IFTYPE_STATION, NL80211_IFTYPE_P2P_CLIENT}
      then Some (Some EOPNOTSUPP, w)
      else if test_bit wil_status_dontscan (wstatus w) then Some (Some EBUSY, w)
      else if wil_scan_is_p2p_search rq then wil_p2p_scan env stack rq w
      else wmi_send (cc_wmi env) WMI_START_SCAN_CMDID (wmi_start_scan_cmd (scan_channels rq))
        (w\<lparr>scan_request := Some (rq_id rq)\<rparr>))"

subsection \<open>Connections\<close>

definition WLAN_CAPABILITY_DMG_TYPE_MASK :: u16 where "WLAN_CAPABILITY_DMG_TYPE_MASK = 3"
definition WLAN_CAPABILITY_DMG_TYPE_IBSS :: u16 where "WLAN_CAPABILITY_DMG_TYPE_IBSS = 1"
definition WLAN_CAPABILITY_DMG_TYPE_PBSS :: u16 where "WLAN_CAPABILITY_DMG_TYPE_PBSS = 2"
definition WLAN_CAPABILITY_DMG_TYPE_AP :: u16 where "WLAN_CAPABILITY_DMG_TYPE_AP = 3"

definition WMI_AUTH11_OPEN :: u8 where "WMI_AUTH11_OPEN = 0x01"
definition WMI_AUTH11_SHARED :: u8 where "WMI_AUTH11_SHARED = 0x02"
definition WMI_AUTH_NONE :: u8 where "WMI_AUTH_NONE = 0x01"
definition WMI_AUTH_WPA2_PSK :: u8 where "WMI_AUTH_WPA2_PSK = 0x10"
definition WMI_CRYPT_AES_GCMP :: u8 where "WMI_CRYPT_AES_GCMP = 0x20"
definition WMI_MAX_IE_LEN :: nat where "WMI_MAX_IE_LEN = 1024"

definition wmi_connect_cmd ::
  "u8 \<Rightarrow> u8 \<Rightarrow> u8 \<Rightarrow> u8 \<Rightarrow> u8 \<Rightarrow> u8 list \<Rightarrow> u8 \<Rightarrow> mac_addr \<Rightarrow> mac_addr \<Rightarrow> u8 list" where
  "wmi_connect_cmd network_type dot11_auth_mode auth_mode pairwise_crypto_type pairwise_crypto_len
     ssid chan bssid dst_mac =
     [network_type, dot11_auth_mode, auth_mode, pairwise_crypto_type, pairwise_crypto_len, 0, 0,
      of_nat (length ssid)] @ pad_to 32 ssid @ [chan, 0] @ pad_to 6 bssid @ le32 0 @ pad_to 6 dst_mac @ [0, 0]"

text \<open>
  The BSS cfg80211 found: its SSID element (identifier, length, value), address, capabilities and
  channel number.
\<close>

record cfg80211_bss =
  bs_ssid_ie :: "u8 list option"
  bs_bssid :: mac_addr
  bs_capability :: u16
  bs_hw_value :: nat

record connect_params =
  cp_bss :: "cfg80211_bss option"
  cp_ie :: "u8 list option"

definition connect_network :: "bool \<Rightarrow> u16 \<Rightarrow> int option" where
  "connect_network pcp cap =
     (let t = cap AND WLAN_CAPABILITY_DMG_TYPE_MASK
      in if t = WLAN_CAPABILITY_DMG_TYPE_AP then Some (if pcp then WMI_NETTYPE_P2P else WMI_NETTYPE_INFRA)
         else if t = WLAN_CAPABILITY_DMG_TYPE_PBSS then Some WMI_NETTYPE_P2P
         else if t = WLAN_CAPABILITY_DMG_TYPE_IBSS then Some WMI_NETTYPE_P2P
         else None)"

text \<open>For a secure association the key is deleted and the elements are set first.\<close>

definition connect_secure ::
  "wmi_env \<Rightarrow> cfg80211_bss \<Rightarrow> u8 list \<Rightarrow> wil6210_priv \<Rightarrow> (errno option \<times> wil6210_priv) option" where
  "connect_secure env bss ie w =
     (if length ie > WMI_MAX_IE_LEN then Some (Some ERANGE, w)
      else do {
        (rc, w) \<leftarrow> wmi_del_cipher_key env 0 (Some (bs_bssid bss)) w;
        (if rc \<noteq> None then Some (rc, w)
         else wmi_set_ie env WMI_FRAME_ASSOC_REQ (of_nat (length ie)) ie w)
      })"

text \<open>The network types that are not supported leave the function with the result so far: success.\<close>

definition connect_bss ::
  "evt_env \<Rightarrow> cfg80211_bss \<Rightarrow> u8 list \<Rightarrow> u8 list option \<Rightarrow> wil6210_priv
     \<Rightarrow> (errno option \<times> wil6210_priv) option" where
  "connect_bss env bss ssid_eid ie w =
     (let rsn = (case ie of Some bs \<Rightarrow> ee_rsn env bs | None \<Rightarrow> False)
      in do {
        (rc, w) \<leftarrow> (case ie of
            Some bs \<Rightarrow> if rsn then connect_secure (ee_wmi env) bss bs w else Some (None, w)
          | None \<Rightarrow> Some (None, w));
        (if rc \<noteq> None then Some (rc, w)
         else (case connect_network (use_pcp_for_ap env) (bs_capability bss) of
             None \<Rightarrow> Some (None, w)
           | Some net \<Rightarrow> do {
               len \<leftarrow> rd8 1 ssid_eid;
               ssid \<leftarrow> rd_bytes 2 (unat (min len 32)) ssid_eid;
               (if bs_hw_value bss = 0 then Some (Some EOPNOTSUPP, w)
                else do {
                  let w = w\<lparr>wstatus := set_bit wil_status_dontscan (wstatus w)\<rparr>;
                  (rc, w) \<leftarrow> wmi_send (ee_wmi env) WMI_CONNECT_CMDID
                    (wmi_connect_cmd (word_of_int net)
                      (if rsn then WMI_AUTH11_SHARED else WMI_AUTH11_OPEN)
                      (if rsn then WMI_AUTH_WPA2_PSK else WMI_AUTH_NONE)
                      (if rsn then WMI_CRYPT_AES_GCMP else 0) (if rsn then 16 else 0)
                      ssid (of_nat (bs_hw_value bss) - 1) (bs_bssid bss) (bs_bssid bss)) w;
                  Some (rc, if rc = None then w\<lparr>connect_timer := True\<rparr> else w)
                })
             }))
      })"

definition wil_cfg80211_connect ::
  "evt_env \<Rightarrow> connect_params \<Rightarrow> wil6210_priv \<Rightarrow> (errno option \<times> wil6210_priv) option" where
  "wil_cfg80211_connect env sme w =
     (case cp_bss sme of
        None \<Rightarrow> Some (Some ENOENT, w)
      | Some bss \<Rightarrow>
          (case bs_ssid_ie bss of
             None \<Rightarrow> Some (Some ENOENT, w)
           | Some ssid_eid \<Rightarrow> connect_bss env bss ssid_eid (cp_ie sme) w))"

definition wil_cfg80211_disconnect ::
  "wmi_env \<Rightarrow> wil6210_priv \<Rightarrow> (errno option \<times> wil6210_priv) option" where
  "wil_cfg80211_disconnect env w = wmi_send env WMI_DISCONNECT_CMDID [] w"

subsection \<open>Frames and operations off the channel\<close>

definition wil_cfg80211_mgmt_tx ::
  "call_env \<Rightarrow> u8 list \<Rightarrow> nat option \<Rightarrow> bool \<Rightarrow> nat \<Rightarrow> u64 \<Rightarrow> u8 list \<Rightarrow> u64 option \<Rightarrow> wil6210_priv
     \<Rightarrow> (errno option \<times> u64 option \<times> wil6210_priv) option" where
  "wil_cfg80211_mgmt_tx env stack chan offchan wait p buf cookie w =
     (if offchan then wil_prepare_roc env stack chan (Some (p, buf)) wait (cookie \<noteq> None) w
      else do {
        (rc, w) \<leftarrow> wmi_mgmt_tx env stack buf w;
        Some (rc, cookie, klog_add
          (Cfg80211MgmtTxStatus (case cookie of Some c \<Rightarrow> c | None \<Rightarrow> 0) (rc = None)) w)
      })"

text \<open>Another cookie than the active one is only reported.\<close>

definition wil_cfg80211_mgmt_tx_cancel_wait ::
  "call_env \<Rightarrow> u64 \<Rightarrow> wil6210_priv \<Rightarrow> (errno option \<times> wil6210_priv) option" where
  "wil_cfg80211_mgmt_tx_cancel_wait env cookie w = map_option (\<lambda>w. (None, w)) (wil_cancel_roc env w)"

definition wil_remain_on_channel ::
  "call_env \<Rightarrow> u8 list \<Rightarrow> nat option \<Rightarrow> nat \<Rightarrow> bool \<Rightarrow> wil6210_priv
     \<Rightarrow> (errno option \<times> u64 option \<times> wil6210_priv) option" where
  "wil_remain_on_channel env stack chan duration want w = wil_prepare_roc env stack chan None duration want w"

definition wil_cancel_remain_on_channel ::
  "call_env \<Rightarrow> u64 \<Rightarrow> wil6210_priv \<Rightarrow> (errno option \<times> wil6210_priv) option" where
  "wil_cancel_remain_on_channel env cookie w = map_option (\<lambda>w. (None, w)) (wil_cancel_roc env w)"

subsection \<open>Keys\<close>

definition wil_cfg80211_add_key ::
  "wmi_env \<Rightarrow> u8 \<Rightarrow> bool \<Rightarrow> mac_addr option \<Rightarrow> int \<Rightarrow> u8 list option \<Rightarrow> wil6210_priv
     \<Rightarrow> (errno option \<times> wil6210_priv) option" where
  "wil_cfg80211_add_key env key_index pw mac key_len key w =
     (if \<not> pw then Some (None, w) else wmi_add_cipher_key env key_index mac key_len key w)"

definition wil_cfg80211_del_key ::
  "wmi_env \<Rightarrow> u8 \<Rightarrow> bool \<Rightarrow> mac_addr option \<Rightarrow> wil6210_priv \<Rightarrow> (errno option \<times> wil6210_priv) option" where
  "wil_cfg80211_del_key env key_index pw mac w =
     (if \<not> pw then Some (None, w) else wmi_del_cipher_key env key_index mac w)"

definition wil_cfg80211_set_default_key :: "wil6210_priv \<Rightarrow> errno option \<times> wil6210_priv" where
  "wil_cfg80211_set_default_key w = (None, w)"

subsection \<open>The access point\<close>

record ap_settings =
  ap_channel :: "nat option"
  ap_ssid :: "u8 list"
  ap_beacon_interval :: int
  ap_privacy :: bool
  ap_beacon_ies :: "u8 list"
  ap_proberesp_ies :: "u8 list"
  ap_assocresp_ies :: "u8 list"

definition ap_set_ie :: "wmi_env \<Rightarrow> u8 \<Rightarrow> u8 list \<Rightarrow> wil6210_priv \<Rightarrow> (errno option \<times> wil6210_priv) option" where
  "ap_set_ie env type ie w = wmi_set_ie env type (of_nat (length ie)) ie w"

text \<open>The profile: what fails here is ignored.\<close>

definition ap_profile ::
  "main_env \<Rightarrow> u8 list option \<Rightarrow> ap_settings \<Rightarrow> wil6210_priv \<Rightarrow> wil6210_priv option" where
  "ap_profile env passphrase info w = do {
     (_, w) \<leftarrow> wmi_set_mac_address (mn_wmi env) (nd_addr (ndev w)) w;
     (_, w) \<leftarrow> ap_set_ie (mn_wmi env) WMI_FRAME_PROBE_RESP (ap_proberesp_ies info) w;
     (_, w) \<leftarrow> ap_set_ie (mn_wmi env) WMI_FRAME_ASSOC_RESP (ap_assocresp_ies info) w;
     let w = w\<lparr>secure_pcp := ap_privacy info\<rparr>;
     (case passphrase of
        Some pass \<Rightarrow>
          if ap_privacy info
          then map_option snd (wmi_set_passphrase (mn_wmi env) (of_nat (length (ap_ssid info))) (ap_ssid info)
            (of_nat (length pass)) pass w)
          else Some w
      | None \<Rightarrow> Some w)
   }"

definition ap_started :: "u8 list \<Rightarrow> wil6210_priv \<Rightarrow> wil6210_priv" where
  "ap_started ssid w = w\<lparr>wdev := (wdev w)\<lparr>wd_ssid := ssid\<rparr>, ndev := (ndev w)\<lparr>nd_carrier := True\<rparr>\<rparr>"

definition wil_cfg80211_start_ap ::
  "main_env \<Rightarrow> u8 list option \<Rightarrow> ap_settings \<Rightarrow> wil6210_priv \<Rightarrow> (errno option \<times> wil6210_priv) option" where
  "wil_cfg80211_start_ap env passphrase info w =
     (case ap_channel info of
        None \<Rightarrow> Some (Some EINVAL, w)
      | Some ch \<Rightarrow>
          let nettype = (if use_pcp_for_ap (mn_evt env) then WMI_NETTYPE_P2P
            else wil_iftype_nl2wmi (wd_iftype (wdev w)))
          in do {
            (rc, w) \<leftarrow> wil_reset env w;
            (if rc \<noteq> None then Some (rc, w)
             else do {
               (rc, w) \<leftarrow> wil_rx_init (mn_call env) (mn_rx env) (mn_stack env) (mn_rx_mem env) w;
               (if rc \<noteq> None then Some (rc, w)
                else do {
                  (rc, w) \<leftarrow> wmi_set_ssid (mn_wmi env) (of_nat (length (ap_ssid info))) (ap_ssid info) w;
                  (if rc \<noteq> None then Some (rc, w)
                   else do {
                     (rc, w) \<leftarrow> wmi_set_channel (mn_wmi env) (int ch) w;
                     (if rc \<noteq> None then Some (rc, w)
                      else do {
                        w \<leftarrow> ap_profile env passphrase info w;
                        (rc, w) \<leftarrow> wmi_pcp_start (mn_call env) (mn_stack env) (passphrase \<noteq> None)
                          (ap_beacon_interval info) (word_of_int nettype) (of_nat ch) w;
                        (if rc \<noteq> None then Some (rc, w)
                         else if length (ap_ssid info) > 32 then None
                         else Some (None, ap_started (ap_ssid info) w))
                      })
                   })
                })
             })
          })"

definition wil_cfg80211_stop_ap :: "call_env \<Rightarrow> wil6210_priv \<Rightarrow> (errno option \<times> wil6210_priv) option" where
  "wil_cfg80211_stop_ap env w = wmi_pcp_stop env w"

text \<open>All three elements are set; the first error is the result.\<close>

definition wil_cfg80211_change_beacon ::
  "wmi_env \<Rightarrow> ap_settings \<Rightarrow> wil6210_priv \<Rightarrow> (errno option \<times> wil6210_priv) option" where
  "wil_cfg80211_change_beacon env info w = do {
     (r, w) \<leftarrow> ap_set_ie env WMI_FRAME_PROBE_RESP (ap_proberesp_ies info) w;
     let rc = r;
     (r, w) \<leftarrow> ap_set_ie env WMI_FRAME_ASSOC_RESP (ap_assocresp_ies info) w;
     let rc = (if r \<noteq> None \<and> rc = None then r else rc);
     (r, w) \<leftarrow> ap_set_ie env WMI_FRAME_BEACON (ap_beacon_ies info) w;
     Some (if r \<noteq> None \<and> rc = None then r else rc, w)
   }"

end
