(* ===== verification/Wil_Cfg_Correct.thy ===== *)
theory Wil_Cfg_Correct
  imports Wil_Cfg80211 Wil_Main_Correct
begin

text \<open>
  What the operations of cfg80211 do: the stations are listed in order, a search reports itself,
  connections, the off-channel operations as a state machine, and the access point coming up.
\<close>

subsection \<open>Stations\<close>

definition active_peers :: "wil6210_priv \<Rightarrow> nat list" where
  "active_peers w = filter (\<lambda>i. sta_status (sta w ! i) \<noteq> wil_sta_unused) [0..<length (sta w)]"

lemma cid_by_idx_nth:
  "cid_by_idx ss i idx =
     (let act = filter (\<lambda>k. sta_status (ss ! k) \<noteq> wil_sta_unused) [0..<length ss]
      in if idx < length act then Some (i + act ! idx) else None)"
proof (induction ss i idx rule: cid_by_idx.induct)
  case (1 i idx)
  then show ?case by simp
next
  case (2 s ss i idx)
  let ?P = "\<lambda>k. sta_status ((s # ss) ! k) \<noteq> wil_sta_unused"
  let ?Q = "\<lambda>k. sta_status (ss ! k) \<noteq> wil_sta_unused"
  have split: "filter ?P [0..<length (s # ss)] =
      (if sta_status s \<noteq> wil_sta_unused then [0] else []) @ map Suc (filter ?Q [0..<length ss])"
    by (simp add: upt_conv_Cons filter_map comp_def flip: map_Suc_upt del: upt_Suc)
  show ?case
  proof (cases "sta_status s = wil_sta_unused")
    case True
    then show ?thesis using 2 unfolding split by (simp add: Let_def)
  next
    case False
    then show ?thesis using 2 unfolding split by (cases idx) (simp_all add: Let_def)
  qed
qed

lemma find_cid_by_idx_nth:
  "wil_find_cid_by_idx w idx = (if idx < length (active_peers w) then Some (active_peers w ! idx) else None)"
  by (simp add: wil_find_cid_by_idx_def cid_by_idx_nth active_peers_def Let_def)

text \<open>
  The report about a peer: the counters are the peer's, the signal is there when the firmware is
  connected, the rate and the signal are those of the firmware's answer \<open>bs\<close>.
\<close>

definition sinfo_reports :: "nat \<Rightarrow> u8 list \<Rightarrow> wil6210_priv \<Rightarrow> station_info \<Rightarrow> bool" where
  "sinfo_reports cid bs w si \<longleftrightarrow>
     (let st = sta_stats (sta w ! cid)
      in si_generation si = sinfo_gen w \<and> si_rxrate_mcs si = last_mcs_rx st \<and>
         si_rx_bytes si = rx_bytes st \<and> si_rx_packets si = rx_packets st \<and>
         si_rx_dropped_misc si = rx_dropped st \<and> si_tx_bytes si = tx_bytes st \<and>
         si_tx_packets si = tx_packets st \<and> si_tx_failed si = tx_errors st \<and>
         si_txrate_mcs si = le_word (take 2 (drop 36 bs)) \<and>
         si_signal si = (if test_bit wil_status_fwconnected (wstatus w) then Some (bs ! 48) else None))"

lemma fill_sinfo_reports:
  assumes "waiting_ok w" "world_ok env"
  shows "\<exists>rc bs r w'. wmi_call (worker_env env) WMI_NOTIFY_REQ_CMDID (wmi_notify_req_cmd (of_nat cid) 0)
      WMI_NOTIFY_REQ_DONE_EVENTID (reply_init stack 44) w = Some (rc, Some bs, w') \<and>
    wil_cid_fill_sinfo (worker_env env) stack cid w = Some (r, w') \<and> waiting_ok w' \<and>
    (case rc of Some e \<Rightarrow> r = Inl e | None \<Rightarrow> \<exists>si. r = Inr si \<and> sinfo_reports cid bs w' si)"
proof -
  obtain rc bs w' where c: "wmi_call (worker_env env) WMI_NOTIFY_REQ_CMDID (wmi_notify_req_cmd (of_nat cid) 0)
      WMI_NOTIFY_REQ_DONE_EVENTID (reply_init stack 44) w = Some (rc, Some bs, w')" "waiting_ok w'"
    "length bs = 52"
    using fw.call_reply [OF assms(1), of env WMI_NOTIFY_REQ_CMDID "wmi_notify_req_cmd (of_nat cid) 0"
        WMI_NOTIFY_REQ_DONE_EVENTID stack 44] evt_env_ok_id [OF assms(2)] by auto
  have r: "rd16 36 bs = Some (le_word (take 2 (drop 36 bs)))" "rd8 48 bs = Some (bs ! 48)"
    using c(3) by (simp_all add: rd16_def rd_bytes_def rd8_def)
  show ?thesis
    using c(1,2) r by (cases rc) (simp_all add: wil_cid_fill_sinfo_def sinfo_reports_def Let_def)
qed

subsection \<open>Calls of the firmware in the operations\<close>

context wmi_caller
begin

lemma set_ie_total:
  assumes "I w" "length ie < 65532"
  shows "\<exists>rc w'. wmi_set_ie e type (of_nat (length ie)) ie w = Some (rc, w') \<and> I w'"
proof -
  have n: "unat (of_nat (length ie) :: u16) = length ie" "unat (4 + of_nat (length ie) :: u16) = 4 + length ie"
  proof -
    show "unat (of_nat (length ie) :: u16) = length ie" using assms(2) by (simp add: unat_of_nat)
    have "(4 + of_nat (length ie) :: u16) = of_nat (4 + length ie)" by simp
    then show "unat (4 + of_nat (length ie) :: u16) = 4 + length ie"
      using assms(2) by (simp only: unat_of_nat) simp
  qed
  obtain b w1 where k: "kmalloc e w = (b, w1)" by (rule prod.exhaust)
  have i: "I w1" using send [OF assms(1) kmalloc_frame [OF k]] .
  show ?thesis
    using k n i send_total [OF i] by (auto simp: wmi_set_ie_def rd_bytes_def Let_def)
qed

lemma del_key_total:
  assumes "I w"
  shows "\<exists>rc w'. wmi_del_cipher_key e ki mac w = Some (rc, w') \<and> I w'"
  using send_total [OF assms] by (simp add: wmi_del_cipher_key_def)

lemma pcp_start_total:
  assumes "I w"
  shows "\<exists>rc w'. wmi_pcp_start env stack pass bi nettype ch w = Some (rc, w') \<and> I w'"
  using call_status_total [OF assms, of 4] by (simp add: wmi_pcp_start_def)

end

subsection \<open>The search\<close>

lemma p2p_ssid_len: "unat (of_nat (length p2p_ssid) :: u8) \<le> length p2p_ssid"
  by (simp add: p2p_ssid_def)

lemma p2p_search_ok:
  assumes "waiting_ok w" "world_ok env" "\<And>ie. rq_ie rq = Some ie \<Longrightarrow> length ie < 65532"
  shows "\<exists>rc w'. p2p_search (worker_env env) stack rq w = Some (rc, w') \<and> waiting_ok w'"
proof -
  let ?env = "worker_env env"
  have id: "evt_env_ok env = env" by (rule evt_env_ok_id [OF assms(2)])
  obtain rc1 w1 where 1: "wmi_set_ssid (cc_wmi ?env) (of_nat (length p2p_ssid)) p2p_ssid w = Some (rc1, w1)" "waiting_ok w1"
    using fw.set_ssid_total [OF assms(1) p2p_ssid_len] by blast
  obtain rc2 w2 where 2: "(case rq_ie rq of
      Some ie \<Rightarrow> if 0 < length ie then wmi_set_ie (cc_wmi ?env) WMI_FRAME_PROBE_REQ (of_nat (length ie)) ie w1
        else Some (None, w1)
    | None \<Rightarrow> Some (None, w1)) = Some (rc2, w2)" "waiting_ok w2"
  proof (cases "rq_ie rq")
    case None
    then show ?thesis using that 1(2) by simp
  next
    case (Some ie)
    then show ?thesis
      using that [of None w1] that 1(2)
        fw.set_ie_total [OF 1(2) assms(3) [OF Some], of "cc_wmi ?env" WMI_FRAME_PROBE_REQ]
      by (cases "ie = []") auto
  qed
  obtain rc3 w3 where 3: "wmi_start_search ?env stack w2 = Some (rc3, w3)" "waiting_ok w3"
    using fw.call_status_total [OF 2(2), of 4 env WMI_START_SEARCH_CMDID "[]" WMI_SEARCH_STARTED_EVENTID stack]
    unfolding wmi_start_search_def id by auto
  obtain w4 where 4: "cc_wait ?env w3 = Some w4" "waiting_ok w4"
    using fw.wait [OF 3(2), of env] unfolding id by auto
  have "p2p_search ?env stack rq w =
      (if rc1 \<noteq> None then Some (rc1, w1) else if rc2 \<noteq> None then Some (rc2, w2)
       else if rc3 \<noteq> None then Some (rc3, w3) else Some (None, w4))"
    unfolding p2p_search_def using 1(1) 2(1) 3(1) 4(1) by simp
  then show ?thesis using 1(2) 2(2) 3(2) 4(2) by (cases rc1; cases rc2; cases rc3) simp_all
qed

lemma p2p_scan_ok:
  assumes "waiting_ok w" "world_ok env" "\<And>ie. rq_ie rq = Some ie \<Longrightarrow> length ie < 65532"
  shows "\<exists>rc w'. wil_p2p_scan (worker_env env) stack rq w = Some (rc, w') \<and> waiting_ok w' \<and>
    (\<exists>l. klog w' = l @ [Cfg80211ScanDone (rc = None)]) \<and>
    (rc = None \<longrightarrow> \<not> test_bit wil_status_dontscan (wstatus w'))"
proof -
  let ?env = "worker_env env"
  have id: "evt_env_ok env = env" by (rule evt_env_ok_id [OF assms(2)])
  have st: "waiting_ok v \<Longrightarrow> waiting_ok (v\<lparr>wstatus := s\<rparr>)" for v s by simp
  obtain rc1 w1 where 1: "wmi_p2p_cfg (cc_wmi ?env) 2 100 w = Some (rc1, w1)" "waiting_ok w1"
    using fw.p2p_cfg_total [OF assms(1) st] by blast
  obtain rc2 w2 where 2: "p2p_search ?env stack rq w1 = Some (rc2, w2)" "waiting_ok w2"
    using p2p_search_ok [OF 1(2) assms(2,3)] by blast
  obtain rc3 w3 where 3: "wmi_stop_discovery ?env w2 = Some (rc3, w3)" "waiting_ok w3"
    "\<not> test_bit wil_status_dontscan (wstatus w3)"
    using fw.stop_discovery_total [OF 2(2) st, of env] unfolding id by blast
  let ?r = "if rc1 \<noteq> None then (rc1, w1) else (rc2, w3)"
  have "wil_p2p_scan ?env stack rq w =
      Some (fst ?r, klog_add (Cfg80211ScanDone (fst ?r = None)) (snd ?r))"
    unfolding wil_p2p_scan_def using 1(1) 2(1) 3(1) by (cases rc1) simp_all
  then show ?thesis using 1(2) 3(2,3) by (cases rc1) simp_all
qed

subsection \<open>Connections\<close>

definition ssid_ie_ok :: "u8 list \<Rightarrow> bool" where
  "ssid_ie_ok e \<longleftrightarrow> 2 \<le> length e \<and> 2 + min (unat (e ! 1)) 32 \<le> length e"

lemma connect_secure_ok:
  assumes "waiting_ok w"
  shows "\<exists>rc w'. connect_secure env bss ie w = Some (rc, w') \<and> waiting_ok w'"
proof (cases "length ie > WMI_MAX_IE_LEN")
  case False
  then have n: "length ie < 65532" by (simp add: WMI_MAX_IE_LEN_def)
  obtain rc w1 where 1: "wmi_del_cipher_key env 0 (Some (bs_bssid bss)) w = Some (rc, w1)" "waiting_ok w1"
    using fw.del_key_total [OF assms] by blast
  then show ?thesis
    using False fw.set_ie_total [OF 1(2) n, of env WMI_FRAME_ASSOC_REQ] by (simp add: connect_secure_def)
qed (use assms in \<open>simp add: connect_secure_def\<close>)

text \<open>
  A connection whose network type is known ends with the command sent, the timer armed and scans
  refused, or with an error.
\<close>

text \<open>The command that connects to a BSS of the network type \<open>net\<close> whose SSID element is \<open>e\<close>.\<close>

definition bss_connect_cmd :: "cfg80211_bss \<Rightarrow> u8 list \<Rightarrow> bool \<Rightarrow> int \<Rightarrow> u8 list" where
  "bss_connect_cmd bss e rsn net =
     wmi_connect_cmd (word_of_int net) (if rsn then WMI_AUTH11_SHARED else WMI_AUTH11_OPEN)
       (if rsn then WMI_AUTH_WPA2_PSK else WMI_AUTH_NONE) (if rsn then WMI_CRYPT_AES_GCMP else 0)
       (if rsn then 16 else 0) (take (min (unat (e ! 1)) 32) (drop 2 e)) (of_nat (bs_hw_value bss) - 1)
       (bs_bssid bss) (bs_bssid bss)"

definition ie_rsn :: "evt_env \<Rightarrow> u8 list option \<Rightarrow> bool" where
  "ie_rsn env ie = (case ie of Some bs \<Rightarrow> ee_rsn env bs | None \<Rightarrow> False)"

text \<open>
  The connection is under way from \<open>w\<close> to \<open>w'\<close>: after the steps of a secure association, where it is
  one, scans are refused, the command is sent, and then the timer is armed.
\<close>

definition connect_started ::
  "evt_env \<Rightarrow> cfg80211_bss \<Rightarrow> u8 list \<Rightarrow> u8 list option \<Rightarrow> int \<Rightarrow> wil6210_priv \<Rightarrow> wil6210_priv \<Rightarrow> bool" where
  "connect_started env bss e ie net w w' \<longleftrightarrow> (\<exists>w1 w2.
     (if ie_rsn env ie then connect_secure (ee_wmi env) bss (the ie) w = Some (None, w1) else w1 = w) \<and>
     wmi_send (ee_wmi env) WMI_CONNECT_CMDID (bss_connect_cmd bss e (ie_rsn env ie) net)
       (w1\<lparr>wstatus := set_bit wil_status_dontscan (wstatus w1)\<rparr>) = Some (None, w2) \<and>
     w' = w2\<lparr>connect_timer := True\<rparr>)"

lemma connect_bss_ok:
  assumes "waiting_ok w" "ssid_ie_ok e"
  shows "\<exists>rc w'. connect_bss env bss e ie w = Some (rc, w') \<and> waiting_ok w' \<and>
    (\<forall>net. rc = None \<and> connect_network (use_pcp_for_ap env) (bs_capability bss) = Some net \<longrightarrow>
       connect_started env bss e ie net w w' \<and>
       connect_timer w' \<and> test_bit wil_status_dontscan (wstatus w') \<and> bs_hw_value bss \<noteq> 0) \<and>
    (connect_network (use_pcp_for_ap env) (bs_capability bss) = None \<and> ie = None \<longrightarrow> rc = None \<and> w' = w)"
proof -
  define rsn where "rsn = (case ie of Some bs \<Rightarrow> ee_rsn env bs | None \<Rightarrow> False)"
  have rsn_ie: "ie_rsn env ie = rsn" by (simp add: ie_rsn_def rsn_def)
  obtain rc1 w1 where 1: "(case ie of
      Some bs \<Rightarrow> if rsn then connect_secure (ee_wmi env) bss bs w else Some (None, w)
    | None \<Rightarrow> Some (None, w)) = Some (rc1, w1)" "waiting_ok w1" "ie = None \<longrightarrow> rc1 = None \<and> w1 = w"
    "if rsn then connect_secure (ee_wmi env) bss (the ie) w = Some (rc1, w1) else w1 = w"
  proof (cases ie)
    case None
    then show ?thesis using that assms(1) by (simp add: rsn_def)
  next
    case (Some bs)
    then show ?thesis
      using that assms(1) connect_secure_ok [OF assms(1), of "ee_wmi env" bss bs] by (cases rsn) auto
  qed
  have len: "rd8 1 e = Some (e ! 1)" using assms(2) by (simp add: ssid_ie_ok_def)
  have len32: "unat (min (e ! 1) 32) = min (unat (e ! 1)) 32" by (simp add: min_def word_le_nat_alt)
  from len32 have ssid: "rd_bytes 2 (unat (min (e ! 1) 32)) e = Some (take (unat (min (e ! 1) 32)) (drop 2 e))"
    using assms(2) by (simp add: ssid_ie_ok_def)
  let ?net = "connect_network (use_pcp_for_ap env) (bs_capability bss)"
  show ?thesis
  proof (cases "rc1 = None \<and> ?net \<noteq> None \<and> bs_hw_value bss \<noteq> 0")
    case True
    then obtain net where net: "?net = Some net" by blast
    let ?w = "w1\<lparr>wstatus := set_bit wil_status_dontscan (wstatus w1)\<rparr>"
    let ?cmd = "bss_connect_cmd bss e rsn net"
    have mb: "tx_mbox_ok (mbox_tx ?w)" using 1(2) driver_okD(3) by (simp add: waiting_ok_def)
    obtain rc2 w2 where 2: "wmi_send (ee_wmi env) WMI_CONNECT_CMDID ?cmd ?w = Some (rc2, w2)" "send_frame ?w w2"
      using wmi_send_total [OF mb] by blast
    have w2: "waiting_ok w2" "wstatus w2 = wstatus ?w"
      using send_frame_waiting [OF 2(2)] send_frame_fields(1) [OF 2(2)] 1(2) by simp_all
    have "connect_bss env bss e ie w = Some (rc2, if rc2 = None then w2\<lparr>connect_timer := True\<rparr> else w2)"
      unfolding connect_bss_def rsn_def [symmetric] Let_def 
      using 1(1) True net len ssid 2(1) len32 by (simp add: bss_connect_cmd_def)
    moreover have "rc2 = None \<longrightarrow> connect_started env bss e ie net w (w2\<lparr>connect_timer := True\<rparr>)"
      unfolding connect_started_def rsn_ie using 1(4) True 2(1) by (auto split: if_splits)
    moreover have "waiting_ok (w2\<lparr>connect_timer := True\<rparr>)"
      using w2(1) by (simp add: waiting_ok_def reply_ok_def)
    ultimately show ?thesis using w2 True net by (cases rc2) auto
  next
    case False
    have "connect_bss env bss e ie w = Some (if rc1 \<noteq> None then rc1
        else if ?net = None then None else Some EOPNOTSUPP, w1)"
      unfolding connect_bss_def rsn_def [symmetric] Let_def using 1(1) False len ssid
      by (cases rc1; cases ?net) simp_all
    then show ?thesis using False 1(2,3) by (cases rc1; cases ?net) simp_all
  qed
qed

subsection \<open>The access point\<close>

lemma set_passphrase_ok:
  assumes "waiting_ok w" "length ssid \<le> 32" "length pass \<le> 64"
  shows "\<exists>rc w'. wmi_set_passphrase env (of_nat (length ssid)) ssid (of_nat (length pass)) pass w =
    Some (rc, w') \<and> waiting_ok w'"
proof -
  have n: "unat (of_nat (length ssid) :: u8) = length ssid" "unat (of_nat (length pass) :: u8) = length pass"
    using assms(2,3) by (simp_all add: unat_of_nat)
  then show ?thesis
    using assms fw.send_total [OF assms(1)] by (simp add: wmi_set_passphrase_def rd_bytes_def)
qed

lemma ap_profile_ok:
  assumes "waiting_ok w" "length (ap_ssid info) \<le> 32" "length (ap_proberesp_ies info) < 65532"
    and "length (ap_assocresp_ies info) < 65532" "\<And>pass. passphrase = Some pass \<Longrightarrow> length pass \<le> 64"
  shows "\<exists>w'. ap_profile env passphrase info w = Some w' \<and> waiting_ok w'"
proof -
  obtain rc1 w1 where 1: "wmi_set_mac_address (mn_wmi env) (nd_addr (ndev w)) w = Some (rc1, w1)" "waiting_ok w1"
    using fw.send_total [OF assms(1)] unfolding wmi_set_mac_address_def by blast
  obtain rc2 w2 where 2: "ap_set_ie (mn_wmi env) WMI_FRAME_PROBE_RESP (ap_proberesp_ies info) w1 = Some (rc2, w2)"
    "waiting_ok w2" using fw.set_ie_total [OF 1(2) assms(3)] unfolding ap_set_ie_def by blast
  obtain rc3 w3 where 3: "ap_set_ie (mn_wmi env) WMI_FRAME_ASSOC_RESP (ap_assocresp_ies info) w2 = Some (rc3, w3)"
    "waiting_ok w3" using fw.set_ie_total [OF 2(2) assms(4)] unfolding ap_set_ie_def by blast
  let ?w = "w3\<lparr>secure_pcp := ap_privacy info\<rparr>"
  have w: "waiting_ok ?w"
    using 3(2) by (simp add: waiting_ok_def reply_ok_def driver_ok_defs)
  have p: "\<exists>rc w'. wmi_set_passphrase (mn_wmi env) (of_nat (length (ap_ssid info))) (ap_ssid info)
      (of_nat (length pass)) pass ?w = Some (rc, w') \<and> waiting_ok w'" if "passphrase = Some pass" for pass
    using set_passphrase_ok [OF w assms(2) assms(5) [OF that]] .
  show ?thesis
    unfolding ap_profile_def Let_def using 1(1) 2(1) 3(1) w p by (cases passphrase) auto
qed

lemma start_ap_ok:
  assumes "waiting_ok w" "up_env_ok env" "connect_ok w" "ap_channel info = Some ch"
    and "length (ap_ssid info) \<le> 32" "length (ap_proberesp_ies info) < 65532" "length (ap_assocresp_ies info) < 65532"
    and "\<And>pass. passphrase = Some pass \<Longrightarrow> length pass \<le> 64"
  shows "\<exists>rc w'. wil_cfg80211_start_ap env passphrase info w = Some (rc, w') \<and> waiting_ok w' \<and>
    (rc = None \<longrightarrow> nd_carrier (ndev w') \<and> wd_ssid (wdev w') = ap_ssid info)"
proof -
  have en: "world_ok (mn_evt env)" "ring_mem_ok (mn_rx_mem env) WIL6210_RX_RING_SIZE"
    "rx_env_ok WIL6210_RTAP_SIZE (mn_rx env)" using assms(2) by (simp_all add: up_env_ok_def)
  have id: "evt_env_ok (mn_evt env) = mn_evt env" by (rule evt_env_ok_id [OF en(1)])
  have n: "unat (of_nat (length (ap_ssid info)) :: u8) \<le> length (ap_ssid info)"
    using assms(5) by (simp add: unat_of_nat)
  obtain rc1 w1 where 1: "wil_reset env w = Some (rc1, w1)" "waiting_ok w1"
    using wil_reset_ok [OF assms(1-3)] by blast
  obtain rc2 w2 where 2: "wil_rx_init (mn_call env) (mn_rx env) (mn_stack env) (mn_rx_mem env) w1 = Some (rc2, w2)"
    "waiting_ok w2"
    using wil_rx_init_ok [OF 1(2) en, of "mn_stack env"] unfolding mn_call_def by blast
  obtain rc3 w3 where 3: "wmi_set_ssid (mn_wmi env) (of_nat (length (ap_ssid info))) (ap_ssid info) w2 = Some (rc3, w3)"
    "waiting_ok w3" using fw.set_ssid_total [OF 2(2) n] by blast
  obtain rc4 w4 where 4: "wmi_set_channel (mn_wmi env) (int ch) w3 = Some (rc4, w4)" "waiting_ok w4"
    using fw.send_total [OF 3(2)] unfolding wmi_set_channel_def by blast
  obtain w5 where 5: "ap_profile env passphrase info w4 = Some w5" "waiting_ok w5"
    using ap_profile_ok [OF 4(2) assms(5-8)] by blast
  obtain rc6 w6 where 6: "wmi_pcp_start (mn_call env) (mn_stack env) (passphrase \<noteq> None) (ap_beacon_interval info)
      (word_of_int (if use_pcp_for_ap (mn_evt env) then WMI_NETTYPE_P2P else wil_iftype_nl2wmi (wd_iftype (wdev w))))
      (of_nat ch) w5 = Some (rc6, w6)" "waiting_ok w6"
    using fw.pcp_start_total [OF 5(2), of "mn_evt env"] unfolding mn_call_def id by blast
  let ?w7 = "ap_started (ap_ssid info) w6"
  have w7: "waiting_ok ?w7" "nd_carrier (ndev ?w7)" "wd_ssid (wdev ?w7) = ap_ssid info"
    using 6(2) by (simp_all add: ap_started_def waiting_ok_def reply_ok_def driver_ok_defs)
  have step: "wil_cfg80211_start_ap env passphrase info w =
      (if rc1 \<noteq> None then Some (rc1, w1) else if rc2 \<noteq> None then Some (rc2, w2)
       else if rc3 \<noteq> None then Some (rc3, w3) else if rc4 \<noteq> None then Some (rc4, w4)
       else if rc6 \<noteq> None then Some (rc6, w6) else Some (None, ?w7))"
    unfolding wil_cfg80211_start_ap_def Let_def
    using assms(4,5) 1(1) 2(1) 3(1) 4(1) 5(1) 6(1) by simp
  show ?thesis
    unfolding step using 1(2) 2(2) 3(2) 4(2) 6(2) w7
    by (cases rc1; cases rc2; cases rc3; cases rc4; cases rc6) simp_all
qed

end
