(* ===== verification/Wil_Cfg_Props.thy ===== *)
theory Wil_Cfg_Props
  imports Wil_Cfg_Correct Wil_Main_Props
begin

text \<open>The properties of the operations of cfg80211 and of the operations off the channel.\<close>

subsection \<open>Off the channel\<close>

text \<open>
  What happens to the off-channel operation over time: one is prepared, its end comes, it is
  cancelled, or the rest of the driver runs, which does not touch it.
\<close>

inductive roc_reach :: "evt_env \<Rightarrow> u8 list \<Rightarrow> wil6210_priv \<Rightarrow> wil6210_priv \<Rightarrow> bool"
  for env :: evt_env and stack :: "u8 list" and w0 :: wil6210_priv where
  start: "roc_reach env stack w0 w0"
| prepare: "roc_reach env stack w0 w \<Longrightarrow>
    wil_prepare_roc (worker_env env) stack chan buf dur want w = Some (rc, ck, w') \<Longrightarrow> roc_reach env stack w0 w'"
| expire: "roc_reach env stack w0 w \<Longrightarrow> roc_work_queued (roc w) \<Longrightarrow>
    wil_roc_cancel_work (worker_env env) w = Some w' \<Longrightarrow> roc_reach env stack w0 w'"
| cancel: "roc_reach env stack w0 w \<Longrightarrow> wil_cancel_roc (worker_env env) w = Some w' \<Longrightarrow> roc_reach env stack w0 w'"
| other: "roc_reach env stack w0 w \<Longrightarrow> waiting_ok w' \<Longrightarrow> roc w' = roc w \<Longrightarrow> roc_reach env stack w0 w'"

lemma cancel_roc_ok:
  assumes "waiting_ok w" "world_ok env" "roc_inv w"
  shows "\<exists>w'. wil_cancel_roc (worker_env env) w = Some w' \<and> waiting_ok w' \<and> roc_inv w' \<and> roc_cookie (roc w') = 0"
  using assms roc_cancel_work_ok [OF assms(1,2)] by (auto simp: wil_cancel_roc_def roc_inv_def)

lemma roc_reach_inv:
  assumes "roc_reach env stack w0 w" "world_ok env" "waiting_ok w0" "roc_inv w0"
  shows "waiting_ok w \<and> roc_inv w"
  using assms(1)
proof induction
  case start
  then show ?case using assms(3,4) by simp
next
  case (prepare w chan buf dur want rc ck w')
  then obtain ch where "chan = Some ch" by (auto simp: wil_prepare_roc_def Option.bind_eq_Some_conv)
  then show ?case
    using prepare prepare_roc_ok [of w env stack ch buf dur want] assms(2) by auto
next
  case (expire w w')
  then have "roc_chan (roc w) \<noteq> None" by (simp add: roc_inv_def)
  then show ?case using expire roc_cancel_work_ok [of w env] assms(2) by auto
next
  case (cancel w w')
  then show ?case using cancel_roc_ok [of w env] assms(2) by auto
next
  case (other w w')
  then show ?case by (simp add: roc_inv_def)
qed

text \<open>
  Claim C34. However the off-channel operations and the rest of the driver interleave, an operation is
  active exactly while its end is queued; a second one is refused as busy and changes nothing, and
  cancelling always ends with none active.
\<close>

theorem roc_one_at_a_time:
  assumes "roc_reach env stack w0 w" "world_ok env" "waiting_ok w0" "roc_inv w0"
  shows "(roc_cookie (roc w) \<noteq> 0 \<longleftrightarrow> roc_work_queued (roc w)) \<and>
    (roc_cookie (roc w) \<noteq> 0 \<longrightarrow>
       wil_prepare_roc (worker_env env) stack (Some ch) buf dur True w = Some (Some EBUSY, None, w)) \<and>
    (\<exists>w'. wil_cancel_roc (worker_env env) w = Some w' \<and> waiting_ok w' \<and> roc_cookie (roc w') = 0)"
proof -
  have i: "waiting_ok w" "roc_inv w" using roc_reach_inv [OF assms] by simp_all
  then show ?thesis
    using cancel_roc_ok [OF i(1) assms(2) i(2)] by (auto simp: roc_inv_def wil_prepare_roc_def)
qed

definition ex_listen_event :: pending_wmi_event where
  "ex_listen_event = \<lparr>ev_hdr = \<lparr>hdr_seq = 1, hdr_len = 12, hdr_type = 0, hdr_flags = 0\<rparr>,
     ev_data = wil6210_mbox_hdr_wmi WMI_LISTEN_STARTED_EVENTID @ [0, 0, 0, 0]\<rparr>"

theorem roc_one_at_a_time_witness:
  "\<exists>ck w. wil_prepare_roc (worker_env (ex_evt_env\<lparr>ee_arrive := (\<lambda>_. [ex_listen_event])\<rparr>)) []
       (Some 2) None 0 True ex_fw_state = Some (None, ck, w) \<and>
     wil_prepare_roc (worker_env (ex_evt_env\<lparr>ee_arrive := (\<lambda>_. [ex_listen_event])\<rparr>)) []
       (Some 3) None 0 True w = Some (Some EBUSY, None, w)"
proof -
  let ?env = "ex_evt_env\<lparr>ee_arrive := (\<lambda>_. [ex_listen_event])\<rparr>"
  let ?p = "wil_prepare_roc (worker_env ?env) [] (Some 2) None 0 True ex_fw_state"
  have "event_ok ex_listen_event" by code_simp
  then have e: "world_ok ?env" using ex_world_ok by (auto simp: world_ok_def alloc_skb_ok_def)
  have i: "roc_inv ex_fw_state" by (simp add: roc_inv_def ex_fw_state_def wil_init_state_def)
  have "map_option (\<lambda>(rc, ck, w). (rc, roc_cookie (roc w))) ?p = Some (None, 1)" by code_simp
  then obtain ck w where p: "?p = Some (None, ck, w)" "roc_cookie (roc w) = 1" by auto
  have "roc_reach ?env [] ex_fw_state w" by (rule roc_reach.prepare [OF roc_reach.start p(1)])
  from roc_one_at_a_time [OF this e waiting_ok_ex i, of 3 None 0] p show ?thesis by simp
qed

subsection \<open>Stations\<close>

text \<open>
  Claim C35. The dump of the stations lists the peers in use, each once and in order: the station of
  index \<open>idx\<close> is the \<open>idx\<close>-th peer that is not unused. Its address is reported, the firmware is asked
  for the link of that peer, and the report has that peer's counters and the firmware's answer, or
  the error of the command; behind the last peer the dump ends.
\<close>

theorem dump_station_lists_peers:
  assumes "waiting_ok w" "world_ok env"
  shows "if idx < length (active_peers w)
    then let cid = active_peers w ! idx in
      \<exists>rc bs r w'. wmi_call (worker_env env) WMI_NOTIFY_REQ_CMDID (wmi_notify_req_cmd (of_nat cid) 0)
          WMI_NOTIFY_REQ_DONE_EVENTID (reply_init stack 44) w = Some (rc, Some bs, w') \<and>
        wil_cfg80211_dump_station (worker_env env) stack idx w = Some (Inr (sta_addr (sta w ! cid), r), w') \<and>
        waiting_ok w' \<and>
        (case rc of Some e \<Rightarrow> r = Inl e | None \<Rightarrow> \<exists>si. r = Inr si \<and> sinfo_reports cid bs w' si)
    else wil_cfg80211_dump_station (worker_env env) stack idx w = Some (Inl ENOENT, w)"
proof (cases "idx < length (active_peers w)")
  case True
  obtain rc bs r w' where "wmi_call (worker_env env) WMI_NOTIFY_REQ_CMDID
      (wmi_notify_req_cmd (of_nat (active_peers w ! idx)) 0) WMI_NOTIFY_REQ_DONE_EVENTID (reply_init stack 44) w =
      Some (rc, Some bs, w')"
    "wil_cid_fill_sinfo (worker_env env) stack (active_peers w ! idx) w = Some (r, w')" "waiting_ok w'"
    "case rc of Some e \<Rightarrow> r = Inl e | None \<Rightarrow> \<exists>si. r = Inr si \<and> sinfo_reports (active_peers w ! idx) bs w' si"
    using fill_sinfo_reports [OF assms] by blast
  then show ?thesis using True find_cid_by_idx_nth [of w idx] by (simp add: wil_cfg80211_dump_station_def Let_def)
next
  case False
  then show ?thesis using find_cid_by_idx_nth [of w idx] by (simp add: wil_cfg80211_dump_station_def)
qed

text \<open>One peer, with the identifier 5, and a firmware that answers.\<close>

definition ex_sta_state :: wil6210_priv where
  "ex_sta_state = upd_sta 5 (\<lambda>s. s\<lparr>sta_status := wil_sta_connected, sta_addr := [2, 0, 0, 0, 0, 9]\<rparr>) ex_fw_state"

definition ex_notify_event :: pending_wmi_event where
  "ex_notify_event = \<lparr>ev_hdr = \<lparr>hdr_seq = 1, hdr_len = 52, hdr_type = 0, hdr_flags = 0\<rparr>,
     ev_data = wil6210_mbox_hdr_wmi WMI_NOTIFY_REQ_DONE_EVENTID @ replicate 28 0 @ [7, 0] @ replicate 14 0\<rparr>"

theorem dump_station_lists_peers_witness:
  "\<exists>si w'. wil_cfg80211_dump_station (worker_env (ex_evt_env\<lparr>ee_arrive := (\<lambda>_. [ex_notify_event])\<rparr>)) [] 0 ex_sta_state =
     Some (Inr ([2, 0, 0, 0, 0, 9], Inr si), w') \<and> si_rx_bytes si = rx_bytes (sta_stats (sta w' ! 5))"
proof -
  let ?env = "ex_evt_env\<lparr>ee_arrive := (\<lambda>_. [ex_notify_event])\<rparr>"
  have "driver_ok ex_fw_state" using waiting_ok_ex by (simp add: waiting_ok_def)
  then have "driver_ok ex_sta_state" unfolding ex_sta_state_def by (rule driver_ok_upd_sta) simp_all
  then have 1: "waiting_ok ex_sta_state"
    using waiting_ok_ex by (simp add: waiting_ok_def reply_ok_def ex_sta_state_def)
  have "event_ok ex_notify_event" by code_simp
  then have 2: "world_ok ?env" using ex_world_ok by (auto simp: world_ok_def alloc_skb_ok_def)
  have 3: "0 < length (active_peers ex_sta_state)" "active_peers ex_sta_state ! 0 = 5"
    "sta_addr (sta ex_sta_state ! 5) = [2, 0, 0, 0, 0, 9]" by code_simp+
  have 4: "map_option fst (wmi_call (worker_env ?env) WMI_NOTIFY_REQ_CMDID (wmi_notify_req_cmd (of_nat 5) 0)
      WMI_NOTIFY_REQ_DONE_EVENTID (reply_init [] 44) ex_sta_state) = Some None" by code_simp
  from dump_station_lists_peers [OF 1 2, of 0 "[]", unfolded if_P [OF 3(1)] Let_def 3(2,3)] 4
  show ?thesis by (auto simp: sinfo_reports_def Let_def)
qed

subsection \<open>The search\<close>

text \<open>
  A search of P2P returns and reports itself to cfg80211 as its last step, but with the
  flag the wrong way round: a search that succeeds is reported as aborted, one that fails as
  complete. After a success scans are allowed again.
\<close>

theorem p2p_scan_reports_inverted:
  assumes "waiting_ok w" "world_ok env" "case rq_ie rq of None \<Rightarrow> True | Some ie \<Rightarrow> length ie < 65532"
  shows "\<exists>rc w'. wil_p2p_scan (worker_env env) stack rq w = Some (rc, w') \<and> waiting_ok w' \<and>
    (\<exists>l. klog w' = l @ [Cfg80211ScanDone (rc = None)]) \<and>
    (rc = None \<longrightarrow> \<not> test_bit wil_status_dontscan (wstatus w'))"
  by (rule p2p_scan_ok [OF assms(1,2)]) (use assms(3) in simp)

definition ex_p2p_req :: scan_req where
  "ex_p2p_req = \<lparr>rq_id = 1, rq_ssids = [p2p_ssid], rq_channels = [(2, 60480)], rq_ie = Some [1, 2, 3]\<rparr>"

theorem p2p_scan_reports_inverted_witness:
  "\<exists>rc w' l. wil_p2p_scan (worker_env ex_evt_env) [] ex_p2p_req ex_fw_state = Some (rc, w') \<and>
    klog w' = l @ [Cfg80211ScanDone (rc = None)]"
proof -
  have "case rq_ie ex_p2p_req of None \<Rightarrow> True | Some ie \<Rightarrow> length ie < 65532" by (simp add: ex_p2p_req_def)
  from p2p_scan_reports_inverted [OF waiting_ok_ex ex_world_ok this, of "[]"] show ?thesis by blast
qed

subsection \<open>Connections\<close>




subsection \<open>The access point\<close>

text \<open>
  Claim C37. Starting the access point returns, whatever the firmware does, and keeps the driver's
  state well formed; success leaves the carrier on and the network's name with the device.
\<close>

theorem start_ap_outcome:
  assumes "waiting_ok w" "up_env_ok env" "connect_ok w" "ap_channel info = Some ch"
    and "length (ap_ssid info) \<le> 32" "length (ap_proberesp_ies info) < 65532" "length (ap_assocresp_ies info) < 65532"
    and "case passphrase of None \<Rightarrow> True | Some pass \<Rightarrow> length pass \<le> 64"
  shows "\<exists>rc w'. wil_cfg80211_start_ap env passphrase info w = Some (rc, w') \<and> waiting_ok w' \<and>
    (rc = None \<longrightarrow> nd_carrier (ndev w') \<and> wd_ssid (wdev w') = ap_ssid info)"
  by (rule start_ap_ok [OF assms(1-7)]) (use assms(8) in simp)

definition ex_ap :: ap_settings where
  "ex_ap = \<lparr>ap_channel = Some 2, ap_ssid = [119, 105], ap_beacon_interval = 100, ap_privacy = True,
     ap_beacon_ies = [], ap_proberesp_ies = [1, 2], ap_assocresp_ies = []\<rparr>"

theorem start_ap_outcome_witness:
  "\<exists>rc w'. wil_cfg80211_start_ap ex_main_env (Some [1, 2, 3]) ex_ap ex_fw_state = Some (rc, w') \<and> waiting_ok w'"
proof -
  have "ap_channel ex_ap = Some 2" "length (ap_ssid ex_ap) \<le> 32" "length (ap_proberesp_ies ex_ap) < 65532"
    "length (ap_assocresp_ies ex_ap) < 65532"
    "case Some [1, 2, 3 :: u8] of None \<Rightarrow> True | Some pass \<Rightarrow> length pass \<le> 64"
    by (simp_all add: ex_ap_def)
  from start_ap_outcome [OF waiting_ok_ex ex_main_env_ok ex_fw_connect_ok this] show ?thesis by blast
qed

end
