(* ===== verification/Wil_Text.thy ===== *)
theory Wil_Text
  imports Wil_Prelude
begin

text \<open>
  The conversions of \<open>seq_printf\<close> the debug files use: decimal and hexadecimal numbers, padding,
  MAC addresses and the lines of \<open>hex_dump_to_buffer\<close>.
\<close>

definition digit :: "nat \<Rightarrow> char" where
  "digit d = ''0123456789abcdef'' ! d"

fun radix_text :: "nat \<Rightarrow> nat \<Rightarrow> string" where
  "radix_text b n = (if b < 2 \<or> n < b then [digit n] else radix_text b (n div b) @ [digit (n mod b)])"

declare radix_text.simps [simp del]

definition pad_left :: "char \<Rightarrow> nat \<Rightarrow> string \<Rightarrow> string" where
  "pad_left c n s = replicate (n - length s) c @ s"

definition fmt_d :: "int \<Rightarrow> string" where
  "fmt_d i = (if i < 0 then CHR ''-'' # radix_text 10 (nat (- i)) else radix_text 10 (nat i))"

definition fmt_nd :: "nat \<Rightarrow> int \<Rightarrow> string" where
  "fmt_nd n i = pad_left CHR '' '' n (fmt_d i)"

text \<open>\<open>%0nx\<close> of a machine word.\<close>

definition fmt_x :: "nat \<Rightarrow> 'a::len word \<Rightarrow> string" where
  "fmt_x n w = pad_left CHR ''0'' n (radix_text 16 (unat w))"

definition newline :: string where
  "newline = [char_of (10 :: nat)]"

primrec join :: "string \<Rightarrow> string list \<Rightarrow> string" where
  "join sep [] = ''''"
| "join sep (s # ss) = (if ss = [] then s else s @ sep @ join sep ss)"

definition fmt_mac :: "mac_addr \<Rightarrow> string" where
  "fmt_mac a = join '':'' (map (fmt_x 2) (take 6 a))"

text \<open>The lines of a dump, sixteen bytes each.\<close>

fun hex_lines :: "u8 list \<Rightarrow> string list" where
  "hex_lines [] = []"
| "hex_lines (b # bs) = join '' '' (map (fmt_x 2) (take 16 (b # bs))) # hex_lines (drop 15 bs)"

subsection \<open>Reading numbers back\<close>

definition undigit :: "char \<Rightarrow> nat" where
  "undigit c = (let n = of_char c in if n < 58 then n - 48 else n - 87)"

definition radix_value :: "nat \<Rightarrow> string \<Rightarrow> nat" where
  "radix_value b s = foldl (\<lambda>n c. b * n + undigit c) 0 s"

lemma undigit_digit: "d < 16 \<Longrightarrow> undigit (digit d) = d"
proof -
  have "\<forall>d < 16. undigit (digit d) = d" by code_simp
  then show "d < 16 \<Longrightarrow> undigit (digit d) = d" by blast
qed

lemma radix_value_snoc: "radix_value b (s @ [c]) = b * radix_value b s + undigit c"
  by (simp add: radix_value_def)

lemma radix_roundtrip: "2 \<le> b \<Longrightarrow> b \<le> 16 \<Longrightarrow> radix_value b (radix_text b n) = n"
proof (induction b n rule: radix_text.induct)
  case (1 b n)
  show ?case
  proof (cases "n < b")
    case True
    then show ?thesis using 1(3) undigit_digit [of n] by (simp add: radix_text.simps radix_value_def)
  next
    case False
    have "n mod b < 16" using 1(2,3) mod_less_divisor [of b n] by linarith
    then show ?thesis
      using 1 False undigit_digit [of "n mod b"]
      by (subst radix_text.simps) (simp add: radix_value_snoc)
  qed
qed

lemma radix_value_pad: "radix_value b (pad_left CHR ''0'' n s) = radix_value b s"
proof -
  have "foldl (\<lambda>n c. b * n + undigit c) 0 (replicate k CHR ''0'') = 0" for k
    by (induction k) (simp_all add: undigit_def)
  then show ?thesis by (simp add: pad_left_def radix_value_def)
qed

lemma fmt_x_roundtrip: "radix_value 16 (fmt_x n w) = unat w"
  by (simp add: fmt_x_def radix_value_pad radix_roundtrip)

end
