(* ===== verification/Wil_Debugfs.thy ===== *)
theory Wil_Debugfs
  imports Wil_Cfg80211 Wil_Text
begin

text \<open>
  The debug files (\<^verbatim>\<open>debugfs.c\<close>): what reading each of them prints and what writing to it does.
  A reading operation returns the text, a writing one the error or the number of bytes taken; the
  state of the driver is passed along. The module's own variables are \<open>dbg_state\<close>; what the kernel
  decides (copies from and to the user, parsed numbers, addresses printed by \<open>%p\<close>) is \<open>dbg_env\<close>.
\<close>

subsection \<open>State\<close>

text \<open>
  \<open>dg_begin\<close> and \<open>dg_idle\<close> are the two cycle counters of \<open>struct vring_tx_data\<close>, used by no other
  part of the driver; \<open>dg_running\<close> is \<open>netif_running\<close>.
\<close>

record dbg_state =
  mem_addr :: u32
  dbg_txdesc_index :: u32
  dbg_vring_index :: u32
  dg_begin :: "u64 list"
  dg_idle :: "u64 list"
  dg_running :: bool

text \<open>
  \<open>de_left n\<close> is how many of \<open>n\<close> bytes \<open>copy_to_user\<close> and \<open>copy_from_user\<close> leave uncopied,
  \<open>de_strtol\<close> and \<open>de_sscanf\<close> are \<open>simple_strtol(\<dots>, 0)\<close> and \<open>sscanf\<close> of one number, \<open>de_junk\<close> what
  uninitialised memory holds.
\<close>

record dbg_env =
  de_main :: main_env
  de_left :: "nat \<Rightarrow> nat"
  de_strtol :: "u8 list \<Rightarrow> int"
  de_sscanf :: "u8 list \<Rightarrow> int option"
  de_junk :: "u8 list"
  de_ring_text :: "vring \<Rightarrow> string"
  de_skb_text :: "skb_ptr option \<Rightarrow> string"
  de_buf_text :: "u8 list \<Rightarrow> string"
  de_ac :: int
  de_work_running :: bool
  de_now :: u64

definition de_wmi :: "dbg_env \<Rightarrow> wmi_env" where
  "de_wmi env = mn_wmi (de_main env)"

definition de_call :: "dbg_env \<Rightarrow> call_env" where
  "de_call env = mn_call (de_main env)"

subsection \<open>Helpers of the file layer\<close>

text \<open>The kernel's \<open>simple_read_from_buffer\<close>: the outcome, the bytes the user gets, and the position.\<close>

definition simple_read_from_buffer ::
  "dbg_env \<Rightarrow> nat \<Rightarrow> int \<Rightarrow> u8 list \<Rightarrow> (errno + nat) \<times> u8 list \<times> int" where
  "simple_read_from_buffer env cnt pos buf =
     (if pos < 0 then (Inl EINVAL, [], pos)
      else if pos \<ge> int (length buf) \<or> cnt = 0 then (Inr 0, [], pos)
      else
        let cnt = min cnt (length buf - nat pos);
            left = min cnt (de_left env cnt)
        in if left = cnt then (Inl EFAULT, [], pos)
           else (Inr (cnt - left), take (cnt - left) (drop (nat pos) buf), pos + int (cnt - left)))"

text \<open>\<open>simple_write_to_buffer\<close>: the outcome, the buffer and the position.\<close>

definition simple_write_to_buffer ::
  "dbg_env \<Rightarrow> int \<Rightarrow> u8 list \<Rightarrow> u8 list \<Rightarrow> (errno + nat) \<times> u8 list \<times> int" where
  "simple_write_to_buffer env pos src buf =
     (if pos < 0 then (Inl EINVAL, buf, pos)
      else if pos \<ge> int (length buf) \<or> src = [] then (Inr 0, buf, pos)
      else
        let cnt = min (length src) (length buf - nat pos);
            left = min cnt (de_left env cnt);
            n = cnt - left
        in if left = cnt then (Inl EFAULT, buf, pos)
           else (Inr n, take (nat pos) buf @ take n src @ drop (nat pos + n) buf, pos + int n))"

text \<open>A buffer of \<open>n\<close> bytes as \<open>kmalloc\<close> hands it out.\<close>

definition junk_buffer :: "dbg_env \<Rightarrow> nat \<Rightarrow> u8 list" where
  "junk_buffer env n = take n (de_junk env @ replicate n 0)"

text \<open>\<open>copy_from_user\<close> into a new buffer of \<open>len\<close> bytes, as several files begin.\<close>

definition user_buffer ::
  "dbg_env \<Rightarrow> u8 list \<Rightarrow> wil6210_priv \<Rightarrow> (errno + u8 list) \<times> wil6210_priv" where
  "user_buffer env buf w =
     (let (ok, w) = kmalloc (de_wmi env) w
      in (if \<not> ok then Inl ENOMEM else if de_left env (length buf) \<noteq> 0 then Inl EIO else Inr buf, w))"

definition str_bytes :: "string \<Rightarrow> u8 list" where
  "str_bytes s = map of_char s"

subsection \<open>Rings\<close>

text \<open>The state of each slot, a new line before every 64th: \<open>None\<close> is an access outside the ring.\<close>

definition slot_char :: "char \<Rightarrow> char \<Rightarrow> vring \<Rightarrow> nat \<Rightarrow> char option" where
  "slot_char s h v i = do {
     d \<leftarrow> vring_d v (of_nat i);
     (if desc_status d AND BIT 0 \<noteq> 0 then Some s
      else do { c \<leftarrow> vring_ctx v (of_nat i); Some (if c \<noteq> None then h else CHR ''h'') })
   }"

fun print_slots :: "char \<Rightarrow> char \<Rightarrow> vring \<Rightarrow> nat list \<Rightarrow> string option" where
  "print_slots s h v [] = Some []"
| "print_slots s h v (i # is) = do {
     c \<leftarrow> slot_char s h v i;
     cs \<leftarrow> print_slots s h v is;
     Some ((if i mod 64 = 0 \<and> i \<noteq> 0 then newline else []) @ c # cs)
   }"

definition wil_print_vring ::
  "dbg_env \<Rightarrow> string \<Rightarrow> vring \<Rightarrow> char \<Rightarrow> char \<Rightarrow> wil6210_priv \<Rightarrow> (string \<times> wil6210_priv) option" where
  "wil_print_vring env name v s h w = do {
     let (hw, w) = (case wmi_addr (hwtail v) of
         Some x \<Rightarrow> let (y, w) = ioread32 (de_wmi env) x w in (''0x'' @ fmt_x 8 y, w)
       | None \<Rightarrow> (''???'', w));
     slots \<leftarrow> (if vr_va v \<noteq> None \<and> vr_size v < 1025
       then map_option (\<lambda>t. t @ newline) (print_slots s h v [0..<unat (vr_size v)]) else Some []);
     Some (''VRING '' @ name @ '' = {'' @ newline @
       ''  pa     = 0x'' @ fmt_x 16 (vr_pa v) @ newline @
       ''  va     = 0x'' @ de_ring_text env v @ newline @
       ''  size   = '' @ fmt_d (int (unat (vr_size v))) @ newline @
       ''  swtail = '' @ fmt_d (sint (swtail v)) @ newline @
       ''  swhead = '' @ fmt_d (sint (swhead v)) @ newline @
       ''  hwtail = [0x'' @ fmt_x 8 (hwtail v) @ ''] -> '' @ hw @ newline @
       slots @ ''}'' @ newline, w)
   }"

text \<open>
  One Tx ring. The share of idle time is relative to the cycles since the last reading; two readings
  in the same cycle are a division by zero.
\<close>

definition print_tx_ring ::
  "dbg_env \<Rightarrow> nat \<Rightarrow> string \<times> dbg_state \<times> wil6210_priv \<Rightarrow> (string \<times> dbg_state \<times> wil6210_priv) option" where
  "print_tx_ring env i sgw =
     (case sgw of (s, g, w) \<Rightarrow>
        let v = vring_tx w ! i; (cid, tid) = vring2cid_tid w ! i; td = vring_txdata w ! i
        in if vr_va v = None then Some (s, g, w)
           else if vr_size v = 0 \<or> \<not> unat cid < length (sta w) then None
           else
             let used = (ucast (vr_size v) + swhead v - swtail v) mod ucast (vr_size v) :: u32;
                 total = de_now env - dg_begin g ! i;
                 g' = g\<lparr>dg_begin := (dg_begin g)[i := de_now env], dg_idle := (dg_idle g)[i := 0]\<rparr>
             in if total = 0 then None
                else do {
                  (t, w) \<leftarrow> wil_print_vring env (''tx_'' @ fmt_nd 2 (int i)) v CHR ''_'' CHR ''H'' w;
                  Some (s @ newline @ fmt_mac (sta_addr (sta w ! unat cid)) @
                    '' CID '' @ fmt_d (int (unat cid)) @ '' TID '' @ fmt_d (int (unat tid)) @
                    '' BACK(['' @ fmt_d (int (unat (agg_wsize td))) @ ''] '' @
                    fmt_d (int (unat (agg_timeout td))) @ '' TU) ['' @
                    fmt_nd 3 (sint used) @ ''|'' @ fmt_nd 3 (wil_vring_avail_tx v) @ ''] idle '' @
                    fmt_nd 3 (sint (ucast (dg_idle g ! i * 100 div total) :: u32)) @ ''%'' @ newline @ t, g', w)
                })"

definition wil_vring_debugfs_show ::
  "dbg_env \<Rightarrow> dbg_state \<Rightarrow> wil6210_priv \<Rightarrow> (string \<times> dbg_state \<times> wil6210_priv) option" where
  "wil_vring_debugfs_show env g w = do {
     (s, w) \<leftarrow> wil_print_vring env ''rx'' (vring_rx w) CHR ''S'' CHR ''_'' w;
     run_inputs (print_tx_ring env) [0..<WIL6210_MAX_TX_RINGS] (s, g, w)
   }"

subsection \<open>The mailbox\<close>

definition MAX_MBOXITEM_SIZE :: nat where "MAX_MBOXITEM_SIZE = 240"

text \<open>One descriptor of a mailbox ring, with the message it points to.\<close>

definition print_mbox_desc ::
  "dbg_env \<Rightarrow> wil6210_mbox_ring \<Rightarrow> nat \<Rightarrow> string \<times> wil6210_priv \<Rightarrow> string \<times> wil6210_priv" where
  "print_mbox_desc env r i sw =
     (case sw of (s, w) \<Rightarrow>
        let delta = of_nat (8 * i) :: u32;
            (d, w) = read_mbox_desc (de_wmi env) (HOSTADDR (mb_base r) + delta) w;
            s = s @ ''  ['' @ pad_left CHR '' '' 2 (radix_text 16 i) @ ''] '' @
              (if fst d \<noteq> 0 then ''F'' else ''E'') @ '' '' @
              (if mb_tail r - mb_base r = delta then ''t'' else '' '') @
              (if mb_head r - mb_base r = delta then ''h'' else '' '') @ '' 0x'' @ fmt_x 8 (snd d);
            (hdr, w) = wmi_read_hdr (de_wmi env) (snd d) w
        in (case hdr of
              None \<Rightarrow> (s @ newline, w)
            | Some hdr \<Rightarrow>
                let len = unat (hdr_len hdr);
                    s = s @ '' -> '' @ fmt_x 4 (hdr_seq hdr) @ '' '' @ fmt_x 4 (hdr_len hdr) @ '' '' @
                      fmt_x 4 (hdr_type hdr) @ '' '' @ fmt_x 2 (hdr_flags hdr) @ newline
                in if len > MAX_MBOXITEM_SIZE then (s, w)
                   else
                     let (bs, w) = wil_memcpy_fromio_32 (de_wmi env) (the (wmi_buffer (snd d)) + 8) len w
                     in (s @ concat (map (\<lambda>l. ''      : '' @ l @ newline) (hex_lines (take len bs))), w)))"

definition wil_print_ring ::
  "dbg_env \<Rightarrow> string \<Rightarrow> u32 \<Rightarrow> string \<times> wil6210_priv \<Rightarrow> string \<times> wil6210_priv" where
  "wil_print_ring env prefix off sw =
     (case sw of (s, w) \<Rightarrow>
        let (bs, w) = wil_memcpy_fromio_32 (de_wmi env) off 16 w;
            r = mbox_ring_parse bs;
            rsize = unat (mb_size r) div 8;
            s = s @ ''ring '' @ prefix @ '' = {'' @ newline @
              ''  base = 0x'' @ fmt_x 8 (mb_base r) @ newline @
              ''  size = 0x'' @ fmt_x 4 (mb_size r) @ '' bytes -> '' @ fmt_d (int rsize) @ '' entries'' @ newline @
              ''  tail = 0x'' @ fmt_x 8 (mb_tail r) @ newline @
              ''  head = 0x'' @ fmt_x 8 (mb_head r) @ newline @
              ''  entry size = '' @ fmt_d (int (unat (mb_entry_size r))) @ newline;
            (s, w) =
              (if unat (mb_size r) mod 8 \<noteq> 0
               then (s @ ''  ??? size is not multiple of 8, garbage?'' @ newline, w)
               else if wmi_addr (mb_base r) = None \<or> wmi_addr (mb_tail r) = None \<or> wmi_addr (mb_head r) = None
               then (s @ ''  ??? pointers are garbage?'' @ newline, w)
               else fold (print_mbox_desc env r) [0..<rsize] (s, w))
        in (s @ ''}'' @ newline, w))"

definition wil_mbox_debugfs_show :: "dbg_env \<Rightarrow> wil6210_priv \<Rightarrow> string \<times> wil6210_priv" where
  "wil_mbox_debugfs_show env w =
     wil_print_ring env ''rx'' (HOST_MBOX + 16) (wil_print_ring env ''tx'' HOST_MBOX ([], w))"


subsection \<open>Registers and memory of the device\<close>

definition wil_debugfs_iomem_x32_set :: "u32 \<Rightarrow> u64 \<Rightarrow> wil6210_priv \<Rightarrow> wil6210_priv" where
  "wil_debugfs_iomem_x32_set data val w = iowrite32 (ucast val) data w"

definition wil_debugfs_iomem_x32_get :: "dbg_env \<Rightarrow> u32 \<Rightarrow> wil6210_priv \<Rightarrow> u64 \<times> wil6210_priv" where
  "wil_debugfs_iomem_x32_get env data w = (let (x, w) = ioread32 (de_wmi env) data w in (ucast x, w))"

text \<open>The file \<open>status\<close> is the word of status bits itself.\<close>

definition wil_debugfs_ulong_set :: "u64 \<Rightarrow> wil6210_priv \<Rightarrow> wil6210_priv" where
  "wil_debugfs_ulong_set val w = w\<lparr>wstatus := val\<rparr>"

definition wil_debugfs_ulong_get :: "wil6210_priv \<Rightarrow> u64" where
  "wil_debugfs_ulong_get w = wstatus w"

text \<open>
  The buffer of \<open>mem_val\<close> has 30 bytes and the user may read all of them, though the text is shorter:
  what follows the terminating zero is uninitialised.
\<close>

definition wil_read_file_mem ::
  "dbg_env \<Rightarrow> nat \<Rightarrow> int \<Rightarrow> dbg_state \<Rightarrow> wil6210_priv \<Rightarrow> ((errno + nat) \<times> u8 list \<times> int) \<times> wil6210_priv" where
  "wil_read_file_mem env cnt pos g w =
     (let (t, w) = (case wmi_buffer (mem_addr g) of
            Some a \<Rightarrow> let (x, w) = ioread32 (de_wmi env) a w in (''0x'' @ fmt_x 8 x, w)
          | None \<Rightarrow> (''INVALID'', w));
          text = str_bytes (''[0x'' @ fmt_x 8 (mem_addr g) @ ''] = '' @ t @ newline) @ [0];
          kbuf = text @ drop (length text) (junk_buffer env 30)
      in (simple_read_from_buffer env cnt pos kbuf, w))"

definition wil_write_file_mem ::
  "dbg_env \<Rightarrow> u8 list \<Rightarrow> int \<Rightarrow> dbg_state \<Rightarrow> wil6210_priv \<Rightarrow> (errno + nat) \<times> wil6210_priv" where
  "wil_write_file_mem env buf pos g w =
     (case wmi_buffer (mem_addr g) of
        None \<Rightarrow> (Inl EINVAL, w)
      | Some a \<Rightarrow>
          if pos \<noteq> 0 then (Inl EINVAL, w)
          else
            let (ok, w) = kmalloc (de_wmi env) w
            in if \<not> ok then (Inl ENOMEM, w)
               else (case simple_write_to_buffer env pos buf (junk_buffer env (length buf)) of
                   (Inl e, _) \<Rightarrow> (Inl e, w)
                 | (Inr rc, kbuf, _) \<Rightarrow>
                     (case de_sscanf env kbuf of
                        None \<Rightarrow> (Inl EINVAL, w)
                      | Some val \<Rightarrow> (Inr rc, iowrite32 (word_of_int val) a w))))"

text \<open>A window of the device's memory: its offset in the BAR and its size.\<close>

record debugfs_blob =
  blob_data :: u32
  blob_size :: nat

text \<open>
  The result tells, beside the outcome and the user's bytes, what was written into the buffer of
  \<open>cnt\<close> bytes: whole dwords.
\<close>

definition wil_read_file_ioblob ::
  "dbg_env \<Rightarrow> debugfs_blob \<Rightarrow> nat \<Rightarrow> int \<Rightarrow> wil6210_priv
     \<Rightarrow> ((errno + nat) \<times> u8 list \<times> int) \<times> nat \<times> u8 list \<times> wil6210_priv" where
  "wil_read_file_ioblob env blob cnt pos w =
     (if pos < 0 then ((Inl EINVAL, [], pos), 0, [], w)
      else if pos \<ge> int (blob_size blob) \<or> cnt = 0 then ((Inr 0, [], pos), 0, [], w)
      else
        let cnt = min (min cnt (blob_size blob - nat pos)) 4096;
            (ok, w) = kmalloc (de_wmi env) w
        in if \<not> ok then ((Inl ENOMEM, [], pos), cnt, [], w)
           else
             let (buf, w) = wil_memcpy_fromio_32 (de_wmi env) (blob_data blob + of_nat (nat pos)) cnt w;
                 left = min cnt (de_left env cnt);
                 n = cnt - left
             in ((if left = cnt then (Inl EFAULT, [], pos) else (Inr n, take n buf, pos + int n)), cnt, buf, w))"

subsection \<open>Commands\<close>

definition wil_write_file_reset ::
  "dbg_env \<Rightarrow> nat \<Rightarrow> dbg_state \<Rightarrow> wil6210_priv \<Rightarrow> ((errno + nat) \<times> dbg_state \<times> wil6210_priv) option" where
  "wil_write_file_reset env len g w = do {
     w \<leftarrow> (if dg_running g then map_option snd (wil_down (mn_netif_ok (de_main env)) (de_wmi env) w) else Some w);
     (_, w) \<leftarrow> wil_reset (de_main env) w;
     Some (Inr len, g\<lparr>dg_running := False\<rparr>, w)
   }"

definition file_rc :: "nat \<Rightarrow> errno option \<Rightarrow> errno + nat" where
  "file_rc len rc = (case rc of Some e \<Rightarrow> Inl e | None \<Rightarrow> Inr len)"

definition wil_write_file_rxon ::
  "dbg_env \<Rightarrow> u8 list \<Rightarrow> wil6210_priv \<Rightarrow> ((errno + nat) \<times> wil6210_priv) option" where
  "wil_write_file_rxon env buf w =
     (case user_buffer env buf w of
        (Inl e, w) \<Rightarrow> Some (Inl e, w)
      | (Inr kbuf, w) \<Rightarrow> do {
          let on = (de_strtol env kbuf \<noteq> 0);
          (rc, w) \<leftarrow> wmi_set_channel (de_wmi env) 1 w;
          (if rc \<noteq> None then Some (file_rc (length buf) rc, w)
           else do {
             (rc, w) \<leftarrow> wmi_rxon (de_call env) (mn_stack (de_main env)) on w;
             Some (file_rc (length buf) rc, w)
           })
        })"

definition wil_write_addba ::
  "dbg_env \<Rightarrow> u8 list \<Rightarrow> wil6210_priv \<Rightarrow> ((errno + nat) \<times> wil6210_priv) option" where
  "wil_write_addba env buf w =
     (case user_buffer env buf w of
        (Inl e, w) \<Rightarrow> Some (Inl e, w)
      | (Inr kbuf, w) \<Rightarrow>
          (case de_sscanf env kbuf of
             None \<Rightarrow> Some (Inl EINVAL, w)
           | Some n \<Rightarrow>
               if vr_va (vring_tx w ! 0) = None then Some (Inl EINVAL, w)
               else do {
                 (_, w) \<leftarrow> (if n > 0 then wmi_addba (de_wmi env) 0 (word_of_int n) 0 w
                   else wmi_delba (de_wmi env) 0 0 w);
                 Some (Inr (length buf), w)
               }))"

text \<open>The frame is sent off the channel, with no place for a cookie.\<close>

definition wil_write_file_txmgmt ::
  "dbg_env \<Rightarrow> u64 \<Rightarrow> u8 list \<Rightarrow> wil6210_priv \<Rightarrow> ((errno + nat) \<times> wil6210_priv) option" where
  "wil_write_file_txmgmt env p buf w =
     (case user_buffer env buf w of
        (Inl e, w) \<Rightarrow> Some (Inl e, w)
      | (Inr frame, w) \<Rightarrow> do {
          (rc, _, w) \<leftarrow> wil_cfg80211_mgmt_tx (de_call env) (mn_stack (de_main env)) (wd_channel (wdev w))
            True 0 p frame None w;
          Some (Inr (length buf), w)
        })"

definition wil_write_file_wmi ::
  "dbg_env \<Rightarrow> u8 list \<Rightarrow> int \<Rightarrow> wil6210_priv \<Rightarrow> ((errno + nat) \<times> int \<times> wil6210_priv) option" where
  "wil_write_file_wmi env buf pos w =
     (if length buf \<le> 8 then Some (Inl EINVAL, pos, w)
      else
        let (ok, w) = kmalloc (de_wmi env) w
        in if \<not> ok then Some (Inl ENOMEM, pos, w)
           else (case simple_write_to_buffer env pos buf (junk_buffer env (length buf)) of
               (Inl _, _, pos) \<Rightarrow> Some (Inl EIO, pos, w)
             | (Inr rc, wmi, pos) \<Rightarrow> do {
                 let cmdid = (le_word (take 2 (drop 2 wmi)) :: u16);
                 (_, w) \<leftarrow> wmi_send (de_wmi env) cmdid (drop 8 wmi) w;
                 Some (Inr rc, pos, w)
               }))"

text \<open>\<open>strncmp(kbuf, word, len)\<close> on a buffer of \<open>len\<close> bytes.\<close>

fun strncmp_eq :: "u8 list \<Rightarrow> u8 list \<Rightarrow> bool" where
  "strncmp_eq [] cs = True"
| "strncmp_eq (b # bs) [] = (b = 0)"
| "strncmp_eq (b # bs) (c # cs) = (b = c \<and> (b = 0 \<or> strncmp_eq bs cs))"

definition p2p_run :: "dbg_env \<Rightarrow> u8 list \<Rightarrow> wil6210_priv \<Rightarrow> wil6210_priv option" where
  "p2p_run env kbuf w =
     (let call = de_call env; stack = mn_stack (de_main env)
      in if strncmp_eq kbuf (str_bytes ''listen'') then map_option snd (wmi_start_listen call stack w)
         else if strncmp_eq kbuf (str_bytes ''search'') then map_option snd (wmi_start_search call stack w)
         else if strncmp_eq kbuf (str_bytes ''config'') then do {
           (_, w) \<leftarrow> wmi_p2p_cfg (de_wmi env) 2 100 w;
           map_option snd (wmi_set_ssid (de_wmi env) 7 p2p_ssid w)
         }
         else if strncmp_eq kbuf (str_bytes ''start'') then map_option snd (wmi_start_discovery call w)
         else if strncmp_eq kbuf (str_bytes ''stop'') then map_option snd (wmi_stop_discovery call w)
         else Some w)"

definition wil_write_file_p2p ::
  "dbg_env \<Rightarrow> u8 list \<Rightarrow> wil6210_priv \<Rightarrow> ((errno + nat) \<times> wil6210_priv) option" where
  "wil_write_file_p2p env buf w =
     (case user_buffer env buf w of
        (Inl e, w) \<Rightarrow> Some (Inl e, w)
      | (Inr kbuf, w) \<Rightarrow> map_option (\<lambda>w. (Inr (length buf), w)) (p2p_run env kbuf w))"


subsection \<open>Descriptors\<close>

text \<open>\<open>WIL_DBG_VRING_INDEX_RX\<close> is one past \<open>WIL6210_MAX_TX_RINGS\<close>; the test in the code is \<open><=\<close>.\<close>

definition dbg_is_tx :: "dbg_state \<Rightarrow> bool" where
  "dbg_is_tx g \<longleftrightarrow> unat (dbg_vring_index g) \<le> WIL6210_MAX_TX_RINGS"

definition dbg_vring :: "dbg_state \<Rightarrow> wil6210_priv \<Rightarrow> vring option" where
  "dbg_vring g w =
     (if dbg_is_tx g
      then (if unat (dbg_vring_index g) < length (vring_tx w) then Some (vring_tx w ! unat (dbg_vring_index g)) else None)
      else Some (vring_rx w))"

definition desc_words :: "vring_desc \<Rightarrow> u32 list" where
  "desc_words d = [mac_d0 d, mac_d1 d, mac_d2 d, mac_d3 d, dma_d0 d, addr_low d,
     ucast (addr_high d) OR push_bit 16 (ucast (dma_b10 d)),
     ucast (desc_error d) OR push_bit 8 (ucast (desc_status d)) OR push_bit 16 (ucast (desc_length d))]"

definition print_skb :: "u16 \<Rightarrow> sk_buff \<Rightarrow> string" where
  "print_skb dlen skb =
     (let len = unat dlen; headlen = skb_headlen skb;
          (s, len) = (if len \<noteq> headlen
            then (''!!! len: desc = '' @ fmt_d (int len) @ '' skb = '' @ fmt_d (int headlen) @ newline, min len headlen)
            else ([], len))
      in s @ ''    len = '' @ fmt_d (int len) @ newline @
         concat (map (\<lambda>l. ''      : '' @ l @ newline) (hex_lines (take len (skb_data skb)))))"

definition wil_txdesc_debugfs_show :: "dbg_env \<Rightarrow> dbg_state \<Rightarrow> wil6210_priv \<Rightarrow> string option" where
  "wil_txdesc_debugfs_show env g w = do {
     v \<leftarrow> dbg_vring g w;
     let ring = fmt_nd 2 (sint (dbg_vring_index g));
     let idx = dbg_txdesc_index g;
     (if vr_va v = None
      then Some (if dbg_is_tx g then ''No Tx['' @ ring @ ''] VRING'' @ newline else ''No Rx VRING'' @ newline)
      else if idx < ucast (vr_size v) then do {
        d \<leftarrow> vring_d v idx;
        c \<leftarrow> vring_ctx v idx;
        Some ((if dbg_is_tx g then ''Tx['' @ ring @ '']['' else ''Rx['') @ fmt_nd 3 (sint idx) @ ''] = {'' @ newline @
          ''  MAC = '' @ join '' '' (map (\<lambda>u. ''0x'' @ fmt_x 8 u) (take 4 (desc_words d))) @ newline @
          ''  DMA = '' @ join '' '' (map (\<lambda>u. ''0x'' @ fmt_x 8 u) (drop 4 (desc_words d))) @ newline @
          ''  SKB = '' @ de_skb_text env c @ newline @
          (case c of None \<Rightarrow> [] | Some p \<Rightarrow> print_skb (desc_length d) (skbs w p)) @ ''}'' @ newline)
      }
      else Some ((if dbg_is_tx g then ''['' @ ring @ ''] TxDesc index ('' else ''RxDesc index ('') @ fmt_d (sint idx) @
        '') >= size ('' @ fmt_d (int (unat (vr_size v))) @ '')'' @ newline))
   }"

subsection \<open>Beamforming, SSID, temperature, versions\<close>

definition wil_bf_debugfs_show :: "wil6210_priv \<Rightarrow> string" where
  "wil_bf_debugfs_show w =
     (let t = wstats w; u = (\<lambda>x :: u16. int (unat x))
      in ''TSF : 0x'' @ fmt_x 16 (ws_tsf t) @ newline @ ''TxMCS : '' @ fmt_d (u (ws_bf_mcs t)) @ newline @
         ''Sectors(rx:tx) my '' @ fmt_nd 2 (u (ws_my_rx_sector t)) @ '':'' @ fmt_nd 2 (u (ws_my_tx_sector t)) @
         '' peer '' @ fmt_nd 2 (u (ws_peer_rx_sector t)) @ '':'' @ fmt_nd 2 (u (ws_peer_tx_sector t)) @ newline)"

definition wil_read_file_ssid ::
  "dbg_env \<Rightarrow> nat \<Rightarrow> int \<Rightarrow> wil6210_priv \<Rightarrow> (errno + nat) \<times> u8 list \<times> int" where
  "wil_read_file_ssid env cnt pos w = simple_read_from_buffer env cnt pos (wd_ssid (wdev w))"

text \<open>
  The length is set before the bytes are copied; behind the old SSID the array holds whatever earlier
  ones left there.
\<close>

definition wil_write_file_ssid ::
  "dbg_env \<Rightarrow> u8 list \<Rightarrow> int \<Rightarrow> dbg_state \<Rightarrow> wil6210_priv \<Rightarrow> (errno + nat) \<times> int \<times> wil6210_priv" where
  "wil_write_file_ssid env buf pos g w =
     (if pos \<noteq> 0 \<or> length buf > IEEE80211_MAX_SSID_LEN \<or> dg_running g then (Inl EINVAL, pos, w)
      else
        let old = take (length buf) (wd_ssid (wdev w) @ junk_buffer env IEEE80211_MAX_SSID_LEN);
            (rc, ssid, pos) = simple_write_to_buffer env pos buf old
        in (rc, pos, w\<lparr>wdev := (wdev w)\<lparr>wd_ssid := ssid\<rparr>\<rparr>))"

definition print_temp :: "string \<Rightarrow> u32 \<Rightarrow> string" where
  "print_temp prefix t =
     (if t = 0 \<or> t = NOT 0 then prefix @ '' N/A'' @ newline
      else prefix @ '' '' @ fmt_d (int (unat t div 1000)) @ ''.'' @
        pad_left CHR ''0'' 3 (fmt_d (int (unat t mod 1000))) @ newline)"

definition wil_temp_debugfs_show :: "dbg_env \<Rightarrow> wil6210_priv \<Rightarrow> (string \<times> wil6210_priv) option" where
  "wil_temp_debugfs_show env w = do {
     (r, w) \<leftarrow> wmi_get_temperature (de_call env) (mn_stack (de_main env)) True True w;
     Some (case r of
         Inr (Some t_m, Some t_r) \<Rightarrow>
           print_temp ''MAC temperature   :'' t_m @ print_temp ''Radio temperature :'' t_r
       | _ \<Rightarrow> ''Failed'' @ newline, w)
   }"

definition wil_info_debugfs_show :: "dbg_env \<Rightarrow> wil6210_priv \<Rightarrow> string" where
  "wil_info_debugfs_show env w =
     ''FW version : '' @ fmt_d (sint (fw_version w)) @ newline @
     ''AC powered : '' @ fmt_d (de_ac env) @ newline"

definition wil_offchannel_debugfs_show :: "dbg_env \<Rightarrow> wil6210_priv \<Rightarrow> string" where
  "wil_offchannel_debugfs_show env w =
     (let r = roc w
      in (if roc_started r then ''started'' else ''inactive'') @ '', '' @ fmt_d (int (roc_duration r)) @ '' ms ['' @
         (if roc_work_queued r then ''pending'' else []) @ '' '' @
         (if de_work_running env then ''running'' else []) @ '']'' @ newline @
         ''Cookies 0x'' @ fmt_x 16 (roc_cookie r) @ '' 0x'' @ fmt_x 16 (roc_mgmt_tx_cookie r) @ newline @
         (case roc_chan r of None \<Rightarrow> []
          | Some ch \<Rightarrow> ''Channel '' @ fmt_d (int ch) @ '' '' @ fmt_d (int (CHAN60G_center_freq ch)) @ '' MHz'' @ newline) @
         (case roc_buf r of None \<Rightarrow> []
          | Some bs \<Rightarrow> ''Tx frame '' @ de_buf_text env bs @ '' ['' @ fmt_d (int (length bs)) @ '']'' @ newline))"

subsection \<open>Stations\<close>

text \<open>The head of a session is marked; a session of size 0 is a division by zero.\<close>

definition wil_print_rxtid :: "wil_tid_ampdu_rx \<Rightarrow> string option" where
  "wil_print_rxtid r = do {
     index \<leftarrow> reorder_index r (head_seq_num r);
     slots \<leftarrow> those (map (\<lambda>i. map_option (\<lambda>c. (c \<noteq> None, i = index)) (reorder_slot r i))
       [0..<unat (buf_size r)]);
     Some (''0x'' @ fmt_x 3 (head_seq_num r) @ '' ['' @
       map (\<lambda>(full, at_head). if at_head then (if full then CHR ''O'' else CHR ''|'')
         else (if full then CHR ''*'' else CHR ''_'')) slots @
       ''] last drop 0x'' @ fmt_x 3 (ssn_last_drop r) @ newline)
   }"

definition status_text :: "wil_sta_status \<Rightarrow> string" where
  "status_text st = (case st of wil_sta_unused \<Rightarrow> ''unused   '' | wil_sta_conn_pending \<Rightarrow> ''pending  ''
     | wil_sta_connected \<Rightarrow> ''connected'')"

definition print_tid :: "wil_tid_ampdu_rx option \<times> nat \<Rightarrow> string option" where
  "print_tid rt = (case rt of (None, _) \<Rightarrow> Some []
     | (Some r, tid) \<Rightarrow> map_option (\<lambda>t. ''['' @ fmt_nd 2 (int tid) @ ''] '' @ t) (wil_print_rxtid r))"

definition print_sta :: "wil_sta_info \<times> nat \<Rightarrow> string option" where
  "print_sta pi = (case pi of (p, i) \<Rightarrow> do {
     tids \<leftarrow> (if sta_status p = wil_sta_connected
       then those (map print_tid (zip (tid_rx p) [0..<length (tid_rx p)])) else Some []);
     Some (''['' @ fmt_d (int i) @ ''] '' @ fmt_mac (sta_addr p) @ '' '' @ status_text (sta_status p) @ newline @
       concat tids)
   })"

definition wil_sta_debugfs_show :: "wil6210_priv \<Rightarrow> string option" where
  "wil_sta_debugfs_show w = map_option concat (those (map print_sta (zip (sta w) [0..<length (sta w)])))"

subsection \<open>The files\<close>

text \<open>The modes are \<open>S_IRUGO\<close> and \<open>S_IWUSR\<close>.\<close>

datatype dbg_target =
    ShowFile | ReadWriteFile | VarU32 | VarU8 | VarUlong | Iomem u32 | Blob debugfs_blob

record dbg_file =
  df_dir :: string
  df_name :: string
  df_read :: bool
  df_write :: bool
  df_target :: dbg_target

definition iomem_file :: "string \<Rightarrow> bool \<Rightarrow> bool \<Rightarrow> string \<Rightarrow> u32 \<Rightarrow> dbg_file" where
  "iomem_file dir r wr name off =
     \<lparr>df_dir = dir, df_name = name, df_read = r, df_write = wr, df_target = Iomem off\<rparr>"

text \<open>A directory that cannot be created leaves its files out; \<open>mk\<close> tells of each directory.\<close>

definition wil6210_debugfs_create_ISR :: "(string \<Rightarrow> bool) \<Rightarrow> string \<Rightarrow> u32 \<Rightarrow> dbg_file list" where
  "wil6210_debugfs_create_ISR mk name off =
     (if \<not> mk name then [] else
       [iomem_file name True True ''ICC'' off, iomem_file name True True ''ICR'' (off + 4),
        iomem_file name True True ''ICM'' (off + 8), iomem_file name False True ''ICS'' (off + 12),
        iomem_file name True True ''IMV'' (off + 16), iomem_file name False True ''IMS'' (off + 20),
        iomem_file name False True ''IMC'' (off + 24)])"

definition RGF_DMA_PSEUDO_CAUSE_MASK_FW :: u32 where "RGF_DMA_PSEUDO_CAUSE_MASK_FW = 0x881c70"
definition RGF_DMA_ITR_CNT_DATA :: u32 where "RGF_DMA_ITR_CNT_DATA = 0x881c60"

definition wil6210_debugfs_create_pseudo_ISR :: "(string \<Rightarrow> bool) \<Rightarrow> dbg_file list" where
  "wil6210_debugfs_create_pseudo_ISR mk =
     (let d = ''PSEUDO_ISR''
      in if \<not> mk d then [] else
       [iomem_file d True False ''CAUSE'' (HOSTADDR RGF_DMA_PSEUDO_CAUSE),
        iomem_file d True False ''MASK_SW'' (HOSTADDR RGF_DMA_PSEUDO_CAUSE_MASK_SW),
        iomem_file d True False ''MASK_FW'' (HOSTADDR RGF_DMA_PSEUDO_CAUSE_MASK_FW)])"

definition wil6210_debugfs_create_ITR_CNT :: "(string \<Rightarrow> bool) \<Rightarrow> dbg_file list" where
  "wil6210_debugfs_create_ITR_CNT mk =
     (let d = ''ITR_CNT''
      in if \<not> mk d then [] else
       [iomem_file d True True ''TRSH'' (HOSTADDR RGF_DMA_ITR_CNT_TRSH),
        iomem_file d True True ''DATA'' (HOSTADDR RGF_DMA_ITR_CNT_DATA),
        iomem_file d True True ''CTL'' (HOSTADDR RGF_DMA_ITR_CNT_CRL)])"

definition dbg_file_of :: "string \<Rightarrow> bool \<Rightarrow> bool \<Rightarrow> dbg_target \<Rightarrow> dbg_file" where
  "dbg_file_of name r wr t = \<lparr>df_dir = [], df_name = name, df_read = r, df_write = wr, df_target = t\<rparr>"

definition blob_file :: "string \<Rightarrow> u32 \<Rightarrow> nat \<Rightarrow> dbg_file" where
  "blob_file name off n = dbg_file_of name True False (Blob \<lparr>blob_data = off, blob_size = n\<rparr>)"

definition wil_debug_blobs :: "dbg_file list" where
  "wil_debug_blobs =
     [blob_file ''blob_rgf'' 0 0xa000, blob_file ''blob_fw_code'' 0x40000 0x40000,
      blob_file ''blob_fw_data'' 0x80000 0x8000, blob_file ''blob_fw_peri'' 0x88000 0x18000,
      blob_file ''blob_uc_code'' 0xa0000 0x10000, blob_file ''blob_uc_data'' 0xb0000 0x4000]"

definition wil6210_debugfs_init :: "(string \<Rightarrow> bool) \<Rightarrow> errno option \<times> dbg_file list" where
  "wil6210_debugfs_init mk =
     (if \<not> mk ''wil6210'' then (Some ENODEV, [])
      else (None,
        map (\<lambda>n. dbg_file_of n True False ShowFile) [''mbox'', ''vrings'', ''stations'', ''desc''] @
        [dbg_file_of ''desc_index'' True True VarU32, dbg_file_of ''vring_index'' True True VarU32,
         dbg_file_of ''bf'' True False ShowFile, dbg_file_of ''ssid'' True True ReadWriteFile,
         dbg_file_of ''secure_pcp'' True True VarU32, dbg_file_of ''status'' True True VarUlong,
         dbg_file_of ''offchannel'' True False ShowFile, dbg_file_of ''p2p'' False True ReadWriteFile] @
        wil6210_debugfs_create_ISR mk ''USER_ICR'' (HOSTADDR RGF_USER_USER_ICR) @
        wil6210_debugfs_create_ISR mk ''DMA_EP_TX_ICR'' (HOSTADDR RGF_DMA_EP_TX_ICR) @
        wil6210_debugfs_create_ISR mk ''DMA_EP_RX_ICR'' (HOSTADDR RGF_DMA_EP_RX_ICR) @
        wil6210_debugfs_create_ISR mk ''DMA_EP_MISC_ICR'' (HOSTADDR RGF_DMA_EP_MISC_ICR) @
        wil6210_debugfs_create_pseudo_ISR mk @ wil6210_debugfs_create_ITR_CNT mk @
        [dbg_file_of ''mem_addr'' True True VarU32, dbg_file_of ''mem_val'' True True ReadWriteFile,
         dbg_file_of ''reset'' False True ReadWriteFile, dbg_file_of ''rxon'' False True ReadWriteFile,
         dbg_file_of ''tx_mgmt'' False True ReadWriteFile, dbg_file_of ''wmi_send'' False True ReadWriteFile,
         dbg_file_of ''temp'' True False ShowFile, dbg_file_of ''info'' True False ShowFile,
         dbg_file_of ''addba'' False True ReadWriteFile, dbg_file_of ''tid'' True True VarU8] @
        wil_debug_blobs))"

end
