(* ===== verification/Wil_Wiphy.thy ===== *)
theory Wil_Wiphy
  imports Wil_Rx
begin

text \<open>
  What the driver tells cfg80211 it can do (\<^verbatim>\<open>cfg80211.c\<close>: the tables and \<^verbatim>\<open>wil_wiphy_init\<close>). Words
  of flags are the lists of their flags; what the kernel's headers number is a datatype.
\<close>

subsection \<open>Channels\<close>

datatype ieee80211_band = IEEE80211_BAND_60GHZ

record ieee80211_channel =
  ch_band :: ieee80211_band
  ch_center_freq :: nat
  ch_hw_value :: nat
  ch_flags :: nat
  ch_max_antenna_gain :: int
  ch_max_power :: int

definition CHAN60G :: "nat \<Rightarrow> nat \<Rightarrow> ieee80211_channel" where
  "CHAN60G channel flags = \<lparr>ch_band = IEEE80211_BAND_60GHZ, ch_center_freq = CHAN60G_center_freq channel,
     ch_hw_value = channel, ch_flags = flags, ch_max_antenna_gain = 0, ch_max_power = 40\<rparr>"

definition wil_60ghz_channels :: "ieee80211_channel list" where
  "wil_60ghz_channels = [CHAN60G 1 0, CHAN60G 2 0, CHAN60G 3 0]"

text \<open>The rates received are a mask over the MCS numbers, one byte for eight of them.\<close>

datatype ampdu_factor = IEEE80211_HT_MAX_AMPDU_64K
datatype ampdu_density = IEEE80211_HT_MPDU_DENSITY_8
datatype tx_params = IEEE80211_HT_MCS_TX_DEFINED

record ieee80211_supported_band =
  sb_channels :: "ieee80211_channel list"
  sb_ht_supported :: bool
  sb_ht_cap :: u16
  sb_ampdu_factor :: ampdu_factor
  sb_ampdu_density :: ampdu_density
  sb_rx_mask :: "u8 list"
  sb_tx_params :: tx_params

definition wil_band_60ghz :: ieee80211_supported_band where
  "wil_band_60ghz = \<lparr>sb_channels = wil_60ghz_channels, sb_ht_supported = True, sb_ht_cap = 0,
     sb_ampdu_factor = IEEE80211_HT_MAX_AMPDU_64K, sb_ampdu_density = IEEE80211_HT_MPDU_DENSITY_8,
     sb_rx_mask = [0xfe, 0x1f], sb_tx_params = IEEE80211_HT_MCS_TX_DEFINED\<rparr>"

subsection \<open>Management frames and ciphers\<close>

datatype mgmt_stype = IEEE80211_STYPE_ACTION | IEEE80211_STYPE_PROBE_REQ | IEEE80211_STYPE_PROBE_RESP

record ieee80211_txrx_stypes =
  stypes_tx :: "mgmt_stype list"
  stypes_rx :: "mgmt_stype list"

definition wil_mgmt_stypes :: "(nl80211_iftype \<times> ieee80211_txrx_stypes) list" where
  "wil_mgmt_stypes =
     (let s = \<lparr>stypes_tx = [IEEE80211_STYPE_ACTION, IEEE80211_STYPE_PROBE_RESP],
        stypes_rx = [IEEE80211_STYPE_ACTION, IEEE80211_STYPE_PROBE_REQ]\<rparr>
      in [(NL80211_IFTYPE_STATION, s), (NL80211_IFTYPE_AP, s), (NL80211_IFTYPE_P2P_CLIENT, s), (NL80211_IFTYPE_P2P_GO, s)])"

datatype cipher_suite = WLAN_CIPHER_SUITE_GCMP | WLAN_CIPHER_SUITE_CCMP

definition wil_cipher_suites :: "cipher_suite list" where
  "wil_cipher_suites = [WLAN_CIPHER_SUITE_GCMP, WLAN_CIPHER_SUITE_CCMP]"

subsection \<open>The wiphy\<close>

datatype wiphy_flag =
    WIPHY_FLAG_HAVE_AP_SME | WIPHY_FLAG_HAS_REMAIN_ON_CHANNEL | WIPHY_FLAG_AP_PROBE_RESP_OFFLOAD
  | WIPHY_FLAG_OTHER

datatype probe_resp_offload =
    NL80211_PROBE_RESP_OFFLOAD_SUPPORT_WPS | NL80211_PROBE_RESP_OFFLOAD_SUPPORT_WPS2
  | NL80211_PROBE_RESP_OFFLOAD_SUPPORT_P2P

datatype cfg80211_signal_type = CFG80211_SIGNAL_TYPE_NONE | CFG80211_SIGNAL_TYPE_UNSPEC

definition IEEE80211_MAX_DATA_LEN :: nat where "IEEE80211_MAX_DATA_LEN = 2304"

record wiphy =
  max_scan_ssids :: nat
  max_scan_ie_len :: nat
  max_remain_on_channel_duration :: nat
  max_num_pmkids :: nat
  interface_modes :: "nl80211_iftype list"
  wiphy_flags :: "wiphy_flag list"
  wy_probe_resp_offload :: "probe_resp_offload list"
  wiphy_band :: "ieee80211_supported_band option"
  signal_type :: cfg80211_signal_type
  cipher_suites :: "cipher_suite list"
  mgmt_stypes :: "(nl80211_iftype \<times> ieee80211_txrx_stypes) list"

definition wil_wiphy_init :: "wiphy \<Rightarrow> wiphy" where
  "wil_wiphy_init x = x\<lparr>max_scan_ssids := 10, max_scan_ie_len := IEEE80211_MAX_DATA_LEN,
     max_remain_on_channel_duration := 5000, max_num_pmkids := 8,
     interface_modes := [NL80211_IFTYPE_STATION, NL80211_IFTYPE_AP, NL80211_IFTYPE_P2P_CLIENT,
       NL80211_IFTYPE_P2P_GO, NL80211_IFTYPE_MONITOR],
     wiphy_flags := wiphy_flags x @ [WIPHY_FLAG_HAVE_AP_SME, WIPHY_FLAG_HAS_REMAIN_ON_CHANNEL,
       WIPHY_FLAG_AP_PROBE_RESP_OFFLOAD],
     wy_probe_resp_offload := [NL80211_PROBE_RESP_OFFLOAD_SUPPORT_WPS,
       NL80211_PROBE_RESP_OFFLOAD_SUPPORT_WPS2, NL80211_PROBE_RESP_OFFLOAD_SUPPORT_P2P],
     wiphy_band := Some wil_band_60ghz, signal_type := CFG80211_SIGNAL_TYPE_UNSPEC,
     cipher_suites := wil_cipher_suites, mgmt_stypes := wil_mgmt_stypes\<rparr>"

text \<open>The wiphy as \<open>wiphy_new\<close> hands it out, with a flag of its own.\<close>

definition wiphy_new :: wiphy where
  "wiphy_new = \<lparr>max_scan_ssids = 0, max_scan_ie_len = 0, max_remain_on_channel_duration = 0,
     max_num_pmkids = 0, interface_modes = [], wiphy_flags = [WIPHY_FLAG_OTHER], wy_probe_resp_offload = [],
     wiphy_band = None, signal_type = CFG80211_SIGNAL_TYPE_NONE, cipher_suites = [], mgmt_stypes = []\<rparr>"

end
