(* ===== verification/Wil_Pcie.thy ===== *)
theory Wil_Pcie
  imports Wil_Main_Correct Wil_Wiphy
begin

text \<open>
  The device comes and goes: probing and removing it on the PCI bus (\<^verbatim>\<open>pcie_bus.c\<close>), the network
  device (\<^verbatim>\<open>netdev.c\<close>) and the wiphy with the wireless device (\<^verbatim>\<open>cfg80211.c\<close>). What the
  driver holds of the kernel's resources is a list, and so is the memory that is used after it was
  given back. The private state lives in the wiphy's memory.
\<close>

subsection \<open>State\<close>

datatype bus_res =
    PciDevice | BarRegion | BarMapping | BusMaster | MsiVectors | IrqLines
  | WdevMem | WiphyMem | WiphyRegistered | WorkQueue workqueue
  | NetdevMem | NetdevRegistered | DebugfsDir

text \<open>
  The memory the driver allocates itself is what its private state points to: the Rx ring, the Tx ring
  of slot \<open>i\<close>, the reorder session of peer and TID. Once the wiphy is gone nothing can free it.
\<close>

datatype drv_mem = RxRingMem | TxRingMem nat | SessionMem nat nat

definition driver_mem :: "wil6210_priv \<Rightarrow> drv_mem list" where
  "driver_mem w =
     (if vr_va (vring_rx w) = None then [] else [RxRingMem]) @
     map TxRingMem (filter (\<lambda>i. vr_va (vring_tx w ! i) \<noteq> None) [0..<length (vring_tx w)]) @
     concat (map (\<lambda>cid. map (SessionMem cid)
       (filter (\<lambda>tid. tid_rx (sta w ! cid) ! tid \<noteq> None) [0..<length (tid_rx (sta w ! cid))]))
       [0..<length (sta w)])"

text \<open>
  \<open>bs_netdev\<close> tells whether \<open>wdev->netdev\<close> is set, \<open>bs_running\<close> whether the interface is up,
  \<open>use_msi\<close> is the module parameter, which the driver corrects.
\<close>

record bus_state =
  bs_held :: "bus_res list"
  bs_after_free :: "bus_res list"
  bs_netdev :: bool
  bs_running :: bool
  bs_drvdata :: bool
  use_msi :: int
  bs_wiphy :: wiphy
  bs_wil :: wil6210_priv

text \<open>The kernel's answers, the module parameter \<open>debug_fw\<close> and the world of the driver.\<close>

record bus_env =
  be_bar_len :: nat
  be_enable :: "errno option"
  be_region :: "errno option"
  be_ioremap :: bool
  be_wdev :: bool
  be_wiphy :: bool
  be_wiphy_register :: "errno option"
  be_netdev :: bool
  be_msi :: "nat \<Rightarrow> bool"
  be_irq :: nat
  be_request_irq :: "nat \<Rightarrow> errno option"
  be_register_netdev :: "errno option"
  be_debugfs :: bool
  debug_fw :: bool
  be_main :: main_env

definition acquire :: "bus_res \<Rightarrow> bus_state \<Rightarrow> bus_state" where
  "acquire r b = b\<lparr>bs_held := r # bs_held b\<rparr>"

definition put_back :: "bus_res \<Rightarrow> bus_state \<Rightarrow> bus_state" where
  "put_back r b = b\<lparr>bs_held := removeAll r (bs_held b)\<rparr>"

definition access :: "bus_res \<Rightarrow> bus_state \<Rightarrow> bus_state" where
  "access r b = (if r \<in> set (bs_held b) then b else b\<lparr>bs_after_free := bs_after_free b @ [r]\<rparr>)"

definition upd_wil :: "(wil6210_priv \<Rightarrow> wil6210_priv) \<Rightarrow> bus_state \<Rightarrow> bus_state" where
  "upd_wil f b = b\<lparr>bs_wil := f (bs_wil b)\<rparr>"

subsection \<open>The wireless device\<close>

definition wil_cfg80211_init :: "bus_env \<Rightarrow> bus_state \<Rightarrow> errno option \<times> bus_state" where
  "wil_cfg80211_init env b =
     (if \<not> be_wdev env then (Some ENOMEM, b)
      else
        let b = (acquire WdevMem b)\<lparr>bs_netdev := False\<rparr>
        in if \<not> be_wiphy env then (Some ENOMEM, put_back WdevMem b)
           else
             let b = (acquire WiphyMem b)\<lparr>bs_wil := wil_init_state, bs_wiphy := wil_wiphy_init wiphy_new\<rparr>
             in (case be_wiphy_register env of
                   Some e \<Rightarrow> (Some e, put_back WdevMem (put_back WiphyMem b))
                 | None \<Rightarrow> (None, acquire WiphyRegistered b)))"

definition wil_wdev_free :: "bus_state \<Rightarrow> bus_state" where
  "wil_wdev_free b = put_back WdevMem (put_back WiphyMem (put_back WiphyRegistered b))"

subsection \<open>The network device\<close>

text \<open>The work queues that exist, as the log of the private state tells.\<close>

definition all_wqs :: "workqueue list" where
  "all_wqs = [wmi_wq, wmi_wq_conn, back_wq, roc_wq]"

definition acquire_wqs :: "bus_state \<Rightarrow> bus_state" where
  "acquire_wqs b = fold (\<lambda>q b. if q \<in> live_wqs (bs_wil b) then acquire (WorkQueue q) b else b) all_wqs b"

text \<open>Disconnecting reads the address of the network device: without one this is a crash.\<close>

definition bus_priv_deinit :: "bus_env \<Rightarrow> bus_state \<Rightarrow> bus_state option" where
  "bus_priv_deinit env b =
     (if \<not> bs_netdev b then None
      else do {
        w \<leftarrow> wil_priv_deinit (mn_netif_ok (be_main env)) (mn_wmi (be_main env)) (bs_wil b);
        Some (fold (\<lambda>q. put_back (WorkQueue q)) all_wqs ((access NetdevMem b)\<lparr>bs_wil := w\<rparr>))
      })"

definition preset_wdev :: "wil6210_priv \<Rightarrow> wil6210_priv" where
  "preset_wdev w = w\<lparr>wdev := (wdev w)\<lparr>wd_iftype := NL80211_IFTYPE_STATION, wd_channel := Some 1\<rparr>\<rparr>"

definition wil_if_alloc :: "bus_env \<Rightarrow> bus_state \<Rightarrow> (errno option \<times> bus_state) option" where
  "wil_if_alloc env b =
     (let (rc, b) = wil_cfg80211_init env b
      in if rc \<noteq> None then Some (rc, b)
         else
           let (rc, w) = wil_priv_init (mn_wmi (be_main env)) (bs_wil b);
               b = acquire_wqs (b\<lparr>bs_wil := w\<rparr>)
           in if rc \<noteq> None then Some (rc, wil_wdev_free b)
              else
                let b = upd_wil preset_wdev b
                in if \<not> be_netdev env then do {
                     b \<leftarrow> bus_priv_deinit env b;
                     Some (Some ENOMEM, wil_wdev_free b)
                   }
                   else Some (None, upd_wil wil_link_off ((acquire NetdevMem b)\<lparr>bs_netdev := True\<rparr>)))"

definition wil_if_free :: "bus_env \<Rightarrow> bus_state \<Rightarrow> bus_state option" where
  "wil_if_free env b =
     (if \<not> bs_netdev b then Some b
      else do {
        b \<leftarrow> bus_priv_deinit env (put_back NetdevMem b);
        Some (wil_wdev_free b)
      })"

definition wil_if_add :: "bus_env \<Rightarrow> bus_state \<Rightarrow> errno option \<times> bus_state" where
  "wil_if_add env b =
     (case be_register_netdev env of
        Some e \<Rightarrow> (Some e, b)
      | None \<Rightarrow> (None, upd_wil wil_link_off (acquire NetdevRegistered b)))"

definition wil_open :: "bus_env \<Rightarrow> bus_state \<Rightarrow> (errno option \<times> bus_state) option" where
  "wil_open env b = do {
     (rc, w) \<leftarrow> wil_up (be_main env) (bs_wil b);
     Some (rc, b\<lparr>bs_wil := w\<rparr>)
   }"

definition wil_stop :: "bus_env \<Rightarrow> bus_state \<Rightarrow> (errno option \<times> bus_state) option" where
  "wil_stop env b = do {
     (rc, w) \<leftarrow> wil_down (mn_netif_ok (be_main env)) (mn_wmi (be_main env)) (bs_wil b);
     Some (rc, b\<lparr>bs_wil := w\<rparr>)
   }"

text \<open>\<open>unregister_netdev\<close> closes an interface that is up.\<close>

definition wil_if_remove :: "bus_env \<Rightarrow> bus_state \<Rightarrow> bus_state option" where
  "wil_if_remove env b = do {
     b \<leftarrow> (if bs_running b then map_option (\<lambda>(_, b). b\<lparr>bs_running := False\<rparr>) (wil_stop env b) else Some b);
     Some (put_back NetdevRegistered b)
   }"

subsection \<open>The bus\<close>

text \<open>How many message interrupts to ask for, and how many are given.\<close>

definition msi_wanted :: "int \<Rightarrow> int" where
  "msi_wanted u = (if u \<in> {0, 1, 3} then u else 1)"

definition msi_granted :: "(nat \<Rightarrow> bool) \<Rightarrow> nat \<Rightarrow> nat" where
  "msi_granted msi n = (if n = 0 then 0 else if msi n then n else if n = 3 \<and> msi 1 then 1 else 0)"

definition bus_setup_msi :: "bus_env \<Rightarrow> bus_state \<Rightarrow> bus_state" where
  "bus_setup_msi env b =
     (let b = b\<lparr>use_msi := msi_wanted (use_msi b)\<rparr>;
          n = msi_granted (be_msi env) (nat (use_msi b));
          b = (if n \<noteq> 0 then acquire MsiVectors b else b)
      in upd_wil (\<lambda>w. w\<lparr>n_msi := n\<rparr>) b)"

definition bus_init_irq :: "bus_env \<Rightarrow> bus_state \<Rightarrow> errno option \<times> bus_state" where
  "bus_init_irq env b =
     (let (rc, w) = wil6210_init_irq (mn_cor (be_main env)) (be_request_irq env) (be_irq env) (bs_wil b);
          b = b\<lparr>bs_wil := w\<rparr>
      in (rc, if rc = None then acquire IrqLines b else b))"

definition bus_fini_irq :: "bus_env \<Rightarrow> bus_state \<Rightarrow> bus_state" where
  "bus_fini_irq env b = put_back IrqLines (upd_wil (wil6210_fini_irq (be_irq env)) b)"

definition wil_if_pcie_enable :: "bus_env \<Rightarrow> bus_state \<Rightarrow> (errno option \<times> bus_state) option" where
  "wil_if_pcie_enable env b =
     (let b = bus_setup_msi env (acquire BusMaster b);
          (rc, b) = bus_init_irq env b
      in if rc \<noteq> None then Some (rc, put_back BusMaster b)
         else do {
           (rc, w) \<leftarrow> wil_reset (be_main env) (bs_wil b);
           let b = b\<lparr>bs_wil := w\<rparr>;
           Some (if debug_fw env \<or> rc = None then (None, b)
             else (rc, put_back BusMaster (put_back MsiVectors (bus_fini_irq env b))))
         })"

definition wil_if_pcie_disable :: "bus_env \<Rightarrow> bus_state \<Rightarrow> bus_state" where
  "wil_if_pcie_disable env b = put_back MsiVectors (bus_fini_irq env (put_back BusMaster b))"

text \<open>The end of the probe's error path, from its label \<open>err_iounmap\<close> on.\<close>

definition probe_unmap :: "bus_state \<Rightarrow> bus_state" where
  "probe_unmap b = put_back PciDevice (put_back BarRegion (put_back BarMapping b))"

definition probe_if_free ::
  "bus_env \<Rightarrow> errno option \<Rightarrow> bus_state \<Rightarrow> (errno option \<times> bus_state) option" where
  "probe_if_free env rc b = do { b \<leftarrow> wil_if_free env b; Some (rc, probe_unmap b) }"

text \<open>The probe once the registers are mapped.\<close>

definition probe_device :: "bus_env \<Rightarrow> bus_state \<Rightarrow> (errno option \<times> bus_state) option" where
  "probe_device env b = do {
     (rc, b) \<leftarrow> wil_if_alloc env b;
     (if rc \<noteq> None then Some (rc, probe_unmap b)
      else do {
        (rc, b) \<leftarrow> wil_if_pcie_enable env (b\<lparr>bs_drvdata := True\<rparr>);
        (if rc \<noteq> None then probe_if_free env rc b
         else do {
           let (rc, b) = wil_if_add env b;
           (if rc \<noteq> None then probe_if_free env rc (wil_if_pcie_disable env b)
            else do {
              let b = (if be_debugfs env then acquire DebugfsDir b else b);
              (_, w) \<leftarrow> wmi_echo (mn_call (be_main env)) (bs_wil b);
              Some (None, b\<lparr>bs_wil := w\<rparr>)
            })
         })
      })
   }"

definition wil_pcie_probe :: "bus_env \<Rightarrow> bus_state \<Rightarrow> (errno option \<times> bus_state) option" where
  "wil_pcie_probe env b =
     (if be_bar_len env \<noteq> unat WIL6210_MEM_SIZE \<or> be_enable env \<noteq> None then Some (Some ENODEV, b)
      else
        let b = acquire PciDevice b
        in if be_region env \<noteq> None then Some (be_region env, put_back PciDevice b)
           else
             let b = acquire BarRegion b
             in if \<not> be_ioremap env then Some (Some ENODEV, put_back PciDevice (put_back BarRegion b))
                else probe_device env (acquire BarMapping b))"

text \<open>The address of the mapping is read from the private state, at the end.\<close>

definition wil_pcie_remove :: "bus_env \<Rightarrow> bus_state \<Rightarrow> bus_state option" where
  "wil_pcie_remove env b = do {
     b \<leftarrow> wil_if_remove env (wil_if_pcie_disable env (put_back DebugfsDir b));
     b \<leftarrow> wil_if_free env b;
     Some ((probe_unmap (access WiphyMem b))\<lparr>bs_drvdata := False\<rparr>)
   }"

end
