(* ===== verification/Wil_Pcie_Props.thy ===== *)
theory Wil_Pcie_Props
  imports Wil_Pcie Wil_Main_Props
begin

text \<open>
  The properties of probing and removing: what the driver holds of the kernel afterwards, and the
  memory it uses after it was given back.
\<close>

subsection \<open>The network device\<close>

definition mapped :: "bus_res list" where
  "mapped = [BarMapping, BarRegion, PciDevice]"

text \<open>What the driver holds once its network device exists.\<close>

definition if_held :: "bus_res list" where
  "if_held = NetdevMem # map WorkQueue (rev all_wqs) @ [WiphyRegistered, WiphyMem, WdevMem] @ mapped"

definition wdev_comes :: "bus_env \<Rightarrow> bool" where
  "wdev_comes env \<longleftrightarrow> be_wdev env \<and> be_wiphy env \<and> be_wiphy_register env = None"

text \<open>The number of work queues that can be created, in the order of the driver.\<close>

definition wqs_come :: "bus_env \<Rightarrow> nat \<Rightarrow> bool" where
  "wqs_come env n \<longleftrightarrow> (\<forall>k < n. we_alloc (mn_wmi (be_main env)) k)"

lemma init_state_bus:
  "io_clock wil_init_state = 0" "live_wqs wil_init_state = {}" "waiting_ok wil_init_state"
proof -
  have "wil_init_state\<lparr>mbox_tx := zero_mbox_ring\<rparr> = wil_init_state" by (simp add: wil_init_state_def)
  moreover have "driver_ok (wil_init_state\<lparr>mbox_tx := zero_mbox_ring\<rparr>)"
    by (rule driver_ok_init) (simp add: tx_mbox_ok_def zero_mbox_ring_def)
  ultimately have "driver_ok wil_init_state" by simp
  then show "waiting_ok wil_init_state" by (simp add: waiting_ok_def reply_ok_def wil_init_state_def)
  show "io_clock wil_init_state = 0" "live_wqs wil_init_state = {}"
    by (simp_all add: wil_init_state_def live_wqs_def)
qed

lemma priv_init_kept:
  assumes "wil_priv_init env w = (rc, w')"
  shows "waiting_ok w \<Longrightarrow> waiting_ok w'" "connect_ok w'" "vring_rx w' = vring_rx w"
proof -
  have eq: "w' = (priv_fields_init w)\<lparr>klog := klog w', io_clock := io_clock w'\<rparr>"
    using assms by (auto simp: wil_priv_init_def create_singlethread_workqueue_def destroy_workqueue_def
        kmalloc_def klog_add_def tick_def Let_def split: if_splits)
  show "connect_ok w'" "vring_rx w' = vring_rx w"
    by (subst eq, simp add: connect_ok_def priv_fields_init_def)+
  assume "waiting_ok w"
  then have w: "driver_ok w" "reply_ok w" by (simp_all add: waiting_ok_def)
  have "driver_ok ((priv_fields_init w)\<lparr>klog := l, io_clock := n\<rparr>)" for l n
    using w(1) by (simp add: driver_ok_defs priv_fields_init_def zero_sta_def)
  then have "waiting_ok ((priv_fields_init w)\<lparr>klog := l, io_clock := n\<rparr>)" for l n
    using w(2) by (simp add: waiting_ok_def reply_ok_def priv_fields_init_def)
  then show "waiting_ok w'" by (subst eq)
qed

lemma driver_ok_wdev [simp]: "driver_ok (w\<lparr>wdev := d\<rparr>) = driver_ok w"
  by (simp add: driver_ok_defs)

lemma preset_ok [simp]:
  "waiting_ok (wil_link_off (preset_wdev w)) = waiting_ok w"
  "connect_ok (wil_link_off (preset_wdev w)) = connect_ok w"
  "vring_rx (wil_link_off (preset_wdev w)) = vring_rx w"
  by (simp_all add: preset_wdev_def wil_link_off_def waiting_ok_def reply_ok_def connect_ok_def
      wil_find_free_vring_def)

lemma bus_ops [simp]:
  "bs_held (acquire r b) = r # bs_held b" "bs_held (put_back r b) = removeAll r (bs_held b)"
  "bs_held (upd_wil f b) = bs_held b" "bs_wil (acquire r b) = bs_wil b" "bs_wil (put_back r b) = bs_wil b"
  "bs_wil (upd_wil f b) = f (bs_wil b)" "bs_after_free (acquire r b) = bs_after_free b"
  "bs_after_free (put_back r b) = bs_after_free b" "bs_after_free (upd_wil f b) = bs_after_free b"
  "bs_netdev (acquire r b) = bs_netdev b" "bs_netdev (put_back r b) = bs_netdev b"
  "bs_netdev (upd_wil f b) = bs_netdev b" "bs_running (acquire r b) = bs_running b"
  "bs_running (put_back r b) = bs_running b" "bs_running (upd_wil f b) = bs_running b"
  by (simp_all add: acquire_def put_back_def upd_wil_def)

lemma if_alloc_no_wdev:
  assumes "bs_held b = mapped" "\<not> wdev_comes env"
  shows "\<exists>e b'. wil_if_alloc env b = Some (Some e, b') \<and> bs_after_free b' = bs_after_free b \<and> bs_held b' = mapped"
  using assms by (cases "be_wiphy_register env")
    (auto simp: wil_if_alloc_def wil_cfg80211_init_def wdev_comes_def mapped_def Let_def)

lemma wdev_init:
  assumes "bs_held b = mapped" "wdev_comes env"
  obtains b' where "wil_cfg80211_init env b = (None, b')" "bs_after_free b' = bs_after_free b" "\<not> bs_netdev b'"
    "bs_held b' = [WiphyRegistered, WiphyMem, WdevMem] @ mapped" "bs_wil b' = wil_init_state"
    "bs_running b' = bs_running b"
  using assms by (auto simp: wil_cfg80211_init_def wdev_comes_def acquire_def)

lemma acquire_wqs_held:
  "live_wqs (bs_wil b) = {} \<Longrightarrow> acquire_wqs b = b"
  "live_wqs (bs_wil b) = {back_wq} \<Longrightarrow> acquire_wqs b = acquire (WorkQueue back_wq) b"
  "live_wqs (bs_wil b) = {wmi_wq, wmi_wq_conn, back_wq, roc_wq} \<Longrightarrow>
     acquire_wqs b = b\<lparr>bs_held := map WorkQueue (rev all_wqs) @ bs_held b\<rparr>"
  by (simp_all add: acquire_wqs_def all_wqs_def acquire_def)

text \<open>How the network device comes to be, or which step fails and what is left then.\<close>

lemma if_alloc_outcome:
  assumes "bs_held b = mapped"
  shows "case wil_if_alloc env b of
      None \<Rightarrow> wdev_comes env \<and> wqs_come env 4 \<and> \<not> be_netdev env
    | Some (Some e, b') \<Rightarrow> bs_after_free b' = bs_after_free b \<and> \<not> (wdev_comes env \<and> wqs_come env 4) \<and>
        bs_held b' = (if wdev_comes env \<and> wqs_come env 3 then WorkQueue back_wq # mapped else mapped)
    | Some (None, b') \<Rightarrow> bs_after_free b' = bs_after_free b \<and> wdev_comes env \<and> wqs_come env 4 \<and>
        be_netdev env \<and> bs_held b' = if_held \<and> bs_netdev b' \<and> bs_running b' = bs_running b \<and>
        waiting_ok (bs_wil b') \<and> connect_ok (bs_wil b') \<and> vring_rx (bs_wil b') = zero_vring"
proof (cases "wdev_comes env")
  case False
  then show ?thesis using if_alloc_no_wdev [OF assms False] False by auto
next
  case True
  let ?q = "we_alloc (mn_wmi (be_main env))"
  obtain b1 where b1: "wil_cfg80211_init env b = (None, b1)" "bs_after_free b1 = bs_after_free b" "\<not> bs_netdev b1"
    "bs_held b1 = [WiphyRegistered, WiphyMem, WdevMem] @ mapped" "bs_wil b1 = wil_init_state"
    "bs_running b1 = bs_running b" using wdev_init [OF assms True] by blast
  obtain rc w where p: "wil_priv_init (mn_wmi (be_main env)) wil_init_state = (rc, w)" by (rule prod.exhaust)
  have q: "wqs_come env 4 \<longleftrightarrow> ?q 0 \<and> ?q 1 \<and> ?q 2 \<and> ?q 3" "wqs_come env 3 \<longleftrightarrow> ?q 0 \<and> ?q 1 \<and> ?q 2"
    by (auto simp: wqs_come_def less_Suc_eq numeral_eq_Suc)
  have rc: "rc = (if wqs_come env 4 then None else Some EAGAIN)"
    and lv: "live_wqs w = (if rc = None then {wmi_wq, wmi_wq_conn, back_wq, roc_wq}
       else if wqs_come env 3 then {back_wq} else {})"
    using priv_init_wqs [OF init_state_bus(2) p] unfolding q
    by (simp_all add: init_state_bus(1) numeral_2_eq_2 numeral_3_eq_3)
  have k: "waiting_ok w" "connect_ok w" "vring_rx w = zero_vring"
    using priv_init_kept [OF p] init_state_bus(3) by (simp_all add: wil_init_state_def)
  show ?thesis
  proof (cases rc)
    case (Some e)
    then show ?thesis
      using True rc lv b1 p acquire_wqs_held(1,2) [of "b1\<lparr>bs_wil := w\<rparr>"]
      by (simp add: wil_if_alloc_def wil_wdev_free_def mapped_def split: if_splits)
  next
    case None
    then show ?thesis
      using True rc lv b1 p k acquire_wqs_held(3) [of "b1\<lparr>bs_wil := w\<rparr>"]
      by (simp add: wil_if_alloc_def bus_priv_deinit_def if_held_def Let_def split: if_splits)
  qed
qed

text \<open>Releasing it: the network device is used once more after its memory is given back.\<close>

definition if_res :: "bus_res set" where
  "if_res = set (NetdevMem # map WorkQueue all_wqs @ [WiphyRegistered, WiphyMem, WdevMem])"

lemma if_free_outcome:
  assumes "bs_netdev b"
  shows "\<exists>b'. wil_if_free env b = Some b' \<and> bs_after_free b' = bs_after_free b @ [NetdevMem] \<and>
    bs_held b' = filter (\<lambda>r. r \<notin> if_res) (bs_held b) \<and>
    driver_mem (bs_wil b') = driver_mem (bs_wil b) \<and>
    pending_wmi_ev (bs_wil b') = [] \<and> back_pending (bs_wil b') = []"
proof -
  have "\<exists>w. wil_priv_deinit (mn_netif_ok (be_main env)) (mn_wmi (be_main env)) w0 = Some w \<and>
      driver_mem w = driver_mem w0 \<and> pending_wmi_ev w = [] \<and> back_pending w = []" for w0
    by (simp add: wil_priv_deinit_def wil6210_disconnect_def disconnect_none driver_mem_def Let_def
        wmi_event_flush_def wil_back_flush_def destroy_workqueue_def cancel_work_sync_def klog_add_def)
  then obtain w where w: "wil_priv_deinit (mn_netif_ok (be_main env)) (mn_wmi (be_main env)) (bs_wil b) = Some w"
      "driver_mem w = driver_mem (bs_wil b)" "pending_wmi_ev w = []" "back_pending w = []"
    by blast
  have f: "removeAll x xs = filter (\<lambda>r. r \<noteq> x) xs" for x and xs :: "bus_res list"
    by (induction xs) auto
  show ?thesis
    using assms w by (simp add: wil_if_free_def bus_priv_deinit_def access_def wil_wdev_free_def all_wqs_def
        if_res_def f)
qed

subsection \<open>The bus\<close>

definition granted :: "bus_env \<Rightarrow> bus_state \<Rightarrow> nat" where
  "granted env b = msi_granted (be_msi env) (nat (msi_wanted (use_msi b)))"

definition msi_held :: "bus_env \<Rightarrow> bus_state \<Rightarrow> bus_res list" where
  "msi_held env b = (if granted env b = 0 then [] else [MsiVectors])"

definition irq_refused :: "bus_env \<Rightarrow> nat \<Rightarrow> bool" where
  "irq_refused env n \<longleftrightarrow> (\<exists>k < (if n = 3 then 3 else 1). be_request_irq env (be_irq env + k) \<noteq> None)"

lemma init_irq_outcome:
  assumes "wil6210_init_irq cor (be_request_irq env) (be_irq env) w = (rc, w')"
  shows "rc \<noteq> None \<longleftrightarrow> irq_refused env (n_msi w)" "w' = w\<lparr>wstatus := wstatus w', klog := klog w'\<rparr>"
proof -
  have "irq_refused env n \<longleftrightarrow> (if n = 3 then be_request_irq env (be_irq env) \<noteq> None \<or>
      be_request_irq env (be_irq env + 1) \<noteq> None \<or> be_request_irq env (be_irq env + 2) \<noteq> None
      else be_request_irq env (be_irq env) \<noteq> None)" for n
    unfolding irq_refused_def by (simp add: less_Suc_eq numeral_eq_Suc conj_disj_distribR ex_disj_distrib)
  then have "fst (wil6210_init_irq cor (be_request_irq env) (be_irq env) w) \<noteq> None \<longleftrightarrow> irq_refused env (n_msi w)"
    by (simp add: wil6210_init_irq_def wil6210_request_3msi_def Let_def split: option.split)
  then show "rc \<noteq> None \<longleftrightarrow> irq_refused env (n_msi w)" by (simp add: assms)
  define P where "P u \<longleftrightarrow> (\<exists>s l. u = w\<lparr>wstatus := s, klog := l\<rparr>)" for u
  have P0: "P w" unfolding P_def by (rule exI [of _ "wstatus w"], rule exI [of _ "klog w"]) simp
  have P1: "P u \<Longrightarrow> P (klog_add e u)" for u e
    unfolding P_def klog_add_def by (elim exE, intro exI) simp
  have e: "\<exists>s l. wil6210_enable_irq cor u = u\<lparr>wstatus := s, klog := l\<rparr>" for u
    by (intro exI) (rule enable_irq_fields)
  have P2: "\<And>u. P u \<Longrightarrow> P (wil6210_enable_irq cor u)"
  proof -
    fix u assume "P u"
    then obtain s l where u: "u = w\<lparr>wstatus := s, klog := l\<rparr>" by (auto simp: P_def)
    obtain s' l' where "wil6210_enable_irq cor u = u\<lparr>wstatus := s', klog := l'\<rparr>" using e by blast
    then have "wil6210_enable_irq cor u = w\<lparr>wstatus := s', klog := l'\<rparr>" by (simp add: u)
    then show "P (wil6210_enable_irq cor u)" unfolding P_def by blast
  qed
  have "P (snd (wil6210_init_irq cor (be_request_irq env) (be_irq env) w))"
    by (simp add: wil6210_init_irq_def wil6210_request_3msi_def Let_def P0 P1 P2 split: option.split)
  then show "w' = w\<lparr>wstatus := wstatus w', klog := klog w'\<rparr>" by (auto simp: assms P_def)
qed

lemma irq_state_ok:
  assumes "w' = w\<lparr>wstatus := s, klog := l\<rparr>"
  shows "waiting_ok w' = waiting_ok w" "connect_ok w' = connect_ok w" "vring_rx w' = vring_rx w"
proof -
  have "driver_ok (w\<lparr>wstatus := s, klog := l\<rparr>) = driver_ok w"
    by (simp add: driver_ok_defs)
  then show "waiting_ok w' = waiting_ok w" "connect_ok w' = connect_ok w" "vring_rx w' = vring_rx w"
    using assms by (simp_all add: waiting_ok_def reply_ok_def connect_ok_def wil_find_free_vring_def)
qed

lemma n_msi_ok [simp]:
  "waiting_ok (w\<lparr>n_msi := n\<rparr>) = waiting_ok w" "connect_ok (w\<lparr>n_msi := n\<rparr>) = connect_ok w"
  by (simp_all add: waiting_ok_def reply_ok_def connect_ok_def wil_find_free_vring_def ring_cids_ok_def driver_ok_def
      wil_arrays_ok_def sessions_safe_def)

lemma enable_outcome:
  assumes "waiting_ok (bs_wil b)" "connect_ok (bs_wil b)" "up_env_ok (be_main env)"
    and "set (bs_held b) \<inter> {BusMaster, MsiVectors, IrqLines} = {}"
  shows "\<exists>rc b'. wil_if_pcie_enable env b = Some (rc, b') \<and> bs_after_free b' = bs_after_free b \<and>
    bs_netdev b' = bs_netdev b \<and> bs_running b' = bs_running b \<and> (irq_refused env (granted env b) \<longrightarrow> rc \<noteq> None) \<and>
    (debug_fw env \<and> rc \<noteq> None \<longrightarrow> irq_refused env (granted env b)) \<and>
    (rc = None \<longrightarrow> waiting_ok (bs_wil b') \<and> bs_held b' = IrqLines # msi_held env b @ BusMaster # bs_held b) \<and>
    (rc \<noteq> None \<longrightarrow> bs_held b' = (if irq_refused env (granted env b) then msi_held env b else []) @ bs_held b)"
proof -
  define b1 where "b1 = bus_setup_msi env (acquire BusMaster b)"
  have b1: "bs_held b1 = msi_held env b @ BusMaster # bs_held b" "bs_wil b1 = (bs_wil b)\<lparr>n_msi := granted env b\<rparr>"
    "bs_after_free b1 = bs_after_free b" "bs_netdev b1 = bs_netdev b" "bs_running b1 = bs_running b"
    by (simp_all add: b1_def bus_setup_msi_def msi_held_def granted_def acquire_def upd_wil_def Let_def)
  obtain rc w2 where i: "wil6210_init_irq (mn_cor (be_main env)) (be_request_irq env) (be_irq env) (bs_wil b1) = (rc, w2)"
    by (rule prod.exhaust)
  have r: "rc \<noteq> None \<longleftrightarrow> irq_refused env (granted env b)" using init_irq_outcome(1) [OF i] b1(2) by simp
  have w2: "waiting_ok w2" "connect_ok w2"
    using irq_state_ok [OF init_irq_outcome(2) [OF i]] b1(2) assms(1,2) by simp_all
  obtain rc3 w3 where w3: "wil_reset (be_main env) w2 = Some (rc3, w3)" "waiting_ok w3"
    using wil_reset_ok [OF w2(1) assms(3) w2(2)] by blast
  have rm: "removeAll r (xs @ ys) = removeAll r xs @ removeAll r ys" for r :: bus_res and xs ys by simp
  have rmL: "removeAll r (bs_held b) = bs_held b" if "r \<in> {BusMaster, MsiVectors, IrqLines}" for r
    using that assms(4) by (auto simp: removeAll_id)
  show ?thesis
  proof (cases rc)
    case (Some e)
    then have "wil_if_pcie_enable env b = Some (Some e, put_back BusMaster (b1\<lparr>bs_wil := w2\<rparr>))"
      using i by (simp add: wil_if_pcie_enable_def bus_init_irq_def b1_def)
    then show ?thesis using Some r b1 rmL by (auto simp: msi_held_def)
  next
    case None
    let ?b = "(acquire IrqLines (b1\<lparr>bs_wil := w2\<rparr>))\<lparr>bs_wil := w3\<rparr>"
    have e: "wil_if_pcie_enable env b = Some (if debug_fw env \<or> rc3 = None then (None, ?b)
        else (rc3, put_back BusMaster (put_back MsiVectors (bus_fini_irq env ?b))))"
      using None i w3(1) by (simp add: wil_if_pcie_enable_def bus_init_irq_def b1_def Let_def)
    show ?thesis
      using None r b1 rmL w3(2) unfolding e by (simp add: bus_fini_irq_def msi_held_def)
  qed
qed

lemma if_alloc_use_msi: "wil_if_alloc env b = Some (rc, b') \<Longrightarrow> use_msi b' = use_msi b"
proof -
  have 1: "use_msi (acquire_wqs b) = use_msi b" for b by (simp add: acquire_wqs_def all_wqs_def acquire_def)
  have 2: "use_msi (snd (wil_cfg80211_init env b)) = use_msi b"
    by (simp add: wil_cfg80211_init_def acquire_def put_back_def Let_def split: option.split)
  have 3: "use_msi b1 = use_msi b" if "bus_priv_deinit env b = Some b1" for b b1
    using that by (auto simp: bus_priv_deinit_def all_wqs_def put_back_def access_def Option.bind_eq_Some_conv
        split: if_splits)
  show "wil_if_alloc env b = Some (rc, b') \<Longrightarrow> use_msi b' = use_msi b"
    using 2 by (auto simp: wil_if_alloc_def wil_wdev_free_def put_back_def upd_wil_def acquire_def 1 Let_def
        Option.bind_eq_Some_conv dest!: 3 split: prod.splits if_splits)
qed

lemma waiting_ok_link: "waiting_ok (wil_link_off w) = waiting_ok w"
  by (simp add: wil_link_off_def waiting_ok_def reply_ok_def)

subsection \<open>Probing\<close>

text \<open>The device can be mapped, and the wireless device comes with all its work queues.\<close>

definition bar_comes :: "bus_env \<Rightarrow> bool" where
  "bar_comes env \<longleftrightarrow> be_bar_len env = unat WIL6210_MEM_SIZE \<and> be_enable env = None \<and>
     be_region env = None \<and> be_ioremap env"

definition netdev_comes :: "bus_env \<Rightarrow> bool" where
  "netdev_comes env \<longleftrightarrow> bar_comes env \<and> wdev_comes env \<and> wqs_come env 4 \<and> be_netdev env"

definition probed :: "bus_env \<Rightarrow> bus_state \<Rightarrow> bus_res list" where
  "probed env b = (if be_debugfs env then [DebugfsDir] else []) @ NetdevRegistered #
     IrqLines # msi_held env b @ BusMaster # if_held"

lemma mapped_if [simp]:
  "filter (\<lambda>r. r \<notin> if_res) if_held = mapped" "filter (\<lambda>r. r \<notin> if_res) (xs @ ys) =
     filter (\<lambda>r. r \<notin> if_res) xs @ filter (\<lambda>r. r \<notin> if_res) ys"
  "filter (\<lambda>r. r \<notin> if_res) (msi_held env b) = msi_held env b"
  "BarMapping \<notin> if_res" "BarRegion \<notin> if_res" "PciDevice \<notin> if_res" "BusMaster \<notin> if_res"
  "IrqLines \<notin> if_res" "NetdevRegistered \<notin> if_res" "DebugfsDir \<notin> if_res"
  by (auto simp: if_held_def if_res_def mapped_def all_wqs_def msi_held_def)

lemma probe_unmap_held [simp]:
  "bs_held (probe_unmap b) = removeAll PciDevice (removeAll BarRegion (removeAll BarMapping (bs_held b)))"
  "bs_after_free (probe_unmap b) = bs_after_free b"
  by (simp_all add: probe_unmap_def)

lemma msi_held_remove [simp]:
  "removeAll MsiVectors (msi_held env b) = []"
  "r \<noteq> MsiVectors \<Longrightarrow> removeAll r (msi_held env b) = msi_held env b"
  by (simp_all add: msi_held_def)

lemma if_held_remove [simp]:
  "r \<in> {BusMaster, MsiVectors, IrqLines, NetdevRegistered, DebugfsDir} \<Longrightarrow> removeAll r if_held = if_held"
  by (auto simp: if_held_def mapped_def all_wqs_def)

lemma echo_total:
  assumes "waiting_ok w" "up_env_ok (be_main env)"
  shows "\<exists>rc w'. wmi_echo (mn_call (be_main env)) w = Some (rc, w')"
proof -
  have "evt_env_ok (mn_evt (be_main env)) = mn_evt (be_main env)"
    using assms(2) by (simp add: up_env_ok_def evt_env_ok_id)
  then show ?thesis
    using fw.call_rc_total [OF assms(1), of "mn_evt (be_main env)" WMI_ECHO_CMDID "wmi_echo_cmd 0x12345678"
        WMI_ECHO_RSP_EVENTID None] unfolding wmi_echo_def mn_call_def by auto
qed

text \<open>The probe once the registers are mapped.\<close>

lemma probe_device_outcome:
  assumes "bs_held b = mapped" "bs_after_free b = []" "up_env_ok (be_main env)"
  shows "case probe_device env b of
      None \<Rightarrow> wdev_comes env \<and> wqs_come env 4 \<and> \<not> be_netdev env
    | Some (None, b') \<Rightarrow> wdev_comes env \<and> wqs_come env 4 \<and> be_netdev env \<and>
        \<not> irq_refused env (granted env b) \<and> bs_held b' = probed env b \<and> bs_after_free b' = [] \<and> bs_netdev b' \<and> bs_running b' = bs_running b
    | Some (Some e, b') \<Rightarrow>
        (if wdev_comes env \<and> wqs_come env 4
         then be_netdev env \<and> bs_after_free b' = [NetdevMem] \<and>
           (irq_refused env (granted env b) \<or> \<not> debug_fw env \<or> be_register_netdev env \<noteq> None) \<and>
           bs_held b' = (if irq_refused env (granted env b) then msi_held env b else [])
         else bs_after_free b' = [] \<and>
           bs_held b' = (if wdev_comes env \<and> wqs_come env 3 then [WorkQueue back_wq] else []))"
proof (cases "wil_if_alloc env b")
  case None
  then show ?thesis using if_alloc_outcome [OF assms(1), of env] by (simp add: probe_device_def)
next
  case (Some rb)
  then obtain rc b1 where a: "wil_if_alloc env b = Some (rc, b1)" by (cases rb) simp
  note alloc = if_alloc_outcome [OF assms(1), of env, unfolded a]
  show ?thesis
  proof (cases rc)
    case (Some e)
    then show ?thesis using a alloc assms(2) by (simp add: probe_device_def mapped_def)
  next
    case None
    let ?b = "b1\<lparr>bs_drvdata := True\<rparr>"
    have 1: "bs_held ?b = if_held" "bs_after_free ?b = []" "bs_netdev ?b" "waiting_ok (bs_wil ?b)"
      "connect_ok (bs_wil ?b)" "wdev_comes env" "wqs_come env 4" "be_netdev env" "bs_running ?b = bs_running b"
      using alloc None assms(2) by simp_all
    have g: "granted env ?b = granted env b" "msi_held env ?b = msi_held env b"
      using a None by (simp_all add: if_alloc_use_msi granted_def msi_held_def)
    have d: "set (bs_held ?b) \<inter> {BusMaster, MsiVectors, IrqLines} = {}"
      unfolding 1(1) by (auto simp: if_held_def mapped_def)
    obtain rc2 b2 where e: "wil_if_pcie_enable env ?b = Some (rc2, b2)" "bs_after_free b2 = []" "bs_netdev b2"
      "bs_running b2 = bs_running b" "irq_refused env (granted env b) \<longrightarrow> rc2 \<noteq> None"
      "debug_fw env \<and> rc2 \<noteq> None \<longrightarrow> irq_refused env (granted env b)"
      "rc2 = None \<longrightarrow> waiting_ok (bs_wil b2) \<and> bs_held b2 = IrqLines # msi_held env b @ BusMaster # if_held"
      "rc2 \<noteq> None \<longrightarrow> bs_held b2 = (if irq_refused env (granted env b) then msi_held env b else []) @ if_held"
      using enable_outcome [OF 1(4,5) assms(3) d] unfolding g 1(1,2,9) using 1(3) by auto
    show ?thesis
    proof (cases rc2)
      case (Some er)
      obtain b3 where "wil_if_free env b2 = Some b3" "bs_after_free b3 = [NetdevMem]"
        "bs_held b3 = filter (\<lambda>r. r \<notin> if_res) (bs_held b2)"
        using if_free_outcome [OF e(3), of env] e(2) by auto
      then show ?thesis
        using a None Some e 1(6,7,8) by (simp add: probe_device_def probe_if_free_def mapped_def)
    next
      case no: None
      show ?thesis
      proof (cases "be_register_netdev env")
        case None
        let ?b3 = "upd_wil wil_link_off (acquire NetdevRegistered b2)"
        let ?b4 = "if be_debugfs env then acquire DebugfsDir ?b3 else ?b3"
        have "waiting_ok (bs_wil ?b4)" using e(7) no by (simp add: waiting_ok_link)
        then obtain rc4 w where "wmi_echo (mn_call (be_main env)) (bs_wil ?b4) = Some (rc4, w)"
          using echo_total [OF _ assms(3)] by blast
        then show ?thesis
          using a \<open>rc = None\<close> no None e 1(6,7,8)
          by (auto simp: probe_device_def wil_if_add_def probed_def)
      next
        case (Some er)
        let ?b3 = "wil_if_pcie_disable env b2"
        have "bs_netdev ?b3" "bs_after_free ?b3 = []" "bs_held ?b3 = if_held"
          using e(2,3,7) no by (simp_all add: wil_if_pcie_disable_def bus_fini_irq_def)
        then obtain b4 where "wil_if_free env ?b3 = Some b4" "bs_after_free b4 = [NetdevMem]"
          "bs_held b4 = mapped" using if_free_outcome [of ?b3 env] by auto
        then show ?thesis
          using a \<open>rc = None\<close> no Some e(1,5) 1(6,7,8)
          by (auto simp: probe_device_def probe_if_free_def wil_if_add_def mapped_def)
      qed
    qed
  qed
qed

lemma granted_acquire [simp]:
  "granted env (acquire r b) = granted env b" "msi_held env (acquire r b) = msi_held env b"
  "probed env (acquire r b) = probed env b"
  by (simp_all add: granted_def msi_held_def probed_def acquire_def)

subsection \<open>Inputs for the witnesses\<close>

definition ex_bus_env :: bus_env where
  "ex_bus_env = \<lparr>be_bar_len = unat WIL6210_MEM_SIZE, be_enable = None, be_region = None, be_ioremap = True,
     be_wdev = True, be_wiphy = True, be_wiphy_register = None, be_netdev = True, be_msi = (\<lambda>_. True),
     be_irq = 40, be_request_irq = (\<lambda>_. None), be_register_netdev = None, be_debugfs = True,
     debug_fw = True, be_main = ex_main_env\<rparr>"

definition ex_bus :: bus_state where
  "ex_bus = \<lparr>bs_held = [], bs_after_free = [], bs_netdev = False, bs_running = False, bs_drvdata = False,
     use_msi = 1, bs_wiphy = wiphy_new, bs_wil = wil_init_state\<rparr>"

lemma ex_bus_fields:
  "bs_held ex_bus = []" "bs_after_free ex_bus = []" "up_env_ok (be_main ex_bus_env)"
  using ex_main_env_ok by (simp_all add: ex_bus_def ex_bus_env_def)

lemma ex_netdev_comes: "netdev_comes ex_bus_env"
  by (simp add: netdev_comes_def bar_comes_def wdev_comes_def wqs_come_def ex_bus_env_def ex_main_env_def
      mn_wmi_def ex_evt_env_def ex_wmi_env_def)

subsection \<open>Removing\<close>

lemma fini_irq_ok:
  "driver_ok (wil6210_fini_irq irq w) = driver_ok w" "vring_rx (wil6210_fini_irq irq w) = vring_rx w"
  by (simp_all add: wil6210_fini_irq_def wil6210_disable_irq_def wil6210_mask_irq_tx_def wil6210_mask_irq_rx_def
      wil6210_mask_irq_misc_def wil6210_mask_irq_pseudo_def Let_def)

lemma fini_irq_mem: "driver_mem (wil6210_fini_irq irq w) = driver_mem w"
  by (simp add: wil6210_fini_irq_def wil6210_disable_irq_def wil6210_mask_irq_tx_def wil6210_mask_irq_rx_def
      wil6210_mask_irq_misc_def wil6210_mask_irq_pseudo_def Let_def driver_mem_def)

lemma if_remove_outcome:
  assumes "driver_ok (bs_wil b)"
  shows "\<exists>b'. wil_if_remove env b = Some b' \<and> bs_held b' = removeAll NetdevRegistered (bs_held b) \<and>
    bs_after_free b' = bs_after_free b \<and> bs_netdev b' = bs_netdev b \<and> \<not> bs_running b' \<and>
    driver_mem (bs_wil b') = filter (\<lambda>m. \<not> (bs_running b \<and> m = RxRingMem)) (driver_mem (bs_wil b))"
proof -
  obtain w' where w': "wil_down (mn_netif_ok (be_main env)) (mn_wmi (be_main env)) (bs_wil b) = Some (None, w')"
    "vr_va (vring_rx w') = None" "sta w' = sta (bs_wil b)" "vring_tx w' = vring_tx (bs_wil b)"
    using wil_down_ok [OF assms] by blast
  have "filter (\<lambda>m. m \<noteq> RxRingMem) (driver_mem (bs_wil b)) = driver_mem w'"
    using w'(2-4) by (simp add: driver_mem_def filter_concat comp_def filter_map)
  then show ?thesis using w'(1) by (simp add: wil_if_remove_def wil_stop_def)
qed

lemma if_free_running: "wil_if_free env b = Some b' \<Longrightarrow> bs_running b' = bs_running b"
  by (auto simp: wil_if_free_def bus_priv_deinit_def wil_wdev_free_def access_def all_wqs_def
      Option.bind_eq_Some_conv split: if_splits)

lemma probe_unmap_running: "bs_running (probe_unmap b) = bs_running b"
  by (simp add: probe_unmap_def)

lemma probe_netdev:
  assumes "wil_pcie_probe env b0 = Some (None, b1)" "bs_held b0 = []" "bs_after_free b0 = []" "up_env_ok (be_main env)"
  shows "bs_netdev b1"
proof -
  let ?b = "acquire BarMapping (acquire BarRegion (acquire PciDevice b0))"
  have "probe_device env ?b = Some (None, b1)"
    using assms(1) by (auto simp: wil_pcie_probe_def Let_def split: if_splits)
  moreover have "bs_held ?b = mapped" "bs_after_free ?b = []" using assms(2,3) by (simp_all add: mapped_def)
  ultimately show ?thesis using probe_device_outcome [OF _ _ assms(4), of ?b] by simp
qed

subsection \<open>The properties\<close>

text \<open>
  Claim C8. Probing either brings the device up, holding every resource once, or fails and gives back
  all it took, except: the message interrupts stay enabled when the interrupt lines are refused, and
  one work queue stays when the last one cannot be created. Every failure after the network device
  exists uses that device's memory after it was released, and a network device that cannot be
  allocated crashes the driver (its private state is torn down with no network device to read).
\<close>

theorem probe_unwinds:
  assumes "bs_held b = []" "bs_after_free b = []" "up_env_ok (be_main env)"
  shows "(wil_pcie_probe env b = None \<longleftrightarrow> bar_comes env \<and> wdev_comes env \<and> wqs_come env 4 \<and> \<not> be_netdev env) \<and>
    (case wil_pcie_probe env b of
       None \<Rightarrow> True
     | Some (None, b') \<Rightarrow> netdev_comes env \<and> \<not> irq_refused env (granted env b) \<and>
         bs_held b' = probed env b \<and> bs_after_free b' = []
     | Some (Some e, b') \<Rightarrow>
         bs_held b' =
           (if netdev_comes env \<and> irq_refused env (granted env b) then msi_held env b
            else if bar_comes env \<and> wdev_comes env \<and> wqs_come env 3 \<and> \<not> wqs_come env 4 then [WorkQueue back_wq]
            else []) \<and>
         bs_after_free b' = (if netdev_comes env then [NetdevMem] else []) \<and>
         \<not> (netdev_comes env \<and> debug_fw env \<and> be_register_netdev env = None \<and>
           \<not> irq_refused env (granted env b)))"
proof (cases "bar_comes env")
  case False
  then have "\<exists>e b'. wil_pcie_probe env b = Some (Some e, b') \<and> bs_held b' = [] \<and> bs_after_free b' = []"
    using assms(1,2) by (cases "be_region env") (auto simp: wil_pcie_probe_def bar_comes_def Let_def)
  then show ?thesis using False by (auto simp: netdev_comes_def)
next
  case True
  let ?b = "acquire BarMapping (acquire BarRegion (acquire PciDevice b))"
  have p: "wil_pcie_probe env b = probe_device env ?b"
    using True by (simp add: wil_pcie_probe_def bar_comes_def)
  have "bs_held ?b = mapped" "bs_after_free ?b = []" using assms(1,2) by (simp_all add: mapped_def)
  note out = probe_device_outcome [OF this assms(3)]
  show ?thesis
  proof (cases "probe_device env ?b")
    case None
    then show ?thesis using out True unfolding p by (simp add: netdev_comes_def)
  next
    case (Some rb)
    obtain rc b' where rb: "probe_device env ?b = Some (rc, b')" using Some by (cases rb) simp
    show ?thesis
    proof (cases rc)
      case None
      then show ?thesis using out rb True unfolding p by (simp add: netdev_comes_def)
    next
      case (Some e)
      then show ?thesis using out rb True unfolding p
        by (cases "wdev_comes env \<and> wqs_come env 4") (auto simp: netdev_comes_def)
    qed
  qed
qed

theorem probe_unwinds_witness:
  "\<exists>e b'. wil_pcie_probe (ex_bus_env\<lparr>be_request_irq := (\<lambda>_. Some EBUSY)\<rparr>) ex_bus = Some (Some e, b') \<and>
    bs_held b' = [MsiVectors] \<and> bs_after_free b' = [NetdevMem]"
proof -
  let ?env = "ex_bus_env\<lparr>be_request_irq := (\<lambda>_. Some EBUSY)\<rparr>"
  have e: "up_env_ok (be_main ?env)" using ex_bus_fields(3) by simp
  have n: "netdev_comes ?env" using ex_netdev_comes
    by (simp add: netdev_comes_def bar_comes_def wdev_comes_def wqs_come_def)
  have "granted ?env ex_bus = 1"
    by (simp add: granted_def msi_wanted_def msi_granted_def ex_bus_def ex_bus_env_def)
  then have i: "irq_refused ?env (granted ?env ex_bus)" "msi_held ?env ex_bus = [MsiVectors]"
    by (simp_all add: irq_refused_def msi_held_def)
  show ?thesis
    using probe_unwinds [OF ex_bus_fields(1,2) e] n i
    by (auto simp: netdev_comes_def split: option.splits)
qed

text \<open>
  Claim C9. What removing a device gives back and what not. Removing a device that was probed, whatever
  the driver did meanwhile, closes the interface if it is up and gives back every resource of the bus, of the
  kernel and of the network and wireless devices, and drops the events and requests that wait. Of
  the memory the driver allocated itself it frees the Rx ring, if the interface was up, and nothing else:
  the Tx rings and the reorder sessions that exist, those of the peers still connected, stay allocated
  with nothing left that points to them. And it uses memory it has already released twice: the
  network device, and the private state, from which the mapping's address is read at the end.
\<close>

theorem remove_uses_released:
  assumes "wil_pcie_probe env b0 = Some (None, b1)" "bs_held b0 = []" "bs_after_free b0 = []"
    and "up_env_ok (be_main env)" "b = b1\<lparr>bs_wil := w, bs_running := up\<rparr>"
    and "driver_ok w"
  shows "\<exists>b'. wil_pcie_remove env b = Some b' \<and> bs_held b' = [] \<and> bs_after_free b' = [NetdevMem, WiphyMem] \<and>
    \<not> bs_running b' \<and> \<not> bs_drvdata b' \<and>
    pending_wmi_ev (bs_wil b') = [] \<and> back_pending (bs_wil b') = [] \<and>
    driver_mem (bs_wil b') = filter (\<lambda>m. \<not> (up \<and> m = RxRingMem)) (driver_mem w)"
proof -
  have b: "bs_held b = probed env b0" "bs_after_free b = []" "bs_netdev b"
    using probe_unwinds [OF assms(2-4)] probe_netdev [OF assms(1-4)] by (simp_all add: assms(1,5))
  let ?b2 = "wil_if_pcie_disable env (put_back DebugfsDir b)"
  have w: "driver_ok (bs_wil ?b2)" "driver_mem (bs_wil ?b2) = driver_mem w" "bs_running ?b2 = up"
    using fini_irq_ok fini_irq_mem assms(5,6) by (simp_all add: wil_if_pcie_disable_def bus_fini_irq_def)
  obtain b3 where b3: "wil_if_remove env ?b2 = Some b3" "bs_held b3 = removeAll NetdevRegistered (bs_held ?b2)"
    "bs_after_free b3 = []" "bs_netdev b3" "\<not> bs_running b3"
    "driver_mem (bs_wil b3) = filter (\<lambda>m. \<not> (up \<and> m = RxRingMem)) (driver_mem w)"
    using if_remove_outcome [of ?b2 env] w b(2,3)
    by (auto simp: wil_if_pcie_disable_def bus_fini_irq_def)
  have "bs_held b3 = if_held"
    using b3(2) b(1) by (simp add: wil_if_pcie_disable_def bus_fini_irq_def probed_def)
  then obtain b4 where b4: "wil_if_free env b3 = Some b4" "bs_after_free b4 = [NetdevMem]" "bs_held b4 = mapped"
    "bs_running b4 = bs_running b3" "driver_mem (bs_wil b4) = driver_mem (bs_wil b3)"
    "pending_wmi_ev (bs_wil b4) = []" "back_pending (bs_wil b4) = []"
    using if_free_outcome [OF b3(4), of env] if_free_running b3(3) by auto
  have "bs_wil (probe_unmap x) = bs_wil x" "bs_wil (access r x) = bs_wil x" for r x
    by (simp_all add: probe_unmap_def access_def)
  then show ?thesis
    using b3(1,5,6) b4 by (simp add: wil_pcie_remove_def access_def mapped_def probe_unmap_running)
qed

text \<open>A driver with a Tx ring: it is what stays.\<close>

definition ex_ring_state :: wil6210_priv where
  "ex_ring_state = set_vring_tx 2 (ex_ring 0 0 (replicate 8 zero_desc) (replicate 8 None)) wil_init_state"

theorem remove_uses_released_witness:
  "\<exists>b1 b'. wil_pcie_probe ex_bus_env ex_bus = Some (None, b1) \<and>
    wil_pcie_remove ex_bus_env (b1\<lparr>bs_wil := ex_ring_state, bs_running := True\<rparr>) = Some b' \<and>
    bs_held b' = [] \<and> bs_after_free b' = [NetdevMem, WiphyMem] \<and> driver_mem (bs_wil b') = [TxRingMem 2]"
proof -
  have "\<not> irq_refused ex_bus_env (granted ex_bus_env ex_bus)" "be_netdev ex_bus_env" "debug_fw ex_bus_env"
    "be_register_netdev ex_bus_env = None" by (simp_all add: irq_refused_def ex_bus_env_def)
  then obtain b1 where p: "wil_pcie_probe ex_bus_env ex_bus = Some (None, b1)"
    using probe_unwinds [OF ex_bus_fields] ex_netdev_comes by (auto split: option.splits)
  have "driver_ok wil_init_state" using init_state_bus(3) by (simp add: waiting_ok_def)
  moreover have "vring_ok (ex_ring 0 0 (replicate 8 zero_desc) (replicate 8 None))"
    by (simp add: vring_ok_def ex_ring_def word_less_nat_alt)
  ultimately have d: "driver_ok ex_ring_state"
    unfolding ex_ring_state_def by (intro driver_ok_set_ring) (simp_all add: ring_off_or_ok_def)
  have m: "driver_mem ex_ring_state = [TxRingMem 2]" by code_simp
  from remove_uses_released [OF p ex_bus_fields refl d, of True] p m show ?thesis by fastforce
qed

end
