(* ===== verification/Wil_Dbg_Props.thy ===== *)
theory Wil_Dbg_Props
  imports Wil_Debugfs Wil_Pcie_Props
begin

text \<open>
  The properties of the debug files: reading a window of the device's memory to its end, the ring
  index that leaves the array, the station file, and what the command files send.
\<close>

lemma unat_numeral_24: "unat (24 :: u32) = 24" by simp

subsection \<open>Memory windows\<close>

text \<open>The bytes of a window, in a device whose memory does not change.\<close>

definition blob_bytes :: "(u32 \<Rightarrow> u32) \<Rightarrow> u32 \<Rightarrow> nat \<Rightarrow> u8 list" where
  "blob_bytes mem off n = take n (concat (map (\<lambda>k. le32 (mem (off + 4 * of_nat k))) [0..<(n + 3) div 4]))"

definition still_device :: "dbg_env \<Rightarrow> (u32 \<Rightarrow> u32) \<Rightarrow> bool" where
  "still_device env mem \<longleftrightarrow> (\<forall>t off. we_io (de_wmi env) t off = mem off) \<and>
     (\<forall>t. we_alloc (de_wmi env) t) \<and> (\<forall>n. de_left env n = 0)"

text \<open>A program reads the file \<open>n\<close> times, \<open>cnt\<close> bytes each: what it has got, and the position.\<close>

primrec read_blob ::
  "dbg_env \<Rightarrow> debugfs_blob \<Rightarrow> nat \<Rightarrow> nat \<Rightarrow> int \<Rightarrow> wil6210_priv \<Rightarrow> u8 list \<times> int \<times> wil6210_priv" where
  "read_blob env blob cnt 0 pos w = ([], pos, w)"
| "read_blob env blob cnt (Suc n) pos w =
     (case wil_read_file_ioblob env blob cnt pos w of
        ((rc, bs, pos), _, _, w) \<Rightarrow>
          (case read_blob env blob cnt n pos w of (bs', pos, w) \<Rightarrow> (bs @ bs', pos, w)))"

lemma length_concat_le32_map: "length (concat (map (\<lambda>k. le32 (f k)) ks)) = 4 * length ks"
  by (induction ks) simp_all

lemma drop_take_dwords:
  "take (4 * n) (drop (4 * m) (concat (map (\<lambda>k. le32 (f k)) [0..<m + n + r]))) =
     concat (map (\<lambda>k. le32 (f (m + k))) [0..<n])"
proof -
  have "[0..<m + n + r] = [0..<m] @ [m..<m + n] @ [m + n..<m + n + r]"
    using upt_add_eq_append [of 0 m "n + r"] upt_add_eq_append [of m "m + n" r] by (simp add: add.assoc)
  moreover have "[m..<m + n] = map (\<lambda>k. m + k) [0..<n]"
    using map_add_upt [of m n] by (simp add: add.commute)
  ultimately show ?thesis by (simp add: length_concat_le32_map o_def)
qed

lemma ioblob_read_still:
  assumes "still_device env mem" "4 dvd p" "4 dvd blob_size blob" "4 dvd cnt" "0 < cnt" "p < blob_size blob"
  defines "r \<equiv> min (min cnt (blob_size blob - p)) 4096"
  shows "\<exists>buf w'. wil_read_file_ioblob env blob cnt (int p) w =
      ((Inr r, take r (drop p (blob_bytes mem (blob_data blob) (blob_size blob))), int (p + r)), r, buf, w') \<and>
    klog w' = klog w"
proof -
  let ?off = "blob_data blob" and ?size = "blob_size blob"
  have al: "\<And>t. we_alloc (de_wmi env) t" "\<And>t a. we_io (de_wmi env) t a = mem a" "\<And>n. de_left env n = 0"
    using assms(1) by (simp_all add: still_device_def)
  have "4 dvd ?size - p" using assms(2,3) by (rule dvd_diff_nat [rotated])
  then have r4: "4 dvd r" using assms(4) by (auto simp: r_def min_def)
  have r: "0 < r" "p + r \<le> ?size" using assms(5,6) by (auto simp: r_def)
  obtain m n q where q: "p = 4 * m" "r = 4 * n" "?size = 4 * (m + n + q)"
  proof -
    obtain m n z where 1: "p = 4 * m" "r = 4 * n" "?size = 4 * z" using assms(2,3) r4 by (auto elim!: dvdE)
    then have "z = m + n + (z - (m + n))" using r(2) by linarith
    with 1 show thesis using that by metis
  qed
  obtain d w2 where d: "wil_memcpy_fromio_32 (de_wmi env) (?off + of_nat p) r (tick w) = (d, w2)" by (rule prod.exhaust)
  have "(3 + r) div 4 = n" using q(2) by simp
  then have dv: "d = concat (map (\<lambda>k. le32 (mem (?off + of_nat p + 4 * of_nat k))) [0..<n])"
    using wil_memcpy_fromio_ok(5) [OF d] by (simp add: al)
  have "blob_bytes mem ?off ?size = concat (map (\<lambda>k. le32 (mem (?off + 4 * of_nat k))) [0..<m + n + q])"
  proof -
    have "(?size + 3) div 4 = m + n + q" using q(3) by simp
    then show ?thesis using q(3) by (simp add: blob_bytes_def length_concat_le32_map)
  qed
  then have "take r (drop p (blob_bytes mem ?off ?size)) = d"
    using drop_take_dwords [of n m "\<lambda>k. mem (?off + 4 * of_nat k)" q] unfolding dv q(1,2)
    by (simp add: add.assoc distrib_left)
  moreover have "length d = r" using wil_memcpy_fromio_ok(3) [OF d] q(2) by simp
  ultimately have "wil_read_file_ioblob env blob cnt (int p) w =
      ((Inr r, take r (drop p (blob_bytes mem ?off ?size)), int (p + r)), r, d, w2)"
    using assms(5,6) r d al
    by (simp add: wil_read_file_ioblob_def Let_def kmalloc_def flip: r_def)
  moreover have "klog w2 = klog w" using wil_memcpy_fromio_ok(2) [OF d] by (simp add: tick_def)
  ultimately show ?thesis by blast
qed

lemma read_blob_from:
  assumes "still_device env mem" "4 dvd blob_size blob" "4 dvd cnt" "0 < cnt" "4 dvd p" "p \<le> blob_size blob"
  shows "\<exists>w'. read_blob env blob cnt n (int p) w =
      (take (n * min cnt 4096) (drop p (blob_bytes mem (blob_data blob) (blob_size blob))),
       int (min (p + n * min cnt 4096) (blob_size blob)), w') \<and> klog w' = klog w"
  using assms(5,6)
proof (induction n arbitrary: p w)
  case 0
  then show ?case by (auto simp: min_def)
next
  case (Suc n)
  let ?B = "blob_bytes mem (blob_data blob) (blob_size blob)" and ?c = "min cnt 4096"
  have l: "length ?B = blob_size blob" by (simp add: blob_bytes_def length_concat_le32_map)
  show ?case
  proof (cases "p = blob_size blob")
    case True
    have "wil_read_file_ioblob env blob cnt (int p) w = ((Inr 0, [], int p), 0, [], w)"
      using True assms(4) by (simp add: wil_read_file_ioblob_def)
    moreover obtain w' where "read_blob env blob cnt n (int p) w = (take (n * ?c) (drop p ?B),
        int (min (p + n * ?c) (blob_size blob)), w')" "klog w' = klog w"
      using Suc.IH [of p w] Suc.prems by blast
    ultimately show ?thesis using True l by simp
  next
    case False
    define r where "r = min (min cnt (blob_size blob - p)) 4096"
    obtain buf w1 where 1: "wil_read_file_ioblob env blob cnt (int p) w =
        ((Inr r, take r (drop p ?B), int (p + r)), r, buf, w1)" "klog w1 = klog w"
      using ioblob_read_still [OF assms(1) Suc.prems(1) assms(2-4), of w] False Suc.prems(2)
      unfolding r_def by auto
    have d: "4 dvd blob_size blob - p" using Suc.prems(1) assms(2) by (rule dvd_diff_nat [rotated])
    then have "4 dvd r" using assms(3) by (auto simp: r_def min_def)
    then have "4 dvd p + r" "p + r \<le> blob_size blob" using Suc.prems by (auto simp: r_def)
    then obtain w2 where 2: "read_blob env blob cnt n (int (p + r)) w1 = (take (n * ?c) (drop (p + r) ?B),
        int (min (p + r + n * ?c) (blob_size blob)), w2)" "klog w2 = klog w1"
      using Suc.IH [of "p + r" w1] by blast
    have r: "r = ?c \<or> p + r = blob_size blob \<and> r \<le> ?c" using Suc.prems(2) by (auto simp: r_def min_def)
    have "take r (drop p ?B) @ take (n * ?c) (drop (p + r) ?B) = take (Suc n * ?c) (drop p ?B)"
    proof (cases "r = ?c")
      case True
      then show ?thesis by (simp add: take_add add.commute)
    next
      case False
      then have "p + r = blob_size blob" "r \<le> Suc n * ?c" using r by (auto intro: trans_le_add1)
      then show ?thesis using l by simp
    qed
    moreover have "min (p + r + n * ?c) (blob_size blob) = min (p + Suc n * ?c) (blob_size blob)"
      using r by auto
    ultimately show ?thesis using 1 2 by auto
  qed
qed

text \<open>Any one reading that begins inside the window: the buffer has room for \<open>r\<close> bytes.\<close>

lemma ioblob_read_any:
  assumes "still_device env mem" "0 < cnt" "p < blob_size blob"
  defines "r \<equiv> min (min cnt (blob_size blob - p)) 4096"
  shows "\<exists>buf w'. wil_read_file_ioblob env blob cnt (int p) w = ((Inr r, take r buf, int (p + r)), r, buf, w') \<and>
    buf = concat (map (\<lambda>k. le32 (mem (blob_data blob + of_nat p + 4 * of_nat k))) [0..<(3 + r) div 4]) \<and>
    klog w' = klog w"
proof -
  have al: "\<And>t. we_alloc (de_wmi env) t" "\<And>t a. we_io (de_wmi env) t a = mem a" "\<And>n. de_left env n = 0"
    using assms(1) by (simp_all add: still_device_def)
  have r: "0 < r" using assms(2,3) by (auto simp: r_def)
  obtain d w2 where d: "wil_memcpy_fromio_32 (de_wmi env) (blob_data blob + of_nat p) r (tick w) = (d, w2)"
    by (rule prod.exhaust)
  have "d = concat (map (\<lambda>k. le32 (mem (blob_data blob + of_nat p + 4 * of_nat k))) [0..<(3 + r) div 4])"
    using wil_memcpy_fromio_ok(5) [OF d] by (simp add: al)
  moreover have "wil_read_file_ioblob env blob cnt (int p) w = ((Inr r, take r d, int (p + r)), r, d, w2)"
    using assms(2,3) r d al by (simp add: wil_read_file_ioblob_def Let_def kmalloc_def flip: r_def)
  moreover have "klog w2 = klog w" using wil_memcpy_fromio_ok(2) [OF d] by (simp add: tick_def)
  ultimately show ?thesis by blast
qed

text \<open>
  Claim C10. Reading a memory window through its debug file, in a device whose memory does not change. In
  readings of a multiple of four bytes from the start of a window of whole dwords a program gets exactly
  the window's bytes: after \<open>n\<close> readings of \<open>cnt\<close> bytes the first \<open>n * min cnt 4096\<close> of them,
  after enough readings all, without writing to the device, and every further reading returns nothing.
  Any one reading, of any size and at any position inside the window, asks for a buffer of \<open>r\<close> bytes, what is
  left of the window, the request or 4096 if that is less, returns \<open>r\<close> bytes and fills the buffer with whole
  dwords: where \<open>r\<close> is no multiple of four, the copy runs one to three bytes past the buffer's end.
\<close>

theorem blob_file_complete:
  assumes "still_device env mem" "0 < cnt"
  shows "(4 dvd blob_size blob \<and> 4 dvd cnt \<longrightarrow>
      (\<exists>w'. read_blob env blob cnt n 0 w =
        (take (n * min cnt 4096) (blob_bytes mem (blob_data blob) (blob_size blob)),
         int (min (n * min cnt 4096) (blob_size blob)), w') \<and> klog w' = klog w) \<and>
      (blob_size blob \<le> n * min cnt 4096 \<longrightarrow>
        fst (read_blob env blob cnt n 0 w) = blob_bytes mem (blob_data blob) (blob_size blob))) \<and>
    (\<forall>p < blob_size blob. let r = min (min cnt (blob_size blob - p)) 4096 in
      \<exists>buf w'. wil_read_file_ioblob env blob cnt (int p) w = ((Inr r, take r buf, int (p + r)), r, buf, w') \<and>
        buf = concat (map (\<lambda>k. le32 (mem (blob_data blob + of_nat p + 4 * of_nat k))) [0..<(3 + r) div 4]) \<and>
        length buf = (if 4 dvd r then r else r + (4 - r mod 4)) \<and> klog w' = klog w)"
proof (intro conjI impI allI)
  let ?B = "blob_bytes mem (blob_data blob) (blob_size blob)"
  have l: "length ?B = blob_size blob" by (simp add: blob_bytes_def length_concat_le32_map)
  assume d: "4 dvd blob_size blob \<and> 4 dvd cnt"
  have e: "\<exists>w'. read_blob env blob cnt n 0 w = (take (n * min cnt 4096) ?B,
      int (min (n * min cnt 4096) (blob_size blob)), w') \<and> klog w' = klog w"
    using read_blob_from [OF assms(1) d [THEN conjunct1] d [THEN conjunct2] assms(2), of 0 n w] by simp
  then show "\<exists>w'. read_blob env blob cnt n 0 w = (take (n * min cnt 4096) ?B,
      int (min (n * min cnt 4096) (blob_size blob)), w') \<and> klog w' = klog w" .
  show "fst (read_blob env blob cnt n 0 w) = ?B" if "blob_size blob \<le> n * min cnt 4096"
    using e l that by auto
next
  fix p
  assume "p < blob_size blob"
  have len: "4 * ((3 + r) div 4) = (if 4 dvd r then r else r + (4 - r mod 4))" for r :: nat by presburger
  from ioblob_read_any [OF assms \<open>p < blob_size blob\<close>, of w]
  show "let r = min (min cnt (blob_size blob - p)) 4096 in
      \<exists>buf w'. wil_read_file_ioblob env blob cnt (int p) w = ((Inr r, take r buf, int (p + r)), r, buf, w') \<and>
        buf = concat (map (\<lambda>k. le32 (mem (blob_data blob + of_nat p + 4 * of_nat k))) [0..<(3 + r) div 4]) \<and>
        length buf = (if 4 dvd r then r else r + (4 - r mod 4)) \<and> klog w' = klog w"
    unfolding Let_def by (auto simp: length_concat_le32_map len)
qed

definition ex_dbg_env :: dbg_env where
  "ex_dbg_env = \<lparr>de_main = ex_main_env\<lparr>mn_evt := ex_evt_env\<lparr>ee_wmi := \<lparr>we_io = (\<lambda>_ off. off),
       we_alloc = (\<lambda>_. True), we_over = []\<rparr>\<rparr>\<rparr>,
     de_left = (\<lambda>_. 0), de_strtol = (\<lambda>_. 1), de_sscanf = (\<lambda>_. Some 3), de_junk = replicate 30 0xAA,
     de_ring_text = (\<lambda>_. ''ffff''), de_skb_text = (\<lambda>_. ''ffff''), de_buf_text = (\<lambda>_. ''ffff''), de_ac = 1,
     de_work_running = False, de_now = 77\<rparr>"

lemma ex_dbg_wmi: "de_wmi ex_dbg_env = \<lparr>we_io = (\<lambda>_ off. off), we_alloc = (\<lambda>_. True), we_over = []\<rparr>"
  by (simp add: de_wmi_def mn_wmi_def ex_dbg_env_def)

theorem blob_file_complete_witness:
  "fst (read_blob ex_dbg_env \<lparr>blob_data = 0xb0000, blob_size = 8\<rparr> 4 2 0 wil_init_state) =
    [0, 0, 0xb, 0, 4, 0, 0xb, 0] \<and>
   (\<exists>buf w'. wil_read_file_ioblob ex_dbg_env \<lparr>blob_data = 0xb0000, blob_size = 8\<rparr> 5 0 wil_init_state =
      ((Inr 5, take 5 buf, 5), 5, buf, w') \<and> length buf = 8)"
proof -
  let ?b = "\<lparr>blob_data = 0xb0000, blob_size = 8\<rparr>"
  have s: "still_device ex_dbg_env (\<lambda>off. off)"
    by (simp add: still_device_def ex_dbg_wmi) (simp add: ex_dbg_env_def)
  have "blob_bytes (\<lambda>off. off) 0xb0000 8 = [0, 0, 0xb, 0, 4, 0, 0xb, 0]" by code_simp
  then have "fst (read_blob ex_dbg_env ?b 4 2 0 wil_init_state) = [0, 0, 0xb, 0, 4, 0, 0xb, 0]"
    using blob_file_complete [OF s, of 4 ?b 2 wil_init_state] by simp
  moreover have "(0::nat) < 5" "0 < blob_size ?b" by simp_all
  then have "\<exists>buf w'. wil_read_file_ioblob ex_dbg_env ?b 5 0 wil_init_state =
      ((Inr 5, take 5 buf, 5), 5, buf, w') \<and> length buf = 8"
    using blob_file_complete [OF s, of 5 ?b 0 wil_init_state, THEN conjunct2, rule_format, of 0]
    by (simp add: Let_def) blast
  ultimately show ?thesis by blast
qed

subsection \<open>Descriptors\<close>

text \<open>
  The file of one descriptor may be read whatever indices are set, with one exception: the ring
  index 24, which the test lets through as a Tx ring although there are only the rings 0 to 23.
\<close>

theorem desc_file_index:
  assumes "driver_ok w"
  shows "wil_txdesc_debugfs_show env g w = None \<longleftrightarrow> dbg_vring_index g = 24"
proof -
  have n: "unat (dbg_vring_index g) = 24 \<longleftrightarrow> dbg_vring_index g = 24"
    by (metis unat_numeral_24 word_unat_eq_iff)
  have some: "wil_txdesc_debugfs_show env g w \<noteq> None"
    if "dbg_vring g w = Some v" "vr_va v = None \<or> vring_ok v" for v
  proof (cases "vr_va v = None \<or> \<not> dbg_txdesc_index g < ucast (vr_size v)")
    case True
    then show ?thesis using that(1) by (auto simp: wil_txdesc_debugfs_show_def Let_def)
  next
    case False
    then have v: "vring_ok v" using that(2) by blast
    have "unat (dbg_txdesc_index g) < unat (vr_size v)"
      using False by (simp add: word_less_nat_alt unat_ucast_up)
    then obtain d c where "vring_d v (dbg_txdesc_index g) = Some d" "vring_ctx v (dbg_txdesc_index g) = Some c"
      using v by (auto simp: vring_ok_def vring_d_def vring_ctx_def)
    then show ?thesis using that(1) False by (simp add: wil_txdesc_debugfs_show_def Let_def)
  qed
  have len: "length (vring_tx w) = 24" using driver_okD(6) [OF assms] by (simp add: WIL6210_MAX_TX_RINGS_def)
  show ?thesis
  proof (cases "dbg_is_tx g")
    case False
    then have "dbg_vring g w = Some (vring_rx w)" "dbg_vring_index g \<noteq> 24"
      by (auto simp: dbg_vring_def dbg_is_tx_def WIL6210_MAX_TX_RINGS_def)
    then show ?thesis using some driver_okD(8) [OF assms] by (auto simp: rx_off_or_ok_def rx_ring_ok_def)
  next
    case True
    show ?thesis
    proof (cases "unat (dbg_vring_index g) < 24")
      case True': True
      then have "ring_off_or_ok (vring_tx w ! unat (dbg_vring_index g))"
        using driver_okD(4) [OF assms] by (simp add: WIL6210_MAX_TX_RINGS_def)
      then show ?thesis
        using True True' len n some [of "vring_tx w ! unat (dbg_vring_index g)"]
        by (auto simp: dbg_vring_def ring_off_or_ok_def)
    next
      case False
      then have "unat (dbg_vring_index g) = 24" using True by (simp add: dbg_is_tx_def WIL6210_MAX_TX_RINGS_def)
      then show ?thesis using True len n by (simp add: wil_txdesc_debugfs_show_def dbg_vring_def)
    qed
  qed
qed

text \<open>A fresh driver: the index 24 is refused by no check.\<close>

theorem desc_file_index_witness:
  "wil_txdesc_debugfs_show ex_dbg_env \<lparr>mem_addr = 0, dbg_txdesc_index = 0, dbg_vring_index = 24, dg_begin = [],
     dg_idle = [], dg_running = False\<rparr> wil_init_state = None"
proof -
  have "driver_ok wil_init_state" using init_state_bus(3) by (simp add: waiting_ok_def)
  then show ?thesis using desc_file_index by simp
qed

subsection \<open>Stations\<close>

lemma those_None: "those xs = None \<longleftrightarrow> None \<in> set xs"
  by (induction xs) (auto split: option.split)

text \<open>The station file can be read exactly if no connected peer has a session of size 0.\<close>

lemma print_rxtid_None:
  assumes "length (reorder_buf r) = unat (buf_size r)"
  shows "wil_print_rxtid r = None \<longleftrightarrow> buf_size r = 0"
proof -
  have "None \<notin> set (map (\<lambda>i. map_option (\<lambda>c. (c \<noteq> None, i = index)) (reorder_slot r i)) [0..<unat (buf_size r)])"
    for index using assms by (auto simp: reorder_slot_def)
  then have "those (map (\<lambda>i. map_option (\<lambda>c. (c \<noteq> None, i = index)) (reorder_slot r i)) [0..<unat (buf_size r)]) \<noteq> None"
    for index unfolding those_None .
  then show ?thesis
    by (auto simp: wil_print_rxtid_def reorder_index_def Option.bind_eq_None_conv)
qed

lemma those_indexed:
  "those (map f (zip xs [0..<length xs])) = None \<longleftrightarrow> (\<exists>i < length xs. f (xs ! i, i) = None)"
proof -
  have "None \<in> f ` set (zip xs [0..<length xs]) \<longleftrightarrow> (\<exists>i < length xs. f (xs ! i, i) = None)"
  proof -
    have "zip xs [0..<length xs] = map (\<lambda>i. (xs ! i, i)) [0..<length xs]"
      by (rule nth_equalityI) simp_all
    then show ?thesis by (auto simp: image_iff eq_commute [of None])
  qed
  then show ?thesis by (simp add: those_None)
qed

lemma print_tid_None:
  "print_tid (x, i) = None \<longleftrightarrow> (\<exists>r. x = Some r \<and> wil_print_rxtid r = None)"
  by (simp add: print_tid_def split: option.split)

lemma print_sta_None:
  "print_sta (p, i) = None \<longleftrightarrow> sta_status p = wil_sta_connected \<and>
     (\<exists>r. Some r \<in> set (tid_rx p) \<and> wil_print_rxtid r = None)"
  by (auto simp: print_sta_def Option.bind_eq_None_conv those_indexed print_tid_None in_set_conv_nth)

theorem station_file_readable:
  assumes "\<And>p r. p \<in> set (sta w) \<Longrightarrow> Some r \<in> set (tid_rx p) \<Longrightarrow> length (reorder_buf r) = unat (buf_size r)"
  shows "wil_sta_debugfs_show w = None \<longleftrightarrow>
    (\<exists>p \<in> set (sta w). sta_status p = wil_sta_connected \<and> (\<exists>r. Some r \<in> set (tid_rx p) \<and> buf_size r = 0))"
proof -
  have "wil_sta_debugfs_show w = None \<longleftrightarrow> (\<exists>p \<in> set (sta w). sta_status p = wil_sta_connected \<and>
      (\<exists>r. Some r \<in> set (tid_rx p) \<and> wil_print_rxtid r = None))"
    by (simp add: wil_sta_debugfs_show_def those_indexed print_sta_None Bex_def in_set_conv_nth [of _ "sta w"]) blast
  also have "\<dots> \<longleftrightarrow> (\<exists>p \<in> set (sta w). sta_status p = wil_sta_connected \<and>
      (\<exists>r. Some r \<in> set (tid_rx p) \<and> buf_size r = 0))"
    using print_rxtid_None [OF assms] by blast
  finally show ?thesis .
qed

subsection \<open>Commands\<close>

lemma strncmp_eq_iff:
  "0 \<notin> set cs \<Longrightarrow> strncmp_eq bs cs \<longleftrightarrow> (\<exists>k. cs = bs @ k) \<or> (\<exists>k. bs = cs @ 0 # k)"
  by (induction bs cs rule: strncmp_eq.induct) auto

definition p2p_words :: "string list" where
  "p2p_words = [''listen'', ''search'', ''config'', ''start'', ''stop'']"

text \<open>
  A word given with the newline that \<open>echo\<close> adds is not recognised: the write succeeds and does
  nothing. An empty write starts listening, and so does any beginning of the word.
\<close>

theorem p2p_file_newline:
  assumes "we_alloc (de_wmi env) (io_clock w)" "de_left env (length (str_bytes word) + 1) = 0" "word \<in> set p2p_words"
  shows "wil_write_file_p2p env (str_bytes word @ [10]) w = Some (Inr (length word + 1), tick w)"
proof -
  have "\<forall>x \<in> set p2p_words. \<forall>y \<in> set p2p_words. \<not> strncmp_eq (str_bytes x @ [10]) (str_bytes y)" by code_simp
  then have "\<not> strncmp_eq (str_bytes word @ [10]) (str_bytes y)" if "y \<in> set p2p_words" for y
    using assms(3) that by blast
  then have "p2p_run env (str_bytes word @ [10]) v = Some v" for v
    by (simp add: p2p_run_def p2p_words_def)
  then show ?thesis
    using assms(1,2) by (simp add: wil_write_file_p2p_def user_buffer_def kmalloc_def str_bytes_def)
qed

theorem p2p_file_prefix:
  assumes "we_alloc (de_wmi env) (io_clock w)" "de_left env (length buf) = 0" "\<exists>k. str_bytes ''listen'' = buf @ k"
  shows "wil_write_file_p2p env buf w =
    map_option (\<lambda>(_, w). (Inr (length buf), w)) (wmi_start_listen (de_call env) (mn_stack (de_main env)) (tick w))"
proof -
  have "0 \<notin> set (str_bytes ''listen'')" by code_simp
  then have "strncmp_eq buf (str_bytes ''listen'')" using assms(3) strncmp_eq_iff by blast
  then show ?thesis
    using assms(1,2) by (auto simp: wil_write_file_p2p_def user_buffer_def kmalloc_def p2p_run_def Let_def
        option.map_comp o_def split_def)
qed

text \<open>A frame written to \<open>tx_mgmt\<close> is never sent: off the channel, a caller without a cookie is refused.\<close>

theorem txmgmt_file_sends_nothing:
  assumes "we_alloc (de_wmi env) (io_clock w)" "de_left env (length buf) = 0" "wd_channel (wdev w) \<noteq> None"
  shows "wil_write_file_txmgmt env p buf w = Some (Inr (length buf), tick w)"
proof -
  obtain ch where "wd_channel (wdev w) = Some ch" using assms(3) by blast
  then show ?thesis
    using assms(1,2) by (simp add: wil_write_file_txmgmt_def user_buffer_def kmalloc_def wil_cfg80211_mgmt_tx_def
        wil_prepare_roc_def tick_def)
qed

text \<open>A command with its WMI header, as the driver itself builds it, is sent as \<open>wmi_send\<close> sends it.\<close>

theorem wmi_file_sends_command:
  assumes "we_alloc (de_wmi env) (io_clock w)" "\<And>n. de_left env n = 0" "cmd \<noteq> []"
  shows "wil_write_file_wmi env (wil6210_mbox_hdr_wmi cmdid @ cmd) 0 w =
    map_option (\<lambda>(_, w). (Inr (8 + length cmd), int (8 + length cmd), w)) (wmi_send (de_wmi env) cmdid cmd (tick w))"
proof -
  let ?b = "wil6210_mbox_hdr_wmi cmdid @ cmd"
  have l: "length ?b = 8 + length cmd" "0 < length cmd" "?b \<noteq> []" using assms(3) by (simp_all add: wil6210_mbox_hdr_wmi_def)
  have "length (junk_buffer env n) = n" for n by (simp add: junk_buffer_def)
  then have "simple_write_to_buffer env 0 ?b (junk_buffer env (length ?b)) = (Inr (length ?b), ?b, int (length ?b))"
    using assms(2) l by (simp add: simple_write_to_buffer_def Let_def)
  moreover have "le_word (take 2 (drop 2 ?b)) = cmdid" "drop 8 ?b = cmd"
    by (simp_all add: wil6210_mbox_hdr_wmi_def le16_roundtrip)
  ultimately show ?thesis
    using assms(1) l(1,2) by (simp add: wil_write_file_wmi_def kmalloc_def map_conv_bind_option split_def o_def)
qed

end
