(* ===== verification/Wil_Wiphy_Props.thy ===== *)
theory Wil_Wiphy_Props
  imports Wil_Pcie_Props Wil_Cfg80211
begin

text \<open>What the driver announces to cfg80211 is what its operations serve.\<close>

text \<open>
  Claim C38. A registered device announces what the driver serves: the interface modes announced are
  exactly those that can be set and brought up, and the firmware has a network type for each; a
  scan of announced channels sends the firmware all of them, by their index; the preset channel and
  the channel of the peer-to-peer search are announced.
\<close>

theorem capabilities_served:
  assumes "wil_cfg80211_init env b = (None, b')"
  shows "(\<forall>t fl w. t \<in> set (interface_modes (bs_wiphy b')) \<longleftrightarrow> fst (wil_cfg80211_change_iface t fl w) = None) \<and>
    (\<forall>t. t \<in> set (interface_modes (bs_wiphy b')) \<longleftrightarrow> up_supported t) \<and>
    (\<forall>t \<in> set (interface_modes (bs_wiphy b')). 0 \<le> wil_iftype_nl2wmi t) \<and>
    (\<exists>band. wiphy_band (bs_wiphy b') = Some band \<and>
      (\<forall>rq. distinct (rq_channels rq) \<and>
          set (rq_channels rq) \<subseteq> (\<lambda>c. (ch_hw_value c, ch_center_freq c)) ` set (sb_channels band) \<longrightarrow>
        scan_channels rq = map (\<lambda>c. of_nat (fst c) - 1) (rq_channels rq)) \<and>
      wd_channel (wdev (preset_wdev (bs_wil b'))) = Some (ch_hw_value (hd (sb_channels band))) \<and>
      (2, 60480) \<in> (\<lambda>c. (ch_hw_value c, ch_center_freq c)) ` set (sb_channels band))"
proof -
  let ?chs = "(\<lambda>c. (ch_hw_value c, ch_center_freq c)) ` set wil_60ghz_channels"
  have w: "bs_wiphy b' = wil_wiphy_init wiphy_new"
    using assms by (auto simp: wil_cfg80211_init_def Let_def acquire_def split: if_splits option.splits)
  have modes: "set (interface_modes (bs_wiphy b')) = {NL80211_IFTYPE_STATION, NL80211_IFTYPE_AP,
      NL80211_IFTYPE_P2P_CLIENT, NL80211_IFTYPE_P2P_GO, NL80211_IFTYPE_MONITOR}"
    by (simp add: w wil_wiphy_init_def)
  have chs: "?chs = {(1, 58320), (2, 60480), (3, 62640)}"
    by (simp add: wil_60ghz_channels_def CHAN60G_def CHAN60G_center_freq_def)
  have scan: "scan_channels rq = map (\<lambda>c. of_nat (fst c) - 1) (rq_channels rq)"
    if "distinct (rq_channels rq)" "set (rq_channels rq) \<subseteq> ?chs" for rq
  proof -
    have "length (rq_channels rq) \<le> card ?chs"
      using that by (metis distinct_card card_mono finite_imageI finite_set)
    then have "take 4 (rq_channels rq) = rq_channels rq" by (simp add: chs)
    moreover have "filter (\<lambda>c. c \<noteq> 0) (map fst (rq_channels rq)) = map fst (rq_channels rq)"
      using that(2) unfolding chs by (intro filter_True) auto
    ultimately show ?thesis by (simp add: scan_channels_def)
  qed
  have "\<forall>t fl w. t \<in> set (interface_modes (bs_wiphy b')) \<longleftrightarrow> fst (wil_cfg80211_change_iface t fl w) = None"
    unfolding modes by (auto simp: wil_cfg80211_change_iface_def Let_def split: nl80211_iftype.splits)
  moreover have "\<forall>t \<in> set (interface_modes (bs_wiphy b')). 0 \<le> wil_iftype_nl2wmi t"
    unfolding modes by (auto simp: wil_iftype_nl2wmi_def nl2wmi_def WMI_NETTYPE_INFRA_def WMI_NETTYPE_AP_def
        WMI_NETTYPE_P2P_def WMI_NETTYPE_ADHOC_def)
  moreover have "wd_channel (wdev (preset_wdev (bs_wil b'))) = Some (ch_hw_value (hd wil_60ghz_channels))"
    by (simp add: preset_wdev_def wil_60ghz_channels_def CHAN60G_def)
  moreover have "(2, 60480) \<in> ?chs" by (simp add: chs)
  ultimately show ?thesis
    using scan modes by (auto simp: up_supported_def w wil_wiphy_init_def wil_band_60ghz_def)
qed

theorem capabilities_served_witness:
  "\<exists>b'. wil_cfg80211_init ex_bus_env ex_bus = (None, b') \<and>
    NL80211_IFTYPE_MONITOR \<in> set (interface_modes (bs_wiphy b'))"
proof -
  obtain b' where "wil_cfg80211_init ex_bus_env ex_bus = (None, b')"
    by (simp add: wil_cfg80211_init_def ex_bus_env_def Let_def)
  then show ?thesis using capabilities_served [of ex_bus_env ex_bus b'] by (auto simp: up_supported_def)
qed

end
