(* ===== verification/Wil_Trace.thy ===== *)
theory Wil_Trace
  imports Wil_Prelude
begin

text \<open>
  The reader of the firmware's log (\<^verbatim>\<open>tools/trace.c\<close>), a program of its own that reads, through a
  debug file, the ring the firmware writes its log to, and prints the records with the strings of
  a second file. A printed record is kept as a structure; its text is what \<open>printf\<close> makes of the
  format at \<open>tl_fmt\<close>. \<open>None\<close> is an access behind the end of the strings.
\<close>

subsection \<open>Data\<close>

record log_trace_header =
  strring_offset :: nat
  hdr_module :: nat
  hdr_level :: nat
  parameters_num :: nat
  is_string :: bool
  hdr_signature :: nat

definition log_hdr :: "u32 \<Rightarrow> log_trace_header" where
  "log_hdr u =
     (let field = (\<lambda>lo n. unat (take_bit n (drop_bit lo u)))
      in \<lparr>strring_offset = field 0 20, hdr_module = field 20 4, hdr_level = field 24 2,
          parameters_num = field 26 2, is_string = (field 28 1 = 1), hdr_signature = field 29 3\<rparr>)"

record log_table_header =
  write_ptr :: u32
  module_level_enable :: "u8 list"
  log_evt :: "u32 list"

record trace_line =
  tl_rptr :: u32
  tl_module :: nat
  tl_level :: nat
  tl_fmt :: nat
  tl_string :: bool
  tl_args :: "u32 list"

subsection \<open>Reading files\<close>

text \<open>
  Each call of \<open>read\<close> gives bytes, at most those asked for, or fails with -1, here \<open>None\<close>; behind
  the end of the list the file has ended. The counter has the width of \<open>size_t\<close>: a failure takes
  one from it.
\<close>

fun read_all :: "u8 list option list \<Rightarrow> nat \<Rightarrow> u64 \<Rightarrow> u8 list \<Rightarrow> u64 \<times> u8 list" where
  "read_all [] n actual buf = (actual, buf)"
| "read_all (None # rs) n actual buf =
     (if unat (actual - 1) < n then read_all rs n (actual - 1) buf else (actual - 1, buf))"
| "read_all (Some bs # rs) n actual buf =
     (let bs = take (n - unat actual) bs;
          buf = take (unat actual) buf @ bs @ drop (unat actual + length bs) buf;
          actual = actual + of_nat (length bs)
      in if bs \<noteq> [] \<and> unat actual < n then read_all rs n actual buf else (actual, buf))"

definition log_size :: "nat \<Rightarrow> nat" where
  "log_size entry_num = 20 + entry_num * 4"

text \<open>The buffer of the log is the same at every reading: a failed one leaves what it read.\<close>

definition read_log :: "u8 list option list \<Rightarrow> nat \<Rightarrow> u8 list \<Rightarrow> bool \<times> u8 list" where
  "read_log rs n buf = (let (r, buf) = read_all rs n 0 buf in (r = of_nat n, buf))"

text \<open>The log in the buffer, with the number of entries it was allocated for.\<close>

definition log_table :: "nat \<Rightarrow> u8 list \<Rightarrow> log_table_header" where
  "log_table n buf = \<lparr>write_ptr = le_word (take 4 buf), module_level_enable = take 16 (drop 4 buf),
     log_evt = map (\<lambda>i. le_word (take 4 (drop (20 + 4 * i) buf))) [0..<n]\<rparr>"

text \<open>The strings: the size was asked of the file before.\<close>

definition read_strings :: "bool \<Rightarrow> u8 list option list \<Rightarrow> nat \<Rightarrow> u8 list option" where
  "read_strings opens rs sz =
     (if \<not> opens then None
      else let (r, buf) = read_all rs sz 0 (replicate sz 0) in if r = of_nat sz then Some buf else None)"

subsection \<open>Parsing\<close>

definition trace_evt :: "u32 list \<Rightarrow> u32 \<Rightarrow> u32" where
  "trace_evt evt r = evt ! (unat r mod length evt)"

definition hdr_valid :: "nat \<Rightarrow> log_trace_header \<Rightarrow> bool" where
  "hdr_valid sz h \<longleftrightarrow> hdr_signature h = 5 \<and> strring_offset h \<le> sz \<and> parameters_num h \<le> 3"

definition trace_line_of :: "u32 list \<Rightarrow> u32 \<Rightarrow> trace_line" where
  "trace_line_of evt r =
     (let h = log_hdr (trace_evt evt r);
          p = map (\<lambda>i. if i < parameters_num h then trace_evt evt (r + of_nat i + 1) else 0) [0..<3]
      in \<lparr>tl_rptr = r, tl_module = hdr_module h, tl_level = hdr_level h, tl_fmt = strring_offset h,
          tl_string = is_string h, tl_args = (if is_string h then map (\<lambda>x. x AND 0xFFFF) p else p)\<rparr>)"

text \<open>
  The distance to the write pointer is signed: the loop also ends when the parameters of the last
  record carry the read pointer past it.
\<close>

function trace_loop :: "nat \<Rightarrow> u32 list \<Rightarrow> u32 \<Rightarrow> u32 \<Rightarrow> trace_line list \<times> u32" where
  "trace_loop sz evt wptr rptr =
     (let h = log_hdr (trace_evt evt rptr)
      in if sint (wptr - rptr) \<le> 0 then ([], rptr)
         else if \<not> hdr_valid sz h then trace_loop sz evt wptr (rptr + 1)
         else let (ls, r) = trace_loop sz evt wptr (rptr + of_nat (parameters_num h) + 1)
              in (trace_line_of evt rptr # ls, r))"
  by pat_completeness auto

lemma sint_sub_less:
  assumes "0 < sint (d :: u32)" "0 < k" "k \<le> 4"
  shows "sint (d - of_nat k) = sint d - int k"
proof -
  have "k \<in> {1, 2, 3, 4}" using assms by auto
  then have "sint (of_nat k :: u32) = int k" by auto
  moreover have "sint d < 2 ^ 31" using sint_lt [of d] by simp
  ultimately show ?thesis using assms
    by (simp add: sint_word_ariths(2) signed_take_bit_int_eq_self)
qed

lemma trace_loop_step:
  assumes "0 < sint (wptr - rptr :: u32)" "n \<le> 3"
  shows "sint (wptr - (rptr + of_nat n + 1)) = sint (wptr - rptr) - int n - 1"
proof -
  have "wptr - (rptr + of_nat n + 1) = (wptr - rptr) - of_nat (n + 1)" by simp
  then show ?thesis using sint_sub_less [of "wptr - rptr" "n + 1"] assms by (simp only:)
qed

termination trace_loop
proof (relation "measure (\<lambda>(_, _, wptr, rptr). nat (sint (wptr - rptr)))", goal_cases)
  case (2 sz evt wptr rptr h)
  then show ?case using trace_loop_step [of wptr rptr 0] by simp
next
  case (3 sz evt wptr rptr h)
  then show ?case using trace_loop_step [of wptr rptr "parameters_num h"] by (simp add: hdr_valid_def)
qed simp

declare trace_loop.simps [simp del]

text \<open>When more was written than the ring holds, the last wrap is read.\<close>

definition trace_start :: "nat \<Rightarrow> u32 \<Rightarrow> u32 \<Rightarrow> u32" where
  "trace_start entries wptr rptr = (if entries \<le> unat (wptr - rptr) then wptr - of_nat entries else rptr)"

definition do_parse :: "nat \<Rightarrow> log_table_header \<Rightarrow> u32 \<Rightarrow> trace_line list \<times> u32" where
  "do_parse sz h rptr =
     trace_loop sz (log_evt h) (write_ptr h) (trace_start (length (log_evt h)) (write_ptr h) rptr)"

text \<open>The parse after each reading of the log, one after another.\<close>

fun parse_all :: "nat \<Rightarrow> log_table_header list \<Rightarrow> u32 \<Rightarrow> trace_line list \<times> u32" where
  "parse_all sz [] rptr = ([], rptr)"
| "parse_all sz (h # hs) rptr =
     (let (ls, rptr) = do_parse sz h rptr; (ls', rptr) = parse_all sz hs rptr in (ls @ ls', rptr))"

subsection \<open>The program\<close>

text \<open>The next string behind one or more zeros, by its offset.\<close>

definition next_mod :: "u8 list \<Rightarrow> nat \<Rightarrow> nat option" where
  "next_mod strs off =
     (let rest = dropWhile (\<lambda>b. b = 0) (dropWhile (\<lambda>b. b \<noteq> 0) (drop off strs))
      in if rest = [] then None else Some (length strs - length rest))"

definition mod_flags :: "u8 \<Rightarrow> string" where
  "mod_flags m = map (\<lambda>(i, c). if bit m i then c else CHR '' '') [(0, CHR ''E''), (1, CHR ''W''), (2, CHR ''I''), (3, CHR ''V'')]"

text \<open>The names of the modules, by their offsets, with the levels enabled for them.\<close>

primrec trace_modules :: "u8 list \<Rightarrow> nat \<Rightarrow> u8 list \<Rightarrow> (nat \<times> string) list option" where
  "trace_modules strs off [] = Some []"
| "trace_modules strs off (m # ms) = do {
     off' \<leftarrow> next_mod strs off;
     rest \<leftarrow> trace_modules strs off' ms;
     Some ((off, mod_flags m) # rest)
   }"

text \<open>
  Reading and parsing until a reading fails: at the end of the list there is nothing more to read.
\<close>

fun trace_follow :: "nat \<Rightarrow> bool \<Rightarrow> nat \<Rightarrow> u8 list \<Rightarrow> u8 list option list list \<Rightarrow> u32 \<Rightarrow> trace_line list" where
  "trace_follow sz once n buf rss rptr =
     (let (ls, rptr) = do_parse sz (log_table n buf) rptr
      in if once then ls
         else (case rss of [] \<Rightarrow> ls
           | rs # rss \<Rightarrow>
               let (ok, buf) = read_log rs (log_size n) buf
               in if ok then ls @ trace_follow sz once n buf rss rptr else ls))"

record trace_opts =
  to_peri :: bool
  to_strings :: bool
  to_entries :: nat
  to_once :: bool
  to_help :: bool

text \<open>
  The result is the exit code, the table of modules and the records printed. The arguments are the
  options (whether the two files are named, the number of entries, two flags), whether the strings
  file opens, its size and its readings, whether the memory for the log is there, and the readings of
  the log.
\<close>

definition trace_main ::
  "trace_opts \<Rightarrow> bool \<Rightarrow> nat \<Rightarrow> u8 list option list \<Rightarrow> bool \<Rightarrow> u8 list option list list
     \<Rightarrow> (int \<times> (nat \<times> string) list \<times> trace_line list) option" where
  "trace_main opts opens sz rs mem rss =
     (if to_help opts \<or> \<not> (to_peri opts \<and> to_strings opts \<and> 0 < to_entries opts) then Some (1, [], [])
      else
        (case (read_strings opens rs sz, mem) of
           (Some strs, True) \<Rightarrow>
             let n = to_entries opts;
                 (ok, buf) = (case rss of [] \<Rightarrow> (False, []) | rs # _ \<Rightarrow> read_log rs (log_size n) (replicate (log_size n) 0));
                 h = log_table n buf
             in if \<not> ok then Some (1, [], [])
                else do {
                  mods \<leftarrow> trace_modules strs 0 (module_level_enable h);
                  Some (0, mods, trace_follow sz (to_once opts) n buf (tl rss) (trace_start n (write_ptr h) 0))
                }
         | _ \<Rightarrow> Some (-1, [], [])))"

end
