(* ===== verification/Wil_Trace_Props.thy ===== *)
theory Wil_Trace_Props
  imports Wil_Trace
begin

text \<open>
  The properties of the log reader. What the firmware writes is \<open>trace_rec\<close>, with its words
  \<open>rec_words\<close>, put into the ring behind one another by \<open>ring_put\<close>; \<open>snapshots\<close> are the logs the reader
  finds when some records are written between two readings.
\<close>

subsection \<open>Records and their words\<close>

record trace_rec =
  tr_module :: nat
  tr_level :: nat
  tr_fmt :: nat
  tr_string :: bool
  tr_params :: "u32 list"

definition rec_ok :: "nat \<Rightarrow> trace_rec \<Rightarrow> bool" where
  "rec_ok sz t \<longleftrightarrow> tr_module t < 16 \<and> tr_level t < 4 \<and> tr_fmt t < 2 ^ 20 \<and> tr_fmt t \<le> sz \<and> length (tr_params t) \<le> 3"

definition rec_hdr :: "trace_rec \<Rightarrow> nat" where
  "rec_hdr t = tr_fmt t + 2 ^ 20 * (tr_module t + 16 * (tr_level t + 4 * (length (tr_params t) +
     4 * (of_bool (tr_string t) + 2 * 5))))"

definition rec_words :: "trace_rec \<Rightarrow> u32 list" where
  "rec_words t = of_nat (rec_hdr t) # tr_params t"

lemma hdr_field:
  assumes "N < 2 ^ 32"
  shows "unat (take_bit n (drop_bit lo (of_nat N :: u32))) = N div 2 ^ lo mod 2 ^ n"
proof -
  have "unat (take_bit n (drop_bit lo (of_nat N :: u32))) = unat (of_nat N :: u32) div 2 ^ lo mod 2 ^ n"
    by (simp only: unat_take_bit unat_drop_bit_eq) (simp only: drop_bit_eq_div)
  moreover have "unat (of_nat N :: u32) = N" using assms by (simp add: unat_of_nat)
  ultimately show ?thesis by simp
qed

lemma log_hdr_rec:
  assumes "rec_ok sz t"
  shows "log_hdr (of_nat (rec_hdr t)) = \<lparr>strring_offset = tr_fmt t, hdr_module = tr_module t,
    hdr_level = tr_level t, parameters_num = length (tr_params t), is_string = tr_string t, hdr_signature = 5\<rparr>"
proof -
  define s :: nat where "s = of_bool (tr_string t)"
  have s: "s < 2" "s = 1 \<longleftrightarrow> tr_string t" by (simp_all add: s_def)
  have N: "rec_hdr t < 2 ^ 32" using assms s(1) by (simp add: rec_ok_def rec_hdr_def s_def [symmetric])
  have f: "tr_fmt t < 1048576" "tr_module t < 16" "tr_level t < 4" "length (tr_params t) < 4"
    using assms by (auto simp: rec_ok_def)
  define D where "D = s + 2 * 5"
  define C where "C = length (tr_params t) + 4 * D"
  define B where "B = tr_level t + 4 * C"
  define A where "A = tr_module t + 16 * B"
  have N': "rec_hdr t = tr_fmt t + 2 ^ 20 * A"
    by (simp add: rec_hdr_def s_def A_def B_def C_def D_def)
  have split: "(a + k * b) div k = b \<and> (a + k * b) mod k = a" if "a < k" for a b k :: nat
    using that by simp
  have dm: "rec_hdr t div 2 ^ 20 = A \<and> rec_hdr t mod 2 ^ 20 = tr_fmt t" "A div 16 = B \<and> A mod 16 = tr_module t"
    "B div 4 = C \<and> B mod 4 = tr_level t" "C div 4 = D \<and> C mod 4 = length (tr_params t)" "D div 2 = 5 \<and> D mod 2 = s"
    using split [of "tr_fmt t" "2 ^ 20" A] split [of "tr_module t" 16 B] split [of "tr_level t" 4 C]
      split [of "length (tr_params t)" 4 D] split [of s 2 5] f s(1)
    by (simp_all only: N' A_def [symmetric] B_def [symmetric] C_def [symmetric] D_def [symmetric]) simp_all
  then have d: "rec_hdr t div 2 ^ 20 = A" "A div 16 = B" "B div 4 = C" "C div 4 = D" "D div 2 = 5"
    by blast+
  have "rec_hdr t div 2 ^ 24 = B" "rec_hdr t div 2 ^ 26 = C" "rec_hdr t div 2 ^ 28 = D" "rec_hdr t div 2 ^ 29 = 5"
    using d div_mult2_eq [of "rec_hdr t" "2 ^ 20" 16] div_mult2_eq [of "rec_hdr t" "2 ^ 24" 4]
      div_mult2_eq [of "rec_hdr t" "2 ^ 26" 4] div_mult2_eq [of "rec_hdr t" "2 ^ 28" 2] by simp_all
  moreover have "rec_hdr t mod 2 ^ 20 = tr_fmt t" "A mod 16 = tr_module t" "B mod 4 = tr_level t"
    "C mod 4 = length (tr_params t)" "D mod 2 = s"
    using dm by blast+
  moreover have num: "2 ^ 0 = (1 :: nat)" "2 ^ 1 = (2 :: nat)" "2 ^ 2 = (4 :: nat)" "2 ^ 4 = (16 :: nat)"
    "5 mod 2 ^ 3 = (5 :: nat)" by simp_all
  ultimately have "rec_hdr t div 2 ^ 0 mod 2 ^ 20 = tr_fmt t" "rec_hdr t div 2 ^ 20 mod 2 ^ 4 = tr_module t"
    "rec_hdr t div 2 ^ 24 mod 2 ^ 2 = tr_level t" "rec_hdr t div 2 ^ 26 mod 2 ^ 2 = length (tr_params t)"
    "rec_hdr t div 2 ^ 28 mod 2 ^ 1 = s" "rec_hdr t div 2 ^ 29 mod 2 ^ 3 = 5"
    by (simp_all only: d(1) num div_by_1)
  then show ?thesis using s(2) by (simp add: log_hdr_def hdr_field [OF N] del: power_0)
qed

subsection \<open>The ring\<close>

primrec ring_put :: "u32 list \<Rightarrow> u32 \<Rightarrow> u32 list \<Rightarrow> u32 list" where
  "ring_put evt wptr [] = evt"
| "ring_put evt wptr (x # xs) = ring_put (evt[unat wptr mod length evt := x]) (wptr + 1) xs"

primrec snapshots :: "trace_rec list list \<Rightarrow> u32 list \<Rightarrow> u32 \<Rightarrow> log_table_header list" where
  "snapshots [] evt wptr = []"
| "snapshots (b # bs) evt wptr =
     (let xs = concat (map rec_words b); evt = ring_put evt wptr xs; wptr = wptr + of_nat (length xs)
      in \<lparr>write_ptr = wptr, module_level_enable = [], log_evt = evt\<rparr> # snapshots bs evt wptr)"

definition rec_line :: "u32 \<Rightarrow> trace_rec \<Rightarrow> trace_line" where
  "rec_line r t =
     (let p = tr_params t @ replicate (3 - length (tr_params t)) 0
      in \<lparr>tl_rptr = r, tl_module = tr_module t, tl_level = tr_level t, tl_fmt = tr_fmt t,
          tl_string = tr_string t, tl_args = (if tr_string t then map (\<lambda>x. x AND 0xFFFF) p else p)\<rparr>)"

primrec rec_lines :: "u32 \<Rightarrow> trace_rec list \<Rightarrow> trace_line list" where
  "rec_lines r [] = []"
| "rec_lines r (t # ts) = rec_line r t # rec_lines (r + of_nat (length (rec_words t))) ts"

lemma length_ring_put [simp]: "length (ring_put evt w xs) = length evt"
  by (induction xs arbitrary: evt w) simp_all

lemma unat_plus_mod:
  assumes "n dvd 2 ^ 32"
  shows "unat (w + of_nat i :: u32) mod n = (unat w + i) mod n"
proof -
  have "unat (w + of_nat i :: u32) = (unat w + i) mod 2 ^ 32"
    by (simp add: unat_word_ariths unat_of_nat mod_add_right_eq)
  then show ?thesis using assms by (simp add: mod_mod_cancel)
qed

lemma ring_put_nth:
  assumes "length evt dvd 2 ^ 32" "length xs \<le> length evt" "i < length evt"
  shows "ring_put evt w xs ! ((unat w + i) mod length evt) =
    (if i < length xs then xs ! i else evt ! ((unat w + i) mod length evt))"
  using assms
proof (induction xs arbitrary: evt w i)
  case (Cons x xs)
  let ?n = "length evt" and ?evt = "evt[unat w mod length evt := x]"
  have n: "0 < ?n" "unat (w + 1) mod ?n = (unat w + 1) mod ?n"
    using Cons.prems unat_plus_mod [OF Cons.prems(1), of w 1] by auto
  have next_ix: "(unat (w + 1) + j) mod ?n = (unat w + Suc j) mod ?n" for j
    by (metis add.assoc mod_add_left_eq n(2) plus_1_eq_Suc)
  have IH: "ring_put ?evt (w + 1) xs ! ((unat w + Suc j) mod ?n) =
      (if j < length xs then xs ! j else ?evt ! ((unat w + Suc j) mod ?n))" if "j < ?n" for j
    using Cons.IH [of ?evt j "w + 1"] Cons.prems that by (simp add: next_ix)
  show ?case
  proof (cases i)
    case 0
    have "(unat w + Suc (?n - 1)) mod ?n = unat w mod ?n" using n(1) by simp
    then show ?thesis using IH [of "?n - 1"] 0 n(1) Cons.prems(2) by auto
  next
    case (Suc j)
    have "(unat w + Suc j) mod ?n \<noteq> (unat w + 0) mod ?n"
      using mod_shift_inj [of "unat w" "Suc j" ?n 0] n(1) Suc Cons.prems(3) by blast
    then have "(unat w + Suc j) mod ?n \<noteq> unat w mod ?n" by simp
    then show ?thesis using IH [of j] Suc Cons.prems by auto
  qed
qed simp

lemma ring_put_read:
  assumes "length evt dvd 2 ^ 32" "length xs \<le> length evt" "i < length xs"
  shows "trace_evt (ring_put evt w xs) (w + of_nat i) = xs ! i"
  using ring_put_nth [OF assms(1,2), of i w] assms by (simp add: trace_evt_def unat_plus_mod)

subsection \<open>Parsing what was written\<close>

lemma trace_line_rec:
  assumes "rec_ok sz t" "\<forall>i < length (rec_words t). trace_evt evt (r + of_nat i) = rec_words t ! i"
  shows "trace_line_of evt r = rec_line r t" "log_hdr (trace_evt evt r) = log_hdr (of_nat (rec_hdr t))"
proof -
  have h: "trace_evt evt r = of_nat (rec_hdr t)" using assms(2) by (auto simp: rec_words_def dest: spec [of _ 0])
  have p: "trace_evt evt (r + of_nat i + 1) = tr_params t ! i" if "i < length (tr_params t)" for i
    using assms(2) [rule_format, of "Suc i"] that by (simp add: rec_words_def add.commute add.left_commute)
  have "map (\<lambda>i. if i < length (tr_params t) then trace_evt evt (r + of_nat i + 1) else 0) [0..<3] =
      tr_params t @ replicate (3 - length (tr_params t)) 0"
    using assms(1) p by (auto intro!: nth_equalityI simp: nth_append rec_ok_def)
  then show "trace_line_of evt r = rec_line r t"
    by (simp add: trace_line_of_def h log_hdr_rec [OF assms(1)] rec_line_def Let_def)
  show "log_hdr (trace_evt evt r) = log_hdr (of_nat (rec_hdr t))" by (simp add: h)
qed

lemma sint_len:
  assumes "0 < n" "n < 2 ^ 31"
  shows "0 < sint (of_nat n :: u32)"
  using assms by (simp add: sint_small_u32 unat_of_nat)

lemma trace_loop_records:
  assumes "\<forall>t \<in> set ts. rec_ok sz t" "length (concat (map rec_words ts)) < 2 ^ 31"
    and "\<forall>i < length (concat (map rec_words ts)). trace_evt evt (r + of_nat i) = concat (map rec_words ts) ! i"
  shows "trace_loop sz evt (r + of_nat (length (concat (map rec_words ts)))) r =
    (rec_lines r ts, r + of_nat (length (concat (map rec_words ts))))"
  using assms
proof (induction ts arbitrary: r)
  case Nil
  then show ?case by (simp add: trace_loop.simps)
next
  case (Cons t ts)
  let ?xs = "concat (map rec_words ts)"
  let ?w = "r + of_nat (length (rec_words t @ ?xs))"
  have t: "rec_ok sz t" using Cons.prems(1) by simp
  have "\<forall>i < length (rec_words t). trace_evt evt (r + of_nat i) = rec_words t ! i"
    using Cons.prems(3) by (auto simp: nth_append)
  note line = trace_line_rec [OF t this]
  have len: "length (rec_words t) = length (tr_params t) + 1" by (simp add: rec_words_def)
  have rest: "trace_evt evt (r + of_nat (length (rec_words t)) + of_nat i) = ?xs ! i" if "i < length ?xs" for i
    using Cons.prems(3) [rule_format, of "length (rec_words t) + i"] that
    by (simp add: nth_append add.assoc)
  have "trace_loop sz evt ?w (r + of_nat (length (tr_params t)) + 1) =
      (rec_lines (r + of_nat (length (rec_words t))) ts, ?w)"
    using Cons.IH [of "r + of_nat (length (rec_words t))"] Cons.prems(1,2) rest
    by (simp add: len algebra_simps)
  moreover have "0 < sint (?w - r)"
    using sint_len [of "length (rec_words t @ ?xs)"] Cons.prems(2) by (simp add: len)
  moreover have "hdr_valid sz (log_hdr (of_nat (rec_hdr t)))"
    using t by (simp add: hdr_valid_def log_hdr_rec [OF t]) (simp add: rec_ok_def)
  ultimately show ?case
    by (subst trace_loop.simps) (simp add: line log_hdr_rec [OF t] len algebra_simps)
qed

lemma trace_start_same:
  assumes "n \<le> k" "k < 2 ^ 32"
  shows "trace_start k (w + of_nat n) w = w"
  using assms by (auto simp: trace_start_def unat_of_nat)

text \<open>
  Claim C11. The reader prints what the firmware logs: with a ring whose size divides two to the
  power 32, when at every reading at most as much is new as the ring holds, all records are printed
  once, in the order they were written, each with its fields and parameters, and the reader ends
  where the writer does.
\<close>

theorem trace_prints_log:
  assumes "length evt dvd 2 ^ 32" "length evt \<le> 2 ^ 30"
    and "\<forall>b \<in> set bs. length (concat (map rec_words b)) \<le> length evt \<and> (\<forall>t \<in> set b. rec_ok sz t)"
  shows "parse_all sz (snapshots bs evt w) w =
    (rec_lines w (concat bs), w + of_nat (length (concat (map rec_words (concat bs)))))"
  using assms
proof (induction bs arbitrary: evt w)
  case (Cons b bs)
  let ?xs = "concat (map rec_words b)"
  let ?evt = "ring_put evt w ?xs" and ?w = "w + of_nat (length ?xs)"
  have len: "length ?xs \<le> length evt" and ok: "\<forall>t \<in> set b. rec_ok sz t" using Cons.prems(3) by simp_all
  have "trace_loop sz ?evt ?w w = (rec_lines w b, ?w)"
    using trace_loop_records [OF ok] ring_put_read [OF Cons.prems(1) len] len Cons.prems(2) by simp
  moreover have "trace_start (length evt) ?w w = w"
    using trace_start_same [OF len] Cons.prems(2) by simp
  moreover have "rec_lines w (b @ ts) = rec_lines w b @ rec_lines ?w ts" for ts
    by (induction b arbitrary: w) (simp_all add: algebra_simps)
  ultimately show ?case
    using Cons.IH [of ?evt ?w] Cons.prems by (simp add: do_parse_def Let_def algebra_simps)
qed simp

definition ex_recs :: "trace_rec list list" where
  "ex_recs = [[\<lparr>tr_module = 1, tr_level = 0, tr_fmt = 5, tr_string = False, tr_params = [7, 9]\<rparr>],
     [\<lparr>tr_module = 2, tr_level = 3, tr_fmt = 8, tr_string = False, tr_params = []\<rparr>,
      \<lparr>tr_module = 2, tr_level = 1, tr_fmt = 0, tr_string = True, tr_params = [0x10003]\<rparr>]]"

theorem trace_prints_log_witness:
  "map tl_args (fst (parse_all 8 (snapshots ex_recs [0, 0, 0, 0] 0xFFFFFFFE) 0xFFFFFFFE)) =
    [[7, 9, 0], [0, 0, 0], [3, 0, 0]]"
proof -
  have "\<forall>b \<in> set ex_recs. length (concat (map rec_words b)) \<le> length [0, 0, 0, 0 :: u32] \<and>
      (\<forall>t \<in> set b. rec_ok 8 t)"
    by (simp add: ex_recs_def rec_ok_def rec_words_def)
  moreover have "map tl_args (rec_lines 0xFFFFFFFE (concat ex_recs)) = [[7, 9, 0], [0, 0, 0], [3, 0, 0]]"
    by (simp add: ex_recs_def rec_line_def Let_def numeral_2_eq_2 numeral_3_eq_3)
  moreover have "length [0, 0, 0, 0 :: u32] = 4" by simp
  then have "length [0, 0, 0, 0 :: u32] dvd 2 ^ 32" "length [0, 0, 0, 0 :: u32] \<le> 2 ^ 30"
    by (simp_all only:) simp_all
  ultimately show ?thesis
    using trace_prints_log [of "[0, 0, 0, 0]" ex_recs 8 "0xFFFFFFFE"] by (simp only: fst_conv)
qed

lemma sint_nonneg:
  assumes "unat (d :: u32) < 2147483648"
  shows "0 \<le> sint d" "sint d \<le> 0 \<longleftrightarrow> d = 0"
proof -
  have "sint d = int (unat d)" using assms by (simp only: sint_small_u32)
  then show "0 \<le> sint d" "sint d \<le> 0 \<longleftrightarrow> d = 0" by (simp_all only: of_nat_0_le_iff of_nat_le_0_iff unat_eq_zero)
qed

lemma trace_loop_end:
  assumes "unat (wptr - rptr) < 2 ^ 31"
  shows "unat (snd (trace_loop sz evt wptr rptr) - wptr) \<le> 3"
  using assms
proof (induction sz evt wptr rptr rule: trace_loop.induct)
  case (1 sz evt wptr rptr)
  let ?h = "log_hdr (trace_evt evt rptr)"
  let ?d = "wptr - rptr"
  have d: "unat ?d < 2147483648" using 1(3) by simp
  have step: "unat (wptr - (rptr + of_nat n + 1)) < 2147483648 \<or>
      (sint (wptr - (rptr + of_nat n + 1)) \<le> 0 \<and> unat (rptr + of_nat n + 1 - wptr) \<le> 3)"
    if n: "n \<le> 3" "?d \<noteq> 0" for n
  proof (cases "n + 1 \<le> unat ?d")
    case True
    moreover have k: "unat (of_nat (n + 1) :: u32) = n + 1" using n(1) by (simp only: unat_of_nat) simp
    moreover have "wptr - (rptr + of_nat n + 1) = ?d - of_nat (n + 1)" by simp
    ultimately have "unat (wptr - (rptr + of_nat n + 1)) \<le> unat ?d"
      by (simp only: unat_sub word_le_nat_alt)
    then show ?thesis using d by linarith
  next
    case False
    have "0 < unat ?d" using n(2) by (simp only: unat_gt_0) simp
    moreover have "rptr + of_nat n + 1 - wptr = of_nat (n + 1) - of_nat (unat ?d)" by simp
    then have "rptr + of_nat n + 1 - wptr = of_nat (n + 1 - unat ?d)"
      using False by (simp only: of_nat_diff [of "unat ?d" "n + 1"])
    then have "unat (rptr + of_nat n + 1 - wptr) = (n + 1 - unat ?d) mod 2 ^ 32"
      by (simp only: unat_of_nat) simp
    then have "unat (rptr + of_nat n + 1 - wptr) \<le> n + 1 - unat ?d" by (simp only: mod_less_eq_dividend)
    moreover have "sint (wptr - (rptr + of_nat n + 1)) = sint ?d - int n - 1"
      using trace_loop_step [of wptr rptr n] n sint_nonneg [OF d] by linarith
    moreover have "sint ?d = int (unat ?d)" using d by (rule sint_small_u32)
    ultimately show ?thesis using n(1) False by linarith
  qed
  have last: "unat (snd (trace_loop sz evt wptr (rptr + of_nat n + 1)) - wptr) \<le> 3"
    if "n \<le> 3" "?d \<noteq> 0" and IH: "unat (wptr - (rptr + of_nat n + 1)) < 2 ^ 31 \<Longrightarrow>
      unat (snd (trace_loop sz evt wptr (rptr + of_nat n + 1)) - wptr) \<le> 3" for n
    using step [OF that(1,2)]
  proof
    assume "sint (wptr - (rptr + of_nat n + 1)) \<le> 0 \<and> unat (rptr + of_nat n + 1 - wptr) \<le> 3"
    then show ?thesis by (subst trace_loop.simps) simp
  qed (use IH in simp)
  show ?case
  proof (cases "?d = 0")
    case True
    then show ?thesis by (subst trace_loop.simps) simp
  next
    case False
    then have pos: "\<not> sint ?d \<le> 0" using sint_nonneg(2) [OF d] by simp
    show ?thesis
    proof (cases "hdr_valid sz ?h")
      case True
      then have "parameters_num ?h \<le> 3" by (simp add: hdr_valid_def)
      from last [OF this False 1(2) [OF refl pos]] True pos show ?thesis
        by (subst trace_loop.simps) (simp add: case_prod_beta Let_def)
    next
      case invalid: False
      from last [of 0] False 1(1) [OF refl pos invalid] pos invalid show ?thesis
        by (subst trace_loop.simps) simp
    qed
  qed
qed

text \<open>
  Claim C12. After any parse the read pointer is the write pointer or, when the last record's
  parameters have not all been written, at most three words past it. In the first case reading the
  same log again prints nothing; in the second the distance looks like an overflow, and the reader
  goes back by the whole ring and prints it once more.
\<close>

theorem trace_partial_record_restarts:
  assumes "length (log_evt h) \<le> 2 ^ 30" "do_parse sz h rptr = (ls, r)"
  shows "unat (r - write_ptr h) \<le> 3 \<and>
    do_parse sz h r = (if r = write_ptr h then ([], r)
      else do_parse sz h (write_ptr h - of_nat (length (log_evt h))))"
proof -
  let ?n = "length (log_evt h)" and ?w = "write_ptr h"
  have n: "unat (of_nat ?n :: u32) = ?n" using assms(1) by (simp add: unat_of_nat)
  then have whole: "trace_start ?n ?w (?w - of_nat ?n) = ?w - of_nat ?n" by (simp add: trace_start_def)
  have "unat (?w - trace_start ?n ?w rptr) \<le> ?n" using n by (simp add: trace_start_def)
  then have "unat (?w - trace_start ?n ?w rptr) < 2 ^ 31" using assms(1) by simp
  from trace_loop_end [OF this] have past: "unat (r - ?w) \<le> 3"
    using assms(2) by (metis do_parse_def snd_conv)
  have "trace_start ?n ?w r = (if r = ?w then r else ?w - of_nat ?n)"
  proof (cases "r = ?w")
    case False
    then have "unat (?w - r) = 2 ^ 32 - unat (r - ?w)"
      using unat_sub_if' [of 0 "r - ?w"] by (simp add: unat_eq_zero)
    then have "?n \<le> unat (?w - r)" using past assms(1) by simp
    then show ?thesis using False by (simp add: trace_start_def)
  qed (auto simp: trace_start_def)
  then show ?thesis using past whole by (auto simp: do_parse_def trace_loop.simps)
qed

definition ex_log :: log_table_header where
  "ex_log = \<lparr>write_ptr = 4, module_level_enable = [], log_evt = [0, 0, 0xA8100005, 7]\<rparr>"

theorem trace_partial_record_restarts_witness:
  "snd (do_parse 8 ex_log 2) = 5 \<and> do_parse 8 ex_log 5 = do_parse 8 ex_log 0 \<and> map tl_fmt (fst (do_parse 8 ex_log 5)) = [5]"
proof -
  have "do_parse 8 ex_log 2 = ([\<lparr>tl_rptr = 2, tl_module = 1, tl_level = 0, tl_fmt = 5, tl_string = False,
      tl_args = [7, 0, 0]\<rparr>], 5)" "map tl_fmt (fst (do_parse 8 ex_log 0)) = [5]"
    by code_simp+
  moreover have "do_parse 8 ex_log 5 = do_parse 8 ex_log 0"
    using trace_partial_record_restarts [OF _ calculation(1)] by (simp add: ex_log_def)
  ultimately show ?thesis by simp
qed

subsection \<open>Reading files\<close>

text \<open>A failing \<open>read\<close> after a partial one costs a byte, and the reading still counts as complete.\<close>

lemma read_all_failure_shifts:
  assumes "bs \<noteq> []" "length bs < n" "length cs = Suc n - length bs" "n < 2 ^ 64" "length buf = n"
  shows "read_all [Some bs, None, Some cs] n 0 buf = (of_nat n, butlast bs @ cs)"
proof -
  obtain m where m: "length bs = Suc m" using assms(1) by (cases bs) auto
  have u: "unat (of_nat (Suc m) :: u64) = Suc m" "unat (of_nat m :: u64) = m"
    using assms(2,4) m by (simp_all only: unat_of_nat) simp_all
  have "of_nat m + of_nat (n - m) = (of_nat n :: u64)"
    using assms(2) m by (simp flip: of_nat_add)
  then show ?thesis
    using assms m u by (simp add: Let_def butlast_conv_take)
qed

text \<open>The table of modules needs a string behind the sixteenth name.\<close>

lemma trace_modules_only_names:
  "trace_modules [0x61, 0, 0x62, 0] 0 [1, 2] = None" "trace_modules [0x61, 0, 0x62, 0, 0x63] 0 [1, 2] \<noteq> None"
  by code_simp+

end
