(* ===== verification/Spec2Isabelle.thy ===== *)
theory Spec2Isabelle
  imports Wil_Reorder_Props Wil_Rx_Props Wil_Tx_Props Wil_Tso_Props Wil_Wmi_Props Wil_Conn_Props
    Wil_Irq_Props Wil_Xmit_Props Wil_Main_Props Wil_Cfg_Props Wil_Dbg_Props
    Wil_Wiphy_Props Wil_Trace_Props
begin

text \<open>
  Verification of the wil6210 driver, the Linux driver of a 60 GHz (802.11ad) network card, and of
  the reader of its firmware's log. The sources are the C files under
  \<^verbatim>\<open>src/Wigig_release_2.0.2/work/wil6210\<close>; file names below are relative to it.

  \<^bold>\<open>The program.\<close> The card is a PCI device with a firmware of its own. The driver maps its registers
  and memory, and exchanges with it (1) messages through a mailbox (WMI: commands of the driver,
  events of the firmware), (2) received frames through one descriptor ring, (3) frames to send
  through up to 24 rings, one for a peer and traffic identifier, and (4) interrupts. Upwards it
  serves the network stack (a network device), cfg80211 (scans, connections, access point,
  operations off the channel) and, in the debug file system, the developer. Work runs in several
  contexts: interrupt handlers and threads, NAPI polls, four work queues, and the calls from above.

  \<^bold>\<open>How it is modelled.\<close> The private state \<open>struct wil6210_priv\<close> is the record \<open>wil6210_priv\<close> of
  \<open>Wil_State\<close>, with the structures it holds (\<open>sta\<close>, \<open>vring_tx\<close>, \<open>vring_rx\<close>, \<open>roc\<close> and so on), the
  parts of \<open>struct net_device\<close> and \<open>struct wireless_dev\<close> the driver uses, the heap of socket buffers
  \<open>skbs\<close> with their reference counts, and \<open>klog\<close>, the log of effects whose order or arguments matter:
  DMA mappings, register writes, frames handed up, notifications. Every C function is a definition
  of its name that gets the state and returns it; an error code is an \<open>errno option\<close> (\<open>None\<close> is 0) or
  the left side of a sum. A crash of the kernel (a division by zero, an index outside an array, a
  NULL pointer) is the result \<open>None\<close> of an option, so that a theorem that a function returns also
  says that none of these happens. Integers have the width of the C types.
  A second name, for instance \<open>do_wmi_send\<close> for \<open>__wmi_send\<close>, stands for a leading underscore; a
  part of a C function that has its own definition is named after the function it belongs to.

  \<^bold>\<open>The world.\<close> What the driver cannot decide is an argument: \<open>wmi_env\<close> (what each read of the device
  returns, indexed by a clock so that the firmware may change its memory between any two reads;
  whether memory is there), \<open>rx_env\<close> (buffers, DMA, verdicts of the stack), \<open>call_env\<close> and \<open>evt_env\<close>
  (the messages that arrive between sending a command and waiting, and while waiting: \<open>ee_race\<close>,
  \<open>ee_arrive\<close>), \<open>main_env\<close> (all of these and the boot of the firmware), \<open>bus_env\<close> (the answers of the
  PCI and device layers) and \<open>dbg_env\<close> (copies from and to the user, parsed numbers). No property of
  the firmware is assumed but where a hypothesis names it. \<open>driver_ok\<close>
  (\<open>Wil_Disconnect\<close>) is the invariant of the driver at rest (rings released or well
  formed, the Rx ring with a buffer in every posted slot, peers and sessions sound, every ring of a
  valid peer, a pending connection only of a valid peer), \<open>waiting_ok\<close>
  (\<open>Wil_Wmi_Event_Correct\<close>) that of a driver that may be waiting for an answer;
  \<open>world_ok\<close> and \<open>up_env_ok\<close> say that events are complete and that memory
  handed out has the size asked for. \<open>driver_ok_init\<close> shows that a fresh driver meets
  the invariant.

  \<^bold>\<open>The theories.\<close>
  \<^item> \<open>Wil_Prelude\<close>: integer types, errors, lemmas on words, lists and ring indices; \<open>Wil_Hw\<close>,
    \<open>Wil_Desc\<close>, \<open>Wil_State\<close>: registers, descriptors and the state (\<^verbatim>\<open>wil6210.h\<close>, \<^verbatim>\<open>txrx.h\<close>);
    \<open>Wil_Netif\<close>: handing a frame to the stack.
  \<^item> \<open>Wil_Seq\<close>, \<open>Wil_Reorder\<close>: the reorder buffer (\<^verbatim>\<open>rx_reorder.c\<close>). \<open>Wil_Reorder_Window\<close> states what
    it promises, a window of slots from the head on, and proves that the code implements it;
    \<open>Wil_Reorder_Order\<close> proves order and conservation over whole sessions; \<open>Wil_Reorder_Props\<close>.
    \<open>Wil_Back\<close>: requests for such sessions and their worker.
  \<^item> \<open>Wil_Vring\<close>, \<open>Wil_Rx\<close>, \<open>Wil_Tx\<close>, \<open>Wil_Tso\<close>, \<open>Wil_Xmit\<close>: rings, receiving, sending, segmentation,
    the entry from the stack (\<^verbatim>\<open>txrx.c\<close>), with \<open>Wil_Rx_Correct\<close>, \<open>Wil_Tx_Correct\<close>,
    \<open>Wil_Xmit_Correct\<close>. Their lemmas say which slots are in use (\<open>ring_slots\<close>), who holds a reference
    to which buffer, and what else a step may change (\<open>buf_frame\<close>, \<open>xmit_frame\<close>).
  \<^item> \<open>Wil_Io\<close>, \<open>Wil_Queue\<close>, \<open>Wil_Mbox\<close>, \<open>Wil_Wmi_Ids\<close>, \<open>Wil_Wmi_Cmd\<close>, \<open>Wil_Wmi_Event\<close>: access to the
    device, pending lists, the mailbox, numbers, commands with their byte layouts, events with
    their handlers (\<^verbatim>\<open>wmi.c\<close>, \<^verbatim>\<open>wmi.h\<close>); \<open>Wil_Mbox_Correct\<close>, \<open>Wil_Caller\<close> and
    \<open>Wil_Wmi_Event_Correct\<close> prove that sending, calling, receiving and handling return and keep the
    invariants.
  \<^item> \<open>Wil_Link\<close>, \<open>Wil_Disconnect\<close>, \<open>Wil_Ring_Init\<close>, \<open>Wil_Main\<close>: peers, taking them down and up, the
    rings of a connection, private state, reset, interface up and down (\<^verbatim>\<open>main.c\<close>);
    \<open>Wil_Main_Correct\<close>, \<open>Wil_Conn_Props\<close>, \<open>Wil_Main_Props\<close>.
  \<^item> \<open>Wil_Irq\<close>: interrupts and polls (\<^verbatim>\<open>interrupt.c\<close>, \<^verbatim>\<open>netdev.c\<close>); \<open>Wil_Irq_Correct\<close> reads
    the mask registers off the log of writes, and is the state machine of the receive interrupt and
    its poll: an inductive relation with its invariant, in which an interrupt with any cause may come
    between any two of the actions that end a poll.
  \<^item> \<open>Wil_Roc\<close> (\<^verbatim>\<open>offchannel.c\<close>), \<open>Wil_Cfg80211\<close> and \<open>Wil_Wiphy\<close> (\<^verbatim>\<open>cfg80211.c\<close>): operations off the
    channel, a state machine with its reachable states; the operations of cfg80211; what the driver
    announces, and in \<open>Wil_Wiphy_Props\<close> that the operations serve it.
  \<^item> \<open>Wil_Pcie\<close>: probing and removing the device (\<^verbatim>\<open>pcie_bus.c\<close>, \<^verbatim>\<open>netdev.c\<close>), with the list of what
    the driver holds of the kernel and that of the rings and sessions it has allocated itself
    (\<open>driver_mem\<close>); \<open>Wil_Pcie_Props\<close> says what every path leaves of both.
  \<^item> \<open>Wil_Text\<close>, \<open>Wil_Debugfs\<close>, \<open>Wil_Dbg_Props\<close>: the debug files (\<^verbatim>\<open>debugfs.c\<close>) with the text they
    print.
  \<^item> \<open>Wil_Trace\<close>, \<open>Wil_Trace_Props\<close>: the log reader (\<^verbatim>\<open>tools/trace.c\<close>).

  \<^bold>\<open>Interfaces.\<close> \<open>work_queue\<close> (\<open>Wil_Queue\<close>) is the contract of a pending list with the worker that
  drains it, interpreted on the firmware's events (\<open>ev_queue\<close>) and the block acknowledgement
  requests (\<open>back_queue\<close>). \<open>wmi_caller\<close> (\<open>Wil_Caller\<close>) is the contract between a caller that waits for
  the firmware and the other contexts; its interpretations \<open>fw\<close> and \<open>fw_roc\<close> run the event worker
  meanwhile, so that every command of \<open>Wil_Wmi_Cmd\<close> is shown to return once. \<open>frame_sink\<close> and
  \<open>ordered_sink\<close> (\<open>Wil_Reorder_Order\<close>) are the contract of something fed with frames, interpreted on
  the reorder buffer (\<open>rs\<close>).

  \<^bold>\<open>Termination.\<close> Loops whose end depends on what the device wrote (\<open>recv_loop\<close>, \<open>tx_scan\<close>,
  \<open>tx_release_loop\<close>, \<open>vring_free_loop\<close>, \<open>tso_frag\<close>, \<open>work_loop\<close>) are partial functions into an option, and
  the lemmas show that they return; the others are structural or have a measure. There is no fuel:
  the polls of the mailbox and of the firmware's boot count as in the code.

  \<^bold>\<open>Findings.\<close> Where the code does not do what it means to, the model keeps its behaviour and a
  theorem or a lemma says so: sessions of size zero, frames that end a poll, the last finished Tx
  descriptor, undoing a segmented send, a completion left over, a disconnection that takes no peer
  down, rings and sessions that nothing frees when the device goes, memory used after it was given
  back, a receive interrupt masked for good, a log printed twice.

  \<^bold>\<open>Not modelled.\<close> Messages to the kernel's log and the tracer (\<^verbatim>\<open>debug.c\<close>, \<^verbatim>\<open>trace.c\<close>,
  \<^verbatim>\<open>trace.h\<close>, \<^verbatim>\<open>dbg_hexdump.h\<close>, \<^verbatim>\<open>version.c\<close>): no state depends on them. Locks, memory barriers and
  reference counts of the kernel's own objects: each operation is one step, and contexts interleave
  between operations, at the points where the code waits, and between the actions that end a
  receive poll. Structures of \<^verbatim>\<open>wmi.h\<close> that no function
  uses. The functions that only hand a debug file to the kernel's reader, and the two of
  \<^verbatim>\<open>netdev.c\<close> that accept every feature. What \<^verbatim>\<open>printf\<close> makes of a format in the log reader, and the
  parsing of its command line.
\<close>

end
